(* ===== verification/Prelude.thy ===== *)
theory Prelude
  imports Main "HOL-Library.Sublist"
begin

text \<open>
  Shared vocabulary of the development: the JavaScript string operations that
  \<open>src/App.tsx\<close> uses (\<open>startsWith\<close>, \<open>includes\<close>, \<open>indexOf\<close>,
  \<open>toLowerCase\<close>, \<open>trim\<close>, \<open>split\<close> on one character) as executable HOL functions
  on \<open>string\<close>, the character classes of the regular expressions of the source
  (\<open>\s\<close>, \<open>\d\<close>, \<open>[a-zA-Z0-9]\<close>, \<open>\w\<close>), and the generic lemmas the
  component theories share.  A JavaScript string is modelled as a list of 8-bit
  characters: the model covers ASCII text, and a non-ASCII code unit is outside it
  (\<open>toLowerCase\<close> folds only \<open>A\<close>..\<open>Z\<close>, \<open>\s\<close> is the ASCII whitespace).
\<close>

named_theorems js_simps "evaluation rules of the JavaScript string operations"

type_synonym js_string = string

subsection \<open>Character classes\<close>

definition is_ws :: "char \<Rightarrow> bool" where
  "is_ws c \<longleftrightarrow> c \<in> set [CHR '' '', CHR 0x09, CHR 0x0A, CHR 0x0B, CHR 0x0C, CHR 0x0D]"

definition is_digit :: "char \<Rightarrow> bool" where
  "is_digit c \<longleftrightarrow> (let n = of_char c :: nat in 48 \<le> n \<and> n \<le> 57)"

definition is_upper :: "char \<Rightarrow> bool" where
  "is_upper c \<longleftrightarrow> (let n = of_char c :: nat in 65 \<le> n \<and> n \<le> 90)"

definition is_lower :: "char \<Rightarrow> bool" where
  "is_lower c \<longleftrightarrow> (let n = of_char c :: nat in 97 \<le> n \<and> n \<le> 122)"

text \<open>\<open>[a-zA-Z0-9]\<close> and the word characters \<open>\w\<close> of \<open>\b\<close>.\<close>

definition is_alnum :: "char \<Rightarrow> bool" where
  "is_alnum c \<longleftrightarrow> is_upper c \<or> is_lower c \<or> is_digit c"

definition is_word_char :: "char \<Rightarrow> bool" where
  "is_word_char c \<longleftrightarrow> is_alnum c \<or> c = CHR ''_''"

text \<open>A character that case folding leaves alone and never produces.\<close>

definition is_plain :: "char \<Rightarrow> bool" where
  "is_plain c \<longleftrightarrow> \<not> is_upper c \<and> \<not> is_lower c"

text \<open>A line terminator, which the regular-expression dot does not match.\<close>

definition is_line_term :: "char \<Rightarrow> bool" where
  "is_line_term c \<longleftrightarrow> c = CHR 0x0A \<or> c = CHR 0x0D"

subsection \<open>String operations\<close>

text \<open>\<open>String.prototype.toLowerCase\<close> on ASCII.\<close>

definition lower_char :: "char \<Rightarrow> char" where
  "lower_char c = (if is_upper c then char_of (of_char c + (32::nat)) else c)"

definition to_lower :: "js_string \<Rightarrow> js_string" where
  "to_lower s = map lower_char s"

text \<open>\<open>s.startsWith(p)\<close> and \<open>s.includes(p)\<close>.\<close>

fun starts_with :: "js_string \<Rightarrow> js_string \<Rightarrow> bool" where
  "starts_with s [] = True"
| "starts_with [] (p # ps) = False"
| "starts_with (c # cs) (p # ps) = (c = p \<and> starts_with cs ps)"

text \<open>\<open>s.endsWith(p)\<close>\<close>

definition ends_with :: "js_string \<Rightarrow> js_string \<Rightarrow> bool" where
  "ends_with s p = starts_with (rev s) (rev p)"

fun js_includes :: "js_string \<Rightarrow> js_string \<Rightarrow> bool" where
  "js_includes [] p = (p = [])"
| "js_includes (c # cs) p = (starts_with (c # cs) p \<or> js_includes cs p)"

text \<open>\<open>s.indexOf(c)\<close>, with \<open>-1\<close> as \<open>None\<close>.\<close>

fun index_of :: "char \<Rightarrow> js_string \<Rightarrow> nat option" where
  "index_of c [] = None"
| "index_of c (x # xs) = (if x = c then Some 0 else map_option Suc (index_of c xs))"

text \<open>\<open>s.indexOf(c, from)\<close>.\<close>

definition index_of_from :: "char \<Rightarrow> nat \<Rightarrow> js_string \<Rightarrow> nat option" where
  "index_of_from c i s = map_option (\<lambda>j. j + i) (index_of c (drop i s))"

text \<open>\<open>s.substring(a, b)\<close>: the bounds are swapped when \<open>a > b\<close> and clamped to the length.\<close>

definition substring :: "nat \<Rightarrow> nat \<Rightarrow> js_string \<Rightarrow> js_string" where
  "substring a b s = take (max a b - min a b) (drop (min a b) s)"

text \<open>\<open>s.trim()\<close>: whitespace removed at both ends.\<close>

definition js_trim :: "js_string \<Rightarrow> js_string" where
  "js_trim s = rev (dropWhile is_ws (rev (dropWhile is_ws s)))"

text \<open>
  \<open>s.split(c)\<close> for a one-character separator: never empty, \<open>''''.split(c)\<close> is
  \<open>['']\<close>.
\<close>

fun split_on :: "char \<Rightarrow> js_string \<Rightarrow> js_string list" where
  "split_on c [] = [[]]"
| "split_on c (x # xs) =
     (if x = c then [] # split_on c xs
      else (let r = split_on c xs in (x # hd r) # tl r))"

text \<open>\<open>s.split(/a|b/)\<close> for a pattern matching single characters.\<close>

fun split_when :: "(char \<Rightarrow> bool) \<Rightarrow> js_string \<Rightarrow> js_string list" where
  "split_when P [] = [[]]"
| "split_when P (x # xs) =
     (if P x then [] # split_when P xs
      else (let r = split_when P xs in (x # hd r) # tl r))"

text \<open>\<open>parts.join(sep)\<close>.\<close>

fun join :: "js_string \<Rightarrow> js_string list \<Rightarrow> js_string" where
  "join sep [] = []"
| "join sep [w] = w"
| "join sep (w # ws) = w @ sep @ join sep ws"

subsection \<open>Lemmas on the string operations\<close>

lemma takeWhile_drop_length [simp]: "takeWhile P s @ drop (length (takeWhile P s)) s = s"
  by (metis append_take_drop_id takeWhile_eq_take)

lemma starts_with_prefix [js_simps]: "starts_with s p \<longleftrightarrow> prefix p s"
  by (induction s p rule: starts_with.induct) auto

lemma starts_with_append [simp]: "starts_with (p @ s) p"
  by (simp add: starts_with_prefix)

lemma ends_with_suffix [js_simps]: "ends_with s p \<longleftrightarrow> suffix p s"
  by (simp add: ends_with_def starts_with_prefix suffix_to_prefix)

lemma ends_with_append [simp]: "ends_with (s @ p) p"
  by (auto simp: ends_with_suffix suffix_def)

lemma starts_with_Cons_iff:
  "starts_with s (c # p) \<longleftrightarrow> (\<exists>s'. s = c # s' \<and> starts_with s' p)"
  by (cases s) auto

lemma starts_with_length: "starts_with s p \<Longrightarrow> length p \<le> length s"
  by (simp add: starts_with_prefix prefix_length_le)

lemma starts_with_take: "starts_with s p \<Longrightarrow> take (length p) s = p"
  by (auto simp: starts_with_prefix prefix_def)

lemma includes_sublist [js_simps]: "js_includes s p \<longleftrightarrow> sublist p s"
proof (induction s)
  case Nil
  then show ?case by simp
next
  case (Cons c cs)
  then show ?case
    by (auto simp: starts_with_prefix sublist_Cons_right)
qed

lemma includes_Nil [simp]: "js_includes s []"
  by (cases s) auto

lemma index_of_Some_iff:
  "index_of c s = Some i \<longleftrightarrow> c \<in> set s \<and> i = length (takeWhile (\<lambda>x. x \<noteq> c) s)"
  by (induction s arbitrary: i) auto

lemma index_of_None_iff [simp]: "index_of c s = None \<longleftrightarrow> c \<notin> set s"
  by (induction s) auto

lemma split_at_first:
  assumes "c \<in> set r"
  shows "r = takeWhile (\<lambda>x. x \<noteq> c) r @ c # drop (Suc (length (takeWhile (\<lambda>x. x \<noteq> c) r))) r"
  using assms by (induction r) auto

lemma index_of_from_Cons_1:
  "index_of_from c 1 (x # r) = map_option Suc (index_of c r)"
  by (simp add: index_of_from_def option.map_comp comp_def)

lemma index_of_from_Cons_0:
  "x \<noteq> c \<Longrightarrow> index_of_from c 0 (x # r) = map_option Suc (index_of c r)"
  by (simp add: index_of_from_def option.map_comp comp_def)

lemma substring_1_Suc [simp]: "substring (Suc 0) (Suc n) (x # r) = take n r"
  by (simp add: substring_def)

lemma split_on_not_Nil [simp]: "split_on c s \<noteq> []"
  by (induction s) (auto simp: Let_def)

lemma join_split_on: "join [c] (split_on c s) = s"
proof (induction s)
  case Nil
  then show ?case by simp
next
  case (Cons x xs)
  obtain w ws where r: "split_on c xs = w # ws"
    by (cases "split_on c xs") auto
  show ?case
  proof (cases "x = c")
    case True
    with Cons.IH r show ?thesis by simp
  next
    case False
    with Cons.IH r show ?thesis by (cases ws) simp_all
  qed
qed

lemma split_on_no_sep: "w \<in> set (split_on c s) \<Longrightarrow> c \<notin> set w"
proof (induction s arbitrary: w)
  case Nil
  then show ?case by simp
next
  case (Cons x xs)
  obtain v vs where r: "split_on c xs = v # vs"
    by (cases "split_on c xs") auto
  from Cons r show ?case by (auto split: if_splits)
qed

lemma length_split_on: "length (split_on c s) = Suc (count_list s c)"
proof (induction s)
  case Nil
  then show ?case by simp
next
  case (Cons x xs)
  obtain v vs where "split_on c xs = v # vs"
    by (cases "split_on c xs") auto
  with Cons show ?case by auto
qed

lemma split_on_subset: "w \<in> set (split_on c s) \<Longrightarrow> set w \<subseteq> set s"
proof (induction s arbitrary: w)
  case Nil
  then show ?case by simp
next
  case (Cons x xs)
  obtain v vs where r: "split_on c xs = v # vs"
    by (cases "split_on c xs") auto
  from Cons r show ?case by (fastforce split: if_splits)
qed

lemma length_split_on_elem: "w \<in> set (split_on c s) \<Longrightarrow> length w \<le> length s"
proof (induction s arbitrary: w)
  case Nil
  then show ?case by simp
next
  case (Cons x xs)
  obtain v vs where r: "split_on c xs = v # vs"
    by (cases "split_on c xs") auto
  from Cons r show ?case by (fastforce split: if_splits)
qed

lemma split_on_tl_sep: "tl (split_on c s) \<noteq> [] \<Longrightarrow> c \<in> set s"
  using length_split_on [of c s]
  by (cases "split_on c s") (simp_all, metis count_list_0_iff length_0_conv)

lemma split_on_notin: "c \<notin> set s \<Longrightarrow> split_on c s = [s]"
  by (induction s) auto

lemma split_when_not_Nil [simp]: "split_when P s \<noteq> []"
  by (induction s) (simp_all add: Let_def)

lemma split_when_no_sep: "w \<in> set (split_when P s) \<Longrightarrow> x \<in> set w \<Longrightarrow> \<not> P x"
proof (induction s arbitrary: w)
  case Nil
  then show ?case by simp
next
  case (Cons y ys)
  obtain v vs where r: "split_when P ys = v # vs"
    by (cases "split_when P ys") auto
  from Cons r show ?case by (fastforce split: if_splits)
qed

lemma js_trim_length: "length (js_trim s) \<le> length s"
proof -
  have "length (dropWhile is_ws (rev (dropWhile is_ws s))) \<le> length (rev (dropWhile is_ws s))"
    by (rule length_dropWhile_le)
  also have "\<dots> \<le> length s"
    by (simp add: length_dropWhile_le)
  finally show ?thesis
    by (simp add: js_trim_def)
qed

lemma js_trim_sublist: "sublist (js_trim s) s"
proof -
  have "suffix (dropWhile is_ws s) s"
    by (rule suffix_dropWhile)
  moreover have "suffix (dropWhile is_ws (rev (dropWhile is_ws s))) (rev (dropWhile is_ws s))"
    by (rule suffix_dropWhile)
  then have "prefix (js_trim s) (dropWhile is_ws s)"
    by (simp add: js_trim_def suffix_to_prefix)
  ultimately show ?thesis
    by (meson prefix_imp_sublist sublist_order.dual_order.trans suffix_imp_sublist)
qed

lemma js_trim_idem: "js_trim (js_trim s) = js_trim s"
proof -
  let ?u = "dropWhile is_ws s"
  let ?v = "dropWhile is_ws (rev ?u)"
  have hv: "?v = [] \<or> \<not> is_ws (hd ?v)"
    by (metis dropWhile_eq_Nil_conv hd_dropWhile)
  have hu: "?u = [] \<or> \<not> is_ws (hd ?u)"
    by (metis dropWhile_eq_Nil_conv hd_dropWhile)
  have "rev ?v = [] \<or> \<not> is_ws (hd (rev ?v))"
  proof (cases "?v = []")
    case False
    then have "?u \<noteq> []" by (cases "?u") auto
    have "suffix ?v (rev ?u)" by (rule suffix_dropWhile)
    then have "last ?v = last (rev ?u)" using False
      by (metis suffix_def last_appendR)
    also have "\<dots> = hd ?u" using \<open>?u \<noteq> []\<close> by (simp add: last_rev)
    finally have "hd (rev ?v) = hd ?u" using False by (simp add: hd_rev)
    moreover from hu \<open>?u \<noteq> []\<close> have "\<not> is_ws (hd ?u)" by blast
    ultimately show ?thesis by simp
  qed simp
  then have "dropWhile is_ws (rev ?v) = rev ?v"
    by (auto simp: dropWhile_eq_self_iff)
  moreover have "dropWhile is_ws ?v = ?v"
    using hv by (auto simp: dropWhile_eq_self_iff)
  ultimately show ?thesis
    by (simp add: js_trim_def)
qed
subsection \<open>Case folding\<close>

lemma is_lower_lower_char: "is_upper c \<Longrightarrow> is_lower (lower_char c)"
  by (simp add: lower_char_def is_upper_def is_lower_def Let_def)

lemma not_upper_lower_char [simp]: "\<not> is_upper (lower_char c)"
  by (cases "is_upper c")
    (auto simp: lower_char_def is_upper_def Let_def)

lemma lower_char_idem [simp]: "lower_char (lower_char c) = lower_char c"
  by (simp add: lower_char_def [of "lower_char c"])

lemma lower_char_eq_plain:
  assumes "\<not> is_upper d" and "\<not> is_lower d"
  shows "lower_char c = d \<longleftrightarrow> c = d"
proof
  assume eq: "lower_char c = d"
  show "c = d"
  proof (cases "is_upper c")
    case True
    then have "is_lower (lower_char c)" by (rule is_lower_lower_char)
    with assms eq show ?thesis by simp
  next
    case False
    with eq show ?thesis by (simp add: lower_char_def)
  qed
next
  assume "c = d"
  with assms show "lower_char c = d" by (simp add: lower_char_def)
qed

lemma is_alnum_lower_char [simp]: "is_alnum (lower_char c) = is_alnum c"
  by (cases "is_upper c")
    (auto simp: is_alnum_def lower_char_def is_upper_def is_lower_def is_digit_def Let_def)

lemma lower_char_non_upper [simp]: "\<not> is_upper c \<Longrightarrow> lower_char c = c"
  by (simp add: lower_char_def)

lemma to_lower_Nil [simp]: "to_lower [] = []"
  and to_lower_Cons [simp]: "to_lower (c # s) = lower_char c # to_lower s"
  and to_lower_append [simp]: "to_lower (s @ t) = to_lower s @ to_lower t"
  and length_to_lower [simp]: "length (to_lower s) = length s"
  by (simp_all add: to_lower_def)

lemma to_lower_idem [simp]: "to_lower (to_lower s) = to_lower s"
  by (induction s) simp_all

lemma take_to_lower [simp]: "take n (to_lower s) = to_lower (take n s)"
  and drop_to_lower [simp]: "drop n (to_lower s) = to_lower (drop n s)"
  by (simp_all add: to_lower_def take_map drop_map)

lemma lower_char_eq_plain_iff [simp]: "is_plain d \<Longrightarrow> lower_char c = d \<longleftrightarrow> c = d"
  by (simp add: is_plain_def lower_char_eq_plain)

lemma lower_char_plain [simp]: "is_plain c \<Longrightarrow> lower_char c = c"
  by (simp add: is_plain_def)

lemma to_lower_eq_Nil_iff [simp]: "to_lower s = [] \<longleftrightarrow> s = []"
  by (simp add: to_lower_def)

lemma starts_with_to_lower_plain:
  "\<forall>d \<in> set p. is_plain d \<Longrightarrow> starts_with (to_lower s) p = starts_with s p"
  by (induction s p rule: starts_with.induct) auto

lemma index_of_to_lower_plain: "is_plain c \<Longrightarrow> index_of c (to_lower s) = index_of c s"
  by (induction s) auto

lemma index_of_from_to_lower_plain:
  "is_plain c \<Longrightarrow> index_of_from c i (to_lower s) = index_of_from c i s"
  by (simp add: index_of_from_def index_of_to_lower_plain)

lemma takeWhile_alnum_to_lower: "takeWhile is_alnum (to_lower s) = to_lower (takeWhile is_alnum s)"
  by (simp add: to_lower_def takeWhile_map comp_def)

lemma substring_to_lower: "substring a b (to_lower s) = to_lower (substring a b s)"
  by (simp add: substring_def)

subsection \<open>Lists and maps\<close>

lemma sorted_take_drop_le:
  "sorted (map f xs) \<Longrightarrow> y \<in> set (take k xs) \<Longrightarrow> x \<in> set (drop k xs) \<Longrightarrow> f y \<le> f x"
  using sorted_append [of "map f (take k xs)" "map f (drop k xs)"]
  by (simp flip: map_append)

lemma restrict_map_le [simp]: "m |` A \<subseteq>\<^sub>m m"
  by (simp add: map_le_def)

subsection \<open>Splitting what was joined\<close>

lemma split_on_split_when: "split_on c s = split_when (\<lambda>x. x = c) s"
  by (induction s) (simp_all add: Let_def)

lemma split_when_append_nosep:
  "\<not> list_ex P p \<Longrightarrow> split_when P (p @ s) = (let r = split_when P s in (p @ hd r) # tl r)"
  by (induction p) (simp_all add: Let_def)

lemma split_when_join:
  assumes "list_all (\<lambda>x. \<not> list_ex P x) xs" "\<not> list_ex P p" "P c" "xs \<noteq> []"
  shows "split_when P (join (c # p) xs) = hd xs # map (\<lambda>x. p @ x) (tl xs)"
  using assms
proof (induction "c # p" xs rule: join.induct)
  case (2 w)
  then show ?case
    using split_when_append_nosep [of P w "[]"] by (simp add: Let_def)
next
  case (3 w v vs)
  have "split_when P (join (c # p) (v # vs)) = v # map ((@) p) vs"
    using 3 by simp
  then have "split_when P ((c # p) @ join (c # p) (v # vs)) = [] # (p @ v) # map ((@) p) vs"
    using split_when_append_nosep [of P p "join (c # p) (v # vs)"] 3(3,4) by (simp add: Let_def)
  then show ?case
    using split_when_append_nosep [of P w "(c # p) @ join (c # p) (v # vs)"] 3(2)
    by (simp add: Let_def)
qed simp

lemma js_trim_ws_Cons [simp]: "is_ws c \<Longrightarrow> js_trim (c # s) = js_trim s"
  by (simp add: js_trim_def)

lemma split_items_join:
  assumes "P (CHR '','')" "\<not> P (CHR '' '')"
    and ok: "list_all (\<lambda>x. x \<noteq> [] \<and> js_trim x = x \<and> \<not> list_ex P x) xs"
  shows "filter (\<lambda>s. s \<noteq> []) (map js_trim (split_when P (join '', '' xs))) = xs"
proof (cases xs)
  case Nil
  then show ?thesis by (simp add: js_trim_def)
next
  case (Cons y ys)
  have ws: "is_ws (CHR '' '')" by (simp add: is_ws_def)
  have "split_when P (join (CHR '','' # '' '') xs) = y # map (\<lambda>x. '' '' @ x) ys"
    using split_when_join [of P xs "'' ''" "CHR '',''"] assms Cons by (auto simp: list_all_iff)
  then show ?thesis
    using ok Cons ws by (simp add: list_all_iff filter_id_conv comp_def map_idI)
qed

end
