(* ===== verification/Tile_Rules.thy ===== *)
theory Tile_Rules
  imports Prelude
begin

text \<open>
  The rules of the tile tokenizer \<open>parseWordToTiles\<close> (\<open>src/App.tsx\<close>, lines
  300--468): the tile record \<open>TileData\<close>, the four phoneme tables, and one matcher
  per branch of the loop body.  A matcher looks at the remaining input and either
  fails (\<open>None\<close>, the branch does not apply) or returns the tile it pushes and the
  input left after it (the branch ends in \<open>continue\<close>).  \<open>parse_step\<close> tries the
  matchers in the order of the source.  The theory also states the contract every
  matcher meets (it consumes a non-empty segment that the tile reads back) and that
  every matcher commutes with lower-casing.
\<close>

section \<open>Tiles and rule tables\<close>

datatype tile_type =
    Consonant | Vowel | VowelTeam | Digraph | Welded | Suffix | RControl | Prefix
  | Syllable | Space

record TileData =
  ttext :: js_string
  ttype :: tile_type

type_synonym tile_rule = "js_string \<Rightarrow> (TileData \<times> js_string) option"

definition weldedSounds :: "js_string list" where
  "weldedSounds = [''all'', ''am'', ''an'', ''ang'', ''ing'', ''ong'', ''ung'', ''ank'', ''ink'',
     ''onk'', ''unk'', ''ild'', ''ind'', ''old'', ''ost'', ''olt'', ''ive'']"

definition vowelTeams :: "js_string list" where
  "vowelTeams = [''eigh'', ''igh'', ''ai'', ''ay'', ''ee'', ''ea'', ''ey'', ''oi'', ''oy'', ''oa'',
     ''oe'', ''ow'', ''ou'', ''oo'', ''ue'', ''ew'', ''au'', ''aw'', ''ie'', ''ei'', ''ui'']"

definition digraphs :: "js_string list" where
  "digraphs = [''sh'', ''ch'', ''th'', ''wh'', ''ck'', ''ph'', ''qu'', ''wr'', ''kn'', ''gn'', ''mb'',
     ''tch'', ''dge'']"

definition vowels :: "char list" where
  "vowels = ''aeiouy''"

definition rControlled :: "js_string list" where
  "rControlled = [''ar'', ''or'', ''er'', ''ir'', ''ur'']"

section \<open>The branches of the loop body\<close>

text \<open>\<open>if (remaining.startsWith(' '))\<close>: a space tile with empty text.\<close>

definition match_space :: tile_rule where
  "match_space s =
     (if starts_with s '' '' then Some (\<lparr>ttext = [], ttype = Space\<rparr>, drop 1 s) else None)"

text \<open>
  The override branches: the input starts with the opening delimiter and
  \<open>indexOf(close, from)\<close> finds the closing one; the tile holds
  \<open>substring(1, close)\<close> and the loop goes on after the closing delimiter.
  Without a closing delimiter the branch does not apply.
\<close>

definition match_override :: "char \<Rightarrow> char \<Rightarrow> nat \<Rightarrow> tile_type \<Rightarrow> tile_rule" where
  "match_override op cl from k s =
     (if starts_with s [op] then
        (case index_of_from cl from s of
           Some close \<Rightarrow> Some (\<lparr>ttext = substring 1 close s, ttype = k\<rparr>, drop (Suc close) s)
         | None \<Rightarrow> None)
      else None)"

text \<open>\<open>/^\|([^|]*)\|/\<close>: the first \<open>|\<close> after the opening one closes the card.\<close>

definition match_syllable :: tile_rule where
  "match_syllable = match_override CHR ''|'' CHR ''|'' 1 Syllable"

definition match_affix :: tile_rule where
  "match_affix = match_override CHR ''<'' CHR ''>'' 0 Suffix"

text \<open>\<open>/^-([a-zA-Z0-9]+)/\<close>: the tile text keeps the hyphen.\<close>

definition match_suffix :: tile_rule where
  "match_suffix s =
     (case s of
        [] \<Rightarrow> None
      | c # r \<Rightarrow>
          (let a = takeWhile is_alnum r in
           if c = CHR ''-'' \<and> a \<noteq> []
           then Some (\<lparr>ttext = c # a, ttype = Suffix\<rparr>, drop (Suc (length a)) s)
           else None))"

text \<open>\<open>/^([a-zA-Z0-9]+)-/\<close>: the greedy run of letters and digits must be followed by a hyphen.\<close>

definition match_prefix :: tile_rule where
  "match_prefix s =
     (let a = takeWhile is_alnum s in
      if a \<noteq> [] \<and> starts_with (drop (length a) s) ''-''
      then Some (\<lparr>ttext = a @ ''-'', ttype = Prefix\<rparr>, drop (Suc (length a)) s)
      else None)"

definition match_vowel_override :: tile_rule where
  "match_vowel_override = match_override CHR ''['' CHR '']'' 0 Vowel"

definition match_consonant_override :: tile_rule where
  "match_consonant_override = match_override CHR ''{'' CHR ''}'' 0 Consonant"

text \<open>\<open>indexOf('/', 1)\<close>: the search for the closing slash starts after the opening one.\<close>

definition match_welded_override :: tile_rule where
  "match_welded_override = match_override CHR ''/'' CHR ''/'' 1 Welded"

text \<open>
  One auto-detection loop: the first entry of the table (in table order) that the
  lower-cased input starts with; the tile keeps the original case.
\<close>

definition match_table :: "js_string list \<Rightarrow> tile_type \<Rightarrow> tile_rule" where
  "match_table tbl k s =
     (case find (\<lambda>w. starts_with (to_lower s) w) tbl of
        Some w \<Rightarrow> Some (\<lparr>ttext = take (length w) s, ttype = k\<rparr>, drop (length w) s)
      | None \<Rightarrow> None)"

text \<open>The single-letter fallback: a vowel if its lower case is in \<open>vowels\<close>, else a consonant.\<close>

definition match_single :: tile_rule where
  "match_single s =
     (case s of
        [] \<Rightarrow> None
      | c # r \<Rightarrow>
          Some (\<lparr>ttext = [c], ttype = (if lower_char c \<in> set vowels then Vowel else Consonant)\<rparr>, r))"

text \<open>The first rule of a list that applies.\<close>

fun first_match :: "('a \<Rightarrow> 'b option) list \<Rightarrow> 'a \<Rightarrow> 'b option" where
  "first_match [] x = None"
| "first_match (f # fs) x = (case f x of Some y \<Rightarrow> Some y | None \<Rightarrow> first_match fs x)"

definition tile_rules :: "tile_rule list" where
  "tile_rules =
     [match_space, match_syllable, match_affix, match_suffix, match_prefix,
      match_vowel_override, match_consonant_override, match_welded_override,
      match_table weldedSounds Welded, match_table vowelTeams VowelTeam,
      match_table rControlled RControl, match_table digraphs Digraph, match_single]"

text \<open>One iteration of \<open>while (remaining.length > 0)\<close>.\<close>

definition parse_step :: tile_rule where
  "parse_step s = (if s = [] then None else first_match tile_rules s)"

section \<open>The contract of a rule\<close>

text \<open>
  The source segment a tile stands for: a space tile stands for one space, an
  override tile for its text between its delimiters, any other tile for its text.
  The suffix, vowel, consonant and welded types are produced both by an override and
  by a plain rule, so both readings are allowed for them.
\<close>

definition tile_bracket :: "tile_type \<Rightarrow> (char \<times> char) option" where
  "tile_bracket k =
     (case k of
        Syllable \<Rightarrow> Some (CHR ''|'', CHR ''|'')
      | Suffix \<Rightarrow> Some (CHR ''<'', CHR ''>'')
      | Vowel \<Rightarrow> Some (CHR ''['', CHR '']'')
      | Consonant \<Rightarrow> Some (CHR ''{'', CHR ''}'')
      | Welded \<Rightarrow> Some (CHR ''/'', CHR ''/'')
      | _ \<Rightarrow> None)"

definition tile_reads :: "TileData \<Rightarrow> js_string \<Rightarrow> bool" where
  "tile_reads t seg =
     (if ttype t = Space then seg = '' '' \<and> ttext t = []
      else (seg = ttext t \<and> ttype t \<noteq> Syllable) \<or>
        (case tile_bracket (ttype t) of
           Some (op, cl) \<Rightarrow> seg = op # ttext t @ [cl]
         | None \<Rightarrow> False))"

text \<open>A rule that applies consumes a non-empty segment of the input, which its tile reads.\<close>

definition rule_consumes :: "tile_rule \<Rightarrow> bool" where
  "rule_consumes f \<longleftrightarrow>
     (\<forall>s t r. f s = Some (t, r) \<longrightarrow> (\<exists>seg. seg \<noteq> [] \<and> s = seg @ r \<and> tile_reads t seg))"

definition lower_tile :: "TileData \<Rightarrow> TileData" where
  "lower_tile t = t\<lparr>ttext := to_lower (ttext t)\<rparr>"

text \<open>A rule decides the same way on the lower-cased input and lower-cases what it returns.\<close>

definition rule_case_stable :: "tile_rule \<Rightarrow> bool" where
  "rule_case_stable f \<longleftrightarrow>
     (\<forall>s. f (to_lower s) = map_option (\<lambda>(t, r). (lower_tile t, to_lower r)) (f s))"

section \<open>Lemmas on the rules\<close>

named_theorems rule_defs "definitions of the tokenizer rules"

declare match_space_def [rule_defs] match_syllable_def [rule_defs] match_affix_def [rule_defs]
  match_suffix_def [rule_defs] match_prefix_def [rule_defs] match_vowel_override_def [rule_defs]
  match_consonant_override_def [rule_defs] match_welded_override_def [rule_defs]
  match_table_def [rule_defs] match_single_def [rule_defs]

subsection \<open>Rule lists\<close>

lemma first_match_Some: "first_match fs x = Some y \<Longrightarrow> \<exists>f \<in> set fs. f x = Some y"
  by (induction fs) (auto split: option.splits)

lemma first_match_not_None: "f \<in> set fs \<Longrightarrow> f x \<noteq> None \<Longrightarrow> first_match fs x \<noteq> None"
  by (induction fs) (auto split: option.splits)

lemma first_match_consumes:
  "\<forall>f \<in> set fs. rule_consumes f \<Longrightarrow> rule_consumes (first_match fs)"
  unfolding rule_consumes_def by (blast dest: first_match_Some)

lemma first_match_case_stable:
  assumes "\<forall>f \<in> set fs. rule_case_stable f"
  shows "rule_case_stable (first_match fs)"
  unfolding rule_case_stable_def
proof
  fix s
  from assms show "first_match fs (to_lower s) =
      map_option (\<lambda>(t, r). (lower_tile t, to_lower r)) (first_match fs s)"
    by (induction fs) (auto simp: rule_case_stable_def split: option.splits)
qed

subsection \<open>Overrides\<close>

lemma match_override_open:
  assumes "from = 1 \<or> (from = 0 \<and> op \<noteq> cl)"
  shows "match_override op cl from k (op # r) =
    (if cl \<in> set r
     then Some (\<lparr>ttext = takeWhile (\<lambda>x. x \<noteq> cl) r, ttype = k\<rparr>,
                drop (Suc (length (takeWhile (\<lambda>x. x \<noteq> cl) r))) r)
     else None)"
proof -
  have idx: "index_of_from cl from (op # r) = map_option Suc (index_of cl r)"
    using assms by (auto simp: index_of_from_def option.map_comp comp_def)
  show ?thesis
    by (auto simp: match_override_def idx index_of_Some_iff takeWhile_eq_take [symmetric]
        split: option.splits)
qed

lemma match_override_other: "\<not> starts_with s [op] \<Longrightarrow> match_override op cl from k s = None"
  by (simp add: match_override_def)

lemma match_override_consumes:
  assumes "from = 1 \<or> (from = 0 \<and> op \<noteq> cl)"
    and reads: "\<And>t. tile_reads \<lparr>ttext = t, ttype = k\<rparr> (op # t @ [cl])"
  shows "rule_consumes (match_override op cl from k)"
  unfolding rule_consumes_def
proof (intro allI impI)
  fix s t r
  assume m: "match_override op cl from k s = Some (t, r)"
  then obtain r' where s: "s = op # r'"
    by (cases s) (auto simp: match_override_def split: if_splits)
  let ?tw = "takeWhile (\<lambda>x. x \<noteq> cl) r'"
  from m s assms(1) have "cl \<in> set r'" and t: "t = \<lparr>ttext = ?tw, ttype = k\<rparr>"
    and r: "r = drop (Suc (length ?tw)) r'"
    by (simp_all add: match_override_open split: if_splits)
  then have "s = (op # ?tw @ [cl]) @ r"
    using s split_at_first by fastforce
  with reads t show "\<exists>seg. seg \<noteq> [] \<and> s = seg @ r \<and> tile_reads t seg"
    by blast
qed

lemma match_override_case_stable:
  assumes "is_plain op" and "is_plain cl"
  shows "rule_case_stable (match_override op cl from k)"
  using assms
  by (auto simp: rule_case_stable_def match_override_def starts_with_to_lower_plain
      index_of_from_to_lower_plain substring_to_lower lower_tile_def split: option.splits)

subsection \<open>The other rules\<close>

lemma match_space_consumes: "rule_consumes match_space"
  by (auto simp: rule_consumes_def match_space_def tile_reads_def tile_bracket_def starts_with_Cons_iff split: if_splits)

lemma match_suffix_consumes: "rule_consumes match_suffix"
  unfolding rule_consumes_def
proof (intro allI impI)
  fix s t r
  assume m: "match_suffix s = Some (t, r)"
  then obtain r' where s: "s = CHR ''-'' # r'"
    by (cases s) (auto simp: match_suffix_def Let_def split: if_splits)
  let ?a = "takeWhile is_alnum r'"
  from m s have t: "t = \<lparr>ttext = CHR ''-'' # ?a, ttype = Suffix\<rparr>" and r: "r = drop (length ?a) r'"
    and "?a \<noteq> []"
    by (auto simp: match_suffix_def Let_def split: if_splits)
  moreover have "r' = ?a @ drop (length ?a) r'"
    by (metis append_take_drop_id takeWhile_eq_take)
  ultimately show "\<exists>seg. seg \<noteq> [] \<and> s = seg @ r \<and> tile_reads t seg"
    using s by (intro exI [of _ "CHR ''-'' # ?a"]) (auto simp: tile_reads_def tile_bracket_def)
qed

lemma match_prefix_consumes: "rule_consumes match_prefix"
  unfolding rule_consumes_def
proof (intro allI impI)
  fix s t r
  assume m: "match_prefix s = Some (t, r)"
  let ?a = "takeWhile is_alnum s"
  from m have t: "t = \<lparr>ttext = ?a @ ''-'', ttype = Prefix\<rparr>" and r: "r = drop (Suc (length ?a)) s"
    and ne: "?a \<noteq> []" and h: "starts_with (drop (length ?a) s) ''-''"
    by (auto simp: match_prefix_def Let_def split: if_splits)
  from h obtain rest where "drop (length ?a) s = CHR ''-'' # rest"
    by (auto simp: starts_with_Cons_iff)
  moreover have "s = ?a @ drop (length ?a) s"
    by (metis append_take_drop_id takeWhile_eq_take)
  ultimately have "s = (?a @ ''-'') @ r"
    using r by (metis append.assoc append_Cons append_Nil drop_Suc drop_drop plus_1_eq_Suc tl_drop list.sel(3))
  with ne t show "\<exists>seg. seg \<noteq> [] \<and> s = seg @ r \<and> tile_reads t seg"
    by (auto simp: tile_reads_def tile_bracket_def)
qed

lemma match_table_consumes:
  assumes "[] \<notin> set tbl" and reads: "\<And>x. tile_reads \<lparr>ttext = x, ttype = k\<rparr> x"
  shows "rule_consumes (match_table tbl k)"
  unfolding rule_consumes_def
proof (intro allI impI)
  fix s t r
  assume "match_table tbl k s = Some (t, r)"
  then obtain w where f: "find (\<lambda>w. starts_with (to_lower s) w) tbl = Some w"
    and t: "t = \<lparr>ttext = take (length w) s, ttype = k\<rparr>" and r: "r = drop (length w) s"
    by (auto simp: match_table_def split: option.splits)
  from f have "w \<in> set tbl" and "starts_with (to_lower s) w"
    by (auto simp: find_Some_iff)
  with assms(1) have "w \<noteq> []" and "length w \<le> length s"
    by (auto dest: starts_with_length)
  then have "take (length w) s \<noteq> []"
    by (cases s) auto
  with t r reads show "\<exists>seg. seg \<noteq> [] \<and> s = seg @ r \<and> tile_reads t seg"
    by (metis append_take_drop_id)
qed

lemma match_single_consumes: "rule_consumes match_single"
  by (auto simp: rule_consumes_def match_single_def tile_reads_def tile_bracket_def split: list.splits)

lemma match_space_case_stable: "rule_case_stable match_space"
  by (auto simp: rule_case_stable_def match_space_def starts_with_to_lower_plain is_plain_def
      is_upper_def is_lower_def lower_tile_def)

lemma match_suffix_case_stable: "rule_case_stable match_suffix"
proof -
  have p: "is_plain CHR ''-''"
    by (simp add: is_plain_def is_upper_def is_lower_def)
  show ?thesis
    unfolding rule_case_stable_def
  proof
    fix s
    show "match_suffix (to_lower s) =
        map_option (\<lambda>(t, r). (lower_tile t, to_lower r)) (match_suffix s)"
      using p by (cases s) (auto simp: match_suffix_def takeWhile_alnum_to_lower Let_def lower_tile_def)
  qed
qed

lemma match_prefix_case_stable: "rule_case_stable match_prefix"
proof -
  have p: "is_plain CHR ''-''"
    by (simp add: is_plain_def is_upper_def is_lower_def)
  show ?thesis
    using p by (auto simp: rule_case_stable_def match_prefix_def takeWhile_alnum_to_lower
        starts_with_to_lower_plain Let_def lower_tile_def)
qed

lemma match_table_case_stable: "rule_case_stable (match_table tbl k)"
  by (auto simp: rule_case_stable_def match_table_def lower_tile_def split: option.splits)

lemma match_single_case_stable: "rule_case_stable match_single"
  by (auto simp: rule_case_stable_def match_single_def lower_tile_def split: list.splits)

subsection \<open>One iteration\<close>

lemma tile_rules_consume: "\<forall>f \<in> set tile_rules. rule_consumes f"
proof -
  have o: "rule_consumes (match_override op cl i k)"
    if "i = 1 \<or> (i = 0 \<and> op \<noteq> cl)" and "\<And>t. tile_reads \<lparr>ttext = t, ttype = k\<rparr> (op # t @ [cl])"
    for op cl i k
    using that by (rule match_override_consumes)
  have t: "rule_consumes (match_table tbl k)"
    if "[] \<notin> set tbl" and "k \<in> {Welded, VowelTeam, RControl, Digraph}" for tbl k
    using that by (intro match_table_consumes) (auto simp: tile_reads_def tile_bracket_def)
  show ?thesis
    unfolding tile_rules_def match_syllable_def match_affix_def match_vowel_override_def
      match_consonant_override_def match_welded_override_def
    by (auto intro!: o t simp: tile_reads_def tile_bracket_def weldedSounds_def vowelTeams_def rControlled_def
        digraphs_def match_space_consumes match_suffix_consumes match_prefix_consumes
        match_single_consumes)
qed

lemma tile_rules_case_stable: "\<forall>f \<in> set tile_rules. rule_case_stable f"
  unfolding tile_rules_def match_syllable_def match_affix_def match_vowel_override_def
    match_consonant_override_def match_welded_override_def
  by (auto intro!: match_override_case_stable simp: is_plain_def is_upper_def is_lower_def
      match_space_case_stable match_suffix_case_stable match_prefix_case_stable
      match_table_case_stable match_single_case_stable)

lemma parse_step_consumes: "rule_consumes parse_step"
  using first_match_consumes [OF tile_rules_consume]
  by (auto simp: rule_consumes_def parse_step_def)

lemma parse_step_shorter: "parse_step s = Some (t, r) \<Longrightarrow> length r < length s"
  using parse_step_consumes by (fastforce simp: rule_consumes_def)

lemma parse_step_None_iff [simp]: "parse_step s = None \<longleftrightarrow> s = []"
proof
  assume "parse_step s = None"
  moreover have "s \<noteq> [] \<Longrightarrow> first_match tile_rules s \<noteq> None"
    by (rule first_match_not_None [of match_single])
      (auto simp: tile_rules_def match_single_def split: list.splits)
  ultimately show "s = []"
    by (auto simp: parse_step_def split: if_splits)
qed (simp add: parse_step_def)

lemma parse_step_to_lower:
  "parse_step (to_lower s) = map_option (\<lambda>(t, r). (lower_tile t, to_lower r)) (parse_step s)"
  using first_match_case_stable [OF tile_rules_case_stable]
  by (simp add: parse_step_def rule_case_stable_def)

end
