(* ===== verification/Tiles.thy ===== *)
theory Tiles
  imports Tile_Rules
begin

text \<open>
  The tile tokenizer \<open>parseWordToTiles\<close> of \<open>src/App.tsx\<close> (lines 307--468): the
  \<open>while (remaining.length > 0)\<close> loop runs \<open>parse_step\<close> of \<open>Tile_Rules\<close> until
  the input is used up.  It is a \<^theory_text>\<open>function\<close> whose termination is the
  fact that every rule consumes a non-empty segment.  The theorems show that the
  tokenizer reads its whole input in order (every tile stands for the next segment),
  that on input without override delimiters the tiles spell the input back, that an
  override with its closing delimiter yields exactly one tile of its type and one
  without falls through to a single consonant, and that classification ignores case.
\<close>

function parseWordToTiles :: "js_string \<Rightarrow> TileData list" where
  "parseWordToTiles s =
     (case parse_step s of
        None \<Rightarrow> []
      | Some (t, r) \<Rightarrow> t # parseWordToTiles r)"
  by pat_completeness auto
termination
  by (relation "measure length") (auto dest: parse_step_shorter)

text \<open>
  How a tile is shown as text when a word is spelled back: a space tile as one space,
  any other tile as its text.
\<close>

definition tile_render :: "TileData \<Rightarrow> js_string" where
  "tile_render t = (if ttype t = Space then '' '' else ttext t)"

text \<open>The override delimiters, and the five override forms (opening, closing, tile type).\<close>

definition override_delims :: "char list" where
  "override_delims = ''|<[{/''"

definition override_forms :: "(char \<times> char \<times> tile_type) list" where
  "override_forms =
     [(CHR ''|'', CHR ''|'', Syllable), (CHR ''<'', CHR ''>'', Suffix),
      (CHR ''['', CHR '']'', Vowel), (CHR ''{'', CHR ''}'', Consonant),
      (CHR ''/'', CHR ''/'', Welded)]"

declare parseWordToTiles.simps [simp del]

section \<open>Unfolding the loop\<close>

lemma parseWordToTiles_Nil [simp]: "parseWordToTiles [] = []"
  by (simp add: parseWordToTiles.simps parse_step_def)

lemma parseWordToTiles_step: "parse_step s = Some (t, r) \<Longrightarrow> parseWordToTiles s = t # parseWordToTiles r"
  by (simp add: parseWordToTiles.simps)

text \<open>The segments the tiles stand for: non-empty, in order, and together the whole input.\<close>

lemma tiles_segments:
  "\<exists>segs. concat segs = s \<and>
     list_all2 (\<lambda>t seg. seg \<noteq> [] \<and> tile_reads t seg) (parseWordToTiles s) segs"
proof (induction s rule: parseWordToTiles.induct)
  case (1 s)
  show ?case
  proof (cases "parse_step s")
    case None
    then show ?thesis by simp
  next
    case (Some p)
    obtain t r where p: "p = (t, r)" by (cases p)
    with Some have step: "parse_step s = Some (t, r)" by simp
    then obtain seg where seg: "seg \<noteq> []" "s = seg @ r" "tile_reads t seg"
      using parse_step_consumes unfolding rule_consumes_def by blast
    from "1.IH" [OF Some p [symmetric]] obtain segs where
      segs: "concat segs = r"
        "list_all2 (\<lambda>t seg. seg \<noteq> [] \<and> tile_reads t seg) (parseWordToTiles r) segs"
      by blast
    have "parseWordToTiles s = t # parseWordToTiles r"
      using step by (rule parseWordToTiles_step)
    with seg segs show ?thesis
      by (intro exI [of _ "seg # segs"]) simp
  qed
qed

lemma tile_bracket_delims: "tile_bracket k = Some (op, cl) \<Longrightarrow> op \<in> set override_delims"
  by (cases k) (simp_all add: tile_bracket_def override_delims_def)

lemma tile_reads_render:
  assumes r: "tile_reads t seg" and p: "\<forall>c \<in> set seg. c \<notin> set override_delims"
  shows "tile_render t = seg"
proof (cases "tile_bracket (ttype t)")
  case None
  with r show ?thesis by (simp add: tile_reads_def tile_render_def split: if_splits)
next
  case (Some b)
  obtain op cl where b: "b = (op, cl)" by (cases b)
  with Some have "op \<in> set override_delims" by (simp add: tile_bracket_delims)
  with p have "seg \<noteq> op # ttext t @ [cl]" by auto
  with r Some b show ?thesis by (simp add: tile_reads_def tile_render_def split: if_splits)
qed

lemma render_segments:
  "list_all2 (\<lambda>t seg. seg \<noteq> [] \<and> tile_reads t seg) ts segs \<Longrightarrow>
   \<forall>c \<in> set (concat segs). c \<notin> set override_delims \<Longrightarrow> map tile_render ts = segs"
  by (induction rule: list_all2_induct) (auto simp: tile_reads_render)

lemma length_concat_nonempty:
  "list_all2 (\<lambda>t seg. seg \<noteq> [] \<and> P t seg) ts segs \<Longrightarrow> length ts \<le> length (concat segs)"
proof (induction rule: list_all2_induct)
  case Nil
  then show ?case by simp
next
  case (Cons t ts seg segs)
  from Cons.hyps(1) have "1 \<le> length seg" by (cases seg) auto
  with Cons.IH show ?case by simp
qed

text \<open>
  What the loop does at an opening delimiter: the override when the closing
  delimiter follows, and otherwise the single-letter fallback, which makes the
  delimiter a consonant (no earlier rule and no table claims it).
\<close>

lemma parse_step_open:
  assumes "(op, cl, k) \<in> set override_forms"
  shows "parse_step (op # r) =
    (if cl \<in> set r
     then Some (\<lparr>ttext = takeWhile (\<lambda>x. x \<noteq> cl) r, ttype = k\<rparr>,
                drop (Suc (length (takeWhile (\<lambda>x. x \<noteq> cl) r))) r)
     else Some (\<lparr>ttext = [op], ttype = Consonant\<rparr>, r))"
proof -
  from assms consider
      "op = CHR ''|'' \<and> cl = CHR ''|'' \<and> k = Syllable"
    | "op = CHR ''<'' \<and> cl = CHR ''>'' \<and> k = Suffix"
    | "op = CHR ''['' \<and> cl = CHR '']'' \<and> k = Vowel"
    | "op = CHR ''{'' \<and> cl = CHR ''}'' \<and> k = Consonant"
    | "op = CHR ''/'' \<and> cl = CHR ''/'' \<and> k = Welded"
    by (auto simp: override_forms_def)
  then show ?thesis
    by cases
      (simp_all add: parse_step_def tile_rules_def rule_defs match_override_open match_override_other
        weldedSounds_def vowelTeams_def rControlled_def digraphs_def vowels_def
        is_alnum_def is_upper_def is_lower_def is_digit_def)
qed

section \<open>Properties of the tokenizer\<close>

text \<open>
  C1.  The tokenizer reads its whole input, in order: the input splits into
  non-empty segments, one per tile, and each tile stands for its segment (a space
  tile for one space, an override tile for its text between the delimiters, every
  other tile for exactly its text).
\<close>

theorem parseWordToTiles_reads_input:
  "\<exists>segs. s = concat segs \<and> (\<forall>seg \<in> set segs. seg \<noteq> []) \<and>
     list_all2 tile_reads (parseWordToTiles s) segs"
proof -
  obtain segs where "concat segs = s"
    and r: "list_all2 (\<lambda>t seg. seg \<noteq> [] \<and> tile_reads t seg) (parseWordToTiles s) segs"
    using tiles_segments by blast
  moreover from r have "\<forall>seg \<in> set segs. seg \<noteq> []"
    by (induction rule: list_all2_induct) auto
  moreover from r have "list_all2 tile_reads (parseWordToTiles s) segs"
    by (rule list_all2_mono) simp
  ultimately show ?thesis by blast
qed

theorem parseWordToTiles_reads_input_witness:
  "\<exists>segs. ''{ck}Sh'' = concat segs \<and> (\<forall>seg \<in> set segs. seg \<noteq> []) \<and>
     list_all2 tile_reads (parseWordToTiles ''{ck}Sh'') segs"
  using parseWordToTiles_reads_input [of "''{ck}Sh''"] by blast

text \<open>
  C2.  On a word without override delimiters, spelling the tiles back (a space tile
  as one space) gives the word itself.
\<close>

theorem parseWordToTiles_roundtrip:
  assumes "\<forall>c \<in> set s. c \<notin> set override_delims"
  shows "concat (map tile_render (parseWordToTiles s)) = s"
proof -
  obtain segs where c: "concat segs = s"
    and r: "list_all2 (\<lambda>t seg. seg \<noteq> [] \<and> tile_reads t seg) (parseWordToTiles s) segs"
    using tiles_segments by blast
  from r assms c have "map tile_render (parseWordToTiles s) = segs"
    by (intro render_segments) auto
  with c show ?thesis by simp
qed

theorem parseWordToTiles_roundtrip_witness:
  "concat (map tile_render (parseWordToTiles ''Shin chart-ing'')) = ''Shin chart-ing''"
proof -
  have h: "\<forall>c \<in> set ''Shin chart-ing''. c \<notin> set override_delims"
    by (simp add: override_delims_def)
  show ?thesis by (rule parseWordToTiles_roundtrip [OF h])
qed

text \<open>
  C3.  The loop stops with at most one tile per input character, and it yields no
  tile exactly when the input is empty.
\<close>

theorem parseWordToTiles_length:
  "length (parseWordToTiles s) \<le> length s \<and> (parseWordToTiles s = [] \<longleftrightarrow> s = [])"
proof -
  obtain segs where c: "concat segs = s"
    and r: "list_all2 (\<lambda>t seg. seg \<noteq> [] \<and> tile_reads t seg) (parseWordToTiles s) segs"
    using tiles_segments by blast
  from r have "length (parseWordToTiles s) \<le> length (concat segs)"
    by (rule length_concat_nonempty)
  moreover have "parseWordToTiles s = [] \<longleftrightarrow> s = []"
    by (cases "parse_step s") (auto simp: parseWordToTiles_step)
  ultimately show ?thesis using c by simp
qed

text \<open>
  C4.  Overrides take precedence over the auto-detection: an opening delimiter
  followed by its closing delimiter yields one tile of the override's type holding
  the text between them, whatever that text would auto-classify as, and the
  tokenizer continues after the closing delimiter.
\<close>

theorem parseWordToTiles_override:
  assumes "(op, cl, k) \<in> set override_forms" and "cl \<in> set r"
  shows "parseWordToTiles (op # r) =
    \<lparr>ttext = takeWhile (\<lambda>x. x \<noteq> cl) r, ttype = k\<rparr> #
      parseWordToTiles (drop (Suc (length (takeWhile (\<lambda>x. x \<noteq> cl) r))) r)"
  using assms by (simp add: parse_step_open parseWordToTiles_step)

theorem parseWordToTiles_override_witness:
  "(CHR ''{'', CHR ''}'', Consonant) \<in> set override_forms \<and> CHR ''}'' \<in> set ''a}'' \<and>
   parseWordToTiles ''{a}'' = [\<lparr>ttext = ''a'', ttype = Consonant\<rparr>]"
proof -
  have f: "(CHR ''{'', CHR ''}'', Consonant) \<in> set override_forms"
    by (simp add: override_forms_def)
  have m: "CHR ''}'' \<in> set ''a}''" by simp
  show ?thesis
    using parseWordToTiles_override [OF f m] f m by simp
qed

text \<open>
  C5.  An override opener without its closing delimiter does not apply: the
  opener becomes a consonant tile of its own and the rest is tokenized normally.
\<close>

theorem parseWordToTiles_unclosed:
  assumes "(op, cl, k) \<in> set override_forms" and "cl \<notin> set r"
  shows "parseWordToTiles (op # r) = \<lparr>ttext = [op], ttype = Consonant\<rparr> # parseWordToTiles r"
  using assms by (simp add: parse_step_open parseWordToTiles_step)

theorem parseWordToTiles_unclosed_witness:
  "(CHR ''{'', CHR ''}'', Consonant) \<in> set override_forms \<and> CHR ''}'' \<notin> set ''cat'' \<and>
   parseWordToTiles ''{cat'' = \<lparr>ttext = ''{'', ttype = Consonant\<rparr> # parseWordToTiles ''cat''"
proof -
  have f: "(CHR ''{'', CHR ''}'', Consonant) \<in> set override_forms"
    by (simp add: override_forms_def)
  have m: "CHR ''}'' \<notin> set ''cat''" by simp
  show ?thesis
    using parseWordToTiles_unclosed [OF f m] f m by simp
qed

text \<open>
  C6.  Classification ignores case: tokenizing the lower-cased word gives the same
  tiles with lower-cased text, so the original case only survives in the tile text.
\<close>

theorem parseWordToTiles_to_lower:
  "parseWordToTiles (to_lower s) = map lower_tile (parseWordToTiles s)"
proof (induction s rule: parseWordToTiles.induct)
  case (1 s)
  show ?case
  proof (cases "parse_step s")
    case None
    then show ?thesis by simp
  next
    case (Some p)
    obtain t r where p: "p = (t, r)" by (cases p)
    with Some have "parse_step (to_lower s) = Some (lower_tile t, to_lower r)"
      by (simp add: parse_step_to_lower)
    with "1.IH" [OF Some p [symmetric]] Some p show ?thesis
      by (simp add: parseWordToTiles_step)
  qed
qed

text \<open>
  The behaviour the specification lists for concrete words: overrides, the
  order of the auto-detection tables, the single-letter fallback, the hyphen forms.
\<close>

theorem parseWordToTiles_examples:
  "parseWordToTiles [] = [] \<and>
   parseWordToTiles ''[a]'' = [\<lparr>ttext = ''a'', ttype = Vowel\<rparr>] \<and>
   parseWordToTiles ''/an/'' = [\<lparr>ttext = ''an'', ttype = Welded\<rparr>] \<and>
   parseWordToTiles ''ing'' = [\<lparr>ttext = ''ing'', ttype = Welded\<rparr>] \<and>
   parseWordToTiles ''ear'' = [\<lparr>ttext = ''ea'', ttype = VowelTeam\<rparr>, \<lparr>ttext = ''r'', ttype = Consonant\<rparr>] \<and>
   parseWordToTiles ''x'' = [\<lparr>ttext = ''x'', ttype = Consonant\<rparr>] \<and>
   parseWordToTiles ''-ing'' = [\<lparr>ttext = ''-ing'', ttype = Suffix\<rparr>] \<and>
   parseWordToTiles ''run-'' = [\<lparr>ttext = ''run-'', ttype = Prefix\<rparr>] \<and>
   parseWordToTiles ''Chart'' = [\<lparr>ttext = ''Ch'', ttype = Digraph\<rparr>, \<lparr>ttext = ''ar'', ttype = RControl\<rparr>,
     \<lparr>ttext = ''t'', ttype = Consonant\<rparr>]"
  by code_simp

text \<open>
  The welded override \<open>//\<close> yields a welded tile with empty text: the search
  for the closing slash starts at index 1, which is the second slash itself.
\<close>

theorem parseWordToTiles_empty_welded:
  "parseWordToTiles ''//'' = [\<lparr>ttext = [], ttype = Welded\<rparr>]"
  by code_simp

end
