(* ===== verification/Csv.thy ===== *)
theory Csv
  imports Prelude
begin

text \<open>
  The quote-aware CSV line splitter \<open>parseCSVLine\<close> of \<open>src/App.tsx\<close> (lines
  503--531).  The \<open>for\<close> loop over the characters is \<open>csv_scan\<close> over a state
  record holding the fields pushed so far, the field being read and the
  \<open>inQuotes\<close> flag; the look-ahead \<open>line[i + 1]\<close> of an escaped quote is a
  pattern on the rest of the line.  Each field is then cleaned by \<open>clean_cell\<close>
  (\<open>trim\<close>, strip one leading and one trailing quote, \<open>trim\<close>).  The theorems show
  that a line written by the standard CSV quoting (every field in quotes, inner quotes
  doubled) is read back field for field, that a line without quotes is split exactly
  at its commas, and how many fields a line yields.
\<close>

section \<open>The splitter\<close>

record csv_state =
  csv_fields :: "js_string list"
  csv_current :: js_string
  csv_in_quotes :: bool

definition csv_init :: csv_state where
  "csv_init = \<lparr>csv_fields = [], csv_current = [], csv_in_quotes = False\<rparr>"

abbreviation quote_char :: char where
  "quote_char \<equiv> CHR 0x22"

text \<open>One pass of the loop body per character; a doubled quote inside quotes consumes both.\<close>

fun csv_scan :: "csv_state \<Rightarrow> js_string \<Rightarrow> csv_state" where
  "csv_scan st [] = st"
| "csv_scan st (c # cs) =
     (if c = quote_char then
        (case cs of
           d # cs' \<Rightarrow>
             if csv_in_quotes st \<and> d = quote_char
             then csv_scan (st\<lparr>csv_current := csv_current st @ [quote_char]\<rparr>) cs'
             else csv_scan (st\<lparr>csv_in_quotes := \<not> csv_in_quotes st\<rparr>) cs
         | [] \<Rightarrow> csv_scan (st\<lparr>csv_in_quotes := \<not> csv_in_quotes st\<rparr>) cs)
      else if c = CHR '','' \<and> \<not> csv_in_quotes st
      then csv_scan (st\<lparr>csv_fields := csv_fields st @ [csv_current st], csv_current := []\<rparr>) cs
      else csv_scan (st\<lparr>csv_current := csv_current st @ [c]\<rparr>) cs)"

text \<open>\<open>.replace(/^"|"$/g, '')\<close>: one quote removed at each end, never the same one twice.\<close>

definition strip_quotes :: "js_string \<Rightarrow> js_string" where
  "strip_quotes s =
     (let s1 = (if starts_with s [quote_char] then drop 1 s else s)
      in if s1 \<noteq> [] \<and> last s1 = quote_char then butlast s1 else s1)"

definition clean_cell :: "js_string \<Rightarrow> js_string" where
  "clean_cell s = js_trim (strip_quotes (js_trim s))"

definition parseCSVLine :: "js_string \<Rightarrow> js_string list" where
  "parseCSVLine line =
     (let st = csv_scan csv_init line in map clean_cell (csv_fields st @ [csv_current st]))"

section \<open>Writing a line: the inverse the splitter is meant for\<close>

definition csv_escape :: "js_string \<Rightarrow> js_string" where
  "csv_escape f = concat (map (\<lambda>c. if c = quote_char then [quote_char, quote_char] else [c]) f)"

definition csv_quote :: "js_string \<Rightarrow> js_string" where
  "csv_quote f = quote_char # csv_escape f @ [quote_char]"

definition csv_line :: "js_string list \<Rightarrow> js_string" where
  "csv_line fs = join '','' (map csv_quote fs)"

text \<open>A field the cleaning leaves alone: no surrounding whitespace and no surrounding quote.\<close>

definition csv_clean_field :: "js_string \<Rightarrow> bool" where
  "csv_clean_field f \<longleftrightarrow>
     js_trim f = f \<and> \<not> starts_with f [quote_char] \<and> \<not> (f \<noteq> [] \<and> last f = quote_char)"

section \<open>Lemmas on the scan\<close>

lemma csv_scan_quote_open:
  "\<not> csv_in_quotes st \<Longrightarrow> csv_scan st (quote_char # cs) = csv_scan (st\<lparr>csv_in_quotes := True\<rparr>) cs"
  by (cases cs) auto

lemma csv_escape_Nil [simp]: "csv_escape [] = []"
  and csv_escape_Cons [simp]:
    "csv_escape (c # f) = (if c = quote_char then [quote_char, quote_char] else [c]) @ csv_escape f"
  by (simp_all add: csv_escape_def)

text \<open>Inside quotes, an escaped field and its closing quote are read as the field itself.\<close>

lemma csv_scan_escaped:
  assumes "csv_in_quotes st" and "rest = [] \<or> hd rest \<noteq> quote_char"
  shows "csv_scan st (csv_escape f @ quote_char # rest) =
    csv_scan (st\<lparr>csv_current := csv_current st @ f, csv_in_quotes := False\<rparr>) rest"
  using assms
proof (induction f arbitrary: st)
  case Nil
  then show ?case by (cases rest) auto
next
  case (Cons c f)
  then show ?case by auto
qed

lemma csv_scan_quoted_field:
  assumes "\<not> csv_in_quotes st" and "rest = [] \<or> hd rest \<noteq> quote_char"
  shows "csv_scan st (csv_quote f @ rest) = csv_scan (st\<lparr>csv_current := csv_current st @ f\<rparr>) rest"
proof -
  have "csv_scan st (csv_quote f @ rest) =
      csv_scan (st\<lparr>csv_in_quotes := True\<rparr>) (csv_escape f @ quote_char # rest)"
    using assms(1) by (simp add: csv_quote_def csv_scan_quote_open del: csv_scan.simps)
  also have "\<dots> = csv_scan (st\<lparr>csv_current := csv_current st @ f\<rparr>) rest"
    using assms by (cases st) (simp add: csv_scan_escaped del: csv_scan.simps)
  finally show ?thesis .
qed

lemma csv_scan_line:
  assumes "\<not> csv_in_quotes st" and "fs \<noteq> []"
  shows "csv_fields (csv_scan st (csv_line fs)) @ [csv_current (csv_scan st (csv_line fs))] =
    csv_fields st @ (csv_current st @ hd fs) # tl fs"
  using assms
proof (induction fs arbitrary: st rule: induct_list012)
  case (2 w)
  have "csv_scan st (csv_line [w]) = csv_scan (st\<lparr>csv_current := csv_current st @ w\<rparr>) []"
    using csv_scan_quoted_field [of st "[]" w] "2.prems" by (simp add: csv_line_def)
  then show ?case by simp
next
  case (3 w v vs)
  have "csv_scan st (csv_line (w # v # vs)) =
      csv_scan (st\<lparr>csv_current := csv_current st @ w\<rparr>) (CHR '','' # csv_line (v # vs))"
    using csv_scan_quoted_field [of st "CHR '','' # csv_line (v # vs)" w] "3.prems"
    by (simp add: csv_line_def)
  with "3.prems" "3.IH"(2) [of "st\<lparr>csv_fields := csv_fields st @ [csv_current st @ w], csv_current := []\<rparr>"]
  show ?case by simp
qed simp

lemma clean_cell_clean_field: "csv_clean_field f \<Longrightarrow> clean_cell f = f"
  by (auto simp: csv_clean_field_def clean_cell_def strip_quotes_def)

text \<open>Without quotes the scan never enters quotes and breaks the line at every comma.\<close>

lemma csv_scan_plain:
  assumes "quote_char \<notin> set l" and "\<not> csv_in_quotes st"
  shows "csv_fields (csv_scan st l) @ [csv_current (csv_scan st l)] =
    csv_fields st @ (csv_current st @ hd (split_on CHR '','' l)) # tl (split_on CHR '','' l)"
  using assms
proof (induction l arbitrary: st)
  case Nil
  then show ?case by simp
next
  case (Cons c l)
  obtain w ws where r: "split_on CHR '','' l = w # ws"
    by (cases "split_on CHR '','' l") auto
  from Cons r show ?case by (auto simp: Let_def)
qed

lemma parseCSVLine_plain:
  assumes "quote_char \<notin> set line"
  shows "parseCSVLine line = map clean_cell (split_on CHR '','' line)"
proof -
  let ?st = "csv_scan csv_init line"
  from csv_scan_plain [of line csv_init] assms
  have eq: "csv_fields ?st @ [csv_current ?st] = split_on CHR '','' line"
    by (simp add: csv_init_def)
  show ?thesis
    by (simp only: parseCSVLine_def Let_def eq)
qed

lemma strip_quotes_no_quote:
  assumes "quote_char \<notin> set s"
  shows "strip_quotes s = s"
proof -
  have "\<not> starts_with s [quote_char]"
    using assms by (auto simp: starts_with_Cons_iff)
  moreover have "s \<noteq> [] \<Longrightarrow> last s \<noteq> quote_char"
    using assms last_in_set by metis
  ultimately show ?thesis
    by (auto simp: strip_quotes_def)
qed

lemma clean_cell_no_quote: "quote_char \<notin> set s \<Longrightarrow> clean_cell s = js_trim s"
proof -
  assume q: "quote_char \<notin> set s"
  have "set (js_trim s) \<subseteq> set s"
    using js_trim_sublist by (rule set_mono_sublist)
  with q have "strip_quotes (js_trim s) = js_trim s"
    by (intro strip_quotes_no_quote) blast
  then show ?thesis
    by (simp add: clean_cell_def js_trim_idem)
qed

lemma csv_scan_chars:
  "set (concat (csv_fields st)) \<subseteq> A \<Longrightarrow> set (csv_current st) \<subseteq> A \<Longrightarrow> set cs \<subseteq> A \<Longrightarrow>
   set (concat (csv_fields (csv_scan st cs))) \<subseteq> A \<and> set (csv_current (csv_scan st cs)) \<subseteq> A"
proof (induction st cs rule: csv_scan.induct)
  case (1 st)
  then show ?case by simp
next
  case (2 st c cs)
  note step = csv_scan.simps(2) [of st c cs]
  show ?case
  proof (cases "c = quote_char")
    case q: True
    show ?thesis
    proof (cases cs)
      case Nil
      with 2 q step show ?thesis by (simp del: csv_scan.simps)
    next
      case (Cons d cs')
      with 2 q step show ?thesis
        by (cases "csv_in_quotes st \<and> d = quote_char") (simp_all del: csv_scan.simps)
    qed
  next
    case False
    with 2 step show ?thesis
      by (cases "c = CHR '','' \<and> \<not> csv_in_quotes st") (simp_all del: csv_scan.simps)
  qed
qed

lemma strip_quotes_subset: "set (strip_quotes s) \<subseteq> set s"
  by (auto simp: strip_quotes_def Let_def dest: in_set_dropD in_set_butlastD)

lemma parseCSVLine_chars: "f \<in> set (parseCSVLine l) \<Longrightarrow> set f \<subseteq> set l"
proof -
  assume f: "f \<in> set (parseCSVLine l)"
  let ?st = "csv_scan csv_init l"
  have sc: "set (concat (csv_fields ?st)) \<subseteq> set l \<and> set (csv_current ?st) \<subseteq> set l"
    by (rule csv_scan_chars) (simp_all add: csv_init_def)
  from f obtain g where g: "g \<in> set (csv_fields ?st @ [csv_current ?st])" "f = clean_cell g"
    by (auto simp: parseCSVLine_def Let_def)
  have "set (clean_cell g) \<subseteq> set g"
    using strip_quotes_subset [of "js_trim g"] set_mono_sublist [OF js_trim_sublist]
    unfolding clean_cell_def by blast
  with g sc show ?thesis by auto
qed

section \<open>Properties of the splitter\<close>

text \<open>
  C8.  Reading back a written line: fields put in quotes with their inner quotes
  doubled and joined by commas are split back into the same fields, provided the
  cleaning leaves them alone (no surrounding whitespace, no surrounding quote).
\<close>

theorem parseCSVLine_csv_line:
  assumes "fs \<noteq> []" and "\<forall>f \<in> set fs. csv_clean_field f"
  shows "parseCSVLine (csv_line fs) = fs"
proof -
  let ?st = "csv_scan csv_init (csv_line fs)"
  have "csv_fields ?st @ [csv_current ?st] = fs"
    using csv_scan_line [of csv_init fs] assms(1) by (simp add: csv_init_def)
  then have "parseCSVLine (csv_line fs) = map clean_cell fs"
    by (simp only: parseCSVLine_def Let_def)
  also have "\<dots> = fs"
    using assms(2) by (simp add: clean_cell_clean_field map_idI)
  finally show ?thesis .
qed

theorem parseCSVLine_csv_line_witness:
  "parseCSVLine (csv_line [''3.1'', ''full,pull'', ''a'' @ [quote_char] @ ''b'', []]) =
     [''3.1'', ''full,pull'', ''a'' @ [quote_char] @ ''b'', []]"
proof -
  have "\<forall>f \<in> set [''3.1'', ''full,pull'', ''a'' @ [quote_char] @ ''b'', []]. csv_clean_field f"
    by (simp add: csv_clean_field_def js_trim_def is_ws_def)
  then show ?thesis
    by (intro parseCSVLine_csv_line) simp_all
qed

text \<open>
  A line without quote characters is split exactly at its commas, and each
  field is the trimmed piece between them.
\<close>

theorem parseCSVLine_no_quotes:
  assumes "quote_char \<notin> set line"
  shows "parseCSVLine line = map js_trim (split_on CHR '','' line)"
proof -
  have "\<forall>w \<in> set (split_on CHR '','' line). quote_char \<notin> set w"
    using assms split_on_subset by blast
  then have "map clean_cell (split_on CHR '','' line) = map js_trim (split_on CHR '','' line)"
    by (simp add: clean_cell_no_quote)
  with assms show ?thesis
    by (simp add: parseCSVLine_plain)
qed

theorem parseCSVLine_no_quotes_witness:
  "parseCSVLine '' Lesson Plan,New Sight Words , Sentences'' =
     [''Lesson Plan'', ''New Sight Words'', ''Sentences'']"
proof -
  have "quote_char \<notin> set '' Lesson Plan,New Sight Words , Sentences''" by simp
  then show ?thesis
    by (simp add: parseCSVLine_no_quotes js_trim_def is_ws_def)
qed

text \<open>
  A line without quote characters yields one field more than it has commas;
  in particular every such line yields at least one field.
\<close>

theorem parseCSVLine_length:
  assumes "quote_char \<notin> set line"
  shows "length (parseCSVLine line) = Suc (count_list line CHR '','')"
proof -
  let ?st = "csv_scan csv_init line"
  have "csv_fields ?st @ [csv_current ?st] = split_on CHR '','' line"
    using csv_scan_plain [of line csv_init] assms by (simp add: csv_init_def)
  then have "length (csv_fields ?st @ [csv_current ?st]) = Suc (count_list line CHR '','')"
    by (simp add: length_split_on)
  then show ?thesis
    by (simp add: parseCSVLine_def Let_def)
qed

theorem parseCSVLine_length_witness:
  "length (parseCSVLine '',,Step,Sounds'') = 4"
proof -
  have "quote_char \<notin> set '',,Step,Sounds''" by simp
  then show ?thesis
    using parseCSVLine_length [of "'',,Step,Sounds''"] by simp
qed

end
