(* ===== verification/Lesson.thy ===== *)
theory Lesson
  imports Prelude
begin

text \<open>
  The lesson data model of \<open>src/types.ts\<close>: word cards, affix entries, slides, the
  six dictation lists and the lesson itself, each interface as a record and each
  string union as a datatype.  An optional field (\<open>field?: T\<close>) is a
  \<open>T option\<close>.  \<open>LessonImport\<close> is the \<open>Partial<Lesson>\<close> that
  \<open>parseLessonText\<close> returns: the list fields are always present (the importer
  initialises them), \<open>step\<close>, \<open>substep\<close> and \<open>passage\<close> are optional.  Its
  word cards carry text and type; the random \<open>id\<close> that \<open>generateId\<close> attaches
  is not modelled.
\<close>

datatype card_type = Regular | Nonsense | Hfw

record WordCard =
  card_id :: js_string
  card_text :: js_string
  card_type :: card_type

datatype affix_type = Root | AffixPrefix | AffixSuffix

record AffixEntry =
  affix_id :: js_string
  affix_text :: js_string
  affix_type :: affix_type
  affix_examples :: js_string

record DictationSection =
  dict_sounds :: "js_string list"
  dict_realWords :: "js_string list"
  dict_wordElements :: "js_string list"
  dict_nonsenseWords :: "js_string list"
  dict_phrases :: "js_string list"
  dict_sentences :: "js_string list"

datatype slide_type = TextSlide | ImageSlide | WordSlide

record Slide =
  slide_id :: js_string
  slide_type :: slide_type
  slide_title :: js_string
  slide_content :: js_string

record Lesson =
  lesson_id :: js_string
  lesson_title :: js_string
  lesson_step :: js_string
  lesson_substep :: js_string
  lesson_conceptNotes :: js_string
  lesson_conceptNotes7 :: "js_string option"
  lesson_cipherWords :: "js_string list option"
  lesson_cipherDistractors :: "js_string list option"
  lesson_googleSlidesUrl :: "js_string option"
  lesson_slides :: "Slide list"
  lesson_quickDrill :: "js_string list"
  lesson_quickDrillReverse :: "js_string list option"
  lesson_wordCards :: "WordCard list"
  lesson_wordListReading :: "js_string list option"
  lesson_wordListReadingAuto :: "bool option"
  lesson_sentences :: "js_string list"
  lesson_dictation :: DictationSection
  lesson_hfwList :: "js_string list"
  lesson_affixPractice :: "AffixEntry list"
  lesson_passage :: "js_string option"
  lesson_lastUpdated :: "js_string option"

text \<open>The records of the dojo's saved state (\<open>src/types.ts\<close>, lines 55--99).\<close>

record LessonHistoryEntry =
  hist_id :: js_string
  hist_lessonId :: js_string
  hist_title :: js_string
  hist_date :: js_string
  hist_studentIds :: "js_string list"
  hist_notes :: "js_string option"

record StudentLogEntry =
  log_date :: js_string
  log_lessonTitle :: js_string
  log_step :: js_string

record StudentProfile =
  stu_id :: js_string
  stu_name :: js_string
  stu_masteredSounds :: "js_string list"
  stu_masteredHFW :: "js_string list"
  stu_attendanceCount :: int
  stu_lastSeen :: "js_string option"
  stu_notes :: js_string
  stu_history :: "StudentLogEntry list"

record Inventory =
  inv_learnedSounds :: "js_string list"
  inv_learnedHFW :: "js_string list"

record GroupProfile =
  grp_id :: js_string
  grp_name :: js_string
  grp_studentIds :: "js_string list"
  grp_inventory :: Inventory
  grp_lastLessonDate :: "js_string option"
  grp_jobs :: "(js_string \<times> js_string) list option"
  grp_savedLessons :: "Lesson list"
  grp_history :: "LessonHistoryEntry list"

record ActiveSession =
  sess_lesson :: Lesson
  sess_currentPart :: nat
  sess_groupId :: js_string
  sess_studentIds :: "js_string list"

text \<open>The presets of the cipher game are kept opaque: a JSON text.\<close>

record DojoMasterData =
  md_groups :: "GroupProfile list"
  md_students :: "StudentProfile list"
  md_cipherPresets :: js_string
  md_activeSession :: "ActiveSession option"

definition empty_dictation :: DictationSection where
  "empty_dictation =
     \<lparr>dict_sounds = [], dict_realWords = [], dict_wordElements = [], dict_nonsenseWords = [],
      dict_phrases = [], dict_sentences = []\<rparr>"

text \<open>\<open>emptyLesson\<close> of \<open>src/components/LessonForm.tsx\<close> (lines 15--43).\<close>

definition emptyLesson :: Lesson where
  "emptyLesson =
     \<lparr>lesson_id = [], lesson_title = [], lesson_step = ''1'', lesson_substep = ''1'',
      lesson_conceptNotes = [], lesson_conceptNotes7 = Some [], lesson_cipherWords = Some [],
      lesson_cipherDistractors = Some [], lesson_googleSlidesUrl = Some [], lesson_slides = [],
      lesson_quickDrill = [], lesson_quickDrillReverse = Some [], lesson_wordCards = [],
      lesson_wordListReading = Some [], lesson_wordListReadingAuto = Some True, lesson_sentences = [],
      lesson_dictation = empty_dictation, lesson_hfwList = [], lesson_affixPractice = [],
      lesson_passage = Some [], lesson_lastUpdated = None\<rparr>"

record LessonImport =
  imp_step :: "js_string option"
  imp_substep :: "js_string option"
  imp_quickDrill :: "js_string list"
  imp_hfwList :: "js_string list"
  imp_wordCards :: "(js_string \<times> card_type) list"
  imp_sentences :: "js_string list"
  imp_passage :: "js_string option"
  imp_dictation :: DictationSection

text \<open>The \<open>extracted\<close> object \<open>parseLessonText\<close> starts from.\<close>

definition empty_import :: LessonImport where
  "empty_import =
     \<lparr>imp_step = None, imp_substep = None, imp_quickDrill = [], imp_hfwList = [],
      imp_wordCards = [], imp_sentences = [], imp_passage = None, imp_dictation = empty_dictation\<rparr>"

end
