(* ===== verification/Importer_Text.thy ===== *)
theory Importer_Text
  imports Lesson
begin

text \<open>
  The freeform path of \<open>parseLessonText\<close> (\<open>src/App.tsx\<close>, lines 651--847): the
  line helpers (\<open>cleanLine\<close>, \<open>extractList\<close> and the regular expressions they
  use), the step/substep detection, and the per-line state machine over the current
  section and the dictation sub-mode.  The loop over the lines is a fold of
  \<open>process_line\<close> over a state record holding the extracted lesson, the current
  section and the dictation sub-mode.  Bullets \<open>\<bullet>\<close> and \<open>\<triangleright>\<close> are single
  UTF-16 code units in the source; the model's byte strings carry them in UTF-8.
\<close>

section \<open>Line helpers\<close>

definition bullets :: "js_string list" where
  "bullets = [''-'', ''*'', [CHR 0xE2, CHR 0x80, CHR 0xA2], [CHR 0xE2, CHR 0x9E, CHR 0xA2]]"

text \<open>\<open>.replace(/^[-*\<bullet>\<triangleright>]\s+/, '')\<close>: a bullet only counts when whitespace follows it.\<close>

definition strip_bullet :: "js_string \<Rightarrow> js_string" where
  "strip_bullet s =
     (case find (\<lambda>b. starts_with s b \<and>
                     (case drop (length b) s of c # _ \<Rightarrow> is_ws c | [] \<Rightarrow> False)) bullets of
        Some b \<Rightarrow> dropWhile is_ws (drop (length b) s)
      | None \<Rightarrow> s)"

definition cleanLine :: "js_string \<Rightarrow> js_string" where
  "cleanLine l =
     map (\<lambda>c. if c = CHR 0x09 then CHR '' '' else c)
       (filter (\<lambda>c. c \<noteq> CHR ''['' \<and> c \<noteq> CHR '']'') (strip_bullet (js_trim l)))"

text \<open>
  \<open>str.split(/:(.+)/)[1]\<close>: the group of the leftmost match, i.e. the text after the
  first colon that is followed by a character other than a line terminator, up to
  the next line terminator.
\<close>

fun colon_group :: "js_string \<Rightarrow> js_string option" where
  "colon_group [] = None"
| "colon_group (c # cs) =
     (if c = CHR '':'' \<and> cs \<noteq> [] \<and> \<not> is_line_term (hd cs)
      then Some (takeWhile (\<lambda>x. \<not> is_line_term x) cs)
      else colon_group cs)"

text \<open>\<open>s.split(/:(.+)/)[1] || ''\<close>\<close>

definition after_colon :: "js_string \<Rightarrow> js_string" where
  "after_colon s = (case colon_group s of Some g \<Rightarrow> g | None \<Rightarrow> [])"

text \<open>\<open>line.split(/:/)[1]\<close>: the text between the first and the second colon, if any.\<close>

definition colon_field :: "js_string \<Rightarrow> js_string option" where
  "colon_field s = (case split_on CHR '':'' s of _ # f # _ \<Rightarrow> Some f | _ \<Rightarrow> None)"

text \<open>\<open>.replace(/^\d+[\.)]\s*/, '')\<close>\<close>

definition strip_numbering :: "js_string \<Rightarrow> js_string" where
  "strip_numbering s =
     (let d = takeWhile is_digit s; r = drop (length d) s in
      if d \<noteq> [] \<and> r \<noteq> [] \<and> (hd r = CHR ''.'' \<or> hd r = CHR '')'') then dropWhile is_ws (tl r) else s)"

text \<open>
  \<open>.split(/,|;|\t|\s{2,}/)\<close>: a comma, a semicolon or a tab is a separator of its own;
  two or more whitespace characters in a row are one separator (greedy).  A tab is
  tried before the whitespace run, as in the alternation.
\<close>

function split_seps :: "js_string \<Rightarrow> js_string list" where
  "split_seps [] = [[]]"
| "split_seps (c # cs) =
     (if c = CHR '','' \<or> c = CHR '';'' \<or> c = CHR 0x09 then [] # split_seps cs
      else if is_ws c \<and> cs \<noteq> [] \<and> is_ws (hd cs) then [] # split_seps (dropWhile is_ws cs)
      else (let r = split_seps cs in (c # hd r) # tl r))"
  by pat_completeness auto
termination
  by (relation "measure length") (auto simp: le_imp_less_Suc length_dropWhile_le)

definition extractList :: "js_string \<Rightarrow> js_string list" where
  "extractList str =
     (let s1 = (if CHR '':'' \<in> set str then after_colon str else str);
          s2 = strip_numbering s1
      in filter (\<lambda>p. p \<noteq> [] \<and> \<not> js_includes (to_lower p) ''word count'') (map js_trim (split_seps s2)))"

section \<open>Step detection\<close>

text \<open>
  \<open>(\d+)\.(\d+)\b\<close> at the start of a string: both digit runs are maximal and the
  second is not followed by a word character.
\<close>

definition digits_dot_digits :: "js_string \<Rightarrow> (js_string \<times> js_string) option" where
  "digits_dot_digits s =
     (let d1 = takeWhile is_digit s; r1 = drop (length d1) s in
      if d1 \<noteq> [] \<and> r1 \<noteq> [] \<and> hd r1 = CHR ''.'' then
        (let d2 = takeWhile is_digit (tl r1); r2 = drop (length d2) (tl r1) in
         if d2 \<noteq> [] \<and> (r2 = [] \<or> \<not> is_word_char (hd r2)) then Some (d1, d2) else None)
      else None)"

text \<open>\<open>Step\s*(\d+)\.(\d+)\b\<close> with the \<open>i\<close> flag.\<close>

definition step_word_at :: "js_string \<Rightarrow> (js_string \<times> js_string) option" where
  "step_word_at s =
     (if to_lower (take 4 s) = ''step'' then digits_dot_digits (dropWhile is_ws (drop 4 s)) else None)"

text \<open>The leftmost match of a pattern that starts with \<open>\b\<close> before a word character.\<close>

fun match_at_boundary :: "(js_string \<Rightarrow> 'a option) \<Rightarrow> bool \<Rightarrow> js_string \<Rightarrow> 'a option" where
  "match_at_boundary m prev_word [] = None"
| "match_at_boundary m prev_word (c # cs) =
     (case (if prev_word then None else m (c # cs)) of
        Some r \<Rightarrow> Some r
      | None \<Rightarrow> match_at_boundary m (is_word_char c) cs)"

text \<open>\<open>text.match(/\bStep\s*(\d+)\.(\d+)\b/i) || text.match(/\b(\d+)\.(\d+)\b/)\<close>\<close>

definition detect_step :: "js_string \<Rightarrow> (js_string \<times> js_string) option" where
  "detect_step text =
     (case match_at_boundary step_word_at False text of
        Some r \<Rightarrow> Some r
      | None \<Rightarrow> match_at_boundary digits_dot_digits False text)"

section \<open>The line state machine\<close>

datatype lesson_section =
  NoSection | QuickDrillSec | HfwSec | WordCardsSec | SentencesSec | DictationSec | PassageSec

datatype dict_mode = DNone | DSounds | DReal | DElements | DNonsense | DPhrases | DSentences

record ff_state =
  ff_out :: LessonImport
  ff_section :: lesson_section
  ff_mode :: dict_mode

definition includes_any :: "js_string \<Rightarrow> js_string list \<Rightarrow> bool" where
  "includes_any s ks = list_ex (js_includes s) ks"

text \<open>The section headers, tested on the lower-cased clean line in the order of the source.\<close>

definition header_section :: "js_string \<Rightarrow> lesson_section option" where
  "header_section lower =
     (if includes_any lower [''quick drill'', ''visual drill'', ''part 1''] then Some QuickDrillSec
      else if includes_any lower [''word cards'', ''word list'', ''part 3'', ''words for reading'']
        then Some WordCardsSec
      else if includes_any lower [''sight words'', ''hfw'', ''high frequency''] then Some HfwSec
      else if includes_any lower [''sentences for reading'', ''part 5'', ''reading sentences'']
        then Some SentencesSec
      else if includes_any lower [''dictation'', ''part 8''] then Some DictationSec
      else if includes_any lower [''passage'', ''story'', ''part 9''] then Some PassageSec
      else None)"

text \<open>\<open>const content = line.split(/:/)[1]; if (content && content.trim()) \<dots>\<close>\<close>

definition header_content :: "js_string \<Rightarrow> js_string list" where
  "header_content line =
     (case colon_field line of
        Some c \<Rightarrow> if js_trim c \<noteq> [] then extractList c else []
      | None \<Rightarrow> [])"

definition regular_cards :: "js_string list \<Rightarrow> (js_string \<times> card_type) list" where
  "regular_cards ws = map (\<lambda>w. (w, Regular)) ws"

text \<open>A header line: the new section, the list it carries after its colon, then \<open>continue\<close>.\<close>

definition apply_header :: "ff_state \<Rightarrow> js_string \<Rightarrow> lesson_section \<Rightarrow> ff_state" where
  "apply_header st line sec =
     (let out = ff_out st in
      case sec of
        QuickDrillSec \<Rightarrow>
          st\<lparr>ff_section := sec, ff_out := out\<lparr>imp_quickDrill := imp_quickDrill out @ header_content line\<rparr>\<rparr>
      | WordCardsSec \<Rightarrow>
          st\<lparr>ff_section := sec,
             ff_out := out\<lparr>imp_wordCards := imp_wordCards out @ regular_cards (header_content line)\<rparr>\<rparr>
      | HfwSec \<Rightarrow>
          st\<lparr>ff_section := sec, ff_out := out\<lparr>imp_hfwList := imp_hfwList out @ header_content line\<rparr>\<rparr>
      | DictationSec \<Rightarrow> st\<lparr>ff_section := sec, ff_mode := DNone\<rparr>
      | _ \<Rightarrow> st\<lparr>ff_section := sec\<rparr>)"

text \<open>The explicit sub-section keywords, first match wins; otherwise the mode is unchanged.\<close>

definition keyword_mode :: "js_string \<Rightarrow> dict_mode \<Rightarrow> dict_mode" where
  "keyword_mode lower cur =
     (if starts_with lower ''sound'' \<or> js_includes lower ''sounds:'' \<or> js_includes lower ''sounds''
        then DSounds
      else if starts_with lower ''real'' \<or> js_includes lower ''real words:'' \<or> js_includes lower ''words''
        then DReal
      else if starts_with lower ''element'' \<or> js_includes lower ''word elements:'' \<or>
              js_includes lower ''welded'' then DElements
      else if starts_with lower ''nonsense'' \<or> js_includes lower ''nonsense words:'' then DNonsense
      else if starts_with lower ''phrase'' \<or> js_includes lower ''phrases:'' then DPhrases
      else if starts_with lower ''sentence'' \<or> js_includes lower ''sentences:'' then DSentences
      else cur)"

text \<open>\<open>rawLine.match(/^1[\.)]/)\<close> \<dots> \<open>/^6[\.)]/\<close>\<close>

definition numeric_mode :: "js_string \<Rightarrow> dict_mode \<Rightarrow> dict_mode" where
  "numeric_mode raw cur =
     (case raw of
        d # p # _ \<Rightarrow>
          if p = CHR ''.'' \<or> p = CHR '')'' then
            (if d = CHR ''1'' then DSounds else if d = CHR ''2'' then DReal
             else if d = CHR ''3'' then DElements else if d = CHR ''4'' then DNonsense
             else if d = CHR ''5'' then DPhrases else if d = CHR ''6'' then DSentences else cur)
          else cur
      | _ \<Rightarrow> cur)"

text \<open>The numeric markers are consulted only when the keywords left the mode unchanged.\<close>

definition detect_mode :: "js_string \<Rightarrow> js_string \<Rightarrow> dict_mode \<Rightarrow> dict_mode" where
  "detect_mode raw line cur =
     (let k = keyword_mode (to_lower line) cur in if k = cur then numeric_mode raw cur else k)"

definition dictation_content :: "js_string \<Rightarrow> js_string" where
  "dictation_content line =
     (if CHR '':'' \<in> set line then after_colon line else strip_numbering line)"

definition add_dictation :: "dict_mode \<Rightarrow> js_string \<Rightarrow> DictationSection \<Rightarrow> DictationSection" where
  "add_dictation m content d =
     (if js_trim content = [] then d
      else
        (let items = extractList content in
         case m of
           DSounds \<Rightarrow> d\<lparr>dict_sounds := dict_sounds d @ items\<rparr>
         | DReal \<Rightarrow> d\<lparr>dict_realWords := dict_realWords d @ items\<rparr>
         | DNonsense \<Rightarrow> d\<lparr>dict_nonsenseWords := dict_nonsenseWords d @ items\<rparr>
         | DElements \<Rightarrow> d\<lparr>dict_wordElements := dict_wordElements d @ items\<rparr>
         | DPhrases \<Rightarrow> d\<lparr>dict_phrases := dict_phrases d @ items\<rparr>
         | DSentences \<Rightarrow>
             (let cs = strip_numbering (js_trim content) in
              if 5 < length cs \<and> \<not> js_includes (to_lower cs) ''sentences''
              then d\<lparr>dict_sentences := dict_sentences d @ [cs]\<rparr> else d)
         | DNone \<Rightarrow> d))"

text \<open>A line that is no header: what the current section does with it.\<close>

definition section_content :: "ff_state \<Rightarrow> js_string \<Rightarrow> js_string \<Rightarrow> ff_state" where
  "section_content st raw line =
     (let out = ff_out st; lower = to_lower line in
      case ff_section st of
        QuickDrillSec \<Rightarrow>
          if CHR '':'' \<notin> set line \<and> \<not> js_includes lower ''part''
          then st\<lparr>ff_out := out\<lparr>imp_quickDrill := imp_quickDrill out @ extractList line\<rparr>\<rparr> else st
      | HfwSec \<Rightarrow>
          if CHR '':'' \<notin> set line
          then st\<lparr>ff_out := out\<lparr>imp_hfwList := imp_hfwList out @ extractList line\<rparr>\<rparr> else st
      | WordCardsSec \<Rightarrow>
          if CHR '':'' \<notin> set line
          then st\<lparr>ff_out := out\<lparr>imp_wordCards := imp_wordCards out @ regular_cards (extractList line)\<rparr>\<rparr>
          else st
      | SentencesSec \<Rightarrow>
          if 5 < length line \<and> CHR '' '' \<in> set line \<and> \<not> js_includes lower ''part 6''
          then st\<lparr>ff_out := out\<lparr>imp_sentences := imp_sentences out @ [line]\<rparr>\<rparr> else st
      | PassageSec \<Rightarrow>
          st\<lparr>ff_out := out\<lparr>imp_passage :=
            Some ((case imp_passage out of Some p \<Rightarrow> p | None \<Rightarrow> []) @ line @ [CHR 0x0A, CHR 0x0A])\<rparr>\<rparr>
      | DictationSec \<Rightarrow>
          (let m = detect_mode raw line (ff_mode st) in
           st\<lparr>ff_mode := m,
              ff_out := out\<lparr>imp_dictation := add_dictation m (dictation_content line) (imp_dictation out)\<rparr>\<rparr>)
      | NoSection \<Rightarrow> st)"

text \<open>One iteration of the loop over the raw (trimmed, non-empty) lines.\<close>

definition process_line :: "ff_state \<Rightarrow> js_string \<Rightarrow> ff_state" where
  "process_line st raw =
     (let line = cleanLine raw in
      case header_section (to_lower line) of
        Some sec \<Rightarrow> apply_header st line sec
      | None \<Rightarrow> section_content st raw line)"

definition text_lines :: "js_string \<Rightarrow> js_string list" where
  "text_lines text = filter (\<lambda>l. l \<noteq> []) (map js_trim (split_on CHR 0x0A text))"

definition freeform_start :: "js_string \<Rightarrow> ff_state" where
  "freeform_start text =
     \<lparr>ff_out = (case detect_step text of
                  Some (a, b) \<Rightarrow> empty_import\<lparr>imp_step := Some a, imp_substep := Some b\<rparr>
                | None \<Rightarrow> empty_import),
      ff_section = NoSection, ff_mode = DNone\<rparr>"

text \<open>The standard text parser: detect the step, then run the line loop.\<close>

definition parse_freeform :: "js_string \<Rightarrow> LessonImport" where
  "parse_freeform text = ff_out (foldl process_line (freeform_start text) (text_lines text))"

section \<open>Invariants of the line loop\<close>

text \<open>
  A list item as \<open>extractList\<close> returns it: non-empty, trimmed, and without the
  separators it was split at.
\<close>

definition list_item_ok :: "js_string \<Rightarrow> bool" where
  "list_item_ok x \<longleftrightarrow>
     x \<noteq> [] \<and> js_trim x = x \<and> CHR '','' \<notin> set x \<and> CHR '';'' \<notin> set x \<and> CHR 0x09 \<notin> set x"

definition dict_items_ok :: "DictationSection \<Rightarrow> bool" where
  "dict_items_ok d \<longleftrightarrow>
     list_all list_item_ok (dict_sounds d) \<and> list_all list_item_ok (dict_realWords d) \<and>
     list_all list_item_ok (dict_wordElements d) \<and> list_all list_item_ok (dict_nonsenseWords d) \<and>
     list_all list_item_ok (dict_phrases d)"

text \<open>Every list item is well formed and every word card is a regular card.\<close>

definition import_items_ok :: "LessonImport \<Rightarrow> bool" where
  "import_items_ok r \<longleftrightarrow>
     list_all list_item_ok (imp_quickDrill r) \<and> list_all list_item_ok (imp_hfwList r) \<and>
     list_all (\<lambda>c. list_item_ok (fst c) \<and> snd c = Regular) (imp_wordCards r) \<and>
     dict_items_ok (imp_dictation r)"

text \<open>The extracted record only grows: every list is extended at its end, the passage too.\<close>

definition dict_le :: "DictationSection \<Rightarrow> DictationSection \<Rightarrow> bool" where
  "dict_le a b \<longleftrightarrow>
     prefix (dict_sounds a) (dict_sounds b) \<and> prefix (dict_realWords a) (dict_realWords b) \<and>
     prefix (dict_wordElements a) (dict_wordElements b) \<and>
     prefix (dict_nonsenseWords a) (dict_nonsenseWords b) \<and>
     prefix (dict_phrases a) (dict_phrases b) \<and> prefix (dict_sentences a) (dict_sentences b)"

definition import_le :: "LessonImport \<Rightarrow> LessonImport \<Rightarrow> bool" where
  "import_le a b \<longleftrightarrow>
     imp_step b = imp_step a \<and> imp_substep b = imp_substep a \<and>
     prefix (imp_quickDrill a) (imp_quickDrill b) \<and> prefix (imp_hfwList a) (imp_hfwList b) \<and>
     prefix (imp_wordCards a) (imp_wordCards b) \<and> prefix (imp_sentences a) (imp_sentences b) \<and>
     (case imp_passage a of
        None \<Rightarrow> True
      | Some p \<Rightarrow> (case imp_passage b of None \<Rightarrow> False | Some q \<Rightarrow> prefix p q)) \<and>
     dict_le (imp_dictation a) (imp_dictation b)"

subsection \<open>Well-formed items\<close>

lemma split_seps_not_Nil: "split_seps s \<noteq> []"
  by (induction s rule: split_seps.induct) (simp_all add: Let_def)

lemma split_seps_no_sep:
  "w \<in> set (split_seps s) \<Longrightarrow> CHR '','' \<notin> set w \<and> CHR '';'' \<notin> set w \<and> CHR 0x09 \<notin> set w"
proof (induction s arbitrary: w rule: split_seps.induct)
  case 1
  then show ?case by simp
next
  case (2 c cs)
  obtain v vs where r: "split_seps cs = v # vs"
    using split_seps_not_Nil by (cases "split_seps cs") auto
  from 2 r show ?case by (auto simp: Let_def split: if_splits)
qed

lemma extractList_ok: "list_all list_item_ok (extractList s)"
proof -
  have "list_item_ok (js_trim w)" if "w \<in> set (split_seps u)" and "js_trim w \<noteq> []" for w u
  proof -
    have "set (js_trim w) \<subseteq> set w"
      using js_trim_sublist by (rule set_mono_sublist)
    with split_seps_no_sep [OF that(1)] that(2) show ?thesis
      by (auto simp: list_item_ok_def js_trim_idem)
  qed
  then show ?thesis
    by (auto simp: extractList_def Let_def list_all_iff)
qed

lemma header_content_ok: "list_all list_item_ok (header_content l)"
  by (simp add: header_content_def extractList_ok split: option.splits)

lemma regular_cards_ok:
  "list_all list_item_ok ws \<Longrightarrow> list_all (\<lambda>c. list_item_ok (fst c) \<and> snd c = Regular) (regular_cards ws)"
  by (simp add: regular_cards_def list_all_iff)

lemma add_dictation_ok: "dict_items_ok d \<Longrightarrow> dict_items_ok (add_dictation m c d)"
  by (cases m) (simp_all add: add_dictation_def dict_items_ok_def extractList_ok Let_def)

lemma apply_header_ok:
  "import_items_ok (ff_out st) \<Longrightarrow> import_items_ok (ff_out (apply_header st line sec))"
  by (cases sec)
    (simp_all add: apply_header_def Let_def import_items_ok_def header_content_ok regular_cards_ok)

lemma section_content_ok:
  "import_items_ok (ff_out st) \<Longrightarrow> import_items_ok (ff_out (section_content st raw line))"
  by (cases "ff_section st")
    (simp_all add: section_content_def import_items_ok_def Let_def extractList_ok regular_cards_ok
      add_dictation_ok)

lemma process_line_ok:
  "import_items_ok (ff_out st) \<Longrightarrow> import_items_ok (ff_out (process_line st l))"
  by (simp add: process_line_def Let_def apply_header_ok section_content_ok split: option.split)

lemma foldl_process_line_ok:
  "import_items_ok (ff_out st) \<Longrightarrow> import_items_ok (ff_out (foldl process_line st ls))"
  by (induction ls arbitrary: st) (simp_all add: process_line_ok)

lemma freeform_start_ok: "import_items_ok (ff_out (freeform_start text))"
  by (simp add: freeform_start_def import_items_ok_def empty_import_def empty_dictation_def
      dict_items_ok_def split: option.splits prod.splits)

subsection \<open>Growth\<close>

lemma dict_le_refl [simp]: "dict_le d d"
  by (simp add: dict_le_def)

lemma dict_le_trans: "dict_le a b \<Longrightarrow> dict_le b c \<Longrightarrow> dict_le a c"
  unfolding dict_le_def by (meson prefix_order.trans)

lemma import_le_refl [simp]: "import_le r r"
  by (simp add: import_le_def split: option.splits)

lemma import_le_trans: "import_le a b \<Longrightarrow> import_le b c \<Longrightarrow> import_le a c"
  unfolding import_le_def
  by (auto intro: prefix_order.trans dict_le_trans split: option.splits)

lemma add_dictation_le: "dict_le d (add_dictation m c d)"
  by (cases m) (simp_all add: add_dictation_def dict_le_def Let_def)

lemma apply_header_le: "import_le (ff_out st) (ff_out (apply_header st line sec))"
  by (cases sec) (simp_all add: apply_header_def Let_def import_le_def split: option.split)

lemma section_content_le: "import_le (ff_out st) (ff_out (section_content st raw line))"
  by (cases "ff_section st")
    (simp_all add: section_content_def import_le_def Let_def add_dictation_le split: option.split)

lemma process_line_le: "import_le (ff_out st) (ff_out (process_line st l))"
  by (simp add: process_line_def Let_def apply_header_le section_content_le split: option.split)

lemma foldl_process_line_le: "import_le (ff_out st) (ff_out (foldl process_line st ls))"
proof (induction ls arbitrary: st)
  case Nil
  then show ?case by simp
next
  case (Cons l ls)
  from process_line_le Cons.IH [of "process_line st l"] show ?case
    by (auto intro: import_le_trans)
qed

subsection \<open>Step detection\<close>

lemma digits_dot_digits_sound:
  assumes "digits_dot_digits s = Some (a, b)"
  shows "a \<noteq> [] \<and> b \<noteq> [] \<and> list_all is_digit a \<and> list_all is_digit b \<and> prefix (a @ ''.'' @ b) s"
proof -
  define r1 where "r1 = drop (length (takeWhile is_digit s)) s"
  define r2 where "r2 = drop (length (takeWhile is_digit (tl r1))) (tl r1)"
  from assms have a: "a = takeWhile is_digit s" and b: "b = takeWhile is_digit (tl r1)"
    and ne: "a \<noteq> []" "b \<noteq> []" and h: "r1 \<noteq> []" "hd r1 = CHR ''.''"
    by (auto simp: digits_dot_digits_def Let_def r1_def split: if_splits)
  have s1: "s = a @ r1" by (simp add: a r1_def)
  have r1: "r1 = CHR ''.'' # tl r1" using h by (cases r1) auto
  have t: "tl r1 = b @ drop (length b) (tl r1)" by (simp add: b)
  have "prefix (a @ ''.'' @ b) s"
    by (subst s1, subst r1, subst t) simp
  with ne a b show ?thesis
    by (auto simp: list_all_iff dest: set_takeWhileD)
qed

lemma step_word_at_sound:
  assumes "step_word_at s = Some (a, b)"
  shows "a \<noteq> [] \<and> b \<noteq> [] \<and> list_all is_digit a \<and> list_all is_digit b \<and> sublist (a @ ''.'' @ b) s"
proof -
  from assms have d: "digits_dot_digits (dropWhile is_ws (drop 4 s)) = Some (a, b)"
    by (simp add: step_word_at_def split: if_splits)
  have "suffix (dropWhile is_ws (drop 4 s)) s"
    by (metis suffix_drop suffix_dropWhile suffix_order.trans)
  with digits_dot_digits_sound [OF d] show ?thesis
    by (meson prefix_imp_sublist sublist_order.order.trans suffix_imp_sublist)
qed

lemma match_at_boundary_suffix:
  "match_at_boundary m p t = Some r \<Longrightarrow> \<exists>u. suffix u t \<and> m u = Some r"
proof (induction m p t rule: match_at_boundary.induct)
  case (1 m p)
  then show ?case by simp
next
  case (2 m p c cs)
  show ?case
  proof (cases "(if p then None else m (c # cs))")
    case None
    with 2 show ?thesis by (auto intro: suffix_ConsI)
  next
    case (Some r')
    with "2.prems" show ?thesis by (auto split: if_splits)
  qed
qed

section \<open>Properties of the freeform parser\<close>

text \<open>
  C10.  Every item the freeform parser puts in a list (quick drill, high-frequency
  words, word cards, the five word lists of the dictation) is non-empty, trimmed and
  free of the separators comma, semicolon and tab, and every word card it creates is
  a regular card.
\<close>

theorem parse_freeform_items_ok: "import_items_ok (parse_freeform text)"
  unfolding parse_freeform_def by (rule foldl_process_line_ok [OF freeform_start_ok])

text \<open>
  Later lines never remove or rewrite what earlier lines extracted: running
  the line loop on more lines only extends each list at its end (and the passage),
  and leaves the step and substep as they were.
\<close>

theorem process_lines_extend:
  "import_le (ff_out (foldl process_line st ls)) (ff_out (foldl process_line st (ls @ ms)))"
  by (simp add: foldl_process_line_le)

lemma digit_not_ws: "is_digit c \<Longrightarrow> \<not> is_ws c"
  by (auto simp: is_digit_def is_ws_def)

lemma digit_word_char: "is_digit c \<Longrightarrow> is_word_char c"
  by (simp add: is_word_char_def is_alnum_def)

lemma digits_dot_digits_intro:
  assumes "a \<noteq> []" "b \<noteq> []" "list_all is_digit a" "list_all is_digit b"
    "rest = [] \<or> \<not> is_word_char (hd rest)"
  shows "digits_dot_digits (a @ ''.'' @ b @ rest) = Some (a, b)"
proof -
  have nd: "\<not> is_digit (CHR ''.'')" by (simp add: is_digit_def)
  have ta: "takeWhile is_digit (a @ ''.'' @ b @ rest) = a"
    using assms(3) nd by (simp add: takeWhile_append list_all_iff)
  have nr: "rest = [] \<or> \<not> is_digit (hd rest)" using assms(5) digit_word_char by blast
  have tb: "takeWhile is_digit (b @ rest) = b"
    using assms(4) nr by (cases rest) (auto simp: takeWhile_append list_all_iff)
  show ?thesis using assms ta tb by (simp add: digits_dot_digits_def Let_def)
qed

lemma detect_step_intro:
  assumes "a \<noteq> []" "b \<noteq> []" "list_all is_digit a" "list_all is_digit b"
    "rest = [] \<or> \<not> is_word_char (hd rest)"
  shows "detect_step (''Step '' @ a @ ''.'' @ b @ rest) = Some (a, b)"
proof -
  have hd: "\<not> is_ws (hd a)" using assms(1,3) digit_not_ws by (cases a) auto
  have dw: "dropWhile is_ws (a @ ''.'' @ b @ rest) = a @ ''.'' @ b @ rest"
    using hd assms(1) by (cases a) auto
  have low: "to_lower ''Step'' = ''step''" by code_simp
  have "step_word_at (''Step '' @ a @ ''.'' @ b @ rest) = Some (a, b)"
    using digits_dot_digits_intro [OF assms] dw low
    by (simp add: step_word_at_def is_ws_def)
  then show ?thesis by (simp add: detect_step_def)
qed

lemma keyword_mode_nonsense_words:
  assumes "starts_with lower ''nonsense words:''" "\<not> js_includes lower ''sound''"
  shows "keyword_mode lower cur = DReal"
proof -
  have "sublist ''words'' ''nonsense words:''" by (simp add: sublist_def) (metis append_Cons append_Nil)
  then have w: "js_includes lower ''words''"
    using assms(1) by (auto simp: js_simps intro: sublist_order.order.trans prefix_imp_sublist)
  have "\<not> js_includes lower ''sounds''" "\<not> js_includes lower ''sounds:''" "\<not> starts_with lower ''sound''"
    using assms(2) by (auto simp: js_simps
      intro: sublist_order.order.trans [of "''sound''" "''sounds''"] sublist_order.order.trans [of "''sound''" "''sounds:''"])
  with w show ?thesis by (simp add: keyword_mode_def)
qed

lemma cleanLine_digit:
  assumes "is_digit d"
  shows "\<exists>r'. cleanLine (d # r) = d # r'"
proof -
  have nw: "\<not> is_ws d" using assms by (rule digit_not_ws)
  have "\<exists>x. dropWhile is_ws (rev r @ [d]) = x @ [d]"
    using nw by (cases "\<exists>x\<in>set (rev r). \<not> is_ws x") (auto simp: dropWhile_append)
  then obtain x where "dropWhile is_ws (rev (d # r)) = x @ [d]" by auto
  then have t: "js_trim (d # r) = d # rev x" using nw by (simp add: js_trim_def)
  have nb: "\<not> starts_with (d # y) b" if "b \<in> set bullets" for b y
    using that assms by (auto simp: bullets_def is_digit_def)
  have "find (\<lambda>b. starts_with (d # rev x) b \<and>
      (case drop (length b) (d # rev x) of c # _ \<Rightarrow> is_ws c | [] \<Rightarrow> False)) bullets = None"
    using nb by (auto simp: find_None_iff)
  then have "strip_bullet (d # rev x) = d # rev x"
    by (simp add: strip_bullet_def)
  moreover have "d \<noteq> CHR ''['' \<and> d \<noteq> CHR '']'' \<and> d \<noteq> CHR 0x09" using assms by (auto simp: is_digit_def)
  ultimately show ?thesis by (simp add: cleanLine_def t)
qed

lemma numeric_mode_letter:
  assumes "starts_with (to_lower (cleanLine l)) ''n''"
  shows "numeric_mode l cur = cur"
proof (cases l)
  case (Cons d r)
  show ?thesis
  proof (cases "is_digit d")
    case True
    then obtain r' where "cleanLine l = d # r'" using cleanLine_digit Cons by blast
    moreover have "lower_char d = d"
      using True by (intro lower_char_non_upper) (simp add: is_digit_def is_upper_def Let_def)
    ultimately have "d = CHR ''n''" using assms by (simp add: to_lower_def)
    with True show ?thesis by (simp add: is_digit_def)
  next
    case False
    then have "d \<notin> {CHR ''1'', CHR ''2'', CHR ''3'', CHR ''4'', CHR ''5'', CHR ''6''}"
      by (auto simp: is_digit_def)
    then show ?thesis using Cons by (auto simp: numeric_mode_def split: list.split)
  qed
qed (simp add: numeric_mode_def)

text \<open>
  The step and substep of the freeform result are exactly the pair that the
  step detection finds in the whole text; no line of the loop changes them.
\<close>

lemma parse_freeform_step_detect:
  "imp_step (parse_freeform text) = map_option fst (detect_step text) \<and>
   imp_substep (parse_freeform text) = map_option snd (detect_step text)"
  using foldl_process_line_le [of "freeform_start text" "text_lines text"]
  by (simp add: parse_freeform_def import_le_def freeform_start_def empty_import_def
      split: option.splits)

text \<open>
  C12.  A lesson text that opens with \<open>Step a.b\<close>, for digit strings \<open>a\<close> and \<open>b\<close>
  with no word character after \<open>b\<close>, imports step \<open>a\<close> and substep \<open>b\<close>.
\<close>

theorem parse_freeform_step_header:
  assumes "a \<noteq> []" "b \<noteq> []" "list_all is_digit a" "list_all is_digit b"
    "rest = [] \<or> \<not> is_word_char (hd rest)"
  shows "imp_step (parse_freeform (''Step '' @ a @ ''.'' @ b @ rest)) = Some a \<and>
    imp_substep (parse_freeform (''Step '' @ a @ ''.'' @ b @ rest)) = Some b"
  using parse_freeform_step_detect [of "''Step '' @ a @ ''.'' @ b @ rest"] detect_step_intro [OF assms]
  by simp

text \<open>
  A detected step and substep are non-empty digit strings that occur in the
  text joined by a dot.
\<close>

theorem detect_step_sound:
  assumes "detect_step text = Some (a, b)"
  shows "a \<noteq> [] \<and> b \<noteq> [] \<and> list_all is_digit a \<and> list_all is_digit b \<and>
    js_includes text (a @ ''.'' @ b)"
proof (cases "match_at_boundary step_word_at False text")
  case None
  with assms obtain u where "suffix u text" "digits_dot_digits u = Some (a, b)"
    by (auto simp: detect_step_def dest: match_at_boundary_suffix)
  then show ?thesis
    by (meson digits_dot_digits_sound includes_sublist prefix_imp_sublist sublist_order.order.trans suffix_imp_sublist)
next
  case (Some r)
  with assms obtain u where "suffix u text" "step_word_at u = Some (a, b)"
    by (auto simp: detect_step_def dest: match_at_boundary_suffix)
  then show ?thesis
    by (meson step_word_at_sound includes_sublist sublist_order.order.trans suffix_imp_sublist)
qed

theorem detect_step_sound_witness:
  "detect_step ''see Step 2.13.'' = Some (''2'', ''13'') \<and> js_includes ''see Step 2.13.'' ''2.13''"
proof -
  have h: "detect_step ''see Step 2.13.'' = Some (''2'', ''13'')" by code_simp
  from detect_step_sound [OF h] h show ?thesis by simp
qed

text \<open>
  The sectioning example of the specification: a quick-drill header with
  inline items, a word-cards header followed by a line of words, and a sentences
  header followed by a sentence.
\<close>

theorem parse_freeform_sectioning_example:
  "parse_freeform (''Quick Drill: a, b, sh'' @ [CHR 0x0A] @ ''Word Cards:'' @ [CHR 0x0A] @
     ''cat, dog'' @ [CHR 0x0A] @ ''Sentences for Reading'' @ [CHR 0x0A] @ ''The dog ran far.'') =
   empty_import\<lparr>imp_quickDrill := [''a'', ''b'', ''sh''],
     imp_wordCards := [(''cat'', Regular), (''dog'', Regular)],
     imp_sentences := [''The dog ran far.'']\<rparr>"
  by code_simp

text \<open>
  The numeric fallback of the dictation sub-modes: lines numbered 1, 2 and 6
  go to sounds, real words and sentences when no keyword names the sub-list.
\<close>

theorem parse_freeform_dictation_numbered:
  "imp_dictation (parse_freeform (''Dictation'' @ [CHR 0x0A] @ ''1. a, th'' @ [CHR 0x0A] @
     ''2. cat, dog'' @ [CHR 0x0A] @ ''6. The sun is hot today.'')) =
   empty_dictation\<lparr>dict_sounds := [''a'', ''th''], dict_realWords := [''cat'', ''dog''],
     dict_sentences := [''The sun is hot today.'']\<rparr>"
  by code_simp

text \<open>
  On the empty text the freeform parser returns the initial record: every list
  present and empty, no step, substep or passage.
\<close>

theorem parse_freeform_empty: "parse_freeform [] = empty_import"
  by code_simp

text \<open>
  In a dictation block a line headed \<open>Nonsense Words:\<close> fills the real-words
  list: the keyword test for real words (\<open>includes('words')\<close>) comes before the
  test for nonsense words, so the nonsense list stays empty.
\<close>

theorem parse_freeform_nonsense_to_real:
  "imp_dictation (parse_freeform (''Dictation'' @ [CHR 0x0A] @ ''Nonsense Words: zat, mip'')) =
   empty_dictation\<lparr>dict_realWords := [''zat'', ''mip'']\<rparr>"
  by code_simp

text \<open>
  C15.  In a dictation block every line headed \<open>Nonsense Words:\<close> (in any case, and
  without the word \<open>sound\<close>) fills the real-words list and leaves the nonsense list
  unchanged: the keyword test \<open>includes('words')\<close> for real words comes before the
  test for nonsense words.
\<close>

theorem dictation_nonsense_to_real:
  assumes "ff_section st = DictationSec" "header_section (to_lower (cleanLine l)) = None"
    "starts_with (to_lower (cleanLine l)) ''nonsense words:''" "\<not> js_includes (to_lower (cleanLine l)) ''sound''"
  shows "dict_nonsenseWords (imp_dictation (ff_out (process_line st l))) = dict_nonsenseWords (imp_dictation (ff_out st)) \<and>
    dict_realWords (imp_dictation (ff_out (process_line st l))) = dict_realWords (imp_dictation (ff_out st)) @
      (if js_trim (after_colon (cleanLine l)) = [] then [] else extractList (after_colon (cleanLine l)))"
proof -
  have k: "keyword_mode (to_lower (cleanLine l)) (ff_mode st) = DReal"
    using assms(3,4) by (rule keyword_mode_nonsense_words)
  have "starts_with (to_lower (cleanLine l)) ''n''"
    using assms(3) by (auto simp: js_simps prefix_def)
  then have n: "numeric_mode l (ff_mode st) = ff_mode st" by (rule numeric_mode_letter)
  have m: "detect_mode l (cleanLine l) (ff_mode st) = DReal"
    using k n by (auto simp: detect_mode_def Let_def)
  have "CHR '':'' \<in> set (to_lower (cleanLine l))"
    using assms(3) by (auto simp: js_simps dest: set_mono_prefix)
  then obtain x where x: "x \<in> set (cleanLine l)" "lower_char x = CHR '':''"
    by (auto simp: to_lower_def)
  moreover have "is_plain (CHR '':'')" by (simp add: is_plain_def is_upper_def is_lower_def)
  ultimately have "CHR '':'' \<in> set (cleanLine l)"
    using lower_char_eq_plain_iff [of "CHR '':''" x] by simp
  then have c: "dictation_content (cleanLine l) = after_colon (cleanLine l)"
    by (simp add: dictation_content_def)
  show ?thesis using assms(1,2) m c
    by (simp add: process_line_def section_content_def add_dictation_def Let_def)
qed

text \<open>
  The section keywords are plain substrings: a \<open>Part 10\<close> header contains
  \<open>part 1\<close> and opens the quick drill (its inline content goes there), and a
  quick-drill line that contains \<open>part\<close>, as \<open>party\<close> does, is dropped whole.
\<close>

theorem parse_freeform_part_substrings:
  "imp_quickDrill (parse_freeform ''Part 10: Passage'') = [''Passage''] \<and>
   imp_passage (parse_freeform ''Part 10: Passage'') = None \<and>
   imp_quickDrill (parse_freeform (''Quick Drill'' @ [CHR 0x0A] @ ''party, a, sh'')) = []"
  by code_simp

text \<open>
  A header keeps only the text between its first and its second colon as
  inline content, and the headers of the sentences, dictation and passage sections
  keep none of it.
\<close>

theorem parse_freeform_header_content:
  "imp_quickDrill (parse_freeform ''Quick Drill: a: b'') = [''a''] \<and>
   imp_sentences (parse_freeform ''Sentences for Reading: The dog ran.'') = []"
  by code_simp

theorem parse_freeform_step_header_witness:
  "''3'' \<noteq> [] \<and> ''12'' \<noteq> [] \<and> list_all is_digit ''3'' \<and> list_all is_digit ''12'' \<and>
   (''. Closed syllables'' = [] \<or> \<not> is_word_char (hd ''. Closed syllables'')) \<and>
   imp_step (parse_freeform (''Step '' @ ''3'' @ ''.'' @ ''12'' @ ''. Closed syllables'')) = Some ''3'' \<and>
   imp_substep (parse_freeform (''Step '' @ ''3'' @ ''.'' @ ''12'' @ ''. Closed syllables'')) = Some ''12''"
proof -
  have h: "''3'' \<noteq> []" "''12'' \<noteq> []" "list_all is_digit ''3''" "list_all is_digit ''12''"
    "''. Closed syllables'' = [] \<or> \<not> is_word_char (hd ''. Closed syllables'')"
    by code_simp+
  from parse_freeform_step_header [OF h] h show ?thesis by blast
qed

theorem dictation_nonsense_to_real_witness:
  "ff_section \<lparr>ff_out = empty_import, ff_section = DictationSec, ff_mode = DNone\<rparr> = DictationSec \<and>
   header_section (to_lower (cleanLine ''Nonsense Words: zat, mip'')) = None \<and>
   starts_with (to_lower (cleanLine ''Nonsense Words: zat, mip'')) ''nonsense words:'' \<and>
   \<not> js_includes (to_lower (cleanLine ''Nonsense Words: zat, mip'')) ''sound'' \<and>
   dict_nonsenseWords (imp_dictation (ff_out (process_line \<lparr>ff_out = empty_import, ff_section = DictationSec, ff_mode = DNone\<rparr>
      ''Nonsense Words: zat, mip''))) = [] \<and>
   dict_realWords (imp_dictation (ff_out (process_line \<lparr>ff_out = empty_import, ff_section = DictationSec, ff_mode = DNone\<rparr>
      ''Nonsense Words: zat, mip''))) = [''zat'', ''mip'']"
proof -
  let ?st = "\<lparr>ff_out = empty_import, ff_section = DictationSec, ff_mode = DNone\<rparr>"
  have h: "ff_section ?st = DictationSec" "header_section (to_lower (cleanLine ''Nonsense Words: zat, mip'')) = None"
    "starts_with (to_lower (cleanLine ''Nonsense Words: zat, mip'')) ''nonsense words:''"
    "\<not> js_includes (to_lower (cleanLine ''Nonsense Words: zat, mip'')) ''sound''"
    by code_simp+
  have e: "extractList (after_colon (cleanLine ''Nonsense Words: zat, mip'')) = [''zat'', ''mip'']"
    "js_trim (after_colon (cleanLine ''Nonsense Words: zat, mip'')) \<noteq> []" by code_simp+
  from dictation_nonsense_to_real [OF h] h e show ?thesis by (simp add: empty_import_def empty_dictation_def)
qed

end
