(* ===== verification/Importer.thy ===== *)
theory Importer
  imports Csv Importer_Text
begin

text \<open>
  The entry point \<open>parseLessonText\<close> of \<open>src/App.tsx\<close> (lines 537--649): the
  CSV detector, the header index map, the search for the target data row, the
  extraction of the lesson fields from that row by header aliases, and the recursive
  call on the dictation cell.  A \<open>TypeError\<close> the source can raise is the left
  value of the result.  The recursion is a \<open>function\<close> whose termination measure is
  whether the text contains a line break: a cell of one CSV line never does.
\<close>

datatype js_error = TypeError

section \<open>The CSV path\<close>

text \<open>\<open>lines[0].trim()\<close> and the detector of line 550.\<close>

definition is_csv :: "js_string \<Rightarrow> bool" where
  "is_csv text =
     (let ls = split_on CHR 0x0A text; first = js_trim (hd ls)
      in starts_with first '',,'' \<or> (js_includes first '','' \<and> 2 < length ls))"

text \<open>\<open>indices[h.toLowerCase().trim()] = i\<close> over the header row: the last column wins.\<close>

definition header_indices :: "js_string list \<Rightarrow> js_string \<rightharpoonup> nat" where
  "header_indices hs = foldl (\<lambda>m (i, h). m(js_trim (to_lower h) \<mapsto> i)) Map.empty (enumerate 0 hs)"

text \<open>\<open>targetStep && targetSubstep ? `${targetStep}.${targetSubstep}` : null\<close>\<close>

definition target_identifier :: "js_string option \<Rightarrow> js_string option \<Rightarrow> js_string option" where
  "target_identifier ts tss =
     (case (ts, tss) of
        (Some a, Some b) \<Rightarrow> if a \<noteq> [] \<and> b \<noteq> [] then Some (a @ ''.'' @ b) else None
      | _ \<Rightarrow> None)"

text \<open>
  \<open>indices['lesson plan'] !== undefined ? row[indices['lesson plan']]?.trim() : ''\<close>:
  \<open>None\<close> is \<open>undefined\<close>, the value of a column the row does not reach.
\<close>

definition lesson_plan_col :: "(js_string \<rightharpoonup> nat) \<Rightarrow> js_string list \<Rightarrow> js_string option" where
  "lesson_plan_col idx row =
     (case idx ''lesson plan'' of
        None \<Rightarrow> Some []
      | Some k \<Rightarrow> if k < length row then Some (js_trim (row ! k)) else None)"

text \<open>
  The loop of lines 569--589 over \<open>lines[1..]\<close>.  With a target, an undefined
  lesson-plan column reaches \<open>colLessonPlan.startsWith\<close> unless the first column
  already matched: a \<open>TypeError\<close>.
\<close>

fun find_data_row ::
  "js_string option \<Rightarrow> (js_string \<rightharpoonup> nat) \<Rightarrow> js_string list \<Rightarrow> js_error + js_string list option" where
  "find_data_row t idx [] = Inr None"
| "find_data_row t idx (l # ls) =
     (let row = parseCSVLine l in
      if length row < 2 then find_data_row t idx ls
      else
        (let col0 = js_trim (hd row); lp = lesson_plan_col idx row in
         case t of
           Some tid \<Rightarrow>
             if col0 = tid then Inr (Some row)
             else
               (case lp of
                  None \<Rightarrow> Inl TypeError
                | Some c \<Rightarrow> if starts_with c tid then Inr (Some row) else find_data_row t idx ls)
         | None \<Rightarrow>
             if col0 \<noteq> [] \<or> lp \<noteq> None \<and> lp \<noteq> Some [] then Inr (Some row)
             else find_data_row t idx ls))"

text \<open>\<open>getCol\<close>: the first alias whose column exists and holds a non-empty cell.\<close>

fun getCol :: "(js_string \<rightharpoonup> nat) \<Rightarrow> js_string list \<Rightarrow> js_string list \<Rightarrow> js_string" where
  "getCol idx row [] = []"
| "getCol idx row (h # hs) =
     (case idx (to_lower h) of
        Some i \<Rightarrow> if i < length row \<and> row ! i \<noteq> [] then row ! i else getCol idx row hs
      | None \<Rightarrow> getCol idx row hs)"

text \<open>\<open>getList\<close>: the cell split on commas and line breaks, trimmed, empties dropped.\<close>

definition getList :: "(js_string \<rightharpoonup> nat) \<Rightarrow> js_string list \<Rightarrow> js_string list \<Rightarrow> js_string list" where
  "getList idx row hs =
     (let raw = getCol idx row hs in
      if raw \<noteq> [] then
        filter (\<lambda>s. s \<noteq> []) (map js_trim (split_when (\<lambda>c. c = CHR '','' \<or> c = CHR 0x0A) raw))
      else [])"

text \<open>\<open>if (!extracted.step && targetStep) extracted.step = targetStep\<close>\<close>

definition js_truthy_opt :: "js_string option \<Rightarrow> js_string option" where
  "js_truthy_opt v = (case v of Some s \<Rightarrow> if s \<noteq> [] then Some s else None | None \<Rightarrow> None)"

text \<open>Lines 608--645: the fields of the data row; \<open>d\<close> is the dictation to store.\<close>

definition csv_extract ::
  "js_string option \<Rightarrow> js_string option \<Rightarrow> (js_string \<rightharpoonup> nat) \<Rightarrow> js_string list \<Rightarrow>
   DictationSection \<Rightarrow> LessonImport" where
  "csv_extract ts tss idx row d =
     (let raw_sentences = getCol idx row [''sentences'', ''reading sentences'']
      in empty_import\<lparr>
           imp_step := js_truthy_opt ts,
           imp_substep := js_truthy_opt tss,
           imp_quickDrill := getList idx row [''new sound cards'', ''pa drill'', ''spelling sounds''],
           imp_hfwList := getList idx row [''new sight words'', ''sight words''],
           imp_wordCards := regular_cards (getList idx row [''new vocab words''] @
             getList idx row [''vocab from sentences''] @ getList idx row [''vocab from connected text'']),
           imp_sentences :=
             (if raw_sentences \<noteq> []
              then filter (\<lambda>s. 5 < length s) (map js_trim (split_on CHR 0x0A raw_sentences))
              else []),
           imp_passage := Some (getCol idx row [''connected text'', ''reader'']),
           imp_dictation := d\<rparr>)"

text \<open>The header row's index map (lines 549, 555--562).\<close>

definition csv_header :: "js_string \<Rightarrow> js_string \<rightharpoonup> nat" where
  "csv_header text = header_indices (parseCSVLine (js_trim (hd (split_on CHR 0x0A text))))"

text \<open>The list fields of an import hold non-empty trimmed items, and its cards are regular.\<close>

definition items_trimmed :: "LessonImport \<Rightarrow> bool" where
  "items_trimmed r \<longleftrightarrow>
     list_all (\<lambda>x. x \<noteq> [] \<and> js_trim x = x) (imp_quickDrill r @ imp_hfwList r @ map fst (imp_wordCards r)) \<and>
     list_all (\<lambda>c. snd c = Regular) (imp_wordCards r)"

section \<open>The entry point\<close>

function parseLessonText ::
  "js_string \<Rightarrow> js_string option \<Rightarrow> js_string option \<Rightarrow> js_error + LessonImport" where
  "parseLessonText text ts tss =
     (let ls = split_on CHR 0x0A text in
      if is_csv text then
        (let idx = csv_header text in
         case find_data_row (target_identifier ts tss) idx (tl ls) of
           Inl e \<Rightarrow> Inl e
         | Inr None \<Rightarrow> Inr (parse_freeform text)
         | Inr (Some row) \<Rightarrow>
             (let dt = getCol idx row [''dictation''] in
              if dt = [] then Inr (csv_extract ts tss idx row empty_dictation)
              else
                (case parseLessonText dt None None of
                   Inl e \<Rightarrow> Inl e
                 | Inr r \<Rightarrow> Inr (csv_extract ts tss idx row (imp_dictation r)))))
      else Inr (parse_freeform text))"
  by pat_completeness auto

section \<open>Lemmas\<close>

lemma find_data_row_from:
  "find_data_row t idx ls = Inr (Some row) \<Longrightarrow> \<exists>l \<in> set ls. row = parseCSVLine l"
  by (induction t idx ls rule: find_data_row.induct)
    (auto simp: Let_def split: if_splits option.splits)

lemma getCol_cell: "getCol idx row hs \<noteq> [] \<Longrightarrow> getCol idx row hs \<in> set row"
  by (induction idx row hs rule: getCol.induct) (auto split: option.splits)

lemma dictation_cell_single_line:
  assumes "find_data_row t idx (tl (split_on CHR 0x0A text)) = Inr (Some row)"
    and "getCol idx row hs \<noteq> []"
  shows "CHR 0x0A \<notin> set (getCol idx row hs) \<and> CHR 0x0A \<in> set text"
proof -
  obtain l where l: "l \<in> set (tl (split_on CHR 0x0A text))" "row = parseCSVLine l"
    using find_data_row_from [OF assms(1)] by blast
  then have "l \<in> set (split_on CHR 0x0A text)"
    by (cases "split_on CHR 0x0A text") auto
  then have "CHR 0x0A \<notin> set l"
    by (rule split_on_no_sep)
  moreover have "set (getCol idx row hs) \<subseteq> set l"
    using getCol_cell [OF assms(2)] l(2) parseCSVLine_chars by blast
  moreover have "CHR 0x0A \<in> set text"
    using l(1) by (intro split_on_tl_sep) auto
  ultimately show ?thesis by blast
qed

termination parseLessonText
  by (relation "measure (\<lambda>(text, _, _). if CHR 0x0A \<in> set text then 1 else 0)")
    (auto simp del: getCol.simps dest: dictation_cell_single_line)

declare parseLessonText.simps [simp del]

lemma find_data_row_no_target: "find_data_row None idx ls \<noteq> Inl e"
  by (induction ls) (simp_all add: Let_def)

lemma find_data_row_error:
  "find_data_row t idx ls = Inl e \<Longrightarrow> t \<noteq> None \<and> idx ''lesson plan'' \<noteq> None"
  by (induction ls) (auto simp: Let_def lesson_plan_col_def split: if_splits option.splits)

lemma apply_header_dictation:
  "imp_dictation (ff_out (apply_header st line sec)) = imp_dictation (ff_out st)"
  by (cases sec) (simp_all add: apply_header_def Let_def)

lemma process_line_no_section_dictation:
  "ff_section st = NoSection \<Longrightarrow>
   imp_dictation (ff_out (process_line st l)) = imp_dictation (ff_out st)"
  by (simp add: process_line_def section_content_def apply_header_dictation Let_def split: option.split)

text \<open>A text of one line never reaches the dictation section with content to add.\<close>

lemma parse_freeform_one_line_dictation:
  assumes "CHR 0x0A \<notin> set text"
  shows "imp_dictation (parse_freeform text) = empty_dictation"
proof -
  have "text_lines text = [] \<or> text_lines text = [js_trim text]"
    using assms by (simp add: text_lines_def split_on_notin)
  moreover have "ff_section (freeform_start text) = NoSection"
    and "imp_dictation (ff_out (freeform_start text)) = empty_dictation"
    by (simp_all add: freeform_start_def empty_import_def split: option.split prod.split)
  ultimately show ?thesis
    by (auto simp: parse_freeform_def process_line_no_section_dictation)
qed

lemma parseLessonText_one_line:
  "CHR 0x0A \<notin> set text \<Longrightarrow> parseLessonText text ts tss = Inr (parse_freeform text)"
  by (subst parseLessonText.simps) (simp add: split_on_notin Let_def)

lemma dictation_cell_parse:
  assumes "find_data_row t (csv_header text) (tl (split_on CHR 0x0A text)) = Inr (Some row)"
    and "getCol (csv_header text) row hs \<noteq> []"
  shows "parseLessonText (getCol (csv_header text) row hs) ts tss =
           Inr (parse_freeform (getCol (csv_header text) row hs)) \<and>
         imp_dictation (parse_freeform (getCol (csv_header text) row hs)) = empty_dictation"
proof -
  have "CHR 0x0A \<notin> set (getCol (csv_header text) row hs)"
    using dictation_cell_single_line [OF assms] by blast
  then show ?thesis
    by (simp add: parseLessonText_one_line parse_freeform_one_line_dictation)
qed

lemma getList_trimmed: "x \<in> set (getList idx row hs) \<Longrightarrow> x \<noteq> [] \<and> js_trim x = x"
  by (auto simp: getList_def Let_def js_trim_idem)

lemma csv_extract_trimmed: "items_trimmed (csv_extract ts tss idx row d)"
  by (auto simp: items_trimmed_def csv_extract_def Let_def empty_import_def regular_cards_def
      list_all_iff dest: getList_trimmed)

lemma parse_freeform_trimmed: "items_trimmed (parse_freeform text)"
proof -
  have "import_items_ok (parse_freeform text)"
    unfolding parse_freeform_def by (rule foldl_process_line_ok [OF freeform_start_ok])
  then show ?thesis
    by (auto simp: import_items_ok_def items_trimmed_def list_item_ok_def list_all_iff)
qed

section \<open>Properties of the importer\<close>

text \<open>
  C18.  The recursion on the dictation cell is void: the importer equals the
  non-recursive function below, in which a CSV data row always yields an empty
  dictation.  A cell comes from one line of the text, the freeform parser reads it
  as a single line, and a single line never adds to the dictation.
\<close>

theorem parseLessonText_flat:
  "parseLessonText text ts tss =
     (if is_csv text then
        (case find_data_row (target_identifier ts tss) (csv_header text) (tl (split_on CHR 0x0A text)) of
           Inl e \<Rightarrow> Inl e
         | Inr None \<Rightarrow> Inr (parse_freeform text)
         | Inr (Some row) \<Rightarrow> Inr (csv_extract ts tss (csv_header text) row empty_dictation))
      else Inr (parse_freeform text))"
  by (subst parseLessonText.simps)
    (auto simp: Let_def dictation_cell_parse simp del: getCol.simps split: sum.split option.split)

text \<open>
  Without a target step and substep the importer never throws: every text
  gives a result.
\<close>

theorem parseLessonText_no_target_total: "\<exists>r. parseLessonText text None None = Inr r"
  by (subst parseLessonText.simps)
    (auto simp: Let_def dictation_cell_parse find_data_row_no_target target_identifier_def
      simp del: getCol.simps split: sum.split option.split)

text \<open>
  C20.  The importer throws only on the CSV path, with both target parts given, and
  when the header names a lesson-plan column: the \<open>TypeError\<close> of
  \<open>colLessonPlan.startsWith\<close> on a row too short to reach that column.
\<close>

theorem parseLessonText_error:
  assumes "parseLessonText text ts tss = Inl e"
  shows "is_csv text \<and> target_identifier ts tss \<noteq> None \<and> csv_header text ''lesson plan'' \<noteq> None"
  using assms
  by (subst (asm) parseLessonText.simps)
    (auto simp: Let_def dictation_cell_parse dest: find_data_row_error
      simp del: getCol.simps split: if_splits sum.splits option.splits)

theorem parseLessonText_error_witness:
  "parseLessonText (''Step,Day,Lesson Plan'' @ [CHR 0x0A] @ ''x,y'' @ [CHR 0x0A]) (Some ''3'') (Some ''1'') =
     Inl TypeError \<and>
   is_csv (''Step,Day,Lesson Plan'' @ [CHR 0x0A] @ ''x,y'' @ [CHR 0x0A])"
proof -
  have h: "parseLessonText (''Step,Day,Lesson Plan'' @ [CHR 0x0A] @ ''x,y'' @ [CHR 0x0A])
      (Some ''3'') (Some ''1'') = Inl TypeError"
    by code_simp
  from parseLessonText_error [OF h] h show ?thesis by simp
qed

text \<open>
  Every item the importer puts in the quick drill, the high-frequency words or
  the word cards is non-empty and trimmed, and every card is a regular card, on the
  CSV path and on the freeform path alike.
\<close>

theorem parseLessonText_items_trimmed:
  assumes "parseLessonText text ts tss = Inr r"
  shows "items_trimmed r"
  using assms
  by (subst (asm) parseLessonText.simps)
    (auto simp: Let_def csv_extract_trimmed parse_freeform_trimmed
      simp del: getCol.simps split: if_splits sum.splits option.splits)

theorem parseLessonText_items_trimmed_witness:
  "parseLessonText (''Quick Drill: a, b'') None None = Inr (parse_freeform ''Quick Drill: a, b'') \<and>
   items_trimmed (parse_freeform ''Quick Drill: a, b'')"
proof -
  have h: "parseLessonText (''Quick Drill: a, b'') None None = Inr (parse_freeform ''Quick Drill: a, b'')"
    by (rule parseLessonText_one_line) simp
  from parseLessonText_items_trimmed [OF h] h show ?thesis by simp
qed

text \<open>
  The CSV round trip of the specification, with the line break that ends the
  data row: the row of target 3.1 is found by its lesson-plan column, its sight
  words are split at the comma inside the quotes, and the step and substep are the
  targets.
\<close>

theorem parseLessonText_csv_example:
  "parseLessonText (''Lesson Plan,New Sight Words,Sentences'' @ [CHR 0x0A] @
      [quote_char] @ ''3.1'' @ [quote_char, CHR '',''] @ [quote_char] @ ''full,pull'' @
      [quote_char, CHR '',''] @ [quote_char] @ ''The cat sat. More text here.'' @ [quote_char] @
      [CHR 0x0A]) (Some ''3'') (Some ''1'') =
   Inr (empty_import\<lparr>imp_step := Some ''3'', imp_substep := Some ''1'',
     imp_hfwList := [''full'', ''pull''], imp_sentences := [''The cat sat. More text here.''],
     imp_passage := Some []\<rparr>)"
  by code_simp

text \<open>
  Without that final line break the same two lines are not taken for CSV (the
  detector wants more than two lines): the text goes to the freeform parser, which
  files the quoted cells, quotes and all, under the sight words.
\<close>

theorem parseLessonText_two_line_csv:
  "parseLessonText (''Lesson Plan,New Sight Words,Sentences'' @ [CHR 0x0A] @
      [quote_char] @ ''3.1'' @ [quote_char, CHR '',''] @ [quote_char] @ ''full,pull'' @
      [quote_char]) (Some ''3'') (Some ''1'') =
   Inr (empty_import\<lparr>imp_step := Some ''3'', imp_substep := Some ''1'',
     imp_hfwList := [[quote_char] @ ''3.1'' @ [quote_char], [quote_char] @ ''full'', ''pull'' @ [quote_char]]\<rparr>)"
  by code_simp

text \<open>
  The data row the search returns for a target is a row of at least two cells
  of one of the scanned lines, whose first cell is the target or whose lesson-plan
  cell starts with it.
\<close>

theorem find_data_row_target:
  assumes "find_data_row (Some tid) idx ls = Inr (Some row)"
  shows "2 \<le> length row \<and> (\<exists>l \<in> set ls. row = parseCSVLine l) \<and>
    (js_trim (hd row) = tid \<or> (\<exists>c. lesson_plan_col idx row = Some c \<and> starts_with c tid))"
  using assms
  by (induction ls) (auto simp: Let_def split: if_splits option.splits)

theorem find_data_row_target_witness:
  "find_data_row (Some ''3.1'') (header_indices [''lesson plan'', ''x''])
     [''2.1,a'', ''3.1 Review,b''] = Inr (Some [''3.1 Review'', ''b'']) \<and>
   lesson_plan_col (header_indices [''lesson plan'', ''x'']) [''3.1 Review'', ''b''] = Some ''3.1 Review''"
proof -
  have h: "find_data_row (Some ''3.1'') (header_indices [''lesson plan'', ''x''])
     [''2.1,a'', ''3.1 Review,b''] = Inr (Some [''3.1 Review'', ''b''])"
    by code_simp
  have "lesson_plan_col (header_indices [''lesson plan'', ''x'']) [''3.1 Review'', ''b''] = Some ''3.1 Review''"
    by code_simp
  with find_data_row_target [OF h] h show ?thesis by simp
qed

end
