(* ===== verification/Server.thy ===== *)
theory Server
  imports Prelude "HOL-Library.AList"
begin

text \<open>
  The save store of \<open>src/server/index.js\<close>: an Express server that keeps each save
  as a JSON file \<open>saves/<id>.json\<close> and answers five routes.  The saves directory is
  an association list from file names to file contents in \<open>readdirSync\<close> order;
  \<open>writeFileSync\<close> is \<open>AList.update\<close> (a new file is listed last) and
  \<open>unlinkSync\<close> is \<open>AList.delete\<close>.  A file whose content does not parse is
  \<open>Unreadable\<close>.  The JSON values a client sends are a \<open>json\<close> datatype with
  JavaScript truthiness; an absent field is \<open>None\<close>.  \<open>Date.now()\<close> and the random
  part of a new id are inputs of the request handler.
\<close>

section \<open>Data\<close>

datatype json =
  JNull | JBool bool | JNum int | JStr js_string | JArr "json list" | JObj "(js_string \<times> json) list"

text \<open>JavaScript truthiness of a field that may be absent (\<open>undefined\<close>).\<close>

fun js_truthy :: "json option \<Rightarrow> bool" where
  "js_truthy None = False"
| "js_truthy (Some JNull) = False"
| "js_truthy (Some (JBool b)) = b"
| "js_truthy (Some (JNum n)) = (n \<noteq> 0)"
| "js_truthy (Some (JStr s)) = (s \<noteq> [])"
| "js_truthy (Some (JArr _)) = True"
| "js_truthy (Some (JObj _)) = True"

text \<open>\<open>v || d\<close>\<close>

definition js_or :: "json option \<Rightarrow> json \<Rightarrow> json" where
  "js_or v d = (case v of Some x \<Rightarrow> if js_truthy v then x else d | None \<Rightarrow> d)"

text \<open>The object a save file holds (lines 125--132).\<close>

record save =
  save_id :: js_string
  save_name :: json
  save_data :: json
  save_metadata :: json
  save_createdAt :: int
  save_updatedAt :: int

text \<open>The listing entry of \<open>getAllSaves\<close> (lines 37--43): the save without its data.\<close>

record save_summary =
  sum_id :: js_string
  sum_name :: json
  sum_createdAt :: int
  sum_updatedAt :: int
  sum_metadata :: json

definition summary :: "save \<Rightarrow> save_summary" where
  "summary s =
     \<lparr>sum_id = save_id s, sum_name = save_name s, sum_createdAt = save_createdAt s,
      sum_updatedAt = save_updatedAt s, sum_metadata = save_metadata s\<rparr>"

datatype save_file = SaveFile save | Unreadable

type_synonym saves_dir = "(js_string \<times> save_file) list"

definition MAX_SAVES :: nat where
  "MAX_SAVES = 100"

definition save_file_name :: "js_string \<Rightarrow> js_string" where
  "save_file_name i = i @ ''.json''"

section \<open>File system\<close>

definition fs_write :: "saves_dir \<Rightarrow> js_string \<Rightarrow> save_file \<Rightarrow> saves_dir" where
  "fs_write dir f c = AList.update f c dir"

definition fs_unlink :: "saves_dir \<Rightarrow> js_string \<Rightarrow> saves_dir" where
  "fs_unlink dir f = AList.delete f dir"

section \<open>Helpers\<close>

text \<open>The readable \<open>.json\<close> files of the directory, in directory order (lines 30--49).\<close>

definition read_saves :: "saves_dir \<Rightarrow> save list" where
  "read_saves dir = [s. (f, SaveFile s) \<leftarrow> dir, ends_with f ''.json'']"

text \<open>\<open>getAllSaves\<close>: newest first; \<open>Array.prototype.sort\<close> is stable, as \<open>sort_key\<close> is.\<close>

definition getAllSaves :: "saves_dir \<Rightarrow> save_summary list" where
  "getAllSaves dir = sort_key (\<lambda>s. - sum_updatedAt s) (map summary (read_saves dir))"

text \<open>\<open>enforceMaxSaves\<close>: at the cap, every save but the \<open>MAX_SAVES - 1\<close> newest is deleted.\<close>

definition enforceMaxSaves :: "saves_dir \<Rightarrow> saves_dir" where
  "enforceMaxSaves dir =
     (let saves = getAllSaves dir in
      if MAX_SAVES \<le> length saves
      then foldl (\<lambda>d s. fs_unlink d (save_file_name (sum_id s))) dir (drop (MAX_SAVES - 1) saves)
      else dir)"

section \<open>Routes\<close>

datatype request =
    ListSaves
  | GetSave js_string
  | CreateSave "json option" "json option" "json option"
  | UpdateSave js_string "json option" "json option"
  | DeleteSave js_string

datatype response =
    SaveList "save_summary list" nat nat
  | SaveBody save
  | SaveInfo save_summary
  | Deleted
  | HttpError nat js_string

text \<open>\<open>GET /api/saves\<close> (lines 77--89).\<close>

definition list_saves :: "saves_dir \<Rightarrow> response \<times> saves_dir" where
  "list_saves dir = (let saves = getAllSaves dir in (SaveList saves (length saves) MAX_SAVES, dir))"

text \<open>\<open>GET /api/saves/:id\<close> (lines 92--108); \<open>JSON.parse\<close> failing is the 500 branch.\<close>

definition get_save :: "js_string \<Rightarrow> saves_dir \<Rightarrow> response \<times> saves_dir" where
  "get_save i dir =
     (case map_of dir (save_file_name i) of
        None \<Rightarrow> (HttpError 404 ''Save not found'', dir)
      | Some Unreadable \<Rightarrow> (HttpError 500 ''Failed to read save'', dir)
      | Some (SaveFile s) \<Rightarrow> (SaveBody s, dir))"

text \<open>The save \<open>POST\<close> writes (lines 122--132).\<close>

definition new_save :: "json \<Rightarrow> json \<Rightarrow> json option \<Rightarrow> js_string \<Rightarrow> int \<Rightarrow> save" where
  "new_save n d metadata fresh now =
     \<lparr>save_id = fresh, save_name = n, save_data = d, save_metadata = js_or metadata (JObj []),
      save_createdAt = now, save_updatedAt = now\<rparr>"

text \<open>\<open>POST /api/saves\<close> (lines 111--148); \<open>fresh\<close> is the generated id, \<open>now\<close> the clock.\<close>

definition create_save ::
  "json option \<Rightarrow> json option \<Rightarrow> json option \<Rightarrow> js_string \<Rightarrow> int \<Rightarrow> saves_dir \<Rightarrow> response \<times> saves_dir" where
  "create_save name data metadata fresh now dir =
     (case (name, data) of
        (Some n, Some d) \<Rightarrow>
          if js_truthy name \<and> js_truthy data then
            (let dir1 = enforceMaxSaves dir; s = new_save n d metadata fresh now
             in (SaveInfo (summary s), fs_write dir1 (save_file_name fresh) (SaveFile s)))
          else (HttpError 400 ''Name and data are required'', dir)
      | _ \<Rightarrow> (HttpError 400 ''Name and data are required'', dir))"

text \<open>The object \<open>PUT\<close> writes (lines 165--171): falsy fields keep their old value.\<close>

definition updated_save :: "save \<Rightarrow> json option \<Rightarrow> json option \<Rightarrow> int \<Rightarrow> save" where
  "updated_save s data metadata now =
     s\<lparr>save_data := js_or data (save_data s), save_metadata := js_or metadata (save_metadata s),
       save_updatedAt := now\<rparr>"

text \<open>\<open>PUT /api/saves/:id\<close> (lines 151--186).\<close>

definition update_save ::
  "js_string \<Rightarrow> json option \<Rightarrow> json option \<Rightarrow> int \<Rightarrow> saves_dir \<Rightarrow> response \<times> saves_dir" where
  "update_save i data metadata now dir =
     (case map_of dir (save_file_name i) of
        None \<Rightarrow> (HttpError 404 ''Save not found'', dir)
      | Some Unreadable \<Rightarrow> (HttpError 500 ''Failed to update save'', dir)
      | Some (SaveFile s) \<Rightarrow>
          (let s' = updated_save s data metadata now
           in (SaveInfo (summary s'), fs_write dir (save_file_name i) (SaveFile s'))))"

text \<open>\<open>DELETE /api/saves/:id\<close> (lines 189--204).\<close>

definition delete_save :: "js_string \<Rightarrow> saves_dir \<Rightarrow> response \<times> saves_dir" where
  "delete_save i dir =
     (if map_of dir (save_file_name i) = None then (HttpError 404 ''Save not found'', dir)
      else (Deleted, fs_unlink dir (save_file_name i)))"

text \<open>The router: one request, given the generated id and the clock of its handler.\<close>

fun handle :: "request \<Rightarrow> js_string \<Rightarrow> int \<Rightarrow> saves_dir \<Rightarrow> response \<times> saves_dir" where
  "handle ListSaves fresh now dir = list_saves dir"
| "handle (GetSave i) fresh now dir = get_save i dir"
| "handle (CreateSave n d m) fresh now dir = create_save n d m fresh now dir"
| "handle (UpdateSave i d m) fresh now dir = update_save i d m now dir"
| "handle (DeleteSave i) fresh now dir = delete_save i dir"

section \<open>The store and its abstraction\<close>

text \<open>
  The store is well formed when file names are distinct and every readable file is
  named after the id it holds, as \<open>POST\<close> names it.
\<close>

definition store_ok :: "saves_dir \<Rightarrow> bool" where
  "store_ok dir \<longleftrightarrow>
     distinct (map fst dir) \<and>
     list_all (\<lambda>(f, c). case c of SaveFile s \<Rightarrow> f = save_file_name (save_id s) | Unreadable \<Rightarrow> True) dir"

text \<open>A file is named after the save it holds.\<close>

definition file_ok :: "js_string \<Rightarrow> save_file \<Rightarrow> bool" where
  "file_ok f c \<longleftrightarrow> (case c of SaveFile s \<Rightarrow> f = save_file_name (save_id s) | Unreadable \<Rightarrow> True)"

text \<open>The abstract store: the saves the server lists, by id.\<close>

definition store_abs :: "saves_dir \<Rightarrow> js_string \<rightharpoonup> save" where
  "store_abs dir = map_of (map (\<lambda>s. (save_id s, s)) (read_saves dir))"

section \<open>The abstract contract\<close>

text \<open>The abstract contract of eviction: keep the newest saves, \<open>MAX_SAVES - 1\<close> of them at the cap.\<close>

definition evict_spec :: "(js_string \<rightharpoonup> save) \<Rightarrow> (js_string \<rightharpoonup> save) \<Rightarrow> bool" where
  "evict_spec A B \<longleftrightarrow>
     B \<subseteq>\<^sub>m A \<and>
     card (dom B) = (if MAX_SAVES \<le> card (dom A) then MAX_SAVES - 1 else card (dom A)) \<and>
     (\<forall>i j s t. A i = Some s \<longrightarrow> B i = None \<longrightarrow> B j = Some t \<longrightarrow> save_updatedAt s \<le> save_updatedAt t)"

definition abs_spec ::
  "request \<Rightarrow> js_string \<Rightarrow> int \<Rightarrow> (js_string \<rightharpoonup> save) \<Rightarrow> (js_string \<rightharpoonup> save) \<Rightarrow> bool" where
  "abs_spec req fresh now A B =
     (case req of
        ListSaves \<Rightarrow> B = A
      | GetSave i \<Rightarrow> B = A
      | CreateSave n d m \<Rightarrow>
          (case (n, d) of
             (Some n', Some d') \<Rightarrow>
               if js_truthy n \<and> js_truthy d
               then \<exists>E. evict_spec A E \<and>
                 B = E(fresh \<mapsto> \<lparr>save_id = fresh, save_name = n', save_data = d',
                   save_metadata = js_or m (JObj []), save_createdAt = now, save_updatedAt = now\<rparr>)
               else B = A
           | _ \<Rightarrow> B = A)
      | UpdateSave i d m \<Rightarrow>
          B = (case A i of
                 None \<Rightarrow> A
               | Some s \<Rightarrow> A(i \<mapsto> s\<lparr>save_data := js_or d (save_data s),
                   save_metadata := js_or m (save_metadata s), save_updatedAt := now\<rparr>))
      | DeleteSave i \<Rightarrow> B = A(i := None))"

text \<open>The directories the server can produce from an empty one, one request at a time.\<close>

inductive reachable :: "saves_dir \<Rightarrow> bool" where
  reachable_empty: "reachable []"
| reachable_step: "reachable dir \<Longrightarrow> reachable (snd (handle req fresh now dir))"

section \<open>Lemmas on the store\<close>

lemma save_file_name_inj [simp]: "save_file_name i = save_file_name j \<longleftrightarrow> i = j"
  by (simp add: save_file_name_def)

lemma store_ok_Nil [simp]: "store_ok []"
  by (simp add: store_ok_def)

lemma store_ok_Cons:
  "store_ok ((f, c) # dir) \<longleftrightarrow>
     f \<notin> fst ` set dir \<and> (case c of SaveFile s \<Rightarrow> f = save_file_name (save_id s) | Unreadable \<Rightarrow> True) \<and>
     store_ok dir"
  by (auto simp: store_ok_def)

lemma read_saves_Nil [simp]: "read_saves [] = []"
  by (simp add: read_saves_def)

lemma read_saves_Cons:
  "read_saves ((f, c) # dir) =
     (case c of SaveFile s \<Rightarrow> if ends_with f ''.json'' then s # read_saves dir else read_saves dir
      | Unreadable \<Rightarrow> read_saves dir)"
  by (simp add: read_saves_def split: save_file.split)

lemma store_abs_lookup:
  "store_ok dir \<Longrightarrow>
   store_abs dir i = (case map_of dir (save_file_name i) of Some (SaveFile s) \<Rightarrow> Some s | _ \<Rightarrow> None)"
proof (induction dir)
  case Nil
  then show ?case by (simp add: store_abs_def)
next
  case (Cons e dir)
  obtain f c where e: "e = (f, c)" by fastforce
  with Cons.prems have ok: "store_ok dir" and fresh: "f \<notin> fst ` set dir"
    by (simp_all add: store_ok_Cons)
  show ?case
  proof (cases c)
    case (SaveFile s)
    with Cons.prems e have "f = save_file_name (save_id s)" by (simp add: store_ok_Cons)
    with Cons.IH [OF ok] e SaveFile show ?thesis
      by (auto simp: store_abs_def read_saves_Cons save_file_name_def)
  next
    case Unreadable
    have "map_of dir f = None" using fresh by (simp add: map_of_eq_None_iff)
    with Cons.IH [OF ok] e Unreadable show ?thesis
      by (auto simp: store_abs_def read_saves_Cons)
  qed
qed

lemma store_ok_fs_write: "store_ok dir \<Longrightarrow> file_ok f c \<Longrightarrow> store_ok (fs_write dir f c)"
  unfolding fs_write_def
proof (induction dir)
  case Nil
  then show ?case by (simp add: store_ok_def file_ok_def)
next
  case (Cons e dir)
  obtain g d where e: "e = (g, d)" by fastforce
  with Cons show ?case
    by (auto simp: store_ok_Cons dom_update file_ok_def)
qed

lemma store_ok_fs_unlink: "store_ok dir \<Longrightarrow> store_ok (fs_unlink dir f)"
  by (auto simp: store_ok_def fs_unlink_def AList.delete_eq distinct_map_filter list_all_iff)

lemma store_abs_fs_write:
  assumes "store_ok dir"
  shows "store_abs (fs_write dir (save_file_name (save_id s)) (SaveFile s)) = (store_abs dir)(save_id s \<mapsto> s)"
proof -
  have ok: "store_ok (fs_write dir (save_file_name (save_id s)) (SaveFile s))"
    using assms by (simp add: store_ok_fs_write file_ok_def)
  show ?thesis
    by (rule ext, subst store_abs_lookup [OF ok])
      (simp add: store_abs_lookup [OF assms] fs_write_def update_conv')
qed

lemma store_abs_fs_unlink:
  assumes "store_ok dir"
  shows "store_abs (fs_unlink dir (save_file_name i)) = (store_abs dir)(i := None)"
proof -
  have ok: "store_ok (fs_unlink dir (save_file_name i))"
    using assms by (rule store_ok_fs_unlink)
  show ?thesis
    by (rule ext, subst store_abs_lookup [OF ok])
      (simp add: store_abs_lookup [OF assms] fs_unlink_def delete_conv')
qed

lemma read_saves_named:
  "store_ok dir \<Longrightarrow> s \<in> set (read_saves dir) \<Longrightarrow> (save_file_name (save_id s), SaveFile s) \<in> set dir"
  by (induction dir) (auto simp: store_ok_Cons read_saves_Cons split: save_file.splits if_splits)

lemma distinct_save_ids: "store_ok dir \<Longrightarrow> distinct (map save_id (read_saves dir))"
proof (induction dir)
  case Nil
  then show ?case by simp
next
  case (Cons e dir)
  obtain f c where e: "e = (f, c)" by fastforce
  with Cons.prems have ok: "store_ok dir" and fresh: "f \<notin> fst ` set dir"
    and fc: "file_ok f c"
    by (simp_all add: store_ok_Cons file_ok_def)
  have "save_id s \<notin> save_id ` set (read_saves dir)" if "c = SaveFile s" for s
  proof
    assume "save_id s \<in> save_id ` set (read_saves dir)"
    then obtain s' where s': "s' \<in> set (read_saves dir)" "save_id s' = save_id s" by force
    have "f = save_file_name (save_id s)" using fc that by (simp add: file_ok_def)
    with read_saves_named [OF ok s'(1)] s'(2) have "(f, SaveFile s') \<in> set dir" by simp
    with fresh show False by force
  qed
  with Cons.IH [OF ok] e show ?case
    by (auto simp: read_saves_Cons split: save_file.split)
qed

lemma dom_store_abs: "dom (store_abs dir) = set (map save_id (read_saves dir))"
  by (simp add: store_abs_def dom_map_of_conv_image_fst image_image)

lemma length_getAllSaves:
  "store_ok dir \<Longrightarrow> length (getAllSaves dir) = card (dom (store_abs dir))"
  using distinct_card [OF distinct_save_ids] by (simp add: getAllSaves_def dom_store_abs)

lemma getAllSaves_ids: "sum_id ` set (getAllSaves dir) = dom (store_abs dir)"
  by (simp add: getAllSaves_def dom_store_abs image_image summary_def)

lemma distinct_getAllSaves_ids: "store_ok dir \<Longrightarrow> distinct (map sum_id (getAllSaves dir))"
proof -
  assume ok: "store_ok dir"
  have "distinct (map sum_id (map summary (read_saves dir)))"
    using distinct_save_ids [OF ok] by (simp add: comp_def summary_def)
  then have "distinct (map summary (read_saves dir)) \<and> inj_on sum_id (set (map summary (read_saves dir)))"
    by (simp only: distinct_map)
  then show ?thesis
    by (simp add: getAllSaves_def distinct_map)
qed

lemma getAllSaves_lookup:
  "store_ok dir \<Longrightarrow> x \<in> set (getAllSaves dir) \<Longrightarrow>
   \<exists>s. store_abs dir (sum_id x) = Some s \<and> save_updatedAt s = sum_updatedAt x"
proof -
  assume ok: "store_ok dir" and x: "x \<in> set (getAllSaves dir)"
  then obtain s where s: "s \<in> set (read_saves dir)" "x = summary s"
    by (auto simp: getAllSaves_def)
  have "map_of (map (\<lambda>s. (save_id s, s)) (read_saves dir)) (save_id s) = Some s"
    by (rule map_of_is_SomeI) (use distinct_save_ids [OF ok] s(1) in \<open>simp_all add: comp_def\<close>)
  with s show ?thesis by (simp add: store_abs_def summary_def)
qed

lemma unlink_all_ok:
  "store_ok dir \<Longrightarrow> store_ok (foldl (\<lambda>d s. fs_unlink d (save_file_name (sum_id s))) dir ss) \<and>
   store_abs (foldl (\<lambda>d s. fs_unlink d (save_file_name (sum_id s))) dir ss) =
     store_abs dir |` (- sum_id ` set ss)"
proof (induction ss arbitrary: dir)
  case Nil
  then show ?case by simp
next
  case (Cons s ss)
  have ok: "store_ok (fs_unlink dir (save_file_name (sum_id s)))"
    using Cons.prems by (rule store_ok_fs_unlink)
  have e: "store_abs (fs_unlink dir (save_file_name (sum_id s))) = (store_abs dir)(sum_id s := None)"
    using Cons.prems by (rule store_abs_fs_unlink)
  have r: "(store_abs dir)(sum_id s := None) |` (- sum_id ` set ss) = store_abs dir |` (- sum_id ` set (s # ss))"
    by (auto simp: restrict_map_def)
  show ?case
    using Cons.IH [OF ok] by (simp only: foldl_Cons e r)
qed

lemma enforceMaxSaves_ok:
  assumes ok: "store_ok dir"
  defines "D \<equiv> sum_id ` set (drop (MAX_SAVES - 1) (getAllSaves dir))"
  shows "store_ok (enforceMaxSaves dir) \<and>
    store_abs (enforceMaxSaves dir) =
      (if MAX_SAVES \<le> card (dom (store_abs dir)) then store_abs dir |` (- D) else store_abs dir)"
  using unlink_all_ok [OF ok, of "drop (MAX_SAVES - 1) (getAllSaves dir)"] ok
  by (simp add: enforceMaxSaves_def Let_def length_getAllSaves [OF ok] D_def)

lemma card_evicted:
  assumes ok: "store_ok dir" and full: "MAX_SAVES \<le> card (dom (store_abs dir))"
  shows "card (dom (store_abs dir |` (- sum_id ` set (drop (MAX_SAVES - 1) (getAllSaves dir))))) =
    MAX_SAVES - 1"
proof -
  let ?L = "getAllSaves dir"
  let ?D = "sum_id ` set (drop (MAX_SAVES - 1) ?L)"
  have dist: "distinct (map sum_id (drop (MAX_SAVES - 1) ?L))"
    using distinct_getAllSaves_ids [OF ok] by (simp add: drop_map [symmetric] distinct_drop)
  have cD: "card ?D = length ?L - (MAX_SAVES - 1)"
    using distinct_card [OF dist] by simp
  have sub: "?D \<subseteq> dom (store_abs dir)"
    by (metis getAllSaves_ids image_mono set_drop_subset)
  have fin: "finite (dom (store_abs dir))"
    by (simp add: store_abs_def finite_dom_map_of)
  have "dom (store_abs dir |` (- ?D)) = dom (store_abs dir) - ?D" by auto
  then have "card (dom (store_abs dir |` (- ?D))) = card (dom (store_abs dir)) - card ?D"
    using sub fin by (simp add: card_Diff_subset finite_subset)
  with cD full length_getAllSaves [OF ok] show ?thesis by simp
qed

lemma evicted_older:
  assumes ok: "store_ok dir"
    and i: "i \<in> sum_id ` set (drop (MAX_SAVES - 1) (getAllSaves dir))"
    and j: "j \<in> dom (store_abs dir) - sum_id ` set (drop (MAX_SAVES - 1) (getAllSaves dir))"
    and si: "store_abs dir i = Some s" and tj: "store_abs dir j = Some t"
  shows "save_updatedAt s \<le> save_updatedAt t"
proof -
  let ?L = "getAllSaves dir"
  obtain x where x: "x \<in> set (drop (MAX_SAVES - 1) ?L)" "i = sum_id x" using i by blast
  obtain y where y: "y \<in> set ?L" "j = sum_id y" using j getAllSaves_ids [of dir] by blast
  have yt: "y \<in> set (take (MAX_SAVES - 1) ?L)"
    using y j by (metis DiffD2 Un_iff append_take_drop_id image_eqI set_append)
  have srt: "sorted (map (\<lambda>s. - sum_updatedAt s) ?L)"
    by (simp add: getAllSaves_def sorted_sort_key)
  have "- sum_updatedAt y \<le> - sum_updatedAt x"
    using sorted_take_drop_le [of "\<lambda>s. - sum_updatedAt s", OF srt yt x(1)] by simp
  moreover obtain s' where "store_abs dir (sum_id x) = Some s'" "save_updatedAt s' = sum_updatedAt x"
    using getAllSaves_lookup [OF ok in_set_dropD [OF x(1)]] by blast
  moreover obtain t' where "store_abs dir (sum_id y) = Some t'" "save_updatedAt t' = sum_updatedAt y"
    using getAllSaves_lookup [OF ok y(1)] by blast
  ultimately show ?thesis using x(2) y(2) si tj by simp
qed


lemma finite_dom_store_abs [simp]: "finite (dom (store_abs dir))"
  by (simp add: store_abs_def finite_dom_map_of)

lemma map_of_named:
  "store_ok dir \<Longrightarrow> map_of dir f = Some (SaveFile s) \<Longrightarrow> f = save_file_name (save_id s)"
  by (auto simp: store_ok_def list_all_iff dest!: map_of_SomeD)

lemma enforceMaxSaves_spec:
  assumes ok: "store_ok dir"
  shows "evict_spec (store_abs dir) (store_abs (enforceMaxSaves dir))"
proof (cases "MAX_SAVES \<le> card (dom (store_abs dir))")
  case True
  let ?D = "sum_id ` set (drop (MAX_SAVES - 1) (getAllSaves dir))"
  have e: "store_abs (enforceMaxSaves dir) = store_abs dir |` (- ?D)"
    using enforceMaxSaves_ok [OF ok] True by simp
  have "save_updatedAt s \<le> save_updatedAt t"
    if "store_abs dir i = Some s" "(store_abs dir |` (- ?D)) i = None" "(store_abs dir |` (- ?D)) j = Some t"
    for i j s t
  proof -
    have "i \<in> ?D" using that(1,2) by (auto simp: restrict_map_def split: if_splits)
    moreover have "j \<in> dom (store_abs dir) - ?D" "store_abs dir j = Some t"
      using that(3) by (auto simp: restrict_map_def split: if_splits)
    ultimately show ?thesis using evicted_older [OF ok] that(1) by blast
  qed
  with e True card_evicted [OF ok True] show ?thesis
    by (simp add: evict_spec_def)
next
  case False
  then show ?thesis
    using enforceMaxSaves_ok [OF ok] by (simp add: evict_spec_def)
qed

lemma create_save_abs:
  assumes ok: "store_ok dir" and t: "js_truthy (Some n)" "js_truthy (Some d)"
  shows "store_ok (snd (create_save (Some n) (Some d) m fresh now dir)) \<and>
    store_abs (snd (create_save (Some n) (Some d) m fresh now dir)) =
      (store_abs (enforceMaxSaves dir))(fresh \<mapsto> new_save n d m fresh now)"
proof -
  have ok1: "store_ok (enforceMaxSaves dir)" using enforceMaxSaves_ok [OF ok] by blast
  have n: "save_id (new_save n d m fresh now) = fresh" by (simp add: new_save_def)
  show ?thesis
    using store_ok_fs_write [OF ok1, of "save_file_name fresh" "SaveFile (new_save n d m fresh now)"]
      store_abs_fs_write [OF ok1, of "new_save n d m fresh now"] t
    by (simp add: create_save_def file_ok_def n Let_def)
qed

lemma create_save_rejected:
  "\<not> (js_truthy n \<and> js_truthy d) \<Longrightarrow>
   create_save n d m fresh now dir = (HttpError 400 ''Name and data are required'', dir)"
  by (cases n; cases d) (auto simp: create_save_def)

lemma update_save_abs:
  assumes ok: "store_ok dir"
  shows "store_ok (snd (update_save i d m now dir)) \<and>
    store_abs (snd (update_save i d m now dir)) =
      (case store_abs dir i of None \<Rightarrow> store_abs dir | Some s \<Rightarrow> (store_abs dir)(i \<mapsto> updated_save s d m now))"
proof (cases "map_of dir (save_file_name i)")
  case None
  then show ?thesis using ok by (simp add: update_save_def store_abs_lookup [OF ok])
next
  case (Some c)
  show ?thesis
  proof (cases c)
    case (SaveFile s)
    with Some have i: "i = save_id s" using map_of_named [OF ok] by fastforce
    have u: "save_id (updated_save s d m now) = i" by (simp add: updated_save_def i)
    show ?thesis
      using store_ok_fs_write [OF ok, of "save_file_name i" "SaveFile (updated_save s d m now)"]
        store_abs_fs_write [OF ok, of "updated_save s d m now"] Some SaveFile
      by (simp add: update_save_def file_ok_def u store_abs_lookup [OF ok] Let_def)
  next
    case Unreadable
    with Some show ?thesis using ok by (simp add: update_save_def store_abs_lookup [OF ok])
  qed
qed

lemma delete_save_abs:
  assumes ok: "store_ok dir"
  shows "store_ok (snd (delete_save i dir)) \<and> store_abs (snd (delete_save i dir)) = (store_abs dir)(i := None)"
proof (cases "map_of dir (save_file_name i) = None")
  case True
  then have "store_abs dir i = None" by (simp add: store_abs_lookup [OF ok])
  with True ok show ?thesis by (auto simp: delete_save_def)
next
  case False
  with ok show ?thesis by (auto simp: delete_save_def store_ok_fs_unlink store_abs_fs_unlink)
qed

lemma handle_store_ok: "store_ok dir \<Longrightarrow> store_ok (snd (handle req fresh now dir))"
proof (cases req)
  case (CreateSave n d m)
  assume ok: "store_ok dir"
  show ?thesis
  proof (cases "js_truthy n \<and> js_truthy d")
    case True
    then obtain n' d' where "n = Some n'" "d = Some d'" by (cases n; cases d) auto
    with True CreateSave create_save_abs [OF ok] show ?thesis by simp
  next
    case False
    with CreateSave ok show ?thesis by (simp add: create_save_rejected)
  qed
qed (simp_all add: list_saves_def Let_def get_save_def update_save_abs delete_save_abs split: option.split save_file.split)


lemma store_abs_SomeD:
  "store_ok dir \<Longrightarrow> store_abs dir i = Some s \<Longrightarrow> map_of dir (save_file_name i) = Some (SaveFile s)"
  by (simp add: store_abs_lookup split: option.splits save_file.splits)

lemma store_abs_NoneD:
  "store_ok dir \<Longrightarrow> map_of dir (save_file_name i) = None \<Longrightarrow> store_abs dir i = None"
  by (simp add: store_abs_lookup)

lemma handle_card:
  assumes ok: "store_ok dir" and le: "card (dom (store_abs dir)) \<le> MAX_SAVES"
  shows "card (dom (store_abs (snd (handle req fresh now dir)))) \<le> MAX_SAVES"
proof (cases req)
  case (CreateSave n d m)
  show ?thesis
  proof (cases "js_truthy n \<and> js_truthy d")
    case True
    then obtain n' d' where nd: "n = Some n'" "d = Some d'" by (cases n; cases d) auto
    let ?E = "store_abs (enforceMaxSaves dir)"
    have "card (dom ?E) = (if MAX_SAVES \<le> card (dom (store_abs dir)) then MAX_SAVES - 1 else card (dom (store_abs dir)))"
      using enforceMaxSaves_spec [OF ok] by (simp add: evict_spec_def)
    moreover have "finite (dom ?E)" by simp
    ultimately have "card (insert fresh (dom ?E)) \<le> MAX_SAVES"
      using le card_insert_le_m1 [of MAX_SAVES] by (simp add: card_insert_if MAX_SAVES_def)
    with True nd CreateSave create_save_abs [OF ok] show ?thesis by simp
  next
    case False
    with CreateSave le show ?thesis by (simp add: create_save_rejected)
  qed
next
  case (UpdateSave i d m)
  then show ?thesis
    using update_save_abs [OF ok] le by (auto simp: insert_absorb domI split: option.split)
next
  case (DeleteSave i)
  then show ?thesis
    using delete_save_abs [OF ok] le card_mono [of "dom (store_abs dir)" "dom (store_abs dir) - {i}"]
    by auto
qed (simp_all add: list_saves_def get_save_def le Let_def split: option.split save_file.split)

section \<open>Properties of the save store\<close>

text \<open>
  C25.  Whatever sequence of requests the server has answered since it started with
  an empty directory, every save file is named after its id and the listing holds
  at most \<open>MAX_SAVES\<close> saves.
\<close>

theorem reachable_bounded:
  assumes "reachable dir"
  shows "store_ok dir \<and> length (getAllSaves dir) \<le> MAX_SAVES"
  using assms
proof (induction rule: reachable.induct)
  case reachable_empty
  then show ?case by (simp add: getAllSaves_def)
next
  case (reachable_step dir req fresh now)
  then have ok: "store_ok dir" and "length (getAllSaves dir) \<le> MAX_SAVES" by simp_all
  then have "card (dom (store_abs dir)) \<le> MAX_SAVES" by (simp add: length_getAllSaves [OF ok])
  with handle_card [OF ok] handle_store_ok [OF ok] show ?case
    by (simp add: length_getAllSaves)
qed

theorem reachable_bounded_witness:
  "reachable (snd (handle (CreateSave (Some (JStr ''a'')) (Some (JNum 1)) None) ''s1'' 10 [])) \<and>
   length (getAllSaves (snd (handle (CreateSave (Some (JStr ''a'')) (Some (JNum 1)) None) ''s1'' 10 [])))
     \<le> MAX_SAVES"
proof -
  have h: "reachable (snd (handle (CreateSave (Some (JStr ''a'')) (Some (JNum 1)) None) ''s1'' 10 []))"
    by (rule reachable_step [OF reachable_empty])
  from reachable_bounded [OF h] h show ?thesis by simp
qed

text \<open>
  C26.  Each route refines its abstract contract on the map from ids to saves:
  listing and reading change nothing; a valid \<open>POST\<close> evicts down to the newest
  \<open>MAX_SAVES - 1\<close> saves when the store is full and then adds the new save; \<open>PUT\<close>
  updates data, metadata and time of an existing save; \<open>DELETE\<close> removes the id.
\<close>

theorem handle_refines:
  assumes ok: "store_ok dir"
  shows "abs_spec req fresh now (store_abs dir) (store_abs (snd (handle req fresh now dir)))"
proof (cases req)
  case (CreateSave n d m)
  show ?thesis
  proof (cases "js_truthy n \<and> js_truthy d")
    case True
    then obtain n' d' where "n = Some n'" "d = Some d'" by (cases n; cases d) auto
    with True CreateSave create_save_abs [OF ok] enforceMaxSaves_spec [OF ok] show ?thesis
      by (auto simp: abs_spec_def new_save_def)
  next
    case False
    with CreateSave show ?thesis
      by (auto simp: abs_spec_def create_save_rejected split: option.split)
  qed
qed (simp_all add: abs_spec_def list_saves_def get_save_def Let_def update_save_abs [OF ok] updated_save_def
  delete_save_abs [OF ok] split: option.split save_file.split)

theorem handle_refines_witness:
  "store_ok [(''s1.json'', SaveFile \<lparr>save_id = ''s1'', save_name = JStr ''a'', save_data = JNum 1,
      save_metadata = JObj [], save_createdAt = 10, save_updatedAt = 10\<rparr>)] \<and>
   store_abs (snd (handle (DeleteSave ''s1'') [] 0 [(''s1.json'', SaveFile \<lparr>save_id = ''s1'',
      save_name = JStr ''a'', save_data = JNum 1, save_metadata = JObj [], save_createdAt = 10,
      save_updatedAt = 10\<rparr>)])) ''s1'' = None"
proof -
  have h: "store_ok [(''s1.json'', SaveFile \<lparr>save_id = ''s1'', save_name = JStr ''a'', save_data = JNum 1,
      save_metadata = JObj [], save_createdAt = 10, save_updatedAt = 10\<rparr>)]"
    by (simp add: store_ok_def save_file_name_def)
  from handle_refines [OF h, of "DeleteSave ''s1''" "[]" 0] h show ?thesis
    by (simp add: abs_spec_def)
qed

text \<open>
  A save created by \<open>POST\<close> is read back by \<open>GET\<close> under its new id, with the
  name, data and metadata sent and both time stamps set to the creation time.
\<close>

theorem create_then_get:
  assumes ok: "store_ok dir" and t: "js_truthy (Some n)" "js_truthy (Some d)"
  shows "fst (handle (GetSave fresh) fresh' now' (snd (handle (CreateSave (Some n) (Some d) m) fresh now dir))) =
    SaveBody \<lparr>save_id = fresh, save_name = n, save_data = d, save_metadata = js_or m (JObj []),
      save_createdAt = now, save_updatedAt = now\<rparr>"
proof -
  let ?dir' = "snd (create_save (Some n) (Some d) m fresh now dir)"
  have ok': "store_ok ?dir'" and "store_abs ?dir' fresh = Some (new_save n d m fresh now)"
    using create_save_abs [OF ok t] by simp_all
  then have "map_of ?dir' (save_file_name fresh) = Some (SaveFile (new_save n d m fresh now))"
    by (rule store_abs_SomeD)
  then show ?thesis by (simp add: get_save_def new_save_def)
qed

theorem create_then_get_witness:
  "js_truthy (Some (JStr ''lesson'')) \<and>
   fst (handle (GetSave ''s2'') [] 30 (snd (handle (CreateSave (Some (JStr ''lesson'')) (Some (JNum 7)) None)
     ''s2'' 20 []))) = SaveBody \<lparr>save_id = ''s2'', save_name = JStr ''lesson'', save_data = JNum 7,
       save_metadata = JObj [], save_createdAt = 20, save_updatedAt = 20\<rparr>"
  using create_then_get [of "[]" "JStr ''lesson''" "JNum 7" "''s2''" "[]" 30 None 20] by (simp add: js_or_def)

text \<open>
  A request for an id without a save file answers 404 \<open>Save not found\<close> and
  leaves the directory as it was, for reading, updating and deleting alike.
\<close>

theorem missing_id_404:
  assumes "map_of dir (save_file_name i) = None"
  shows "handle (GetSave i) fresh now dir = (HttpError 404 ''Save not found'', dir) \<and>
    handle (UpdateSave i d m) fresh now dir = (HttpError 404 ''Save not found'', dir) \<and>
    handle (DeleteSave i) fresh now dir = (HttpError 404 ''Save not found'', dir)"
  using assms by (simp add: get_save_def update_save_def delete_save_def)

theorem missing_id_404_witness:
  "map_of [] (save_file_name ''x'') = (None :: save_file option) \<and>
   handle (DeleteSave ''x'') [] 0 [] = (HttpError 404 ''Save not found'', [])"
  using missing_id_404 [of "[]" "''x''"] by simp

text \<open>
  C29.  \<open>GET /api/saves\<close> lists every save of a well-formed store exactly once, newest
  update first, with the count and the cap, and changes nothing.
\<close>

theorem list_saves_sorted:
  assumes ok: "store_ok dir" and h: "handle ListSaves fresh now dir = (SaveList L k mx, dir')"
  shows "sorted_wrt (\<lambda>a b. sum_updatedAt b \<le> sum_updatedAt a) L \<and> distinct (map sum_id L) \<and>
    sum_id ` set L = dom (store_abs dir) \<and> k = length L \<and> mx = MAX_SAVES \<and> dir' = dir"
proof -
  have L: "L = getAllSaves dir" "k = length L" "mx = MAX_SAVES" "dir' = dir"
    using h by (auto simp: list_saves_def Let_def)
  have "sorted (map (\<lambda>s. - sum_updatedAt s) L)"
    by (simp add: L(1) getAllSaves_def sorted_sort_key)
  then have "sorted_wrt (\<lambda>a b. sum_updatedAt b \<le> sum_updatedAt a) L"
    by (simp add: sorted_map)
  with L distinct_getAllSaves_ids [OF ok] getAllSaves_ids [of dir] show ?thesis by simp
qed

theorem list_saves_sorted_witness:
  "store_ok [] \<and> handle ListSaves [] 0 [] = (SaveList [] 0 MAX_SAVES, []) \<and>
   sorted_wrt (\<lambda>a b. sum_updatedAt b \<le> sum_updatedAt a) ([] :: save_summary list)"
proof -
  have h: "handle ListSaves [] 0 [] = (SaveList [] 0 MAX_SAVES, [])"
    by (simp add: list_saves_def getAllSaves_def)
  from list_saves_sorted [OF store_ok_Nil h] h show ?thesis by simp
qed

end
