(* ===== verification/App.thy ===== *)
theory App
  imports Lesson
begin

text \<open>
  The session state of the \<open>App\<close> component (\<open>src/App.tsx\<close>, lines 24--291) and its
  handlers.  React state is a record; a handler reads the state of the render it was
  created in (\<open>snap\<close>) and queues its \<open>setX\<close> calls on a pending state (\<open>acc\<close>),
  the last call for a field winning, as React batches them.  After the batch, the
  autosave effect of lines 73--83 runs when one of its dependencies changed.  The
  arrays of a group's inventory are mutated in place by \<open>addToInventory\<close>; they are
  references into a heap of arrays, shared by every group object spread from the same
  group.  \<open>localStorage\<close> under \<open>STORAGE_KEY\<close> holds the last \<open>DojoMasterData\<close>
  written, with the heap dereferenced as \<open>JSON.stringify\<close> does.  The date, the
  generated ids and the answer to \<open>confirm\<close> are inputs of the events.
\<close>

section \<open>State\<close>

datatype app_mode = Dashboard | Edit | Run

datatype inv_kind = SoundItem | HfwItem

text \<open>A group object at run time: its two inventory arrays are references.\<close>

record group_obj =
  go_id :: js_string
  go_name :: js_string
  go_studentIds :: "js_string list"
  go_sounds :: nat
  go_hfw :: nat
  go_lastLessonDate :: "js_string option"
  go_jobs :: "(js_string \<times> js_string) list option"
  go_savedLessons :: "Lesson list"
  go_history :: "LessonHistoryEntry list"

record app_state =
  heap :: "nat \<Rightarrow> js_string list"
  next_ref :: nat
  groups :: "group_obj list"
  students :: "StudentProfile list"
  activeGroup :: "group_obj option"
  currentLesson :: "Lesson option"
  currentPart :: nat
  mode :: app_mode
  sessionStudentIds :: "js_string list"
  ids_set :: bool
  showSaveToast :: bool
  storage :: "DojoMasterData option"
  presets :: "js_string option"

text \<open>\<open>JSON.stringify\<close> of a group object: its arrays read from the heap.\<close>

definition deref :: "(nat \<Rightarrow> js_string list) \<Rightarrow> group_obj \<Rightarrow> GroupProfile" where
  "deref h g =
     \<lparr>grp_id = go_id g, grp_name = go_name g, grp_studentIds = go_studentIds g,
      grp_inventory = \<lparr>inv_learnedSounds = h (go_sounds g), inv_learnedHFW = h (go_hfw g)\<rparr>,
      grp_lastLessonDate = go_lastLessonDate g, grp_jobs = go_jobs g,
      grp_savedLessons = go_savedLessons g, grp_history = go_history g\<rparr>"

section \<open>Saving\<close>

text \<open>\<open>saveMasterData\<close> (lines 61--71).\<close>

definition saveMasterData ::
  "group_obj list \<Rightarrow> StudentProfile list \<Rightarrow> ActiveSession option \<Rightarrow> app_state \<Rightarrow> app_state" where
  "saveMasterData gs ss sess acc =
     acc\<lparr>storage := Some \<lparr>md_groups = map (deref (heap acc)) gs, md_students = ss,
                           md_cipherPresets = (case presets acc of Some p \<Rightarrow> p | None \<Rightarrow> ''[]''),
                           md_activeSession = sess\<rparr>,
        groups := gs, students := ss\<rparr>"

text \<open>The session object the handlers pass when a lesson is running.\<close>

definition run_session :: "app_state \<Rightarrow> js_string \<Rightarrow> ActiveSession option" where
  "run_session snap gid =
     (case currentLesson snap of
        Some l \<Rightarrow>
          if mode snap = Run
          then Some \<lparr>sess_lesson = l, sess_currentPart = currentPart snap, sess_groupId = gid,
                     sess_studentIds = sessionStudentIds snap\<rparr>
          else None
      | None \<Rightarrow> None)"

text \<open>\<open>handleUpdateActiveGroup\<close> (lines 85--96); the toast timer is the event \<open>ToastTimeout\<close>.\<close>

definition handleUpdateActiveGroup :: "app_state \<Rightarrow> group_obj \<Rightarrow> app_state \<Rightarrow> app_state" where
  "handleUpdateActiveGroup snap g acc =
     (let newGroups = map (\<lambda>x. if go_id x = go_id g then g else x) (groups snap);
          acc1 = saveMasterData newGroups (students snap) (run_session snap (go_id g))
                   (acc\<lparr>activeGroup := Some g\<rparr>)
      in acc1\<lparr>showSaveToast := True\<rparr>)"

text \<open>\<open>handleUpdateStudents\<close> (lines 98--106).\<close>

definition handleUpdateStudents :: "app_state \<Rightarrow> StudentProfile list \<Rightarrow> app_state \<Rightarrow> app_state" where
  "handleUpdateStudents snap ss acc =
     saveMasterData (groups snap) ss
       (run_session snap (case activeGroup snap of Some g \<Rightarrow> go_id g | None \<Rightarrow> []))
       (acc\<lparr>students := ss\<rparr>)"

section \<open>Handlers\<close>

text \<open>\<open>handleBriefingStart\<close> (lines 108--128).\<close>

definition attend :: "js_string \<Rightarrow> js_string list \<Rightarrow> StudentProfile \<Rightarrow> StudentProfile" where
  "attend date ids s =
     (if stu_id s \<in> set ids
      then s\<lparr>stu_attendanceCount := stu_attendanceCount s + 1, stu_lastSeen := Some date\<rparr> else s)"

definition handleBriefingStart :: "app_state \<Rightarrow> js_string \<Rightarrow> js_string list \<Rightarrow> app_state \<Rightarrow> app_state" where
  "handleBriefingStart snap date ids acc =
     (let acc1 = acc\<lparr>sessionStudentIds := ids, ids_set := True\<rparr>;
          acc2 = (case activeGroup snap of
                    Some ag \<Rightarrow>
                      handleUpdateActiveGroup snap (ag\<lparr>go_studentIds := ids, go_lastLessonDate := Some date\<rparr>) acc1
                  | None \<Rightarrow> acc1);
          acc3 = handleUpdateStudents snap (map (attend date ids) (students snap)) acc2
      in acc3\<lparr>currentPart := 1\<rparr>)"

text \<open>\<open>handleCompleteMission\<close> (lines 130--169); \<open>today\<close> and \<open>hid\<close> are the date and the new id.\<close>

definition log_lesson :: "js_string \<Rightarrow> Lesson \<Rightarrow> js_string list \<Rightarrow> StudentProfile \<Rightarrow> StudentProfile" where
  "log_lesson today l ids s =
     (if stu_id s \<in> set ids
      then s\<lparr>stu_history := \<lparr>log_date = today, log_lessonTitle = lesson_title l,
                              log_step = lesson_step l @ ''.'' @ lesson_substep l\<rparr> # stu_history s\<rparr>
      else s)"

definition handleCompleteMission :: "app_state \<Rightarrow> js_string \<Rightarrow> js_string \<Rightarrow> app_state \<Rightarrow> app_state" where
  "handleCompleteMission snap today hid acc =
     (case (activeGroup snap, currentLesson snap) of
        (Some ag, Some l) \<Rightarrow>
          (let entry = \<lparr>hist_id = hid, hist_lessonId = lesson_id l, hist_title = lesson_title l,
                        hist_date = today, hist_studentIds = sessionStudentIds snap,
                        hist_notes = Some ''Mission successfully completed.''\<rparr>;
               ug = ag\<lparr>go_history := entry # go_history ag\<rparr>;
               us = map (log_lesson today l (sessionStudentIds snap)) (students snap);
               acc1 = handleUpdateStudents snap us acc;
               acc2 = handleUpdateActiveGroup snap ug acc1;
               acc3 = saveMasterData (map (\<lambda>g. if go_id g = go_id ug then ug else g) (groups snap)) us None acc2
           in acc3\<lparr>mode := Dashboard\<rparr>)
      | _ \<Rightarrow> acc)"

text \<open>
  \<open>addToInventory\<close> (lines 171--197): the items are pushed onto the live array of the
  active group (\<open>list.push\<close>), then the group and the session's students are saved.
\<close>

definition push_new :: "js_string list \<Rightarrow> js_string list \<Rightarrow> js_string list" where
  "push_new xs items = foldl (\<lambda>m i. if i \<in> set m then m else m @ [i]) xs items"

definition master :: "inv_kind \<Rightarrow> js_string list \<Rightarrow> StudentProfile \<Rightarrow> StudentProfile" where
  "master ty items s =
     (case ty of
        SoundItem \<Rightarrow> s\<lparr>stu_masteredSounds := push_new (stu_masteredSounds s) items\<rparr>
      | HfwItem \<Rightarrow> s\<lparr>stu_masteredHFW := push_new (stu_masteredHFW s) items\<rparr>)"

definition addToInventory :: "app_state \<Rightarrow> js_string list \<Rightarrow> inv_kind \<Rightarrow> app_state \<Rightarrow> app_state" where
  "addToInventory snap items ty acc =
     (case activeGroup snap of
        None \<Rightarrow> acc
      | Some ag \<Rightarrow>
          (let r = (case ty of SoundItem \<Rightarrow> go_sounds ag | HfwItem \<Rightarrow> go_hfw ag);
               arr = heap acc r;
               arr' = push_new arr items;
               acc1 = acc\<lparr>heap := (heap acc)(r := arr')\<rparr>
           in if arr' \<noteq> arr
              then
                (let acc2 = handleUpdateActiveGroup snap ag acc1;
                     us = map (\<lambda>s. if stu_id s \<in> set (sessionStudentIds snap) then master ty items s else s)
                            (students snap)
                 in handleUpdateStudents snap us acc2)
              else acc1))"

text \<open>
  Loading the saved groups (line 39): \<open>JSON.parse\<close> creates fresh arrays for every
  group's inventory; they are allocated in the heap from \<open>n\<close> on.
\<close>

fun load_groups ::
  "(nat \<Rightarrow> js_string list) \<Rightarrow> nat \<Rightarrow> GroupProfile list \<Rightarrow> (nat \<Rightarrow> js_string list) \<times> nat \<times> group_obj list" where
  "load_groups h n [] = (h, n, [])"
| "load_groups h n (g # gs) =
     (let h1 = h(n := inv_learnedSounds (grp_inventory g), Suc n := inv_learnedHFW (grp_inventory g));
          (h2, n2, os) = load_groups h1 (n + 2) gs
      in (h2, n2,
          \<lparr>go_id = grp_id g, go_name = grp_name g, go_studentIds = grp_studentIds g, go_sounds = n,
           go_hfw = Suc n, go_lastLessonDate = grp_lastLessonDate g, go_jobs = grp_jobs g,
           go_savedLessons = grp_savedLessons g, go_history = grp_history g\<rparr> # os))"

text \<open>The mount effect (lines 34--59); \<open>answer\<close> is the reply to \<open>confirm\<close>.\<close>

definition restore :: "app_state \<Rightarrow> bool \<Rightarrow> app_state \<Rightarrow> app_state" where
  "restore snap answer acc =
     (case storage snap of
        None \<Rightarrow> acc
      | Some data \<Rightarrow>
          (let (h, n, gos) = load_groups (heap acc) (next_ref acc) (md_groups data);
               acc1 = acc\<lparr>heap := h, next_ref := n, groups := gos, students := md_students data\<rparr>
           in case md_activeSession data of
                None \<Rightarrow> acc1
              | Some sess \<Rightarrow>
                  if answer then
                    acc1\<lparr>currentLesson := Some (sess_lesson sess), currentPart := sess_currentPart sess,
                         sessionStudentIds := sess_studentIds sess, ids_set := True,
                         activeGroup := (case find (\<lambda>g. go_id g = sess_groupId sess) gos of
                                           Some g \<Rightarrow> Some g | None \<Rightarrow> activeGroup acc1),
                         mode := Run\<rparr>
                  else saveMasterData gos (md_students data) None acc1))"

section \<open>Events\<close>

text \<open>
  The callbacks the rendered components can call: the group dashboard (lines
  254--263), the lesson form (lines 268--279), the layout (line 284) and the lesson
  modules (lines 199--240); \<open>ToastTimeout\<close> is the timer of line 95.
\<close>

datatype app_event =
    SelectGroup "js_string option"
  | DashboardGroups "group_obj list"
  | DashboardStudents "StudentProfile list"
  | LaunchLesson Lesson
  | EditLesson Lesson
  | CreateLesson
  | ReturnToDojo
  | SaveLesson Lesson
  | ChangePart nat
  | ExitToEdit
  | ToDashboard
  | BriefingStart js_string "js_string list"
  | UpdateActiveGroup group_obj
  | UpdateStudents "StudentProfile list"
  | UpdateLesson Lesson
  | AddToInventory "js_string list" inv_kind
  | CompleteMission js_string js_string
  | ToastTimeout

text \<open>The callback of each event, run on the pending state of its batch.\<close>

fun handler :: "app_event \<Rightarrow> app_state \<Rightarrow> app_state \<Rightarrow> app_state" where
  "handler (SelectGroup gid) snap acc =
     (case gid of
        None \<Rightarrow> acc\<lparr>activeGroup := None\<rparr>
      | Some i \<Rightarrow>
          (case find (\<lambda>g. go_id g = i) (groups snap) of
             Some g \<Rightarrow> acc\<lparr>activeGroup := Some g, sessionStudentIds := go_studentIds g, ids_set := True\<rparr>
           | None \<Rightarrow> acc))"
| "handler (DashboardGroups gs) snap acc = saveMasterData gs (students snap) None acc"
| "handler (DashboardStudents ss) snap acc = saveMasterData (groups snap) ss None acc"
| "handler (LaunchLesson l) snap acc = acc\<lparr>currentLesson := Some l, mode := Run, currentPart := 0\<rparr>"
| "handler (EditLesson l) snap acc = acc\<lparr>currentLesson := Some l, mode := Edit\<rparr>"
| "handler CreateLesson snap acc = acc\<lparr>currentLesson := None, mode := Edit\<rparr>"
| "handler ReturnToDojo snap acc = acc\<lparr>mode := Dashboard\<rparr>"
| "handler (SaveLesson l) snap acc =
     (case activeGroup snap of
        None \<Rightarrow> acc
      | Some ag \<Rightarrow>
          (handleUpdateActiveGroup snap
             (ag\<lparr>go_savedLessons := filter (\<lambda>sl. lesson_id sl \<noteq> lesson_id l) (go_savedLessons ag) @ [l]\<rparr>) acc)
          \<lparr>currentLesson := Some l, mode := Dashboard\<rparr>)"
| "handler (ChangePart p) snap acc = acc\<lparr>currentPart := p\<rparr>"
| "handler ExitToEdit snap acc = acc\<lparr>mode := Edit\<rparr>"
| "handler ToDashboard snap acc = acc\<lparr>mode := Dashboard\<rparr>"
| "handler (BriefingStart d ids) snap acc = handleBriefingStart snap d ids acc"
| "handler (UpdateActiveGroup g) snap acc = handleUpdateActiveGroup snap g acc"
| "handler (UpdateStudents ss) snap acc = handleUpdateStudents snap ss acc"
| "handler (UpdateLesson l) snap acc = acc\<lparr>currentLesson := Some l\<rparr>"
| "handler (AddToInventory items ty) snap acc = addToInventory snap items ty acc"
| "handler (CompleteMission today hid) snap acc = handleCompleteMission snap today hid acc"
| "handler ToastTimeout snap acc = acc\<lparr>showSaveToast := False\<rparr>"

text \<open>
  The autosave effect (lines 73--83): after a batch that changed the part, the
  lesson, the mode or set the session's student list, a running lesson is saved.
\<close>

definition autosave :: "app_state \<Rightarrow> app_state \<Rightarrow> app_state" where
  "autosave old new =
     (if currentPart new \<noteq> currentPart old \<or> currentLesson new \<noteq> currentLesson old \<or>
         ids_set new \<or> mode new \<noteq> mode old
      then
        (case (mode new, currentLesson new, activeGroup new) of
           (Run, Some l, Some g) \<Rightarrow>
             saveMasterData (groups new) (students new)
               (Some \<lparr>sess_lesson = l, sess_currentPart = currentPart new, sess_groupId = go_id g,
                      sess_studentIds = sessionStudentIds new\<rparr>) new
         | _ \<Rightarrow> new)
      else new)"

text \<open>One event: its handler on the current state, then the effect.\<close>

definition app_step :: "app_event \<Rightarrow> app_state \<Rightarrow> app_state" where
  "app_step ev st = autosave st (handler ev st (st\<lparr>ids_set := False\<rparr>))"

text \<open>
  Which callbacks the rendered screen offers: the dashboard, the form or the
  layout by mode, and in the layout the module of the current part.
\<close>

fun enabled :: "app_state \<Rightarrow> app_event \<Rightarrow> bool" where
  "enabled st (SelectGroup _) = (mode st = Dashboard)"
| "enabled st (DashboardGroups _) = (mode st = Dashboard)"
| "enabled st (DashboardStudents _) = (mode st = Dashboard)"
| "enabled st (LaunchLesson _) = (mode st = Dashboard)"
| "enabled st (EditLesson _) = (mode st = Dashboard)"
| "enabled st CreateLesson = (mode st = Dashboard)"
| "enabled st ReturnToDojo = (mode st = Edit)"
| "enabled st (SaveLesson _) = (mode st = Edit)"
| "enabled st (ChangePart p) = (mode st = Run \<and> currentLesson st \<noteq> None \<and> p \<le> 10)"
| "enabled st ExitToEdit = (mode st = Run \<and> currentLesson st \<noteq> None)"
| "enabled st ToDashboard = (mode st = Run \<and> currentLesson st \<noteq> None)"
| "enabled st (BriefingStart _ _) = (mode st = Run \<and> currentLesson st \<noteq> None \<and> currentPart st = 0)"
| "enabled st (UpdateActiveGroup _) = (mode st = Run \<and> currentLesson st \<noteq> None \<and> currentPart st = 0)"
| "enabled st (UpdateStudents _) = (mode st = Run \<and> currentLesson st \<noteq> None \<and> currentPart st = 0)"
| "enabled st (UpdateLesson _) =
     (mode st = Run \<and> currentLesson st \<noteq> None \<and> (currentPart st = 2 \<or> currentPart st = 7))"
| "enabled st (AddToInventory _ ty) =
     (mode st = Run \<and> currentLesson st \<noteq> None \<and>
      (case ty of SoundItem \<Rightarrow> currentPart st = 2 \<or> currentPart st = 7 | HfwItem \<Rightarrow> currentPart st = 3))"
| "enabled st (CompleteMission _ _) = (mode st = Run \<and> currentLesson st \<noteq> None \<and> currentPart st = 10)"
| "enabled st ToastTimeout = True"

text \<open>The app as mounted, on the stored master data and cipher presets.\<close>

definition app_start :: "DojoMasterData option \<Rightarrow> js_string option \<Rightarrow> app_state" where
  "app_start stor pres =
     \<lparr>heap = (\<lambda>_. []), next_ref = 0, groups = [], students = [], activeGroup = None,
      currentLesson = None, currentPart = 0, mode = Dashboard, sessionStudentIds = [],
      ids_set = False, showSaveToast = False, storage = stor, presets = pres\<rparr>"

definition app_init :: "DojoMasterData option \<Rightarrow> js_string option \<Rightarrow> bool \<Rightarrow> app_state" where
  "app_init stor pres answer =
     (let s0 = app_start stor pres in autosave s0 (restore s0 answer s0))"

inductive app_reach :: "app_state \<Rightarrow> bool" where
  app_reach_init: "app_reach (app_init stor pres answer)"
| app_reach_step: "app_reach st \<Longrightarrow> enabled st ev \<Longrightarrow> app_reach (app_step ev st)"

section \<open>The contract of the autosave\<close>

text \<open>
  While a lesson runs for a group, local storage holds that session; and the
  dependencies of the autosave effect.
\<close>

definition session_saved :: "app_state \<Rightarrow> bool" where
  "session_saved st =
     (case (mode st, currentLesson st, activeGroup st) of
        (Run, Some l, Some g) \<Rightarrow>
          (case storage st of
             Some d \<Rightarrow> md_activeSession d =
               Some \<lparr>sess_lesson = l, sess_currentPart = currentPart st, sess_groupId = go_id g,
                     sess_studentIds = sessionStudentIds st\<rparr>
           | None \<Rightarrow> False)
      | _ \<Rightarrow> True)"

definition deps_changed :: "app_state \<Rightarrow> app_state \<Rightarrow> bool" where
  "deps_changed old new \<longleftrightarrow>
     currentPart new \<noteq> currentPart old \<or> currentLesson new \<noteq> currentLesson old \<or>
     ids_set new \<or> mode new \<noteq> mode old"

section \<open>Lemmas on the handlers\<close>

lemma session_saved_autosave:
  "deps_changed old new \<or> session_saved new \<Longrightarrow> session_saved (autosave old new)"
  by (auto simp: autosave_def deps_changed_def session_saved_def saveMasterData_def
      split: app_mode.split option.split)

lemma session_saved_not_run: "mode st \<noteq> Run \<Longrightarrow> session_saved st"
  by (simp add: session_saved_def split: app_mode.split)

lemma handleUpdateActiveGroup_fields:
  "mode (handleUpdateActiveGroup snap g acc) = mode acc \<and>
   currentLesson (handleUpdateActiveGroup snap g acc) = currentLesson acc \<and>
   currentPart (handleUpdateActiveGroup snap g acc) = currentPart acc \<and>
   sessionStudentIds (handleUpdateActiveGroup snap g acc) = sessionStudentIds acc \<and>
   ids_set (handleUpdateActiveGroup snap g acc) = ids_set acc \<and>
   activeGroup (handleUpdateActiveGroup snap g acc) = Some g \<and>
   map_option md_activeSession (storage (handleUpdateActiveGroup snap g acc)) = Some (run_session snap (go_id g))"
  by (simp add: handleUpdateActiveGroup_def saveMasterData_def Let_def)

lemma handleUpdateStudents_fields:
  "mode (handleUpdateStudents snap ss acc) = mode acc \<and>
   currentLesson (handleUpdateStudents snap ss acc) = currentLesson acc \<and>
   currentPart (handleUpdateStudents snap ss acc) = currentPart acc \<and>
   sessionStudentIds (handleUpdateStudents snap ss acc) = sessionStudentIds acc \<and>
   ids_set (handleUpdateStudents snap ss acc) = ids_set acc \<and>
   activeGroup (handleUpdateStudents snap ss acc) = activeGroup acc \<and>
   map_option md_activeSession (storage (handleUpdateStudents snap ss acc)) =
     Some (run_session snap (case activeGroup snap of Some g \<Rightarrow> go_id g | None \<Rightarrow> []))"
  by (simp add: handleUpdateStudents_def saveMasterData_def)

lemma run_session_running:
  "mode snap = Run \<Longrightarrow> currentLesson snap = Some l \<Longrightarrow>
   run_session snap gid = Some \<lparr>sess_lesson = l, sess_currentPart = currentPart snap, sess_groupId = gid,
     sess_studentIds = sessionStudentIds snap\<rparr>"
  by (simp add: run_session_def)


lemma session_saved_same:
  "session_saved st \<Longrightarrow> mode st' = mode st \<Longrightarrow> currentLesson st' = currentLesson st \<Longrightarrow>
   activeGroup st' = activeGroup st \<Longrightarrow> currentPart st' = currentPart st \<Longrightarrow>
   sessionStudentIds st' = sessionStudentIds st \<Longrightarrow> storage st' = storage st \<Longrightarrow> session_saved st'"
  unfolding session_saved_def by (simp only:)

lemma session_saved_stored:
  "mode st = Run \<Longrightarrow> currentLesson st = Some l \<Longrightarrow> activeGroup st = Some g \<Longrightarrow>
   map_option md_activeSession (storage st) =
     Some (Some \<lparr>sess_lesson = l, sess_currentPart = currentPart st, sess_groupId = go_id g,
                 sess_studentIds = sessionStudentIds st\<rparr>) \<Longrightarrow>
   session_saved st"
  by (auto simp: session_saved_def)

lemma handler_session:
  assumes en: "enabled st ev" and ss: "session_saved st"
  defines "new \<equiv> handler ev st (st\<lparr>ids_set := False\<rparr>)"
  shows "deps_changed st new \<or> session_saved new"
proof (cases ev)
  case (UpdateActiveGroup g)
  with en obtain l where r: "mode st = Run" "currentLesson st = Some l" by auto
  show ?thesis
    using handleUpdateActiveGroup_fields [of st g "st\<lparr>ids_set := False\<rparr>"] r UpdateActiveGroup
    by (intro disjI2 session_saved_stored [of _ l g]) (simp_all add: new_def run_session_running)
next
  case (UpdateStudents us)
  with en obtain l where r: "mode st = Run" "currentLesson st = Some l" by auto
  show ?thesis
  proof (cases "activeGroup st")
    case None
    then show ?thesis
      using handleUpdateStudents_fields [of st us "st\<lparr>ids_set := False\<rparr>"] r UpdateStudents
      by (simp add: new_def session_saved_def split: app_mode.split option.split)
  next
    case (Some g)
    then show ?thesis
      using handleUpdateStudents_fields [of st us "st\<lparr>ids_set := False\<rparr>"] r UpdateStudents
      by (intro disjI2 session_saved_stored [of _ l g]) (simp_all add: new_def run_session_running)
  qed
next
  case (AddToInventory items ty)
  with en obtain l where r: "mode st = Run" "currentLesson st = Some l" by auto
  show ?thesis
  proof (cases "activeGroup st")
    case None
    with ss AddToInventory show ?thesis
      by (intro disjI2 session_saved_same [OF ss]) (simp_all add: new_def addToInventory_def)
  next
    case (Some ag)
    let ?r = "case ty of SoundItem \<Rightarrow> go_sounds ag | HfwItem \<Rightarrow> go_hfw ag"
    let ?acc1 = "st\<lparr>ids_set := False, heap := (heap st)(?r := push_new (heap st ?r) items)\<rparr>"
    show ?thesis
    proof (cases "push_new (heap st ?r) items = heap st ?r")
      case True
      with ss AddToInventory Some show ?thesis
        by (intro disjI2 session_saved_same [OF ss]) (simp_all add: new_def addToInventory_def Let_def)
    next
      case False
      let ?acc2 = "handleUpdateActiveGroup st ag ?acc1"
      let ?us = "map (\<lambda>s. if stu_id s \<in> set (sessionStudentIds st) then master ty items s else s) (students st)"
      have e: "new = handleUpdateStudents st ?us ?acc2"
        using False Some AddToInventory by (simp add: new_def addToInventory_def Let_def)
      show ?thesis
        unfolding e
        using handleUpdateStudents_fields [of st ?us ?acc2] handleUpdateActiveGroup_fields [of st ag ?acc1] r Some
        by (intro disjI2 session_saved_stored [of _ l ag]) (simp_all add: run_session_running)
    qed
  qed
next
  case (CompleteMission today hid)
  show ?thesis
  proof (cases "activeGroup st = None \<or> currentLesson st = None")
    case True
    with en CompleteMission show ?thesis
      by (auto simp: new_def handleCompleteMission_def session_saved_def split: option.split)
  next
    case False
    then show ?thesis
      using CompleteMission
      by (intro disjI2 session_saved_not_run)
        (auto simp: new_def handleCompleteMission_def Let_def)
  qed
next
  case (SaveLesson l)
  with en show ?thesis
    by (auto simp: new_def session_saved_def handleUpdateActiveGroup_fields split: option.split)
next
  case (ChangePart p)
  with ss show ?thesis
    by (cases "p = currentPart st") (simp_all add: new_def deps_changed_def session_saved_same)
next
  case (UpdateLesson l)
  with ss show ?thesis
    by (cases "Some l = currentLesson st") (simp_all add: new_def deps_changed_def session_saved_same)
next
  case (BriefingStart d ids)
  then show ?thesis
    by (simp add: new_def deps_changed_def handleBriefingStart_def Let_def handleUpdateStudents_fields
        handleUpdateActiveGroup_fields split: option.split)
next
  case (SelectGroup gid)
  with en show ?thesis
    by (auto simp: new_def session_saved_def split: option.split)
next
  case (DashboardGroups gs)
  with en show ?thesis by (simp add: new_def session_saved_def saveMasterData_def)
next
  case (DashboardStudents us)
  with en show ?thesis by (simp add: new_def session_saved_def saveMasterData_def)
next
  case (LaunchLesson l)
  with en show ?thesis by (simp add: new_def deps_changed_def)
next
  case ToastTimeout
  with ss show ?thesis by (simp add: new_def session_saved_same)
qed (use en in \<open>simp_all add: new_def session_saved_def\<close>)


lemma set_push_new [simp]: "set (push_new xs items) = set xs \<union> set items"
  unfolding push_new_def by (induction items arbitrary: xs) auto

lemma restore_start:
  "deps_changed (app_start stor pres) (restore (app_start stor pres) answer (app_start stor pres)) \<or>
   session_saved (restore (app_start stor pres) answer (app_start stor pres))"
  by (auto simp: restore_def app_start_def deps_changed_def session_saved_def saveMasterData_def
      split: option.split prod.split)

section \<open>Properties of the session state\<close>

text \<open>
  C30.  Crash recovery: in every state the app can reach, while a lesson is running
  for a group, the master data in local storage holds that lesson, part, group and
  student list as its active session.
\<close>

theorem app_session_saved:
  assumes "app_reach st"
  shows "session_saved st"
  using assms
proof (induction rule: app_reach.induct)
  case (app_reach_init stor pres answer)
  then show ?case
    unfolding app_init_def Let_def by (rule session_saved_autosave [OF restore_start])
next
  case (app_reach_step st ev)
  then show ?case
    unfolding app_step_def by (intro session_saved_autosave handler_session)
qed

theorem app_session_saved_witness:
  "app_reach (app_init None None True) \<and> session_saved (app_init None None True)"
  using app_session_saved [OF app_reach_init [of None None True]] app_reach_init [of None None True]
  by simp

text \<open>
  C31.  Completing the mission of a running lesson archives it: the stored master
  data has no active session, every stored copy of the group begins its history
  with the new entry, every student of the session begins its log with the lesson,
  and the app returns to the dashboard.
\<close>

theorem complete_mission_archives:
  assumes "activeGroup st = Some ag" "currentLesson st = Some l" "mode st = Run"
  shows "mode (app_step (CompleteMission today hid) st) = Dashboard \<and>
    (\<exists>d. storage (app_step (CompleteMission today hid) st) = Some d \<and> md_activeSession d = None \<and>
       list_all (\<lambda>G. grp_id G = go_id ag \<longrightarrow>
         grp_history G = \<lparr>hist_id = hid, hist_lessonId = lesson_id l, hist_title = lesson_title l,
           hist_date = today, hist_studentIds = sessionStudentIds st,
           hist_notes = Some ''Mission successfully completed.''\<rparr> # go_history ag) (md_groups d) \<and>
       list_all (\<lambda>S. stu_id S \<in> set (sessionStudentIds st) \<longrightarrow>
         stu_history S \<noteq> [] \<and> hd (stu_history S) = \<lparr>log_date = today, log_lessonTitle = lesson_title l,
           log_step = lesson_step l @ ''.'' @ lesson_substep l\<rparr>) (md_students d))"
  using assms
  by (auto simp: app_step_def autosave_def handleCompleteMission_def Let_def saveMasterData_def
      list_all_iff deref_def log_lesson_def)

theorem complete_mission_archives_witness:
  "mode (app_step (CompleteMission ''d'' ''h'')
     ((app_start None None)\<lparr>activeGroup := Some \<lparr>go_id = ''g'', go_name = ''G'', go_studentIds = [],
        go_sounds = 0, go_hfw = 1, go_lastLessonDate = None, go_jobs = None, go_savedLessons = [],
        go_history = []\<rparr>, currentLesson := Some emptyLesson, mode := Run\<rparr>)) = Dashboard \<and>
   (\<exists>d. storage (app_step (CompleteMission ''d'' ''h'')
     ((app_start None None)\<lparr>activeGroup := Some \<lparr>go_id = ''g'', go_name = ''G'', go_studentIds = [],
        go_sounds = 0, go_hfw = 1, go_lastLessonDate = None, go_jobs = None, go_savedLessons = [],
        go_history = []\<rparr>, currentLesson := Some emptyLesson, mode := Run\<rparr>)) = Some d \<and>
     md_activeSession d = None)"
  using complete_mission_archives [where today="''d''" and hid="''h''" and l=emptyLesson and ag="\<lparr>go_id = ''g'', go_name = ''G'', go_studentIds = [], go_sounds = 0, go_hfw = 1, go_lastLessonDate = None, go_jobs = None, go_savedLessons = [], go_history = []\<rparr>" and st="(app_start None None)\<lparr>activeGroup := Some \<lparr>go_id = ''g'',
      go_name = ''G'', go_studentIds = [], go_sounds = 0, go_hfw = 1, go_lastLessonDate = None,
      go_jobs = None, go_savedLessons = [], go_history = []\<rparr>, currentLesson := Some emptyLesson,
      mode := Run\<rparr>"] by (auto simp: app_start_def)

text \<open>
  C32.  Starting the briefing loses the update of the group: the handler saves the
  group with its new student list and lesson date, but the students' save that
  follows in the same batch writes the group list of the render, so the group list in
  state and in local storage stays as it was; only the active group holds the update.
\<close>

theorem briefing_loses_group_update:
  assumes "mode st = Run" "currentLesson st = Some l" "activeGroup st = Some ag"
  shows "groups (app_step (BriefingStart d ids) st) = groups st \<and>
    activeGroup (app_step (BriefingStart d ids) st) = Some (ag\<lparr>go_studentIds := ids, go_lastLessonDate := Some d\<rparr>) \<and>
    (\<exists>dd. storage (app_step (BriefingStart d ids) st) = Some dd \<and> md_groups dd = map (deref (heap st)) (groups st))"
  using assms
  by (simp add: app_step_def autosave_def handleBriefingStart_def Let_def handleUpdateStudents_def
      handleUpdateActiveGroup_def saveMasterData_def)

theorem briefing_loses_group_update_witness:
  "groups (app_step (BriefingStart ''Mon'' [''s1''])
     ((app_start None None)\<lparr>groups := [\<lparr>go_id = ''g'', go_name = ''G'', go_studentIds = [],
        go_sounds = 0, go_hfw = 1, go_lastLessonDate = None, go_jobs = None, go_savedLessons = [],
        go_history = []\<rparr>],
      activeGroup := Some \<lparr>go_id = ''g'', go_name = ''G'', go_studentIds = [],
        go_sounds = 0, go_hfw = 1, go_lastLessonDate = None, go_jobs = None, go_savedLessons = [],
        go_history = []\<rparr>, currentLesson := Some emptyLesson, mode := Run\<rparr>)) =
   [\<lparr>go_id = ''g'', go_name = ''G'', go_studentIds = [], go_sounds = 0, go_hfw = 1,
     go_lastLessonDate = None, go_jobs = None, go_savedLessons = [], go_history = []\<rparr>]"
  using briefing_loses_group_update [of "(app_start None None)\<lparr>groups := [\<lparr>go_id = ''g'',
      go_name = ''G'', go_studentIds = [], go_sounds = 0, go_hfw = 1, go_lastLessonDate = None,
      go_jobs = None, go_savedLessons = [], go_history = []\<rparr>],
    activeGroup := Some \<lparr>go_id = ''g'', go_name = ''G'', go_studentIds = [],
      go_sounds = 0, go_hfw = 1, go_lastLessonDate = None, go_jobs = None, go_savedLessons = [],
      go_history = []\<rparr>, currentLesson := Some emptyLesson, mode := Run\<rparr>"]
  by (simp add: app_start_def)

text \<open>
  C33.  Adding a new sound to the inventory reaches local storage although the last
  save of the handler writes the group list of the render: the item is pushed onto
  the array the active group shares with its entry in the group list, and the
  stored copy of every group with that id contains all the items.
\<close>

theorem add_inventory_shared_array:
  assumes "activeGroup st = Some ag" "mode st = Run" "currentLesson st = Some l"
    and shared: "list_all (\<lambda>g. go_id g = go_id ag \<longrightarrow> go_sounds g = go_sounds ag) (groups st)"
    and new: "\<not> set items \<subseteq> set (heap st (go_sounds ag))"
  shows "groups (app_step (AddToInventory items SoundItem) st) = groups st \<and>
    (\<exists>d. storage (app_step (AddToInventory items SoundItem) st) = Some d \<and>
       list_all (\<lambda>G. grp_id G = go_id ag \<longrightarrow> set items \<subseteq> set (inv_learnedSounds (grp_inventory G)))
         (md_groups d))"
proof -
  have ne: "push_new (heap st (go_sounds ag)) items \<noteq> heap st (go_sounds ag)"
    using new by (metis Un_upper2 set_push_new)
  show ?thesis
    using assms ne
    by (auto simp: app_step_def autosave_def addToInventory_def Let_def handleUpdateStudents_def
        handleUpdateActiveGroup_def saveMasterData_def list_all_iff deref_def)
qed

theorem add_inventory_shared_array_witness:
  "groups (app_step (AddToInventory [''sh''] SoundItem)
     ((app_start None None)\<lparr>groups := [\<lparr>go_id = ''g'', go_name = ''G'', go_studentIds = [],
        go_sounds = 0, go_hfw = 1, go_lastLessonDate = None, go_jobs = None, go_savedLessons = [],
        go_history = []\<rparr>],
      activeGroup := Some \<lparr>go_id = ''g'', go_name = ''G'', go_studentIds = [],
        go_sounds = 0, go_hfw = 1, go_lastLessonDate = None, go_jobs = None, go_savedLessons = [],
        go_history = []\<rparr>, currentLesson := Some emptyLesson, mode := Run, currentPart := 2\<rparr>)) =
   [\<lparr>go_id = ''g'', go_name = ''G'', go_studentIds = [], go_sounds = 0, go_hfw = 1,
     go_lastLessonDate = None, go_jobs = None, go_savedLessons = [], go_history = []\<rparr>]"
  using add_inventory_shared_array [of "(app_start None None)\<lparr>groups := [\<lparr>go_id = ''g'',
      go_name = ''G'', go_studentIds = [], go_sounds = 0, go_hfw = 1, go_lastLessonDate = None,
      go_jobs = None, go_savedLessons = [], go_history = []\<rparr>],
    activeGroup := Some \<lparr>go_id = ''g'', go_name = ''G'', go_studentIds = [],
      go_sounds = 0, go_hfw = 1, go_lastLessonDate = None, go_jobs = None, go_savedLessons = [],
      go_history = []\<rparr>, currentLesson := Some emptyLesson, mode := Run, currentPart := 2\<rparr>"]
  by (simp add: app_start_def)

end
