(* ===== verification/Dashboard.thy ===== *)
theory Dashboard
  imports App
begin

text \<open>
  The group dashboard \<open>GroupDashboard\<close> (\<open>src/unnamed/part_003\<close>, rendered by
  \<open>App\<close> at lines 254--263 of \<open>src/App.tsx\<close>).  Its own state is a record of its
  \<open>useState\<close> hooks.  Its props are the App's state: \<open>groups\<close>, \<open>students\<close> and
  \<open>activeGroup\<close>.  A callback of the dashboard changes its own state and calls the
  App's callbacks, given here as the list of App events it raises.  The events of
  one callback run as one React batch of the App model, all reading the state of the
  render.  Creating a group and reading a backup allocate new inventory arrays in
  the App's heap.  The answers to \<open>confirm\<close> and \<open>prompt\<close>, the generated ids and
  the parsed backup file are inputs of the events.
\<close>

section \<open>State\<close>

datatype dash_view = GroupsView | StudentsView | RecordsView

record dash_state =
  view :: dash_view
  isCreating :: bool
  newGroupName :: js_string
  editingStudent :: "StudentProfile option"

text \<open>The first render (lines 19--22).\<close>

definition dash_start :: dash_state where
  "dash_start = \<lparr>view = GroupsView, isCreating = False, newGroupName = [], editingStudent = None\<rparr>"

section \<open>A batch of App callbacks\<close>

text \<open>
  Callbacks called from one handler run on the render's state \<open>st\<close> and queue their
  updates in order; the autosave effect of the App runs after the batch.
\<close>

definition app_batch :: "app_event list \<Rightarrow> app_state \<Rightarrow> app_state" where
  "app_batch evs st = autosave st (foldl (\<lambda>acc ev. handler ev st acc) (st\<lparr>ids_set := False\<rparr>) evs)"

section \<open>Handlers\<close>

text \<open>
  A new group object (lines 28--36): two fresh inventory arrays are allocated at
  \<open>next_ref\<close>.
\<close>

definition alloc_group :: "js_string \<Rightarrow> js_string \<Rightarrow> app_state \<Rightarrow> app_state \<times> group_obj" where
  "alloc_group gid name st =
     (let r = next_ref st
      in (st\<lparr>heap := (heap st)(r := [], Suc r := []), next_ref := r + 2\<rparr>,
          \<lparr>go_id = gid, go_name = name, go_studentIds = [], go_sounds = r, go_hfw = Suc r,
           go_lastLessonDate = None, go_jobs = Some [], go_savedLessons = [], go_history = []\<rparr>))"

text \<open>\<open>createGroup\<close> (lines 25--40); \<open>fresh\<close> is the id of \<open>generateId\<close>.\<close>

definition createGroup ::
  "js_string \<Rightarrow> app_state \<Rightarrow> dash_state \<Rightarrow> app_state \<times> dash_state \<times> app_event list" where
  "createGroup fresh st ds =
     (if js_trim (newGroupName ds) = [] then (st, ds, [])
      else
        (let (st1, g) = alloc_group fresh (js_trim (newGroupName ds)) st
         in (st1, ds\<lparr>newGroupName := [], isCreating := False\<rparr>, [DashboardGroups (groups st @ [g])])))"

text \<open>
  \<open>handleRestore\<close> (lines 52--69): \<open>file\<close> is the parsed backup, \<open>None\<close> when the
  file is missing, is no JSON or lacks \<open>groups\<close> or \<open>students\<close>; \<open>answer\<close> is the
  reply to \<open>confirm\<close>.  \<open>JSON.parse\<close> creates fresh inventory arrays.
\<close>

definition handleRestore ::
  "(GroupProfile list \<times> StudentProfile list) option \<Rightarrow> bool \<Rightarrow> app_state \<Rightarrow> dash_state \<Rightarrow>
   app_state \<times> dash_state \<times> app_event list" where
  "handleRestore file answer st ds =
     (case file of
        None \<Rightarrow> (st, ds, [])
      | Some (gs, ss) \<Rightarrow>
          if answer then
            (let (h, n, gos) = load_groups (heap st) (next_ref st) gs
             in (st\<lparr>heap := h, next_ref := n\<rparr>, ds, [DashboardGroups gos, DashboardStudents ss]))
          else (st, ds, []))"

text \<open>Incinerating a scroll of the active group (line 174).\<close>

definition incinerate :: "js_string \<Rightarrow> group_obj \<Rightarrow> group_obj list \<Rightarrow> group_obj list" where
  "incinerate lid ag gs =
     map (\<lambda>gr. if go_id gr = go_id ag
               then gr\<lparr>go_savedLessons := filter (\<lambda>sl. lesson_id sl \<noteq> lid) (go_savedLessons gr)\<rparr>
               else gr) gs"

text \<open>A new student (line 214); \<open>name\<close> is the reply to \<open>prompt\<close>.\<close>

definition new_student :: "js_string \<Rightarrow> js_string \<Rightarrow> StudentProfile" where
  "new_student sid name =
     \<lparr>stu_id = sid, stu_name = name, stu_masteredSounds = [], stu_masteredHFW = [],
      stu_attendanceCount = 0, stu_lastSeen = None, stu_notes = [], stu_history = []\<rparr>"

text \<open>Editing the notes of the open dossier (line 316).\<close>

definition editNotes ::
  "js_string \<Rightarrow> app_state \<Rightarrow> dash_state \<Rightarrow> app_state \<times> dash_state \<times> app_event list" where
  "editNotes v st ds =
     (case editingStudent ds of
        None \<Rightarrow> (st, ds, [])
      | Some es \<Rightarrow>
          (let updated = es\<lparr>stu_notes := v\<rparr>
           in (st, ds\<lparr>editingStudent := Some updated\<rparr>,
               [DashboardStudents (map (\<lambda>s. if stu_id s = stu_id es then updated else s) (students st))])))"

section \<open>Events\<close>

datatype dash_event =
    ShowGroups | ShowStudents | ShowRecords | BackToDojo
  | StartCreate | CancelCreate | EditGroupName js_string | CreateGroup js_string
  | RestoreFile "(GroupProfile list \<times> StudentProfile list) option" bool
  | OpenGroup js_string | CloseGroup
  | CreateScroll | DeployScroll Lesson | EditScroll Lesson | IncinerateScroll js_string bool
  | AddNinja "js_string option" js_string
  | OpenDossier js_string | CloseDossier | EditNotes js_string | Vaporize bool

text \<open>
  The callbacks of the rendered dashboard (lines 85--329), on the App's state \<open>st\<close>
  (the props) and the dashboard's own state.
\<close>

fun dash_handler ::
  "dash_event \<Rightarrow> app_state \<Rightarrow> dash_state \<Rightarrow> app_state \<times> dash_state \<times> app_event list" where
  "dash_handler ShowGroups st ds = (st, ds\<lparr>view := GroupsView\<rparr>, [SelectGroup None])"
| "dash_handler ShowStudents st ds = (st, ds\<lparr>view := StudentsView\<rparr>, [])"
| "dash_handler ShowRecords st ds = (st, ds\<lparr>view := RecordsView\<rparr>, [])"
| "dash_handler BackToDojo st ds = (st, ds\<lparr>view := GroupsView\<rparr>, [])"
| "dash_handler StartCreate st ds = (st, ds\<lparr>isCreating := True\<rparr>, [])"
| "dash_handler CancelCreate st ds = (st, ds\<lparr>isCreating := False\<rparr>, [])"
| "dash_handler (EditGroupName v) st ds = (st, ds\<lparr>newGroupName := v\<rparr>, [])"
| "dash_handler (CreateGroup fresh) st ds = createGroup fresh st ds"
| "dash_handler (RestoreFile file answer) st ds = handleRestore file answer st ds"
| "dash_handler (OpenGroup gid) st ds = (st, ds, [SelectGroup (Some gid)])"
| "dash_handler CloseGroup st ds = (st, ds, [SelectGroup None])"
| "dash_handler CreateScroll st ds = (st, ds, [CreateLesson])"
| "dash_handler (DeployScroll l) st ds = (st, ds, [LaunchLesson l])"
| "dash_handler (EditScroll l) st ds = (st, ds, [EditLesson l])"
| "dash_handler (IncinerateScroll lid answer) st ds =
     (case activeGroup st of
        Some ag \<Rightarrow> (st, ds, if answer then [DashboardGroups (incinerate lid ag (groups st))] else [])
      | None \<Rightarrow> (st, ds, []))"
| "dash_handler (AddNinja name fresh) st ds =
     (case name of
        Some n \<Rightarrow> (st, ds, if n \<noteq> [] then [DashboardStudents (students st @ [new_student fresh n])] else [])
      | None \<Rightarrow> (st, ds, []))"
| "dash_handler (OpenDossier sid) st ds = (st, ds\<lparr>editingStudent := find (\<lambda>s. stu_id s = sid) (students st)\<rparr>, [])"
| "dash_handler CloseDossier st ds = (st, ds\<lparr>editingStudent := None\<rparr>, [])"
| "dash_handler (EditNotes v) st ds = editNotes v st ds"
| "dash_handler (Vaporize answer) st ds =
     (case editingStudent ds of
        Some es \<Rightarrow>
          if answer then (st, ds\<lparr>editingStudent := None\<rparr>, [DashboardStudents (filter (\<lambda>s. stu_id s \<noteq> stu_id es) (students st))])
          else (st, ds, [])
      | None \<Rightarrow> (st, ds, []))"

text \<open>One event of the dashboard: its callback, then the App's batch of what it called.\<close>

definition dash_step :: "dash_event \<Rightarrow> app_state \<times> dash_state \<Rightarrow> app_state \<times> dash_state" where
  "dash_step ev sd =
     (let (st1, ds1, evs) = dash_handler ev (fst sd) (snd sd) in (app_batch evs st1, ds1))"

text \<open>
  Which controls the dashboard shows: the group list with no active group, the
  active group's panel, the student grid, the records of the active group, and the
  dossier while a student is open (it covers the screen).
\<close>

fun dash_enabled :: "app_state \<Rightarrow> dash_state \<Rightarrow> dash_event \<Rightarrow> bool" where
  "dash_enabled st ds CloseDossier = (editingStudent ds \<noteq> None)"
| "dash_enabled st ds (EditNotes _) = (editingStudent ds \<noteq> None)"
| "dash_enabled st ds (Vaporize _) = (editingStudent ds \<noteq> None)"
| "dash_enabled st ds ev =
     (mode st = Dashboard \<and> editingStudent ds = None \<and>
      (case ev of
         StartCreate \<Rightarrow> view ds = GroupsView \<and> activeGroup st = None \<and> \<not> isCreating ds
       | CancelCreate \<Rightarrow> view ds = GroupsView \<and> activeGroup st = None \<and> isCreating ds
       | EditGroupName _ \<Rightarrow> view ds = GroupsView \<and> activeGroup st = None \<and> isCreating ds
       | CreateGroup _ \<Rightarrow> view ds = GroupsView \<and> activeGroup st = None \<and> isCreating ds
       | OpenGroup gid \<Rightarrow> view ds = GroupsView \<and> activeGroup st = None \<and> gid \<in> go_id ` set (groups st)
       | CloseGroup \<Rightarrow> view ds = GroupsView \<and> activeGroup st \<noteq> None
       | ShowRecords \<Rightarrow> view ds = GroupsView \<and> activeGroup st \<noteq> None
       | CreateScroll \<Rightarrow> view ds = GroupsView \<and> activeGroup st \<noteq> None
       | DeployScroll l \<Rightarrow> view ds = GroupsView \<and> (\<exists>ag\<in>set_option (activeGroup st). l \<in> set (go_savedLessons ag))
       | EditScroll l \<Rightarrow> view ds = GroupsView \<and> (\<exists>ag\<in>set_option (activeGroup st). l \<in> set (go_savedLessons ag))
       | IncinerateScroll lid _ \<Rightarrow>
           view ds = GroupsView \<and> (\<exists>ag\<in>set_option (activeGroup st). lid \<in> lesson_id ` set (go_savedLessons ag))
       | BackToDojo \<Rightarrow> view ds = RecordsView \<and> activeGroup st \<noteq> None
       | AddNinja _ _ \<Rightarrow> view ds = StudentsView
       | OpenDossier sid \<Rightarrow> view ds = StudentsView \<and> sid \<in> stu_id ` set (students st)
       | _ \<Rightarrow> True))"

section \<open>Lemmas\<close>

lemma autosave_not_run [simp]: "mode new \<noteq> Run \<Longrightarrow> autosave old new = new"
  by (simp add: autosave_def split: app_mode.split option.split)

lemma app_batch_single: "app_batch [ev] st = app_step ev st"
  by (simp add: app_batch_def app_step_def)

lemma saveMasterData_fields [simp]:
  "groups (saveMasterData gs ss sess acc) = gs"
  "students (saveMasterData gs ss sess acc) = ss"
  "mode (saveMasterData gs ss sess acc) = mode acc"
  "activeGroup (saveMasterData gs ss sess acc) = activeGroup acc"
  "heap (saveMasterData gs ss sess acc) = heap acc"
  "next_ref (saveMasterData gs ss sess acc) = next_ref acc"
  "storage (saveMasterData gs ss sess acc) =
     Some \<lparr>md_groups = map (deref (heap acc)) gs, md_students = ss,
           md_cipherPresets = (case presets acc of Some p \<Rightarrow> p | None \<Rightarrow> ''[]''), md_activeSession = sess\<rparr>"
  by (simp_all add: saveMasterData_def)

lemma incinerate_ids [simp]: "map go_id (incinerate lid ag gs) = map go_id gs"
  by (induction gs) (simp_all add: incinerate_def)

lemma incinerate_removes:
  "g \<in> set (incinerate lid ag gs) \<Longrightarrow> go_id g = go_id ag \<Longrightarrow> lid \<notin> lesson_id ` set (go_savedLessons g)"
  by (auto simp: incinerate_def)

lemma replace_by_id_mem:
  "go_id g \<in> go_id ` set gs \<Longrightarrow> g \<in> set (map (\<lambda>x. if go_id x = go_id g then g else x) gs)"
  by (induction gs) auto

lemma ids_mem_map: "map go_id xs = map go_id ys \<Longrightarrow> go_id ` set xs = go_id ` set ys"
  by (metis list.set_map)

lemma handleUpdateActiveGroup_groups [simp]:
  "groups (handleUpdateActiveGroup snap g acc) = map (\<lambda>x. if go_id x = go_id g then g else x) (groups snap)"
  by (simp add: handleUpdateActiveGroup_def Let_def)

lemma app_step_EditLesson:
  "app_step (EditLesson l) st = st\<lparr>ids_set := False, currentLesson := Some l, mode := Edit\<rparr>"
  by (simp add: app_step_def)

lemma app_step_SaveLesson_groups:
  "activeGroup st = Some ag \<Longrightarrow>
   groups (app_step (SaveLesson l) st) =
     map (\<lambda>x. if go_id x = go_id ag then ag\<lparr>go_savedLessons := filter (\<lambda>sl. lesson_id sl \<noteq> lesson_id l) (go_savedLessons ag) @ [l]\<rparr> else x)
       (groups st)"
  by (simp add: app_step_def handleUpdateActiveGroup_fields)

lemma createGroup_stored:
  assumes "mode st = Dashboard" "js_trim (newGroupName ds) \<noteq> []"
    and refs: "\<forall>g\<in>set (groups st). go_sounds g < next_ref st \<and> go_hfw g < next_ref st"
  shows "map_option md_groups (storage (fst (dash_step (CreateGroup fresh) (st, ds)))) =
     Some (map (deref (heap st)) (groups st) @
       [\<lparr>grp_id = fresh, grp_name = js_trim (newGroupName ds), grp_studentIds = [],
         grp_inventory = \<lparr>inv_learnedSounds = [], inv_learnedHFW = []\<rparr>, grp_lastLessonDate = None,
         grp_jobs = Some [], grp_savedLessons = [], grp_history = []\<rparr>])"
proof -
  let ?r = "next_ref st"
  let ?h = "(heap st)(?r := [], Suc ?r := [])"
  let ?g = "\<lparr>go_id = fresh, go_name = js_trim (newGroupName ds), go_studentIds = [], go_sounds = ?r,
            go_hfw = Suc ?r, go_lastLessonDate = None, go_jobs = Some [], go_savedLessons = [], go_history = []\<rparr>"
  have old: "map (deref ?h) (groups st) = map (deref (heap st)) (groups st)"
    using refs by (auto simp: deref_def)
  have new: "deref ?h ?g =
      \<lparr>grp_id = fresh, grp_name = js_trim (newGroupName ds), grp_studentIds = [],
         grp_inventory = \<lparr>inv_learnedSounds = [], inv_learnedHFW = []\<rparr>, grp_lastLessonDate = None,
         grp_jobs = Some [], grp_savedLessons = [], grp_history = []\<rparr>"
    by (simp add: deref_def)
  have "fst (dash_step (CreateGroup fresh) (st, ds)) =
      saveMasterData (groups st @ [?g]) (students st) None (st\<lparr>heap := ?h, next_ref := ?r + 2, ids_set := False\<rparr>)"
    using assms(1,2) by (simp add: dash_step_def createGroup_def alloc_group_def app_batch_def Let_def)
  then show ?thesis
    using old new by simp
qed

lemma vaporize_keeps_group_ids:
  assumes "mode st = Dashboard"
  shows "groups (fst (dash_step (Vaporize answer) (st, ds))) = groups st"
  using assms by (simp add: dash_step_def app_batch_def split: option.split)

section \<open>Properties\<close>

text \<open>
  C37.  Restoring a backup from the dashboard, confirmed, keeps the groups the App
  had and takes only the students of the file: \<open>handleRestore\<close> calls
  \<open>onUpdateGroups\<close> and then \<open>onUpdateStudents\<close>, and the second call saves the
  group list of the render, in state and in local storage.
\<close>

theorem restore_drops_backup_groups:
  assumes "mode st = Dashboard"
  shows "let st' = fst (dash_step (RestoreFile (Some (gs, ss)) True) (st, ds))
         in groups st' = groups st \<and> students st' = ss \<and>
            map_option md_groups (storage st') = Some (map (deref (heap st')) (groups st))"
  using assms
  by (simp add: dash_step_def handleRestore_def app_batch_def split: prod.split)

theorem restore_drops_backup_groups_witness:
  "let st' = fst (dash_step (RestoreFile (Some ([\<lparr>grp_id = ''g2'', grp_name = ''New'', grp_studentIds = [],
                grp_inventory = \<lparr>inv_learnedSounds = [''sh''], inv_learnedHFW = []\<rparr>, grp_lastLessonDate = None,
                grp_jobs = None, grp_savedLessons = [], grp_history = []\<rparr>], [])) True)
             ((app_start None None)\<lparr>groups := [\<lparr>go_id = ''g1'', go_name = ''Old'', go_studentIds = [],
                go_sounds = 0, go_hfw = 1, go_lastLessonDate = None, go_jobs = None, go_savedLessons = [],
                go_history = []\<rparr>]\<rparr>, dash_start))
   in groups st' = groups ((app_start None None)\<lparr>groups := [\<lparr>go_id = ''g1'', go_name = ''Old'', go_studentIds = [],
                go_sounds = 0, go_hfw = 1, go_lastLessonDate = None, go_jobs = None, go_savedLessons = [],
                go_history = []\<rparr>]\<rparr>) \<and> students st' = [] \<and>
      map_option md_groups (storage st') = Some (map (deref (heap st')) (groups ((app_start None None)\<lparr>groups :=
                [\<lparr>go_id = ''g1'', go_name = ''Old'', go_studentIds = [],
                go_sounds = 0, go_hfw = 1, go_lastLessonDate = None, go_jobs = None, go_savedLessons = [],
                go_history = []\<rparr>]\<rparr>)))"
  by (rule restore_drops_backup_groups) (simp add: app_start_def)

text \<open>
  C38.  A scroll incinerated on the dashboard leaves the group list but not the
  active group, which the dashboard keeps showing; saving another lesson of the group
  from the form then writes the active group back and the scroll returns.
\<close>

theorem incinerated_scroll_returns:
  assumes "mode st = Dashboard" "activeGroup st = Some ag" "l \<in> set (go_savedLessons ag)"
    "go_id ag \<in> go_id ` set (groups st)" "lesson_id lsave \<noteq> lesson_id l"
  shows "let st1 = fst (dash_step (IncinerateScroll (lesson_id l) True) (st, ds));
             st3 = app_step (SaveLesson lsave) (app_step (EditLesson ledit) st1)
         in (\<forall>g\<in>set (groups st1). go_id g = go_id ag \<longrightarrow> l \<notin> set (go_savedLessons g)) \<and>
            activeGroup st1 = Some ag \<and>
            (\<exists>g\<in>set (groups st3). go_id g = go_id ag \<and> l \<in> set (go_savedLessons g))"
proof -
  let ?gs = "incinerate (lesson_id l) ag (groups st)"
  let ?ug = "ag\<lparr>go_savedLessons := filter (\<lambda>sl. lesson_id sl \<noteq> lesson_id lsave) (go_savedLessons ag) @ [lsave]\<rparr>"
  let ?st1 = "saveMasterData ?gs (students st) None (st\<lparr>ids_set := False\<rparr>)"
  have st1: "fst (dash_step (IncinerateScroll (lesson_id l) True) (st, ds)) = ?st1"
    using assms(1,2) by (simp add: dash_step_def app_batch_def)
  have act: "activeGroup ?st1 = Some ag" "groups ?st1 = ?gs"
    using assms(2) by simp_all
  have gone: "\<forall>g\<in>set ?gs. go_id g = go_id ag \<longrightarrow> l \<notin> set (go_savedLessons g)"
    using incinerate_removes by blast
  have "go_id ?ug \<in> go_id ` set ?gs"
    using assms(4) ids_mem_map [OF incinerate_ids] by simp
  then have "?ug \<in> set (map (\<lambda>x. if go_id x = go_id ?ug then ?ug else x) ?gs)"
    by (rule replace_by_id_mem)
  then have "?ug \<in> set (groups (app_step (SaveLesson lsave) (app_step (EditLesson ledit) ?st1)))"
    using act by (simp add: app_step_EditLesson app_step_SaveLesson_groups)
  moreover have "l \<in> set (go_savedLessons ?ug)" "go_id ?ug = go_id ag"
    using assms(3,5) by simp_all
  ultimately show ?thesis
    unfolding Let_def st1 using gone act by (simp only:) blast
qed

theorem incinerated_scroll_returns_witness:
  "let st1 = fst (dash_step (IncinerateScroll (lesson_id (emptyLesson\<lparr>lesson_id := ''L1''\<rparr>)) True)
               ((app_start None None)\<lparr>groups := [\<lparr>go_id = ''g1'', go_name = ''Squad'', go_studentIds = [],
                  go_sounds = 0, go_hfw = 1, go_lastLessonDate = None, go_jobs = None,
                  go_savedLessons = [emptyLesson\<lparr>lesson_id := ''L1''\<rparr>], go_history = []\<rparr>],
                activeGroup := Some \<lparr>go_id = ''g1'', go_name = ''Squad'', go_studentIds = [],
                  go_sounds = 0, go_hfw = 1, go_lastLessonDate = None, go_jobs = None,
                  go_savedLessons = [emptyLesson\<lparr>lesson_id := ''L1''\<rparr>], go_history = []\<rparr>\<rparr>, dash_start));
       st3 = app_step (SaveLesson (emptyLesson\<lparr>lesson_id := ''L2''\<rparr>))
               (app_step (EditLesson (emptyLesson\<lparr>lesson_id := ''L2''\<rparr>)) st1)
   in (\<forall>g\<in>set (groups st1). go_id g = ''g1'' \<longrightarrow> emptyLesson\<lparr>lesson_id := ''L1''\<rparr> \<notin> set (go_savedLessons g)) \<and>
      activeGroup st1 = Some \<lparr>go_id = ''g1'', go_name = ''Squad'', go_studentIds = [],
                  go_sounds = 0, go_hfw = 1, go_lastLessonDate = None, go_jobs = None,
                  go_savedLessons = [emptyLesson\<lparr>lesson_id := ''L1''\<rparr>], go_history = []\<rparr> \<and>
      (\<exists>g\<in>set (groups st3). go_id g = ''g1'' \<and> emptyLesson\<lparr>lesson_id := ''L1''\<rparr> \<in> set (go_savedLessons g))"
  using incinerated_scroll_returns [where st="(app_start None None)\<lparr>groups := [\<lparr>go_id = ''g1'', go_name = ''Squad'', go_studentIds = [],
                  go_sounds = 0, go_hfw = 1, go_lastLessonDate = None, go_jobs = None,
                  go_savedLessons = [emptyLesson\<lparr>lesson_id := ''L1''\<rparr>], go_history = []\<rparr>],
                activeGroup := Some \<lparr>go_id = ''g1'', go_name = ''Squad'', go_studentIds = [],
                  go_sounds = 0, go_hfw = 1, go_lastLessonDate = None, go_jobs = None,
                  go_savedLessons = [emptyLesson\<lparr>lesson_id := ''L1''\<rparr>], go_history = []\<rparr>\<rparr>"
      and ag="\<lparr>go_id = ''g1'', go_name = ''Squad'', go_studentIds = [],
                  go_sounds = 0, go_hfw = 1, go_lastLessonDate = None, go_jobs = None,
                  go_savedLessons = [emptyLesson\<lparr>lesson_id := ''L1''\<rparr>], go_history = []\<rparr>"
      and l="emptyLesson\<lparr>lesson_id := ''L1''\<rparr>" and lsave="emptyLesson\<lparr>lesson_id := ''L2''\<rparr>"
      and ledit="emptyLesson\<lparr>lesson_id := ''L2''\<rparr>" and ds=dash_start]
  by (simp only: group_obj.select_convs app_state.simps) (simp add: app_start_def)

end
