(* ===== verification/LessonForm.thy ===== *)
theory LessonForm
  imports Importer
begin

text \<open>
  The lesson editor \<open>LessonForm\<close> (\<open>src/components/LessonForm.tsx\<close>).  Its state is
  a record of the \<open>useState\<close> hooks; each callback the form renders is an event.
  \<open>setFormData(prev => ...)\<close> updates are applied in order.  The effect on
  \<open>formData.cipherWords\<close> (lines 207--215) runs after an event that set that array
  or changed its value.  \<open>onSave\<close> and \<open>onUpdateGroup\<close> calls are the output of a step.
  The comma and line inputs commit their text on blur; their local text before the
  commit is not state of the model.  Generated ids are an input: \<open>gen i\<close> is the
  \<open>i\<close>-th id generated by the event.  Non-ASCII characters are written in UTF-8.
\<close>

section \<open>Data\<close>

record cipher_preset =
  cp_label :: js_string
  cp_pattern :: js_string
  cp_desc :: js_string

definition preset :: "js_string \<Rightarrow> js_string \<Rightarrow> cipher_preset" where
  "preset p d = \<lparr>cp_label = p, cp_pattern = p, cp_desc = d\<rparr>"

text \<open>\<open>DEFAULT_CIPHER_PRESETS\<close> (lines 51--69); every label equals its pattern.\<close>

definition DEFAULT_CIPHER_PRESETS :: "cipher_preset list" where
  "DEFAULT_CIPHER_PRESETS =
     [preset ''/k/'' ''[c|k|ck]'', preset ''/j/'' ''[j|g|dge]'', preset ''/ch/'' ''[ch|tch]'',
      preset ''/f/'' ''[f|ff|ph]'', preset ''/s/'' ''[s|ss|c]'', preset ''/z/'' ''[z|zz|s]'',
      preset ''/er/'' ''[er|ir|ur]'',
      preset (''/'' @ [CHR 0xC4, CHR 0x81] @ ''/'') ''[a-e|ai|ay]'',
      preset (''/'' @ [CHR 0xC4, CHR 0x93] @ ''/'') ''[e-e|ee|ea|y]'',
      preset (''/'' @ [CHR 0xC4, CHR 0xAB] @ ''/'') ''[i-e|igh|y]'',
      preset (''/'' @ [CHR 0xC5, CHR 0x8D] @ ''/'') ''[o-e|oa|ow]'',
      preset (''/'' @ [CHR 0xC5, CHR 0xAB] @ ''/'') ''[u-e|oo|ue|ew]'',
      preset ''/oi/'' ''[oi|oy]'', preset ''/ow/'' ''[ou|ow]'', preset ''/au/'' ''[au|aw]'',
      preset ''/shun/'' ''[tion|sion|cian]'', preset ''/cher/'' ''[ture|cher]'']"

definition nl :: js_string where
  "nl = [CHR 0x0A]"

text \<open>\<open>sampleLesson\<close> (lines 71--114); the fields it leaves out are \<open>None\<close>.\<close>

definition sampleLesson :: Lesson where
  "sampleLesson =
     \<lparr>lesson_id = ''sample-123'', lesson_title = ''Step 3.1 Lesson'', lesson_step = ''3'',
      lesson_substep = ''1'',
      lesson_conceptNotes = ''Focus on dividing multisyllabic words with closed syllables. '' @
        ''Remind students to locate the vowels first.'',
      lesson_conceptNotes7 = Some ''Spelling Focus: Using K vs CK at the end of multisyllabic words.'',
      lesson_cipherWords = Some [''/k/lap'', ''ba ck/k/'', ''ca tch/ch/'', ''ma/j/ic''],
      lesson_cipherDistractors = Some [], lesson_googleSlidesUrl = Some [],
      lesson_slides =
        [\<lparr>slide_id = ''s1'', slide_type = TextSlide, slide_title = ''Step 3.1 Introduction'',
          slide_content = ''Today we will look at words with TWO syllables.'' @ nl @ nl @
            ''Rule: Find the vowels first.''\<rparr>,
         \<lparr>slide_id = ''s2'', slide_type = WordSlide, slide_title = [], slide_content = ''ship''\<rparr>,
         \<lparr>slide_id = ''s3'', slide_type = WordSlide, slide_title = [], slide_content = ''ball''\<rparr>,
         \<lparr>slide_id = ''s4'', slide_type = WordSlide, slide_title = [], slide_content = ''vol-ca-no''\<rparr>,
         \<lparr>slide_id = ''s5'', slide_type = WordSlide, slide_title = [], slide_content = ''mag-net''\<rparr>],
      lesson_quickDrill = [''a'', ''i'', ''o'', ''u'', ''sh'', ''ch'', ''th'', ''ck'', ''all'', ''am'', ''an'', ''ing''],
      lesson_quickDrillReverse = None,
      lesson_wordCards =
        [\<lparr>card_id = ''wc1'', card_text = ''catnip'', card_type = Regular\<rparr>,
         \<lparr>card_id = ''wc2'', card_text = ''goblin'', card_type = Regular\<rparr>,
         \<lparr>card_id = ''wc3'', card_text = ''batfish'', card_type = Nonsense\<rparr>,
         \<lparr>card_id = ''wc4'', card_text = ''sunfish'', card_type = Regular\<rparr>,
         \<lparr>card_id = ''wc5'', card_text = ''rel-ish'', card_type = Regular\<rparr>,
         \<lparr>card_id = ''wc6'', card_text = ''pub-lish'', card_type = Regular\<rparr>,
         \<lparr>card_id = ''wc7'', card_text = ''mascot'', card_type = Regular\<rparr>],
      lesson_wordListReading = None, lesson_wordListReadingAuto = None,
      lesson_sentences = [''The goblin had a red hat.'', ''Did you publish the list?'', ''The sunfish is in the net.''],
      lesson_dictation =
        \<lparr>dict_sounds = [''a'', ''u'', ''ank'', ''th'', ''qu''],
         dict_realWords = [''stung'', ''skunk'', ''vanish'', ''livid'', ''toxic''],
         dict_wordElements = [''in'', ''ex'', ''dis'', ''non'', ''un''],
         dict_nonsenseWords = [''zall'', ''mish'', ''baff''],
         dict_phrases = [''fast ship'', ''big fish'', ''red hat''],
         dict_sentences = [''Justin must dust the cobweb.'', ''Ed went to the cabin by the pond.'',
           ''Did the cat nap on the mat?'']\<rparr>,
      lesson_hfwList = [''full'', ''pull'', ''month'', ''love''], lesson_affixPractice = [],
      lesson_passage = Some (''The goblin sat on the rock.'' @ nl @ nl @ ''He had a big red hat on his head.'' @
        nl @ nl @ ''The cat ran to the goblin to get the hat.''),
      lesson_lastUpdated = None\<rparr>"

record form_state =
  formData :: Lesson
  usePart1ForPart6 :: bool
  cipherPresets :: "cipher_preset list"
  newPreset :: cipher_preset
  cipherPatterns :: "js_string list"
  isBulkCipherMode :: bool
  bulkCipherText :: js_string
  importText :: js_string
  showImport :: bool
  showPrintPreview :: bool
  showSyntaxGuide :: bool
  showPresetManager :: bool
  showMagBoardBuilder :: bool
  presetStore :: "cipher_preset list option"
  cw_set :: bool

datatype form_out = NoOutput | FormSave Lesson | FormGroupUpdate GroupProfile | FormThrows js_error

section \<open>Input helpers\<close>

text \<open>\<open>value.split(',').map(s => s.trim()).filter(Boolean)\<close>\<close>

definition comma_list :: "js_string \<Rightarrow> js_string list" where
  "comma_list v = filter (\<lambda>s. s \<noteq> []) (map js_trim (split_on CHR '','' v))"

text \<open>\<open>val.split(/,|\n/).map(s => s.trim()).filter(Boolean)\<close>\<close>

definition comma_nl_list :: "js_string \<Rightarrow> js_string list" where
  "comma_nl_list v = filter (\<lambda>s. s \<noteq> []) (map js_trim (split_when (\<lambda>c. c = CHR '','' \<or> c = CHR 0x0A) v))"

text \<open>The text the word-card boxes show (lines 314--315).\<close>

definition words_string :: "card_type \<Rightarrow> Lesson \<Rightarrow> js_string" where
  "words_string ty l = join '', '' (map card_text (filter (\<lambda>c. card_type c = ty) (lesson_wordCards l)))"

section \<open>Handlers\<close>

text \<open>\<open>updateCipherFromPatterns\<close> (lines 217--220).\<close>

definition updateCipherFromPatterns :: "js_string list \<Rightarrow> form_state \<Rightarrow> form_state" where
  "updateCipherFromPatterns ps st =
     st\<lparr>cipherPatterns := ps, formData := (formData st)\<lparr>lesson_cipherWords := Some ps\<rparr>, cw_set := True\<rparr>"

text \<open>\<open>handleBulkCipherSubmit\<close> (lines 222--226).\<close>

definition handleBulkCipherSubmit :: "form_state \<Rightarrow> form_state" where
  "handleBulkCipherSubmit st =
     (updateCipherFromPatterns (filter (\<lambda>l. l \<noteq> []) (map js_trim (split_on CHR 0x0A (bulkCipherText st)))) st)
       \<lparr>isBulkCipherMode := False\<rparr>"

text \<open>
  \<open>insertPatternAtCursor\<close> (lines 228--234); \<open>None\<close> is the index \<open>-1\<close>.  The
  callers pass \<open>-1\<close> or the index of an existing pattern.
\<close>

definition insertPatternAtCursor :: "nat option \<Rightarrow> js_string \<Rightarrow> form_state \<Rightarrow> form_state" where
  "insertPatternAtCursor idx pat st =
     (let ps = cipherPatterns st in
      case idx of
        Some i \<Rightarrow> if i < length ps then updateCipherFromPatterns (ps[i := ps ! i @ pat]) st
                  else updateCipherFromPatterns (ps @ replicate (i - length ps) [] @ [pat]) st
      | None \<Rightarrow> updateCipherFromPatterns (ps @ [pat]) st)"

text \<open>\<open>handleSyncToGroup\<close> (lines 236--243); \<open>cb\<close> says whether \<open>onUpdateGroup\<close> was passed.\<close>

definition handleSyncToGroup ::
  "bool \<Rightarrow> GroupProfile option \<Rightarrow> bool \<Rightarrow> form_state \<Rightarrow> form_state \<times> form_out" where
  "handleSyncToGroup quick ag cb st =
     (case ag of
        Some g \<Rightarrow>
          if cb then
            (st, FormGroupUpdate (g\<lparr>grp_inventory :=
               (if quick then (grp_inventory g)\<lparr>inv_learnedSounds := lesson_quickDrill (formData st)\<rparr>
                else (grp_inventory g)\<lparr>inv_learnedHFW := lesson_hfwList (formData st)\<rparr>)\<rparr>))
          else (st, NoOutput)
      | None \<Rightarrow> (st, NoOutput))"

text \<open>\<open>togglePart6Redundancy\<close> (lines 248--254).\<close>

definition togglePart6Redundancy :: "form_state \<Rightarrow> form_state" where
  "togglePart6Redundancy st =
     (let next = \<not> usePart1ForPart6 st in
      st\<lparr>usePart1ForPart6 := next,
         formData := (formData st)\<lparr>lesson_quickDrillReverse :=
                        Some (if next then [] else lesson_quickDrill (formData st))\<rparr>\<rparr>)"

datatype dict_field = DSoundsF | DRealF | DElementsF | DNonsenseF | DPhrasesF

text \<open>\<open>handleDictationInput\<close> (lines 256--258).\<close>

definition handleDictationInput :: "dict_field \<Rightarrow> js_string \<Rightarrow> Lesson \<Rightarrow> Lesson" where
  "handleDictationInput f v l =
     (let d = lesson_dictation l; xs = comma_list v in
      l\<lparr>lesson_dictation :=
          (case f of
             DSoundsF \<Rightarrow> d\<lparr>dict_sounds := xs\<rparr>
           | DRealF \<Rightarrow> d\<lparr>dict_realWords := xs\<rparr>
           | DElementsF \<Rightarrow> d\<lparr>dict_wordElements := xs\<rparr>
           | DNonsenseF \<Rightarrow> d\<lparr>dict_nonsenseWords := xs\<rparr>
           | DPhrasesF \<Rightarrow> d\<lparr>dict_phrases := xs\<rparr>)\<rparr>)"

text \<open>\<open>handleWordCardsBulk\<close> (lines 260--264): all cards rebuilt, real ones first.\<close>

definition handleWordCardsBulk :: "(nat \<Rightarrow> js_string) \<Rightarrow> js_string \<Rightarrow> js_string \<Rightarrow> Lesson \<Rightarrow> Lesson" where
  "handleWordCardsBulk gen realWords nonsenseWords l =
     (let real = comma_nl_list realWords; nonsense = comma_nl_list nonsenseWords
      in l\<lparr>lesson_wordCards :=
            map (\<lambda>(i, w). \<lparr>card_id = gen i, card_text = w, card_type = Regular\<rparr>) (enumerate 0 real) @
            map (\<lambda>(i, w). \<lparr>card_id = gen i, card_text = w, card_type = Nonsense\<rparr>)
              (enumerate (length real) nonsense)\<rparr>)"

datatype slide_field = STitle | SContent

text \<open>\<open>addSlide\<close>, \<open>updateSlide\<close>, \<open>removeSlide\<close> (lines 266--268).\<close>

definition addSlide :: "js_string \<Rightarrow> Lesson \<Rightarrow> Lesson" where
  "addSlide sid l =
     l\<lparr>lesson_slides := lesson_slides l @
        [\<lparr>slide_id = sid, slide_type = WordSlide, slide_title = [], slide_content = []\<rparr>]\<rparr>"

definition updateSlide :: "js_string \<Rightarrow> slide_field \<Rightarrow> js_string \<Rightarrow> Lesson \<Rightarrow> Lesson" where
  "updateSlide sid f v l =
     l\<lparr>lesson_slides := map (\<lambda>s. if slide_id s = sid
                                  then (case f of STitle \<Rightarrow> s\<lparr>slide_title := v\<rparr> | SContent \<Rightarrow> s\<lparr>slide_content := v\<rparr>)
                                  else s) (lesson_slides l)\<rparr>"

definition updateSlideType :: "js_string \<Rightarrow> slide_type \<Rightarrow> Lesson \<Rightarrow> Lesson" where
  "updateSlideType sid t l =
     l\<lparr>lesson_slides := map (\<lambda>s. if slide_id s = sid then s\<lparr>slide_type := t\<rparr> else s) (lesson_slides l)\<rparr>"

definition removeSlide :: "js_string \<Rightarrow> Lesson \<Rightarrow> Lesson" where
  "removeSlide sid l = l\<lparr>lesson_slides := filter (\<lambda>s. slide_id s \<noteq> sid) (lesson_slides l)\<rparr>"

text \<open>\<open>/\/d\/([a-zA-Z0-9-_]+)/\<close>: the leftmost \<open>/d/\<close> followed by an id character, and the id.\<close>

definition is_id_char :: "char \<Rightarrow> bool" where
  "is_id_char c \<longleftrightarrow> is_alnum c \<or> c = CHR ''-'' \<or> c = CHR ''_''"

fun slides_id :: "js_string \<Rightarrow> js_string option" where
  "slides_id [] = None"
| "slides_id (c # cs) =
     (if starts_with (c # cs) ''/d/'' \<and> takeWhile is_id_char (drop 2 cs) \<noteq> []
      then Some (takeWhile is_id_char (drop 2 cs)) else slides_id cs)"

text \<open>\<open>handleGoogleSlidesInput\<close> (lines 270--275).\<close>

definition handleGoogleSlidesInput :: "js_string \<Rightarrow> Lesson \<Rightarrow> Lesson" where
  "handleGoogleSlidesInput input l =
     (let url = js_trim input;
          url' = (case slides_id url of
                    Some i \<Rightarrow> ''https://docs.google.com/presentation/d/'' @ i @
                              ''/embed?start=false&loop=false&delayms=3000''
                  | None \<Rightarrow> url)
      in l\<lparr>lesson_googleSlidesUrl := Some url'\<rparr>)"

text \<open>\<open>handleSentences\<close> (line 277): blank lines dropped, lines kept untrimmed.\<close>

definition handleSentences :: "js_string \<Rightarrow> Lesson \<Rightarrow> Lesson" where
  "handleSentences text l =
     l\<lparr>lesson_sentences := filter (\<lambda>x. js_trim x \<noteq> []) (split_on CHR 0x0A text)\<rparr>"

text \<open>
  \<open>{ ...prev, ...parsed }\<close> of \<open>handleImport\<close> (line 280): the keys the importer always
  sets replace the lesson's, \<open>step\<close>, \<open>substep\<close> and \<open>passage\<close> only when present.
  The importer's cards get the ids \<open>gen 0, gen 1, \<dots>\<close>.
\<close>

definition merge_import :: "(nat \<Rightarrow> js_string) \<Rightarrow> Lesson \<Rightarrow> LessonImport \<Rightarrow> Lesson" where
  "merge_import gen l r =
     l\<lparr>lesson_step := (case imp_step r of Some s \<Rightarrow> s | None \<Rightarrow> lesson_step l),
       lesson_substep := (case imp_substep r of Some s \<Rightarrow> s | None \<Rightarrow> lesson_substep l),
       lesson_quickDrill := imp_quickDrill r, lesson_hfwList := imp_hfwList r,
       lesson_wordCards := map (\<lambda>(i, (w, t)). \<lparr>card_id = gen i, card_text = w, card_type = t\<rparr>)
                             (enumerate 0 (imp_wordCards r)),
       lesson_sentences := imp_sentences r, lesson_dictation := imp_dictation r,
       lesson_passage := (case imp_passage r of Some p \<Rightarrow> Some p | None \<Rightarrow> lesson_passage l)\<rparr>"

text \<open>\<open>handleImport\<close> (lines 278--282): a throw of the importer leaves the dialog open.\<close>

definition handleImport :: "(nat \<Rightarrow> js_string) \<Rightarrow> form_state \<Rightarrow> form_state \<times> form_out" where
  "handleImport gen st =
     (case parseLessonText (importText st) (Some (lesson_step (formData st))) (Some (lesson_substep (formData st))) of
        Inl e \<Rightarrow> (st, FormThrows e)
      | Inr r \<Rightarrow> (st\<lparr>formData := merge_import gen (formData st) r, showImport := False\<rparr>, NoOutput))"

text \<open>\<open>handleFileUpload\<close> (lines 294--303): a parsed file with an id and a step replaces the lesson.\<close>

definition handleFileUpload :: "Lesson option \<Rightarrow> form_state \<Rightarrow> form_state" where
  "handleFileUpload parsed st =
     (case parsed of
        Some l \<Rightarrow> if lesson_id l \<noteq> [] \<and> lesson_step l \<noteq> [] then st\<lparr>formData := l\<rparr> else st
      | None \<Rightarrow> st)"

text \<open>\<open>handleSubmit\<close> (line 307): the lesson is saved under a title made of its step.\<close>

definition handleSubmit :: "form_state \<Rightarrow> form_out" where
  "handleSubmit st =
     FormSave ((formData st)\<lparr>lesson_title :=
       ''Step '' @ lesson_step (formData st) @ ''.'' @ lesson_substep (formData st) @ '' Lesson''\<rparr>)"

text \<open>
  The first render (lines 177--205): the initial lesson, or an empty one with a new
  id that starts from the group's inventory; the presets from local storage.
\<close>

definition form_start :: "Lesson option \<Rightarrow> GroupProfile option \<Rightarrow> js_string \<Rightarrow> cipher_preset list option \<Rightarrow> form_state" where
  "form_start initial ag fresh saved =
     \<lparr>formData = (case initial of
                   Some l \<Rightarrow> l
                 | None \<Rightarrow>
                     (case ag of
                        Some g \<Rightarrow> emptyLesson\<lparr>lesson_id := fresh,
                                    lesson_quickDrill := inv_learnedSounds (grp_inventory g),
                                    lesson_hfwList := inv_learnedHFW (grp_inventory g)\<rparr>
                      | None \<Rightarrow> emptyLesson\<lparr>lesson_id := fresh\<rparr>)),
      usePart1ForPart6 = (case initial of
                           None \<Rightarrow> True
                         | Some l \<Rightarrow> (case lesson_quickDrillReverse l of None \<Rightarrow> True | Some xs \<Rightarrow> xs = [])),
      cipherPresets = (case saved of Some ps \<Rightarrow> ps | None \<Rightarrow> DEFAULT_CIPHER_PRESETS),
      newPreset = \<lparr>cp_label = [], cp_pattern = ''[]'', cp_desc = []\<rparr>,
      cipherPatterns = [], isBulkCipherMode = False, bulkCipherText = [], importText = [],
      showImport = False, showPrintPreview = False, showSyntaxGuide = False,
      showPresetManager = False, showMagBoardBuilder = False, presetStore = saved, cw_set = True\<rparr>"

section \<open>Events\<close>

datatype form_event =
    EditStep js_string | EditSubstep js_string
  | SyncQuickDrill | SyncHfw
  | CommitQuickDrill js_string | CommitHfw js_string
  | OpenMagBoard | CloseMagBoard | MagBoardUpdate Lesson
  | EditConceptNotes js_string | EditConceptNotes7 js_string | EditPassage js_string
  | GoogleSlides js_string
  | AddSlide js_string | RemoveSlide js_string
  | EditSlide js_string slide_field js_string | SetSlideType js_string slide_type
  | ToggleSyntaxGuide
  | CommitRealWords "nat \<Rightarrow> js_string" js_string | CommitNonsenseWords "nat \<Rightarrow> js_string" js_string
  | ToggleWordListAuto | CommitWordListReading js_string
  | CommitSentences js_string
  | TogglePart6 | CommitPart6 js_string
  | ToggleBulkMode | AddPuzzle | EditBulkText js_string | SubmitBulk
  | InsertPattern "nat option" js_string | EditPattern nat js_string | DeletePattern nat
  | OpenPresetManager | ClosePresetManager | DeletePreset nat | AddPreset
  | EditPresetLabel js_string | EditPresetPattern js_string | EditPresetDesc js_string
  | CommitDictation dict_field js_string | CommitDictationSentences js_string
  | FileLoaded "Lesson option" | LoadSample js_string
  | OpenPrint | ClosePrint | OpenImport | CloseImport | EditImportText js_string
  | DoImport "nat \<Rightarrow> js_string" | Submit

text \<open>
  The callbacks of the rendered form (lines 338--571).  \<open>ag\<close> is the \<open>activeGroup\<close>
  prop and \<open>cb\<close> whether the \<open>onUpdateGroup\<close> prop was passed.
\<close>

fun form_handler ::
  "GroupProfile option \<Rightarrow> bool \<Rightarrow> form_event \<Rightarrow> form_state \<Rightarrow> form_state \<times> form_out" where
  "form_handler ag cb (EditStep v) st = (st\<lparr>formData := (formData st)\<lparr>lesson_step := v\<rparr>\<rparr>, NoOutput)"
| "form_handler ag cb (EditSubstep v) st = (st\<lparr>formData := (formData st)\<lparr>lesson_substep := v\<rparr>\<rparr>, NoOutput)"
| "form_handler ag cb SyncQuickDrill st = handleSyncToGroup True ag cb st"
| "form_handler ag cb SyncHfw st = handleSyncToGroup False ag cb st"
| "form_handler ag cb (CommitQuickDrill v) st =
     (st\<lparr>formData := (formData st)\<lparr>lesson_quickDrill := comma_list v\<rparr>\<rparr>, NoOutput)"
| "form_handler ag cb (CommitHfw v) st =
     (st\<lparr>formData := (formData st)\<lparr>lesson_hfwList := comma_list v\<rparr>\<rparr>, NoOutput)"
| "form_handler ag cb OpenMagBoard st = (st\<lparr>showMagBoardBuilder := True\<rparr>, NoOutput)"
| "form_handler ag cb CloseMagBoard st = (st\<lparr>showMagBoardBuilder := False\<rparr>, NoOutput)"
| "form_handler ag cb (MagBoardUpdate l) st = (st\<lparr>formData := l\<rparr>, NoOutput)"
| "form_handler ag cb (EditConceptNotes v) st =
     (st\<lparr>formData := (formData st)\<lparr>lesson_conceptNotes := v\<rparr>\<rparr>, NoOutput)"
| "form_handler ag cb (EditConceptNotes7 v) st =
     (st\<lparr>formData := (formData st)\<lparr>lesson_conceptNotes7 := Some v\<rparr>\<rparr>, NoOutput)"
| "form_handler ag cb (EditPassage v) st =
     (st\<lparr>formData := (formData st)\<lparr>lesson_passage := Some v\<rparr>\<rparr>, NoOutput)"
| "form_handler ag cb (GoogleSlides v) st = (st\<lparr>formData := handleGoogleSlidesInput v (formData st)\<rparr>, NoOutput)"
| "form_handler ag cb (AddSlide sid) st = (st\<lparr>formData := addSlide sid (formData st)\<rparr>, NoOutput)"
| "form_handler ag cb (RemoveSlide sid) st = (st\<lparr>formData := removeSlide sid (formData st)\<rparr>, NoOutput)"
| "form_handler ag cb (EditSlide sid f v) st = (st\<lparr>formData := updateSlide sid f v (formData st)\<rparr>, NoOutput)"
| "form_handler ag cb (SetSlideType sid t) st = (st\<lparr>formData := updateSlideType sid t (formData st)\<rparr>, NoOutput)"
| "form_handler ag cb ToggleSyntaxGuide st = (st\<lparr>showSyntaxGuide := \<not> showSyntaxGuide st\<rparr>, NoOutput)"
| "form_handler ag cb (CommitRealWords gen v) st =
     (st\<lparr>formData := handleWordCardsBulk gen v (words_string Nonsense (formData st)) (formData st)\<rparr>, NoOutput)"
| "form_handler ag cb (CommitNonsenseWords gen v) st =
     (st\<lparr>formData := handleWordCardsBulk gen (words_string Regular (formData st)) v (formData st)\<rparr>, NoOutput)"
| "form_handler ag cb ToggleWordListAuto st =
     (st\<lparr>formData := (formData st)\<lparr>lesson_wordListReadingAuto :=
        Some (lesson_wordListReadingAuto (formData st) \<noteq> Some True)\<rparr>\<rparr>, NoOutput)"
| "form_handler ag cb (CommitWordListReading v) st =
     (st\<lparr>formData := (formData st)\<lparr>lesson_wordListReading := Some (comma_nl_list v)\<rparr>\<rparr>, NoOutput)"
| "form_handler ag cb (CommitSentences v) st = (st\<lparr>formData := handleSentences v (formData st)\<rparr>, NoOutput)"
| "form_handler ag cb TogglePart6 st = (togglePart6Redundancy st, NoOutput)"
| "form_handler ag cb (CommitPart6 v) st =
     (st\<lparr>formData := (formData st)\<lparr>lesson_quickDrillReverse := Some (comma_list v)\<rparr>\<rparr>, NoOutput)"
| "form_handler ag cb ToggleBulkMode st = (st\<lparr>isBulkCipherMode := \<not> isBulkCipherMode st\<rparr>, NoOutput)"
| "form_handler ag cb AddPuzzle st = (updateCipherFromPatterns (cipherPatterns st @ [[]]) st, NoOutput)"
| "form_handler ag cb (EditBulkText v) st = (st\<lparr>bulkCipherText := v\<rparr>, NoOutput)"
| "form_handler ag cb SubmitBulk st = (handleBulkCipherSubmit st, NoOutput)"
| "form_handler ag cb (InsertPattern i p) st = (insertPatternAtCursor i p st, NoOutput)"
| "form_handler ag cb (EditPattern i v) st =
     (updateCipherFromPatterns ((cipherPatterns st)[i := v]) st, NoOutput)"
| "form_handler ag cb (DeletePattern i) st =
     (updateCipherFromPatterns (map snd (filter (\<lambda>(j, _). j \<noteq> i) (enumerate 0 (cipherPatterns st)))) st, NoOutput)"
| "form_handler ag cb OpenPresetManager st = (st\<lparr>showPresetManager := True\<rparr>, NoOutput)"
| "form_handler ag cb ClosePresetManager st = (st\<lparr>showPresetManager := False\<rparr>, NoOutput)"
| "form_handler ag cb (DeletePreset i) st =
     (let ps = map snd (filter (\<lambda>(j, _). j \<noteq> i) (enumerate 0 (cipherPresets st)))
      in (st\<lparr>cipherPresets := ps, presetStore := Some ps\<rparr>, NoOutput))"
| "form_handler ag cb AddPreset st =
     (let ps = cipherPresets st @ [newPreset st]
      in (st\<lparr>cipherPresets := ps, presetStore := Some ps,
             newPreset := \<lparr>cp_label = [], cp_pattern = [], cp_desc = []\<rparr>\<rparr>, NoOutput))"
| "form_handler ag cb (EditPresetLabel v) st = (st\<lparr>newPreset := (newPreset st)\<lparr>cp_label := v\<rparr>\<rparr>, NoOutput)"
| "form_handler ag cb (EditPresetPattern v) st = (st\<lparr>newPreset := (newPreset st)\<lparr>cp_pattern := v\<rparr>\<rparr>, NoOutput)"
| "form_handler ag cb (EditPresetDesc v) st = (st\<lparr>newPreset := (newPreset st)\<lparr>cp_desc := v\<rparr>\<rparr>, NoOutput)"
| "form_handler ag cb (CommitDictation f v) st =
     (st\<lparr>formData := handleDictationInput f v (formData st)\<rparr>, NoOutput)"
| "form_handler ag cb (CommitDictationSentences v) st =
     (st\<lparr>formData := (formData st)\<lparr>lesson_dictation := (lesson_dictation (formData st))
        \<lparr>dict_sentences := filter (\<lambda>x. x \<noteq> []) (split_on CHR 0x0A v)\<rparr>\<rparr>\<rparr>, NoOutput)"
| "form_handler ag cb (FileLoaded parsed) st = (handleFileUpload parsed st, NoOutput)"
| "form_handler ag cb (LoadSample fresh) st = (st\<lparr>formData := sampleLesson\<lparr>lesson_id := fresh\<rparr>\<rparr>, NoOutput)"
| "form_handler ag cb OpenPrint st = (st\<lparr>showPrintPreview := True\<rparr>, NoOutput)"
| "form_handler ag cb ClosePrint st = (st\<lparr>showPrintPreview := False\<rparr>, NoOutput)"
| "form_handler ag cb OpenImport st = (st\<lparr>showImport := True\<rparr>, NoOutput)"
| "form_handler ag cb CloseImport st = (st\<lparr>showImport := False\<rparr>, NoOutput)"
| "form_handler ag cb (EditImportText v) st = (st\<lparr>importText := v\<rparr>, NoOutput)"
| "form_handler ag cb (DoImport gen) st = handleImport gen st"
| "form_handler ag cb Submit st = (st, handleSubmit st)"

text \<open>The effect of lines 207--215: the puzzle list and the bulk text follow the cipher words.\<close>

definition cipher_sync :: "form_state \<Rightarrow> form_state \<Rightarrow> form_state" where
  "cipher_sync old new =
     (if cw_set new \<or> lesson_cipherWords (formData new) \<noteq> lesson_cipherWords (formData old)
      then
        (case lesson_cipherWords (formData new) of
           Some ws \<Rightarrow> if ws \<noteq> [] then new\<lparr>cipherPatterns := ws, bulkCipherText := join nl ws\<rparr>
                     else new\<lparr>cipherPatterns := [], bulkCipherText := []\<rparr>
         | None \<Rightarrow> new\<lparr>cipherPatterns := [], bulkCipherText := []\<rparr>)
      else new)"

definition form_step ::
  "GroupProfile option \<Rightarrow> bool \<Rightarrow> form_event \<Rightarrow> form_state \<Rightarrow> form_state \<times> form_out" where
  "form_step ag cb ev st =
     (let (st1, out) = form_handler ag cb ev (st\<lparr>cw_set := False\<rparr>) in (cipher_sync st st1, out))"

text \<open>
  \<open>ManagedStringArrayInput\<close> (lines 125--139) keeps its own text: \<open>values.join(', ')\<close>
  at mount and whenever \<open>values\<close> changes, and it commits that text on blur.  The
  comma-list inputs of the form (lines 435, 488, 555--559 and 571) with the \<open>values\<close>
  each is given and the callback each commits to.
\<close>

definition managed_display :: "js_string list \<Rightarrow> js_string" where
  "managed_display values = join '', '' values"

datatype comma_input = QuickDrillIn | Part6In | DictIn dict_field | HfwIn

fun input_values :: "comma_input \<Rightarrow> Lesson \<Rightarrow> js_string list" where
  "input_values QuickDrillIn l = lesson_quickDrill l"
| "input_values Part6In l = (case lesson_quickDrillReverse l of Some xs \<Rightarrow> xs | None \<Rightarrow> [])"
| "input_values (DictIn f) l =
     (let d = lesson_dictation l in
      case f of
        DSoundsF \<Rightarrow> dict_sounds d
      | DRealF \<Rightarrow> dict_realWords d
      | DElementsF \<Rightarrow> dict_wordElements d
      | DNonsenseF \<Rightarrow> dict_nonsenseWords d
      | DPhrasesF \<Rightarrow> dict_phrases d)"
| "input_values HfwIn l = lesson_hfwList l"

fun input_commit :: "comma_input \<Rightarrow> js_string \<Rightarrow> form_event" where
  "input_commit QuickDrillIn v = CommitQuickDrill v"
| "input_commit Part6In v = CommitPart6 v"
| "input_commit (DictIn f) v = CommitDictation f v"
| "input_commit HfwIn v = CommitHfw v"

text \<open>The controls the form disables: the part 6 list while it follows part 1.\<close>

fun form_enabled :: "form_state \<Rightarrow> form_event \<Rightarrow> bool" where
  "form_enabled st (CommitPart6 _) = (\<not> usePart1ForPart6 st)"
| "form_enabled st _ = True"

definition form_init ::
  "Lesson option \<Rightarrow> GroupProfile option \<Rightarrow> js_string \<Rightarrow> cipher_preset list option \<Rightarrow> form_state" where
  "form_init initial ag fresh saved =
     (let s0 = form_start initial ag fresh saved in cipher_sync s0 s0)"

inductive form_reach :: "GroupProfile option \<Rightarrow> bool \<Rightarrow> form_state \<Rightarrow> bool" where
  form_reach_init: "form_reach ag cb (form_init initial ag fresh saved)"
| form_reach_step: "form_reach ag cb st \<Longrightarrow> form_enabled st ev \<Longrightarrow> form_reach ag cb (fst (form_step ag cb ev st))"

text \<open>
  The invariant of the cipher builder: its puzzle list is the lesson's list of cipher
  words.
\<close>

definition patterns_follow :: "form_state \<Rightarrow> bool" where
  "patterns_follow st \<longleftrightarrow>
     cipherPatterns st = (case lesson_cipherWords (formData st) of Some ws \<Rightarrow> ws | None \<Rightarrow> [])"

subsection \<open>Lemmas\<close>

lemma comma_list_join:
  "list_all (\<lambda>x. x \<noteq> [] \<and> js_trim x = x \<and> CHR '','' \<notin> set x) xs \<Longrightarrow> comma_list (join '', '' xs) = xs"
  unfolding comma_list_def split_on_split_when
  by (rule split_items_join) (auto simp: list_all_iff list_ex_iff)

lemma comma_nl_list_join:
  "list_all (\<lambda>x. x \<noteq> [] \<and> js_trim x = x \<and> CHR '','' \<notin> set x \<and> CHR 0x0A \<notin> set x) xs \<Longrightarrow>
   comma_nl_list (join '', '' xs) = xs"
  unfolding comma_nl_list_def
  by (rule split_items_join) (auto simp: list_all_iff list_ex_iff)

lemma cards_of_enumerate:
  "map ((\<lambda>c. (card_text c, card_type c)) \<circ> (\<lambda>(i, w). \<lparr>card_id = gen i, card_text = w, card_type = t\<rparr>))
     (enumerate n ws) = map (\<lambda>w. (w, t)) ws"
  by (induction ws arbitrary: n) simp_all

lemma form_step_same_cipher:
  "\<not> cw_set (fst (form_handler ag cb ev (st\<lparr>cw_set := False\<rparr>))) \<Longrightarrow>
   lesson_cipherWords (formData (fst (form_handler ag cb ev (st\<lparr>cw_set := False\<rparr>)))) =
     lesson_cipherWords (formData st) \<Longrightarrow>
   fst (form_step ag cb ev st) = fst (form_handler ag cb ev (st\<lparr>cw_set := False\<rparr>))"
  by (cases "form_handler ag cb ev (st\<lparr>cw_set := False\<rparr>)") (simp add: form_step_def cipher_sync_def)

lemma handler_keeps_patterns:
  "\<not> cw_set (fst (form_handler ag cb ev (st\<lparr>cw_set := False\<rparr>))) \<Longrightarrow>
   cipherPatterns (fst (form_handler ag cb ev (st\<lparr>cw_set := False\<rparr>))) = cipherPatterns st"
  by (cases ev)
    (simp_all add: handleSyncToGroup_def togglePart6Redundancy_def handleBulkCipherSubmit_def
      updateCipherFromPatterns_def insertPatternAtCursor_def handleFileUpload_def handleImport_def
      Let_def split: option.splits sum.splits if_splits)


lemma cipher_sync_follow:
  "cw_set new \<or> lesson_cipherWords (formData new) \<noteq> lesson_cipherWords (formData old) \<Longrightarrow>
   patterns_follow (cipher_sync old new)"
  by (auto simp: cipher_sync_def patterns_follow_def split: option.split)

subsection \<open>Properties\<close>

text \<open>
  C34.  Every comma-list input of the form reads back what it shows: blurring it
  without an edit commits \<open>managed_display\<close> of its values, and that leaves the lesson
  unchanged when the items are trimmed, non-empty and free of commas.  The one
  exception is an absent part 6 list, which the input shows as empty and the commit
  stores as the empty list.
\<close>

theorem commit_displayed_list:
  assumes "list_all (\<lambda>x. x \<noteq> [] \<and> js_trim x = x \<and> CHR '','' \<notin> set x) (input_values i (formData st))"
  shows "formData (fst (form_step ag cb (input_commit i (managed_display (input_values i (formData st)))) st)) =
    (if i = Part6In \<and> lesson_quickDrillReverse (formData st) = None
     then (formData st)\<lparr>lesson_quickDrillReverse := Some []\<rparr> else formData st)"
proof -
  have j: "comma_list (managed_display (input_values i (formData st))) = input_values i (formData st)"
    unfolding managed_display_def using assms by (rule comma_list_join)
  show ?thesis
  proof (cases i)
    case (DictIn f)
    with j show ?thesis
      by (cases f) (simp_all add: form_step_def cipher_sync_def handleDictationInput_def Let_def)
  next
    case Part6In
    with j show ?thesis
      by (cases "lesson_quickDrillReverse (formData st)") (simp_all add: form_step_def cipher_sync_def)
  qed (use j in \<open>simp_all add: form_step_def cipher_sync_def\<close>)
qed

theorem commit_displayed_list_witness:
  "list_all (\<lambda>x. x \<noteq> [] \<and> js_trim x = x \<and> CHR '','' \<notin> set x)
      (input_values (DictIn DRealF) (emptyLesson\<lparr>lesson_dictation := (lesson_dictation emptyLesson)\<lparr>dict_realWords := [''stung'', ''skunk'']\<rparr>\<rparr>)) \<and>
   formData (fst (form_step None False (input_commit (DictIn DRealF) (managed_display [''stung'', ''skunk'']))
      (form_start (Some (emptyLesson\<lparr>lesson_dictation := (lesson_dictation emptyLesson)\<lparr>dict_realWords := [''stung'', ''skunk'']\<rparr>\<rparr>)) None [] None))) =
   emptyLesson\<lparr>lesson_dictation := (lesson_dictation emptyLesson)\<lparr>dict_realWords := [''stung'', ''skunk'']\<rparr>\<rparr>"
proof -
  let ?l = "emptyLesson\<lparr>lesson_dictation := (lesson_dictation emptyLesson)\<lparr>dict_realWords := [''stung'', ''skunk'']\<rparr>\<rparr>"
  have h: "list_all (\<lambda>x. x \<noteq> [] \<and> js_trim x = x \<and> CHR '','' \<notin> set x) (input_values (DictIn DRealF) ?l)"
    by (simp add: js_trim_def is_ws_def)
  have "formData (form_start (Some ?l) None [] None) = ?l" by (simp add: form_start_def)
  with commit_displayed_list [of "DictIn DRealF" "form_start (Some ?l) None [] None" None False] h
  show ?thesis by simp
qed

text \<open>
  C35.  Leaving the real-words box, even without an edit, rebuilds every word card
  from the two boxes: the regular cards come first, then the nonsense cards, and the
  cards of type \<open>hfw\<close>, which neither box shows, are dropped.
\<close>

theorem blur_real_words_rebuilds_cards:
  assumes "list_all (\<lambda>c. card_text c \<noteq> [] \<and> js_trim (card_text c) = card_text c \<and>
      CHR '','' \<notin> set (card_text c) \<and> CHR 0x0A \<notin> set (card_text c)) (lesson_wordCards (formData st))"
  shows "map (\<lambda>c. (card_text c, card_type c))
      (lesson_wordCards (formData (fst (form_step ag cb (CommitRealWords gen (words_string Regular (formData st))) st)))) =
    map (\<lambda>c. (card_text c, Regular)) (filter (\<lambda>c. card_type c = Regular) (lesson_wordCards (formData st))) @
    map (\<lambda>c. (card_text c, Nonsense)) (filter (\<lambda>c. card_type c = Nonsense) (lesson_wordCards (formData st)))"
proof -
  have "comma_nl_list (words_string t (formData st)) =
      map card_text (filter (\<lambda>c. card_type c = t) (lesson_wordCards (formData st)))" for t
    unfolding words_string_def using assms by (intro comma_nl_list_join) (auto simp: list_all_iff)
  then show ?thesis
    by (simp add: form_step_def cipher_sync_def handleWordCardsBulk_def Let_def cards_of_enumerate)
qed

theorem blur_real_words_rebuilds_cards_witness:
  "map (\<lambda>c. (card_text c, card_type c))
     (lesson_wordCards (formData (fst (form_step None False (CommitRealWords (\<lambda>i. []) ''cat'')
       (form_start (Some (emptyLesson\<lparr>lesson_wordCards :=
          [\<lparr>card_id = ''1'', card_text = ''the'', card_type = Hfw\<rparr>,
           \<lparr>card_id = ''2'', card_text = ''zib'', card_type = Nonsense\<rparr>,
           \<lparr>card_id = ''3'', card_text = ''cat'', card_type = Regular\<rparr>]\<rparr>)) None [] None))))) =
   [(''cat'', Regular), (''zib'', Nonsense)]"
proof -
  have w: "words_string Regular (emptyLesson\<lparr>lesson_wordCards :=
          [\<lparr>card_id = ''1'', card_text = ''the'', card_type = Hfw\<rparr>,
           \<lparr>card_id = ''2'', card_text = ''zib'', card_type = Nonsense\<rparr>,
           \<lparr>card_id = ''3'', card_text = ''cat'', card_type = Regular\<rparr>]\<rparr>) = ''cat''"
    by (simp add: words_string_def)
  show ?thesis
    using blur_real_words_rebuilds_cards [of "form_start (Some (emptyLesson\<lparr>lesson_wordCards :=
          [\<lparr>card_id = ''1'', card_text = ''the'', card_type = Hfw\<rparr>,
           \<lparr>card_id = ''2'', card_text = ''zib'', card_type = Nonsense\<rparr>,
           \<lparr>card_id = ''3'', card_text = ''cat'', card_type = Regular\<rparr>]\<rparr>)) None [] None"
        None False "\<lambda>i. []"]
    by (simp add: form_start_def w js_trim_def is_ws_def)
qed

text \<open>
  C36.  In every state of the form, the puzzle list of the cipher builder is the
  lesson's list of cipher words (empty when there is none): every edit of a puzzle
  goes through \<open>updateCipherFromPatterns\<close>, and the effect on the cipher words
  follows every other change of them.
\<close>

theorem form_patterns_follow:
  assumes "form_reach ag cb st"
  shows "patterns_follow st"
  using assms
proof (induction rule: form_reach.induct)
  case form_reach_init
  then show ?case
    unfolding form_init_def Let_def by (rule cipher_sync_follow) (simp add: form_start_def)
next
  case (form_reach_step ag cb st ev)
  let ?new = "fst (form_handler ag cb ev (st\<lparr>cw_set := False\<rparr>))"
  show ?case
  proof (cases "cw_set ?new \<or> lesson_cipherWords (formData ?new) \<noteq> lesson_cipherWords (formData st)")
    case True
    then show ?thesis
      using cipher_sync_follow [of ?new st]
      by (cases "form_handler ag cb ev (st\<lparr>cw_set := False\<rparr>)") (simp add: form_step_def)
  next
    case False
    then show ?thesis
      using form_step_same_cipher [of ag cb ev st] handler_keeps_patterns [of ag cb ev st] form_reach_step.IH
      by (simp add: patterns_follow_def)
  qed
qed

theorem form_patterns_follow_witness:
  "form_reach None False (form_init None None ''x'' None) \<and> patterns_follow (form_init None None ''x'' None)"
  using form_patterns_follow [OF form_reach_init [where ag=None and cb=False and initial=None and fresh="''x''" and saved=None]]
    form_reach_init [where ag=None and cb=False and initial=None and fresh="''x''" and saved=None]
  by simp

end
