(* ===== verification/Client.thy ===== *)
theory Client
  imports Server Importer
begin

text \<open>
  The save API client (\<open>src/unnamed/part_000\<close>, imported as \<open>saveApi\<close>).  Local
  storage is an association list with distinct keys: \<open>setItem\<close> is \<open>AList.update\<close>,
  \<open>clear\<close> the empty list.  A \<open>fetch\<close> of the client is a request to the router
  \<open>handle\<close> of the server model, whose response the client reads back.  A JSON value
  crosses the wire unchanged.  A thrown \<open>Error\<close> is \<open>Inl\<close> with its message.
  \<open>JSON.parse\<close> of the master data string is a parameter \<open>parse\<close>, \<open>None\<close> when it
  throws.  Lengths are counted in bytes.
\<close>

type_synonym local_storage = "(js_string \<times> js_string) list"

section \<open>JavaScript conversions\<close>

text \<open>The decimal digits of a number, as \<open>String(n)\<close> writes them.\<close>

function nat_str :: "nat \<Rightarrow> js_string" where
  "nat_str n = (if n < 10 then [char_of (48 + n)] else nat_str (n div 10) @ [char_of (48 + n mod 10)])"
  by auto
termination
  by (relation "measure id") auto

declare nat_str.simps [simp del]

definition int_str :: "int \<Rightarrow> js_string" where
  "int_str i = (if i < 0 then CHR ''-'' # nat_str (nat (- i)) else nat_str (nat i))"

text \<open>\<open>String(v)\<close>, as \<open>setItem\<close> converts a value; an array joins its elements with commas.\<close>

fun js_String :: "json \<Rightarrow> js_string" where
  "js_String JNull = ''null''"
| "js_String (JBool b) = (if b then ''true'' else ''false'')"
| "js_String (JNum i) = int_str i"
| "js_String (JStr s) = s"
| "js_String (JArr xs) = join '','' (map (\<lambda>x. if x = JNull then [] else js_String x) xs)"
| "js_String (JObj _) = ''[object Object]''"

text \<open>
  \<open>JSON.stringify\<close> without indentation: quotes, backslashes and control characters
  of a string are escaped, other bytes are written as they are.
\<close>

definition hex_digit :: "nat \<Rightarrow> char" where
  "hex_digit n = char_of (if n < 10 then 48 + n else 87 + n)"

definition json_escape :: "char \<Rightarrow> js_string" where
  "json_escape c =
     (if c = CHR 0x22 then [CHR 0x5C, CHR 0x22]
      else if c = CHR 0x5C then [CHR 0x5C, CHR 0x5C]
      else if c = CHR 0x0A then [CHR 0x5C, CHR ''n'']
      else if c = CHR 0x0D then [CHR 0x5C, CHR ''r'']
      else if c = CHR 0x09 then [CHR 0x5C, CHR ''t'']
      else if c = CHR 0x08 then [CHR 0x5C, CHR ''b'']
      else if c = CHR 0x0C then [CHR 0x5C, CHR ''f'']
      else if of_char c < (32::nat) then
        [CHR 0x5C, CHR ''u'', CHR ''0'', CHR ''0'', hex_digit (of_char c div 16), hex_digit (of_char c mod 16)]
      else [c])"

definition json_quote :: "js_string \<Rightarrow> js_string" where
  "json_quote s = CHR 0x22 # concat (map json_escape s) @ [CHR 0x22]"

fun json_stringify :: "json \<Rightarrow> js_string" where
  "json_stringify JNull = ''null''"
| "json_stringify (JBool b) = (if b then ''true'' else ''false'')"
| "json_stringify (JNum i) = int_str i"
| "json_stringify (JStr s) = json_quote s"
| "json_stringify (JArr xs) = CHR ''['' # join '','' (map json_stringify xs) @ '']''"
| "json_stringify (JObj kvs) =
     CHR ''{'' # join '','' (map (\<lambda>(k, v). json_quote k @ CHR '':'' # json_stringify v) kvs) @ ''}''"

text \<open>A property of a parsed value: the last binding of the key in an object.\<close>

fun json_get :: "js_string \<Rightarrow> json \<Rightarrow> json option" where
  "json_get k (JObj kvs) = map_of (rev kvs) k"
| "json_get k _ = None"

text \<open>Optional chaining \<open>v?.k\<close>: \<open>undefined\<close> when \<open>v\<close> is \<open>null\<close> or \<open>undefined\<close>.\<close>

definition opt_get :: "js_string \<Rightarrow> json option \<Rightarrow> json option" where
  "opt_get k v = (case v of None \<Rightarrow> None | Some JNull \<Rightarrow> None | Some j \<Rightarrow> json_get k j)"

text \<open>
  \<open>Object.keys(v)\<close> with \<open>v[key]\<close>: the keys in order of first occurrence, each with
  its last value (the order of integer-like keys of an object is not modelled).
\<close>

definition last_val :: "js_string \<Rightarrow> (js_string \<times> json) list \<Rightarrow> json" where
  "last_val k kvs = (case map_of (rev kvs) k of Some v \<Rightarrow> v | None \<Rightarrow> JNull)"

fun obj_entries :: "json \<Rightarrow> (js_string \<times> json) list option" where
  "obj_entries JNull = None"
| "obj_entries (JObj kvs) = Some (map (\<lambda>k. (k, last_val k kvs)) (remdups (map fst kvs)))"
| "obj_entries (JArr xs) = Some (map (\<lambda>(i, x). (nat_str i, x)) (enumerate 0 xs))"
| "obj_entries (JStr s) = Some (map (\<lambda>(i, c). (nat_str i, JStr [c])) (enumerate 0 s))"
| "obj_entries _ = Some []"

section \<open>Local storage\<close>

text \<open>
  \<open>captureLocalStorage\<close> (lines 55--64): every key in storage order; the guard
  \<open>if (key)\<close> skips a falsy key, and the empty key is falsy.
\<close>

definition captureLocalStorage :: "local_storage \<Rightarrow> (js_string \<times> json) list" where
  "captureLocalStorage ls = map (\<lambda>(k, v). (k, JStr v)) (filter (\<lambda>(k, v). k \<noteq> []) ls)"

text \<open>
  \<open>restoreLocalStorage\<close> (lines 67--78): clear, then set every key whose value is not
  \<open>null\<close>.  \<open>Object.keys(null)\<close> throws a \<open>TypeError\<close> after the storage is
  cleared.  The result is the exception, if any, and the storage after the call.
\<close>

definition restoreLocalStorage :: "json \<Rightarrow> js_error option \<times> local_storage" where
  "restoreLocalStorage data =
     (case obj_entries data of
        None \<Rightarrow> (Some TypeError, [])
      | Some es \<Rightarrow>
          (None, foldl (\<lambda>ls (k, v). if v = JNull then ls else AList.update k (js_String v) ls) [] es))"

text \<open>The length of \<open>v?.length || 0\<close>: arrays and strings have one.\<close>

definition length_or0 :: "json option \<Rightarrow> int" where
  "length_or0 v = (case v of Some (JArr xs) \<Rightarrow> int (length xs) | Some (JStr s) \<Rightarrow> int (length s) | _ \<Rightarrow> 0)"

text \<open>
  \<open>extractMetadata\<close> (lines 81--96).  \<open>parsed.groups\<close> on a parsed \<open>null\<close> throws,
  and every throw gives the empty object.  A falsy lesson title leaves
  \<open>activeGroupName\<close> out, as \<open>JSON.stringify\<close> drops \<open>undefined\<close>.
\<close>

definition extractMetadata :: "(js_string \<Rightarrow> json option) \<Rightarrow> local_storage \<Rightarrow> json" where
  "extractMetadata parse ls =
     (case map_of ls ''wrs_dojo_master_v2'' of
        None \<Rightarrow> JObj []
      | Some m \<Rightarrow>
          if m = [] then JObj []
          else
            (case parse m of
               None \<Rightarrow> JObj []
             | Some JNull \<Rightarrow> JObj []
             | Some p \<Rightarrow>
                 (let title = opt_get ''title'' (opt_get ''lesson'' (json_get ''activeSession'' p))
                  in JObj ([(''groupCount'', JNum (length_or0 (json_get ''groups'' p))),
                            (''studentCount'', JNum (length_or0 (json_get ''students'' p)))] @
                           (case title of
                              Some t \<Rightarrow> (if js_truthy title then [(''activeGroupName'', t)] else [])
                            | None \<Rightarrow> [])))))"

section \<open>Requests\<close>

text \<open>The reason phrase \<open>response.statusText\<close> of the codes the server sends.\<close>

definition status_text :: "nat \<Rightarrow> js_string" where
  "status_text c =
     (if c = 400 then ''Bad Request'' else if c = 404 then ''Not Found''
      else if c = 500 then ''Internal Server Error'' else [])"

text \<open>A call that throws \<open>prefix: statusText\<close> unless \<open>response.ok\<close>, and returns the body otherwise.\<close>

definition checked :: "js_string \<Rightarrow> response \<Rightarrow> js_string + response" where
  "checked pre r = (case r of HttpError c _ \<Rightarrow> Inl (pre @ status_text c) | _ \<Rightarrow> Inr r)"

text \<open>\<open>isBackendAvailable\<close> (lines 8--24): the first answer is cached; \<open>up\<close> is whether the server answers at all.\<close>

definition isBackendAvailable :: "bool option \<Rightarrow> bool \<Rightarrow> saves_dir \<Rightarrow> bool \<times> bool option" where
  "isBackendAvailable cache up dir =
     (case cache of
        Some b \<Rightarrow> (b, cache)
      | None \<Rightarrow>
          (let ok = up \<and> (case fst (handle ListSaves [] 0 dir) of HttpError _ _ \<Rightarrow> False | _ \<Rightarrow> True)
           in (ok, Some ok)))"

text \<open>\<open>listSaves\<close> (lines 99--105).\<close>

definition listSaves :: "saves_dir \<Rightarrow> (js_string + response) \<times> saves_dir" where
  "listSaves dir =
     (let (r, dir') = handle ListSaves [] 0 dir in (checked ''Failed to list saves: '' r, dir'))"

text \<open>\<open>getSave\<close> (lines 108--114).\<close>

definition getSave :: "js_string \<Rightarrow> saves_dir \<Rightarrow> (js_string + response) \<times> saves_dir" where
  "getSave i dir =
     (let (r, dir') = handle (GetSave i) [] 0 dir in (checked ''Failed to get save: '' r, dir'))"

text \<open>
  \<open>createSave\<close> (lines 117--133): the body's \<open>error\<close> message when there is one;
  \<open>fresh\<close> and \<open>now\<close> are the id and the clock of the server's handler.
\<close>

definition createSave ::
  "js_string \<Rightarrow> (js_string \<Rightarrow> json option) \<Rightarrow> local_storage \<Rightarrow> js_string \<Rightarrow> int \<Rightarrow> saves_dir \<Rightarrow>
   (js_string + response) \<times> saves_dir" where
  "createSave name parse ls fresh now dir =
     (let (r, dir') = handle (CreateSave (Some (JStr name)) (Some (JObj (captureLocalStorage ls)))
                               (Some (extractMetadata parse ls))) fresh now dir
      in ((case r of
             HttpError c msg \<Rightarrow> Inl (if msg \<noteq> [] then msg else ''Failed to create save: '' @ status_text c)
           | _ \<Rightarrow> Inr r), dir'))"

text \<open>\<open>updateSave\<close> (lines 136--151).\<close>

definition updateSave ::
  "js_string \<Rightarrow> (js_string \<Rightarrow> json option) \<Rightarrow> local_storage \<Rightarrow> int \<Rightarrow> saves_dir \<Rightarrow>
   (js_string + response) \<times> saves_dir" where
  "updateSave i parse ls now dir =
     (let (r, dir') = handle (UpdateSave i (Some (JObj (captureLocalStorage ls))) (Some (extractMetadata parse ls)))
                        [] now dir
      in (checked ''Failed to update save: '' r, dir'))"

text \<open>\<open>deleteSave\<close> (lines 154--162).\<close>

definition deleteSave :: "js_string \<Rightarrow> saves_dir \<Rightarrow> (js_string + response) \<times> saves_dir" where
  "deleteSave i dir =
     (let (r, dir') = handle (DeleteSave i) [] 0 dir in (checked ''Failed to delete save: '' r, dir'))"

section \<open>Lemmas\<close>

lemma update_new: "k \<notin> set (map fst al) \<Longrightarrow> AList.update k v al = al @ [(k, v)]"
  by (induction al) auto

lemma foldl_update_append:
  "distinct (map fst (acc @ kvs)) \<Longrightarrow> foldl (\<lambda>ls (k, v). AList.update k v ls) acc kvs = acc @ kvs"
  by (induction kvs arbitrary: acc) (auto simp: update_new)

lemma map_of_rev_distinct: "distinct (map fst kvs) \<Longrightarrow> map_of (rev kvs) = map_of kvs"
proof (induction kvs)
  case (Cons p kvs)
  then have "fst p \<notin> dom (map_of kvs)" by (simp add: dom_map_of_conv_image_fst)
  with Cons show ?case
    by (cases p) (auto simp: map_add_def fun_eq_iff split: option.split)
qed simp

lemma obj_entries_distinct:
  assumes d: "distinct (map fst kvs)"
  shows "obj_entries (JObj kvs) = Some kvs"
proof -
  have "map (\<lambda>p. (fst p, last_val (fst p) kvs)) kvs = kvs"
    by (rule map_idI) (auto simp: last_val_def map_of_rev_distinct [OF d] map_of_is_SomeI [OF d])
  then show ?thesis using d by (simp add: distinct_remdups_id comp_def)
qed

lemma restore_capture:
  assumes "distinct (map fst ls)"
  shows "restoreLocalStorage (JObj (captureLocalStorage ls)) = (None, [(k, v) \<leftarrow> ls. k \<noteq> []])"
proof -
  let ?ls = "[(k, v) \<leftarrow> ls. k \<noteq> []]"
  have d0: "distinct (map fst ?ls)"
    using assms by (simp add: distinct_map_filter)
  then have d: "distinct (map fst (captureLocalStorage ls))"
    by (simp add: captureLocalStorage_def case_prod_beta comp_def)
  have "foldl (\<lambda>ls (k, v). if v = JNull then ls else AList.update k (js_String v) ls) [] (captureLocalStorage ls) =
        foldl (\<lambda>ls (k, v). AList.update k v ls) [] ?ls"
    unfolding captureLocalStorage_def foldl_map by (simp add: case_prod_unfold)
  also have "\<dots> = ?ls"
    using foldl_update_append [of "[]" ?ls] d0 by simp
  finally show ?thesis
    by (simp only: restoreLocalStorage_def obj_entries_distinct [OF d] option.case)
qed

lemma map_of_fs_write [simp]: "map_of (fs_write dir f c) = (map_of dir)(f \<mapsto> c)"
  by (simp add: fs_write_def update_conv')

lemma createSave_stored:
  assumes "name \<noteq> []"
  shows "map_of (snd (createSave name parse ls fresh now dir)) (save_file_name fresh) =
    Some (SaveFile (new_save (JStr name) (JObj (captureLocalStorage ls)) (Some (extractMetadata parse ls)) fresh now))"
  using assms by (simp add: createSave_def create_save_def Let_def)

lemma updateSave_stored:
  assumes "map_of dir (save_file_name i) = Some (SaveFile s0)"
  shows "map_of (snd (updateSave i parse ls now dir)) (save_file_name i) =
    Some (SaveFile (updated_save s0 (Some (JObj (captureLocalStorage ls))) (Some (extractMetadata parse ls)) now))"
  using assms by (simp add: updateSave_def update_save_def Let_def)

lemma getSave_file:
  "map_of dir (save_file_name i) = Some (SaveFile s) \<Longrightarrow> getSave i dir = (Inr (SaveBody s), dir)"
  by (simp add: getSave_def get_save_def checked_def)

lemma save_load_roundtrip:
  assumes "distinct (map fst ls)" "name \<noteq> []"
  shows "\<exists>s. getSave fresh (snd (createSave name parse ls fresh now dir)) =
               (Inr (SaveBody s), snd (createSave name parse ls fresh now dir)) \<and>
             restoreLocalStorage (save_data s) = (None, [(k, v) \<leftarrow> ls. k \<noteq> []])"
  using getSave_file [OF createSave_stored [OF assms(2)]] restore_capture [OF assms(1)]
  by (auto simp: new_save_def)

lemma overwrite_load_roundtrip:
  assumes "distinct (map fst ls)" "map_of dir (save_file_name i) = Some (SaveFile s0)"
  shows "\<exists>s. getSave i (snd (updateSave i parse ls now dir)) = (Inr (SaveBody s), snd (updateSave i parse ls now dir)) \<and>
             restoreLocalStorage (save_data s) = (None, [(k, v) \<leftarrow> ls. k \<noteq> []])"
  using getSave_file [OF updateSave_stored [OF assms(2)]] restore_capture [OF assms(1)]
  by (auto simp: updated_save_def js_or_def)

lemma backend_cached:
  "fst (isBackendAvailable (snd (isBackendAvailable None up dir)) up' dir') = fst (isBackendAvailable None up dir)"
  by (simp add: isBackendAvailable_def Let_def)

lemma metadata_names_lesson:
  assumes "map_of ls ''wrs_dojo_master_v2'' = Some m" "m \<noteq> []"
    "parse m = Some (JObj [(''activeSession'', JObj [(''lesson'', JObj [(''title'', JStr t)])])])" "t \<noteq> []"
  shows "json_get ''activeGroupName'' (extractMetadata parse ls) = Some (JStr t)"
  using assms by (simp add: extractMetadata_def opt_get_def)

end
