(* ===== verification/SaveLoad.thy ===== *)
theory SaveLoad
  imports Client
begin

text \<open>
  The save dialog \<open>SaveLoadModal\<close> (\<open>src/components/SaveLoadModal.tsx\<close>).  Its
  \<open>useState\<close> hooks, its props and the world it acts on are one record: the server's
  directory, local storage, whether the page was reloaded and the files it offered
  for download.  The prop \<open>currentSaveId\<close> is kept here; \<open>onSetCurrentSave\<close>
  sets it.  An asynchronous handler runs to its end as one step.  While it waits,
  \<open>loading\<close> disables the dialog's other buttons and the name field.  An
  \<open>alert\<close> is not modelled.  The answers to \<open>confirm\<close>, the server's id and clock
  and the parsed uploaded file are inputs of the events.
\<close>

section \<open>State\<close>

datatype sl_tab = SaveTab | LoadTab

record sl_state =
  activeTab :: sl_tab
  saves :: "save_summary list"
  maxSaves :: nat
  loading :: bool
  saveName :: js_string
  sl_error :: "js_string option"
  currentSaveName :: "json option"
  currentSaveId :: "js_string option"
  autoSaveEnabled :: bool
  hasBackend :: bool
  sl_dir :: saves_dir
  sl_ls :: local_storage
  reloaded :: bool
  downloads :: "json list"

text \<open>The first render (lines 26--32), on the props and the world.\<close>

definition sl_start :: "js_string option \<Rightarrow> bool \<Rightarrow> bool \<Rightarrow> saves_dir \<Rightarrow> local_storage \<Rightarrow> sl_state" where
  "sl_start cid auto backend dir ls =
     \<lparr>activeTab = SaveTab, saves = [], maxSaves = 100, loading = False, saveName = [], sl_error = None,
      currentSaveName = None, currentSaveId = cid, autoSaveEnabled = auto, hasBackend = backend,
      sl_dir = dir, sl_ls = ls, reloaded = False, downloads = []\<rparr>"

text \<open>The effect of lines 41--48: the name of the current save in the listing.\<close>

definition name_sync :: "sl_state \<Rightarrow> sl_state" where
  "name_sync st =
     (case currentSaveId st of
        Some i \<Rightarrow>
          if i \<noteq> [] \<and> saves st \<noteq> []
          then (case find (\<lambda>s. sum_id s = i) (saves st) of
                  Some s \<Rightarrow> st\<lparr>currentSaveName := (if js_truthy (Some (sum_name s)) then Some (sum_name s) else None)\<rparr>
                | None \<Rightarrow> st\<lparr>currentSaveName := None\<rparr>)
          else st\<lparr>currentSaveName := None\<rparr>
      | None \<Rightarrow> st\<lparr>currentSaveName := None\<rparr>)"

section \<open>Handlers\<close>

text \<open>
  \<open>loadSaves\<close> (lines 50--64).  The listing route answers with the listing; its
  \<open>finally\<close> clears \<open>loading\<close>.
\<close>

definition loadSaves :: "sl_state \<Rightarrow> sl_state" where
  "loadSaves st =
     (if \<not> hasBackend st then st
      else
        (let (r, dir') = listSaves (sl_dir st);
             st1 = st\<lparr>sl_dir := dir', loading := True, sl_error := None\<rparr>
         in (case r of
               Inr (SaveList ss _ m) \<Rightarrow> st1\<lparr>saves := ss, maxSaves := m\<rparr>
             | Inr _ \<Rightarrow> st1
             | Inl msg \<Rightarrow> st1\<lparr>sl_error := Some msg\<rparr>)\<lparr>loading := False\<rparr>))"

text \<open>
  \<open>handleFileSave\<close> (lines 67--91): the file offered for download; both
  \<open>Date.now()\<close> calls read the clock \<open>now\<close>.
\<close>

definition handleFileSave :: "int \<Rightarrow> sl_state \<Rightarrow> sl_state" where
  "handleFileSave now st =
     (if js_trim (saveName st) = [] then st\<lparr>sl_error := Some ''Please enter a save name''\<rparr>
      else
        st\<lparr>downloads := downloads st @
              [JObj [(''name'', JStr (js_trim (saveName st))), (''data'', JObj (captureLocalStorage (sl_ls st))),
                     (''createdAt'', JNum now), (''updatedAt'', JNum now)]],
           saveName := [], sl_error := None\<rparr>)"

text \<open>
  \<open>handleFileLoad\<close> (lines 94--113): \<open>file\<close> is \<open>None\<close> when no file is chosen, and
  \<open>Some None\<close> when its text is no JSON.  \<open>saveData.data\<close> on a parsed \<open>null\<close> throws.
\<close>

definition handleFileLoad :: "json option option \<Rightarrow> sl_state \<Rightarrow> sl_state" where
  "handleFileLoad file st =
     (case file of
        None \<Rightarrow> st
      | Some None \<Rightarrow> st\<lparr>sl_error := Some ''Error parsing save file''\<rparr>
      | Some (Some JNull) \<Rightarrow> st\<lparr>sl_error := Some ''Error parsing save file''\<rparr>
      | Some (Some v) \<Rightarrow>
          (case json_get ''data'' v of
             Some d \<Rightarrow>
               if js_truthy (Some d) then
                 (case restoreLocalStorage d of
                    (None, ls) \<Rightarrow> st\<lparr>sl_ls := ls, reloaded := True\<rparr>
                  | (Some _, ls) \<Rightarrow> st\<lparr>sl_ls := ls, sl_error := Some ''Error parsing save file''\<rparr>)
               else st\<lparr>sl_error := Some ''Invalid save file format''\<rparr>
           | None \<Rightarrow> st\<lparr>sl_error := Some ''Invalid save file format''\<rparr>))"

text \<open>\<open>handleCreateSave\<close> (lines 115--135).\<close>

definition handleCreateSave :: "(js_string \<Rightarrow> json option) \<Rightarrow> js_string \<Rightarrow> int \<Rightarrow> sl_state \<Rightarrow> sl_state" where
  "handleCreateSave parse fresh now st =
     (if js_trim (saveName st) = [] then st\<lparr>sl_error := Some ''Please enter a save name''\<rparr>
      else
        (let (r, dir') = createSave (js_trim (saveName st)) parse (sl_ls st) fresh now (sl_dir st);
             st1 = st\<lparr>loading := True, sl_error := None, sl_dir := dir'\<rparr>
         in (case r of
               Inr (SaveInfo sm) \<Rightarrow>
                 (loadSaves (st1\<lparr>currentSaveId := Some (sum_id sm), saveName := []\<rparr>))\<lparr>activeTab := LoadTab\<rparr>
             | Inr _ \<Rightarrow> st1
             | Inl msg \<Rightarrow> st1\<lparr>sl_error := Some msg\<rparr>)\<lparr>loading := False\<rparr>))"

text \<open>\<open>handleOverwriteSave\<close> (lines 137--158); \<open>answer\<close> is the reply to \<open>confirm\<close>.\<close>

definition handleOverwriteSave :: "(js_string \<Rightarrow> json option) \<Rightarrow> bool \<Rightarrow> int \<Rightarrow> sl_state \<Rightarrow> sl_state" where
  "handleOverwriteSave parse answer now st =
     (case currentSaveId st of
        None \<Rightarrow> st\<lparr>sl_error := Some ''No save is currently loaded''\<rparr>
      | Some i \<Rightarrow>
          if i = [] then st\<lparr>sl_error := Some ''No save is currently loaded''\<rparr>
          else if \<not> answer then st
          else
            (let (r, dir') = updateSave i parse (sl_ls st) now (sl_dir st);
                 st1 = st\<lparr>loading := True, sl_error := None, sl_dir := dir'\<rparr>
             in (case r of
                   Inr _ \<Rightarrow> loadSaves st1
                 | Inl msg \<Rightarrow> st1\<lparr>sl_error := Some msg\<rparr>)\<lparr>loading := False\<rparr>))"

text \<open>The value \<open>handleLoadSave\<close> writes under \<open>wrs_current_save_state\<close> (lines 168--173).\<close>

definition save_state_json :: "js_string \<Rightarrow> bool \<Rightarrow> json" where
  "save_state_json i auto =
     JObj [(''currentSaveId'', JStr i), (''autoSaveEnabled'', JBool auto), (''lastAutoSaveTime'', JNull)]"

text \<open>
  \<open>handleLoadSave\<close> (lines 160--183): restore the save's storage, record it as the
  current save, reload.  A throw of \<open>restoreLocalStorage\<close> is the \<open>TypeError\<close> of
  \<open>Object.keys(null)\<close>.
\<close>

definition handleLoadSave :: "js_string \<Rightarrow> sl_state \<Rightarrow> sl_state" where
  "handleLoadSave i st =
     (let (r, dir') = getSave i (sl_dir st);
          st1 = st\<lparr>loading := True, sl_error := None, sl_dir := dir'\<rparr>
      in case r of
           Inr (SaveBody s) \<Rightarrow>
             (case restoreLocalStorage (save_data s) of
                (None, ls) \<Rightarrow>
                  st1\<lparr>sl_ls := AList.update ''wrs_current_save_state''
                                 (json_stringify (save_state_json i (autoSaveEnabled st))) ls,
                      reloaded := True\<rparr>
              | (Some _, ls) \<Rightarrow>
                  st1\<lparr>sl_ls := ls, sl_error := Some ''Cannot convert undefined or null to object'', loading := False\<rparr>)
         | Inr _ \<Rightarrow> st1\<lparr>sl_error := Some ''Cannot convert undefined or null to object'', loading := False\<rparr>
         | Inl msg \<Rightarrow> st1\<lparr>sl_error := Some msg, loading := False\<rparr>)"

text \<open>\<open>handleDeleteSave\<close> (lines 185--203).\<close>

definition handleDeleteSave :: "js_string \<Rightarrow> bool \<Rightarrow> sl_state \<Rightarrow> sl_state" where
  "handleDeleteSave i answer st =
     (if \<not> answer then st
      else
        (let (r, dir') = deleteSave i (sl_dir st);
             st1 = st\<lparr>loading := True, sl_error := None, sl_dir := dir'\<rparr>
         in (case r of
               Inr _ \<Rightarrow> loadSaves (if currentSaveId st = Some i then st1\<lparr>currentSaveId := None\<rparr> else st1)
             | Inl msg \<Rightarrow> st1\<lparr>sl_error := Some msg\<rparr>)\<lparr>loading := False\<rparr>))"

section \<open>Events\<close>

datatype sl_event =
    SetTab sl_tab | EditSaveName js_string | ToggleAutoSave bool
  | CreateNew js_string int | OverwriteCurrent bool int | FileSave int | FileLoad "json option option"
  | LoadSaveEv js_string | DeleteSaveEv js_string bool

text \<open>
  The callbacks of the rendered dialog (lines 240--455); \<open>parse\<close> is
  \<open>JSON.parse\<close> of the master data string.
\<close>

fun sl_handler :: "(js_string \<Rightarrow> json option) \<Rightarrow> sl_event \<Rightarrow> sl_state \<Rightarrow> sl_state" where
  "sl_handler parse (SetTab t) st = st\<lparr>activeTab := t\<rparr>"
| "sl_handler parse (EditSaveName v) st = st\<lparr>saveName := v\<rparr>"
| "sl_handler parse (ToggleAutoSave b) st = st\<lparr>autoSaveEnabled := b\<rparr>"
| "sl_handler parse (CreateNew fresh now) st = handleCreateSave parse fresh now st"
| "sl_handler parse (OverwriteCurrent answer now) st = handleOverwriteSave parse answer now st"
| "sl_handler parse (FileSave now) st = handleFileSave now st"
| "sl_handler parse (FileLoad file) st = handleFileLoad file st"
| "sl_handler parse (LoadSaveEv i) st = handleLoadSave i st"
| "sl_handler parse (DeleteSaveEv i answer) st = handleDeleteSave i answer st"

text \<open>One event: its handler, then the effect on the current save's name.\<close>

definition sl_step :: "(js_string \<Rightarrow> json option) \<Rightarrow> sl_event \<Rightarrow> sl_state \<Rightarrow> sl_state" where
  "sl_step parse ev st = name_sync (sl_handler parse ev st)"

text \<open>
  The controls the dialog shows and enables: the create and overwrite buttons and the
  listing with a backend, the file buttons without, nothing while loading.
\<close>

fun sl_enabled :: "sl_state \<Rightarrow> sl_event \<Rightarrow> bool" where
  "sl_enabled st (SetTab _) = True"
| "sl_enabled st (ToggleAutoSave _) = (hasBackend st \<and> currentSaveId st \<noteq> None \<and> currentSaveName st \<noteq> None)"
| "sl_enabled st (EditSaveName _) = (activeTab st = SaveTab \<and> \<not> loading st)"
| "sl_enabled st (CreateNew _ _) = (activeTab st = SaveTab \<and> hasBackend st \<and> \<not> loading st \<and> js_trim (saveName st) \<noteq> [])"
| "sl_enabled st (OverwriteCurrent _ _) = (activeTab st = SaveTab \<and> hasBackend st \<and> \<not> loading st \<and> currentSaveId st \<noteq> None)"
| "sl_enabled st (FileSave _) = (activeTab st = SaveTab \<and> \<not> hasBackend st \<and> js_trim (saveName st) \<noteq> [])"
| "sl_enabled st (FileLoad _) = (activeTab st = LoadTab \<and> \<not> hasBackend st)"
| "sl_enabled st (LoadSaveEv i) = (activeTab st = LoadTab \<and> hasBackend st \<and> \<not> loading st \<and> i \<in> sum_id ` set (saves st))"
| "sl_enabled st (DeleteSaveEv i _) = (activeTab st = LoadTab \<and> hasBackend st \<and> \<not> loading st \<and> i \<in> sum_id ` set (saves st))"

text \<open>The dialog as opened (lines 35--39): with a backend it lists the saves.\<close>

definition sl_init :: "js_string option \<Rightarrow> bool \<Rightarrow> bool \<Rightarrow> saves_dir \<Rightarrow> local_storage \<Rightarrow> sl_state" where
  "sl_init cid auto backend dir ls = name_sync (loadSaves (sl_start cid auto backend dir ls))"

inductive sl_reach :: "(js_string \<Rightarrow> json option) \<Rightarrow> sl_state \<Rightarrow> bool" where
  sl_reach_init: "sl_reach parse (sl_init cid auto backend dir ls)"
| sl_reach_step: "sl_reach parse st \<Longrightarrow> \<not> reloaded st \<Longrightarrow> sl_enabled st ev \<Longrightarrow> sl_reach parse (sl_step parse ev st)"

text \<open>The invariant of the busy flag: the dialog stays busy only once the page reloads.\<close>

definition loading_ok :: "sl_state \<Rightarrow> bool" where
  "loading_ok st \<longleftrightarrow> (loading st \<longrightarrow> reloaded st)"

section \<open>Lemmas\<close>

lemma listSaves_dir [simp]: "snd (listSaves dir) = dir"
  by (simp add: listSaves_def list_saves_def Let_def)

lemma loadSaves_keeps [simp]:
  "sl_dir (loadSaves st) = sl_dir st" "sl_ls (loadSaves st) = sl_ls st"
  "currentSaveId (loadSaves st) = currentSaveId st" "autoSaveEnabled (loadSaves st) = autoSaveEnabled st"
  "reloaded (loadSaves st) = reloaded st" "hasBackend (loadSaves st) = hasBackend st"
  "downloads (loadSaves st) = downloads st"
  by (simp_all add: loadSaves_def Let_def case_prod_beta split: sum.split response.split)

lemma loadSaves_loading: "\<not> loading st \<Longrightarrow> \<not> loading (loadSaves st)"
  by (simp add: loadSaves_def Let_def case_prod_beta split: sum.split response.split)

lemma loadSaves_loading_set: "hasBackend st \<Longrightarrow> \<not> loading (loadSaves st)"
  by (simp add: loadSaves_def Let_def case_prod_beta split: sum.split response.split)

lemma name_sync_keeps [simp]:
  "sl_dir (name_sync st) = sl_dir st" "sl_ls (name_sync st) = sl_ls st"
  "currentSaveId (name_sync st) = currentSaveId st" "autoSaveEnabled (name_sync st) = autoSaveEnabled st"
  "reloaded (name_sync st) = reloaded st" "loading (name_sync st) = loading st"
  "downloads (name_sync st) = downloads st"
  by (simp_all add: name_sync_def split: option.split)

lemma file_save_load_roundtrip:
  assumes "js_trim (saveName st) \<noteq> []" "distinct (map fst (sl_ls st))"
  shows "sl_ls (sl_step parse (FileLoad (Some (Some (last (downloads (sl_step parse (FileSave now) st))))))
                  (sl_step parse (FileSave now) st)) = [(k, v) \<leftarrow> sl_ls st. k \<noteq> []]"
  using assms restore_capture [OF assms(2)]
  by (simp add: sl_step_def handleFileSave_def handleFileLoad_def)

lemma handler_loading_ok:
  assumes "loading_ok st" "\<not> reloaded st"
  shows "loading_ok (sl_step parse ev st)"
proof -
  have nl: "\<not> loading st" using assms unfolding loading_ok_def by blast
  show ?thesis
    using nl loadSaves_loading [OF nl]
    by (cases ev)
      (auto simp: sl_step_def loading_ok_def handleCreateSave_def handleOverwriteSave_def
         handleFileSave_def handleFileLoad_def handleLoadSave_def handleDeleteSave_def Let_def
         case_prod_beta split: option.split sum.split response.split json.split)
qed

lemma delete_current_clears:
  assumes "answer" "map_of (sl_dir st) (save_file_name i) \<noteq> None" "currentSaveId st = Some i"
  shows "currentSaveId (sl_step parse (DeleteSaveEv i answer) st) = None"
  using assms by (simp add: sl_step_def handleDeleteSave_def deleteSave_def delete_save_def checked_def)

section \<open>Properties\<close>



text \<open>
  C40.  In every state the dialog reaches, it is busy only after the page reloads:
  every handler that sets \<open>loading\<close> clears it on every path but a successful load,
  so the disabled buttons never stay disabled.
\<close>

theorem dialog_never_stuck_loading:
  assumes "sl_reach parse st"
  shows "loading st \<longrightarrow> reloaded st"
  using assms
proof (induction rule: sl_reach.induct)
  case sl_reach_init
  then show ?case
    using loadSaves_loading by (simp add: sl_init_def sl_start_def)
next
  case (sl_reach_step parse st ev)
  then show ?case
    using handler_loading_ok [of st] unfolding loading_ok_def by blast
qed

theorem dialog_never_stuck_loading_witness:
  "\<not> loading (sl_init None False True [] [])"
  using dialog_never_stuck_loading [OF sl_reach_init [where parse="\<lambda>_. None"], of None False True "[]" "[]"]
  by (simp add: sl_init_def sl_start_def)

end
