(* ===== verification/Concepts.thy ===== *)
theory Concepts
  imports Tiles Lesson "HOL-Library.Multiset"
begin

text \<open>
  The concept board and cipher game of \<open>TeachConcepts\<close>
  (\<open>src/components/modules/TeachConcepts.tsx\<close>, lines 1--362), with the tile colours
  of \<open>getTileColor\<close> (\<open>src/App.tsx\<close>, lines 470--501).  A cipher word such as
  \<open>/k/lap\<close> is read by the regular expression of line 151 into phoneme, bracket and
  static tokens; the segments of the game are built from them, and a phoneme blank
  takes its answer from the end of the static text before it.  The component's
  \<open>useState\<close> hooks are a record and each callback an event; its calls of
  \<open>onUpdateLesson\<close> and \<open>onAddToInventory\<close> are the output of a step.  The random
  order of the options and the generated ids are inputs of the events.
  Non-ASCII characters are written in UTF-8.
\<close>

section \<open>Tile colours\<close>

text \<open>\<open>getTileColor\<close> (App.tsx lines 470--501): the class names of a tile type.\<close>

fun getTileColor :: "tile_type \<Rightarrow> js_string" where
  "getTileColor Vowel = ''bg-[#FFD6B5] border-[#EBC2A1] text-black''"
| "getTileColor VowelTeam = ''bg-[#FFD6B5] border-[#EBC2A1] text-black''"
| "getTileColor RControl = ''bg-[#FFD6B5] border-[#EBC2A1] text-black''"
| "getTileColor Welded = ''bg-[#A6D785] border-[#95C674] text-black''"
| "getTileColor Suffix = ''bg-[#FFF275] border-[#EBE064] text-black''"
| "getTileColor Prefix = ''bg-[#FFF275] border-[#EBE064] text-black''"
| "getTileColor Syllable = ''bg-white border-[#CCCCCC] text-black min-w-[5rem]''"
| "getTileColor Space = ''bg-transparent border-transparent shadow-none''"
| "getTileColor Digraph = ''bg-[#FFF8E7] border-[#E6DFC0] text-black''"
| "getTileColor Consonant = ''bg-[#FFF8E7] border-[#E6DFC0] text-black''"

section \<open>Cipher words\<close>

text \<open>\<open>PHONEME_MAP\<close> (lines 32--50): the spellings of each sound.\<close>

definition PHONEME_MAP :: "(js_string \<times> js_string list) list" where
  "PHONEME_MAP =
     [(''k'', [''c'', ''k'', ''ck'']), (''j'', [''j'', ''g'', ''dge'']), (''ch'', [''ch'', ''tch'']),
      (''f'', [''f'', ''ff'', ''ph'']), (''s'', [''s'', ''ss'', ''c'']), (''z'', [''z'', ''zz'', ''s'']),
      (''er'', [''er'', ''ir'', ''ur'']),
      ([CHR 0xC4, CHR 0x81], [''a-e'', ''ai'', ''ay'']),
      ([CHR 0xC4, CHR 0x93], [''e-e'', ''ee'', ''ea'', ''y'']),
      ([CHR 0xC4, CHR 0xAB], [''i-e'', ''igh'', ''y'']),
      ([CHR 0xC5, CHR 0x8D], [''o-e'', ''oa'', ''ow'']),
      ([CHR 0xC5, CHR 0xAB], [''u-e'', ''oo'', ''ue'', ''ew'']),
      (''oi'', [''oi'', ''oy'']), (''ow'', [''ou'', ''ow'']), (''au'', [''au'', ''aw'']),
      (''shun'', [''tion'', ''sion'', ''cian'']), (''cher'', [''ture'', ''cher''])]"

text \<open>\<open>PHONEME_MAP[p] || [p]\<close> (line 163).\<close>

definition phoneme_options :: "js_string \<Rightarrow> js_string list" where
  "phoneme_options p = (case map_of PHONEME_MAP p of Some os \<Rightarrow> os | None \<Rightarrow> [p])"

text \<open>
  The alternatives of the regular expression of line 151 at one position:
  \<open>\/([^\/]+)\/\<close>, \<open>\[([^\]]+)\]\<close> and \<open>[^/\[\]]+\<close>; each returns the captured text
  and the rest of the input.
\<close>

definition match_phoneme :: "js_string \<Rightarrow> (js_string \<times> js_string) option" where
  "match_phoneme s =
     (case s of
        c # r \<Rightarrow>
          (let inner = takeWhile (\<lambda>x. x \<noteq> CHR ''/'') r; rest = dropWhile (\<lambda>x. x \<noteq> CHR ''/'') r
           in if c = CHR ''/'' \<and> inner \<noteq> [] \<and> rest \<noteq> [] then Some (inner, tl rest) else None)
      | [] \<Rightarrow> None)"

definition match_bracket :: "js_string \<Rightarrow> (js_string \<times> js_string) option" where
  "match_bracket s =
     (case s of
        c # r \<Rightarrow>
          (let inner = takeWhile (\<lambda>x. x \<noteq> CHR '']'') r; rest = dropWhile (\<lambda>x. x \<noteq> CHR '']'') r
           in if c = CHR ''['' \<and> inner \<noteq> [] \<and> rest \<noteq> [] then Some (inner, tl rest) else None)
      | [] \<Rightarrow> None)"

definition static_char :: "char \<Rightarrow> bool" where
  "static_char c \<longleftrightarrow> c \<noteq> CHR ''/'' \<and> c \<noteq> CHR ''['' \<and> c \<noteq> CHR '']''"

definition match_static :: "js_string \<Rightarrow> (js_string \<times> js_string) option" where
  "match_static s =
     (let t = takeWhile static_char s in if t \<noteq> [] then Some (t, dropWhile static_char s) else None)"

datatype cipher_tok = TPhoneme js_string | TBracket js_string | TStatic js_string

text \<open>
  The \<open>exec\<close> loop of lines 156--186: the first alternative that matches at a
  position wins; where none does, the search moves on one character.
\<close>

function cipher_tokens :: "js_string \<Rightarrow> cipher_tok list" where
  "cipher_tokens [] = []"
| "cipher_tokens (c # cs) =
     (case match_phoneme (c # cs) of
        Some (p, rest) \<Rightarrow> TPhoneme p # cipher_tokens rest
      | None \<Rightarrow>
          (case match_bracket (c # cs) of
             Some (b, rest) \<Rightarrow> TBracket b # cipher_tokens rest
           | None \<Rightarrow>
               (case match_static (c # cs) of
                  Some (t, rest) \<Rightarrow> TStatic t # cipher_tokens rest
                | None \<Rightarrow> cipher_tokens cs)))"
  by pat_completeness auto
termination
  apply (relation "measure length")
   apply (auto simp: match_phoneme_def match_bracket_def match_static_def static_char_def Let_def
       less_Suc_eq_le split: list.splits if_splits intro: order.trans [OF diff_le_self] length_dropWhile_le)
  apply (meson diff_le_self length_dropWhile_le order.trans)+
  done

text \<open>The matches of \<open>rawWord.matchAll(/\/([^\/]+)\//g)\<close> (line 207).\<close>

function phoneme_matches :: "js_string \<Rightarrow> js_string list" where
  "phoneme_matches [] = []"
| "phoneme_matches (c # cs) =
     (case match_phoneme (c # cs) of
        Some (p, rest) \<Rightarrow> p # phoneme_matches rest
      | None \<Rightarrow> phoneme_matches cs)"
  by pat_completeness auto
termination
  apply (relation "measure length")
   apply (auto simp: match_phoneme_def match_bracket_def match_static_def static_char_def Let_def
       less_Suc_eq_le split: list.splits if_splits intro: order.trans [OF diff_le_self] length_dropWhile_le)
  apply (meson diff_le_self length_dropWhile_le order.trans)+
  done

text \<open>
  A segment of the game (lines 28--30): static tiles, or a blank with its id and its
  answer, \<open>None\<close> for the \<open>undefined\<close> of a bracket without options.
\<close>

datatype cipher_seg = Static "TileData list" | Blank nat "js_string option"

text \<open>
  The lookback of lines 166--181: the longest spelling the static text before the blank
  ends with becomes the answer and leaves that text; \<open>sort\<close> is stable, as
  \<open>sort_key\<close> is.
\<close>

definition lookback :: "js_string list \<Rightarrow> cipher_seg list \<Rightarrow> js_string option \<times> cipher_seg list" where
  "lookback options segs =
     (case rev segs of
        Static tiles # before \<Rightarrow>
          (let combined = concat (map ttext tiles);
               found = find (\<lambda>opt. ends_with combined opt) (sort_key (\<lambda>x. - int (length x)) options)
           in case found of
                Some f \<Rightarrow>
                  (let remaining = take (length combined - length f) combined
                   in (Some f, if remaining = [] then rev before
                               else rev before @ [Static (parseWordToTiles remaining)]))
              | None \<Rightarrow> (None, segs))
      | _ \<Rightarrow> (None, segs))"

text \<open>One token of the loop (lines 158--185), on the segments and the blank counter.\<close>

fun seg_step :: "cipher_seg list \<times> nat \<Rightarrow> cipher_tok \<Rightarrow> cipher_seg list \<times> nat" where
  "seg_step (segs, n) (TPhoneme p) =
     (let options = phoneme_options p; (found, segs') = lookback options segs
      in (segs' @ [Blank n (Some (case found of Some f \<Rightarrow> f | None \<Rightarrow> hd options))], Suc n))"
| "seg_step (segs, n) (TBracket b) =
     (let opts = filter (\<lambda>s. s \<noteq> []) (map js_trim (split_on CHR ''|'' b))
      in (segs @ [Blank n (case opts of [] \<Rightarrow> None | x # _ \<Rightarrow> Some x)], Suc n))"
| "seg_step (segs, n) (TStatic t) = (segs @ [Static (parseWordToTiles t)], n)"

definition cipher_segments :: "js_string \<Rightarrow> cipher_seg list" where
  "cipher_segments w = fst (foldl seg_step ([], 0) (cipher_tokens w))"

section \<open>The component\<close>

datatype tc_mode = SlidesMode | NotesMode | BoardMode | CipherMode

datatype game_status = Playing | Correct | Incorrect

datatype dec_type = SymbolDec | SyllableTypeDec

record decoration =
  dec_id :: js_string
  dec_text :: js_string
  dec_type :: dec_type
  dec_x :: int
  dec_y :: int

text \<open>
  The hooks of lines 65--91.  \<open>userAnswers\<close> is read only by key, so a missing key
  and an \<open>undefined\<close> value are both \<open>None\<close>.
\<close>

record tc_state =
  tc_mode :: tc_mode
  boardText :: js_string
  decorations :: "decoration list"
  addedFeedback :: bool
  inventoryFeedback :: bool
  currentCipherIndex :: nat
  cipherSegments :: "cipher_seg list"
  userAnswers :: "nat \<Rightarrow> js_string option"
  activeBlankId :: "nat option"
  cipherOptions :: "js_string option list"
  gameStatus :: game_status

datatype tc_out = TcNone | TcUpdateLesson Lesson | TcAddToInventory js_string

definition hasCipher :: "Lesson \<Rightarrow> bool" where
  "hasCipher l \<longleftrightarrow> (case lesson_cipherWords l of Some ws \<Rightarrow> ws \<noteq> [] | None \<Rightarrow> False)"

text \<open>\<open>determineInitialMode\<close> (lines 53--63).\<close>

definition determineInitialMode :: "Lesson \<Rightarrow> bool \<Rightarrow> tc_mode option \<Rightarrow> tc_mode" where
  "determineInitialMode l isSpelling forced =
     (case forced of
        Some m \<Rightarrow> m
      | None \<Rightarrow>
          if isSpelling then (if hasCipher l then CipherMode else NotesMode)
          else if lesson_slides l \<noteq> [] \<or> (case lesson_googleSlidesUrl l of Some u \<Rightarrow> u \<noteq> [] | None \<Rightarrow> False)
          then SlidesMode else BoardMode)"

text \<open>\<open>lesson.cipherWords[idx]\<close>, \<open>undefined\<close> past the end.\<close>

definition cipher_word :: "Lesson \<Rightarrow> nat \<Rightarrow> js_string option" where
  "cipher_word l i = (case lesson_cipherWords l of Some ws \<Rightarrow> if i < length ws then Some (ws ! i) else None | None \<Rightarrow> None)"

text \<open>\<open>loadCipherWord\<close> (lines 144--200): a missing or empty word changes nothing.\<close>

definition loadCipherWord :: "Lesson \<Rightarrow> nat \<Rightarrow> tc_state \<Rightarrow> tc_state" where
  "loadCipherWord l idx st =
     (case cipher_word l idx of
        Some w \<Rightarrow>
          if w = [] then st
          else st\<lparr>currentCipherIndex := idx, cipherSegments := cipher_segments w, userAnswers := (\<lambda>_. None),
                  activeBlankId := None, gameStatus := Playing, cipherOptions := []\<rparr>
      | None \<Rightarrow> st)"

text \<open>\<open>Array.from(new Set(xs))\<close>: the first occurrence of each value, in order.\<close>

definition set_order :: "'a list \<Rightarrow> 'a list" where
  "set_order xs = rev (remdups (rev xs))"

text \<open>
  The options \<open>handleBlankClick\<close> draws from (lines 206--218): the spellings of the
  \<open>blankId\<close>-th phoneme of the word, else the blank's answer with the word's
  distractors.
\<close>

definition blank_pool :: "Lesson \<Rightarrow> nat \<Rightarrow> nat \<Rightarrow> js_string option \<Rightarrow> js_string option list" where
  "blank_pool l idx blankId correct =
     (let raw = (case cipher_word l idx of Some w \<Rightarrow> w | None \<Rightarrow> []);
          ms = phoneme_matches raw
      in if blankId < length ms \<and> map_of PHONEME_MAP (ms ! blankId) \<noteq> None
         then map Some (phoneme_options (ms ! blankId))
         else
           (let ds = (case lesson_cipherDistractors l of
                        Some dss \<Rightarrow> if idx < length dss then dss ! idx else []
                      | None \<Rightarrow> []);
                distractors = filter (\<lambda>s. s \<noteq> []) (map js_trim (split_on CHR '','' ds))
            in set_order (correct # map Some distractors)))"

text \<open>
  \<open>handleBlankClick\<close> (lines 202--221); \<open>shuffled\<close> is the order \<open>sort\<close> with a
  random comparator gives, a permutation of the pool.
\<close>

definition handleBlankClick ::
  "Lesson \<Rightarrow> nat \<Rightarrow> js_string option \<Rightarrow> js_string option list \<Rightarrow> tc_state \<Rightarrow> tc_state" where
  "handleBlankClick l blankId correct shuffled st =
     (if gameStatus st \<noteq> Playing then st
      else
        (let pool = blank_pool l (currentCipherIndex st) blankId correct
         in st\<lparr>activeBlankId := Some blankId,
               cipherOptions := (if mset shuffled = mset pool then shuffled else pool)\<rparr>))"

text \<open>\<open>handleOptionSelect\<close> (lines 223--227).\<close>

definition handleOptionSelect :: "js_string option \<Rightarrow> tc_state \<Rightarrow> tc_state" where
  "handleOptionSelect t st =
     (case activeBlankId st of
        None \<Rightarrow> st
      | Some b \<Rightarrow> st\<lparr>userAnswers := (userAnswers st)(b := t), activeBlankId := None\<rparr>)"

fun blank_of :: "cipher_seg \<Rightarrow> (nat \<times> js_string option) list" where
  "blank_of (Blank i c) = [(i, c)]"
| "blank_of (Static _) = []"

definition blanks :: "cipher_seg list \<Rightarrow> (nat \<times> js_string option) list" where
  "blanks segs = concat (map blank_of segs)"

text \<open>\<open>checkCipher\<close> (lines 229--236): nothing until every blank has a non-empty answer.\<close>

definition checkCipher :: "tc_state \<Rightarrow> tc_state" where
  "checkCipher st =
     (let bs = blanks (cipherSegments st)
      in if \<not> (\<forall>(i, _) \<in> set bs. case userAnswers st i of Some a \<Rightarrow> a \<noteq> [] | None \<Rightarrow> False) then st
         else st\<lparr>gameStatus := (if \<forall>(i, c) \<in> set bs. userAnswers st i = c then Correct else Incorrect)\<rparr>)"

text \<open>\<open>nextCipher\<close> and \<open>prevCipher\<close> (lines 238--248).\<close>

definition nextCipher :: "Lesson \<Rightarrow> tc_state \<Rightarrow> tc_state" where
  "nextCipher l st =
     (case lesson_cipherWords l of
        Some ws \<Rightarrow> if currentCipherIndex st + 1 < length ws then loadCipherWord l (currentCipherIndex st + 1) st else st
      | None \<Rightarrow> st)"

definition prevCipher :: "Lesson \<Rightarrow> tc_state \<Rightarrow> tc_state" where
  "prevCipher l st =
     (if 0 < currentCipherIndex st then loadCipherWord l (currentCipherIndex st - 1) st else st)"

text \<open>\<open>getGameTile\<close> (lines 250--254).\<close>

definition getGameTile :: "js_string \<Rightarrow> TileData" where
  "getGameTile t = (case parseWordToTiles t of [x] \<Rightarrow> x | _ \<Rightarrow> \<lparr>ttext = t, ttype = Syllable\<rparr>)"

text \<open>The board (lines 306--353); the open dropdown and the drawing canvas are not modelled.\<close>

definition addToSlides :: "Lesson \<Rightarrow> bool \<Rightarrow> js_string \<Rightarrow> tc_state \<Rightarrow> tc_state \<times> tc_out" where
  "addToSlides l cbU fresh st =
     (if js_trim (boardText st) = [] \<or> \<not> cbU then (st, TcNone)
      else (st\<lparr>addedFeedback := True\<rparr>,
            TcUpdateLesson (l\<lparr>lesson_slides := lesson_slides l @
              [\<lparr>slide_id = fresh, slide_type = WordSlide, slide_title = [], slide_content = boardText st\<rparr>]\<rparr>)))"

definition saveToInventory :: "bool \<Rightarrow> tc_state \<Rightarrow> tc_state \<times> tc_out" where
  "saveToInventory cbI st =
     (if js_trim (boardText st) = [] \<or> \<not> cbI then (st, TcNone)
      else (st\<lparr>inventoryFeedback := True\<rparr>, TcAddToInventory (boardText st)))"

text \<open>\<open>addDecoration\<close>: \<open>width\<close> is the container's \<open>offsetWidth\<close>, \<open>None\<close> before it mounts.\<close>

definition addDecoration :: "js_string \<Rightarrow> js_string \<Rightarrow> dec_type \<Rightarrow> int option \<Rightarrow> tc_state \<Rightarrow> tc_state" where
  "addDecoration fresh t ty width st =
     st\<lparr>decorations := decorations st @
          [\<lparr>dec_id = fresh, dec_text = t, dec_type = ty,
            dec_x = (case width of Some w \<Rightarrow> w - 140 | None \<Rightarrow> 600), dec_y = 100\<rparr>]\<rparr>"

datatype tc_event =
    SetMode tc_mode
  | TileClick js_string | ClearBoard | Backspace | AddToSlides js_string | SaveToInventory
  | AddDecoration js_string js_string dec_type "int option" | DragDecoration js_string int int
  | RemoveDecoration js_string | AddedTimeout | InventoryTimeout
  | BlankClick nat "js_string option" "js_string option list" | OptionSelect "js_string option"
  | CheckCipher | NextCipher | PrevCipher | TryAgain | JumpTo nat

text \<open>
  The callbacks of the rendered component (lines 362--644) on the lesson \<open>l\<close> of the
  render; \<open>cbU\<close> and \<open>cbI\<close> tell whether \<open>onUpdateLesson\<close> and
  \<open>onAddToInventory\<close> were passed.
\<close>

fun tc_handler :: "Lesson \<Rightarrow> bool \<Rightarrow> bool \<Rightarrow> tc_event \<Rightarrow> tc_state \<Rightarrow> tc_state \<times> tc_out" where
  "tc_handler l cbU cbI (SetMode m) st = (st\<lparr>tc_mode := m\<rparr>, TcNone)"
| "tc_handler l cbU cbI (TileClick t) st = (st\<lparr>boardText := boardText st @ t\<rparr>, TcNone)"
| "tc_handler l cbU cbI ClearBoard st = (st\<lparr>boardText := [], decorations := []\<rparr>, TcNone)"
| "tc_handler l cbU cbI Backspace st = (st\<lparr>boardText := butlast (boardText st)\<rparr>, TcNone)"
| "tc_handler l cbU cbI (AddToSlides fresh) st = addToSlides l cbU fresh st"
| "tc_handler l cbU cbI SaveToInventory st = saveToInventory cbI st"
| "tc_handler l cbU cbI (AddDecoration fresh t ty w) st = (addDecoration fresh t ty w st, TcNone)"
| "tc_handler l cbU cbI (DragDecoration i x y) st =
     (st\<lparr>decorations := map (\<lambda>d. if dec_id d = i then d\<lparr>dec_x := x, dec_y := y\<rparr> else d) (decorations st)\<rparr>, TcNone)"
| "tc_handler l cbU cbI (RemoveDecoration i) st =
     (st\<lparr>decorations := filter (\<lambda>d. dec_id d \<noteq> i) (decorations st)\<rparr>, TcNone)"
| "tc_handler l cbU cbI AddedTimeout st = (st\<lparr>addedFeedback := False\<rparr>, TcNone)"
| "tc_handler l cbU cbI InventoryTimeout st = (st\<lparr>inventoryFeedback := False\<rparr>, TcNone)"
| "tc_handler l cbU cbI (BlankClick b c sh) st = (handleBlankClick l b c sh st, TcNone)"
| "tc_handler l cbU cbI (OptionSelect t) st = (handleOptionSelect t st, TcNone)"
| "tc_handler l cbU cbI CheckCipher st = (checkCipher st, TcNone)"
| "tc_handler l cbU cbI NextCipher st = (nextCipher l st, TcNone)"
| "tc_handler l cbU cbI PrevCipher st = (prevCipher l st, TcNone)"
| "tc_handler l cbU cbI TryAgain st = (loadCipherWord l (currentCipherIndex st) st, TcNone)"
| "tc_handler l cbU cbI (JumpTo i) st = (loadCipherWord l i st, TcNone)"

text \<open>The effect of lines 138--142: entering the cipher mode loads the first word.\<close>

definition cipher_effect :: "Lesson \<Rightarrow> tc_state \<Rightarrow> tc_state \<Rightarrow> tc_state" where
  "cipher_effect l old new =
     (if tc_mode new \<noteq> tc_mode old \<and> tc_mode new = CipherMode \<and> hasCipher l then loadCipherWord l 0 new else new)"

definition tc_step :: "Lesson \<Rightarrow> bool \<Rightarrow> bool \<Rightarrow> tc_event \<Rightarrow> tc_state \<Rightarrow> tc_state \<times> tc_out" where
  "tc_step l cbU cbI ev st = (let (st1, out) = tc_handler l cbU cbI ev st in (cipher_effect l st st1, out))"

text \<open>The first render (lines 53--91) and its run of the effect.\<close>

definition tc_init :: "Lesson \<Rightarrow> bool \<Rightarrow> tc_mode option \<Rightarrow> tc_state" where
  "tc_init l isSpelling forced =
     (let st0 = \<lparr>tc_mode = determineInitialMode l isSpelling forced, boardText = [], decorations = [],
                 addedFeedback = False, inventoryFeedback = False, currentCipherIndex = 0, cipherSegments = [],
                 userAnswers = (\<lambda>_. None), activeBlankId = None, cipherOptions = [], gameStatus = Playing\<rparr>
      in if tc_mode st0 = CipherMode \<and> hasCipher l then loadCipherWord l 0 st0 else st0)"

text \<open>Which controls the rendered component offers in each mode.\<close>

fun tc_enabled :: "Lesson \<Rightarrow> tc_state \<Rightarrow> tc_event \<Rightarrow> bool" where
  "tc_enabled l st (SetMode m) = (m \<noteq> CipherMode \<or> hasCipher l)"
| "tc_enabled l st (BlankClick b c sh) =
     (tc_mode st = CipherMode \<and> Blank b c \<in> set (cipherSegments st) \<and>
      mset sh = mset (blank_pool l (currentCipherIndex st) b c))"
| "tc_enabled l st (OptionSelect t) = (tc_mode st = CipherMode \<and> activeBlankId st \<noteq> None \<and> t \<in> set (cipherOptions st))"
| "tc_enabled l st CheckCipher = (tc_mode st = CipherMode \<and> gameStatus st = Playing)"
| "tc_enabled l st NextCipher = (tc_mode st = CipherMode)"
| "tc_enabled l st PrevCipher = (tc_mode st = CipherMode)"
| "tc_enabled l st TryAgain = (tc_mode st = CipherMode \<and> gameStatus st = Incorrect)"
| "tc_enabled l st (JumpTo i) = (tc_mode st = CipherMode)"
| "tc_enabled l st AddedTimeout = True"
| "tc_enabled l st InventoryTimeout = True"
| "tc_enabled l st _ = (tc_mode st = BoardMode)"

inductive tc_reach :: "Lesson \<Rightarrow> bool \<Rightarrow> bool \<Rightarrow> tc_state \<Rightarrow> bool" where
  tc_reach_init: "tc_reach l cbU cbI (tc_init l isSpelling forced)"
| tc_reach_step: "tc_reach l cbU cbI st \<Longrightarrow> tc_enabled l st ev \<Longrightarrow> tc_reach l cbU cbI (fst (tc_step l cbU cbI ev st))"

section \<open>A word with a bracket before a phoneme\<close>

text \<open>
  A lesson whose cipher word has an option bracket before a phoneme, and the invariant
  of the game on it: every option offered and every answer given is a spelling of
  \<open>/k/\<close>, and the game is never won.
\<close>

definition bracket_lesson :: Lesson where
  "bracket_lesson = emptyLesson\<lparr>lesson_cipherWords := Some [''[a|b]x/k/'']\<rparr>"

definition bracket_inv :: "tc_state \<Rightarrow> bool" where
  "bracket_inv st \<longleftrightarrow>
     set (cipherOptions st) \<subseteq> {Some ''c'', Some ''k'', Some ''ck''} \<and>
     (\<forall>i. userAnswers st i \<in> {None, Some ''c'', Some ''k'', Some ''ck''}) \<and>
     (cipherSegments st = [] \<or> cipherSegments st = cipher_segments ''[a|b]x/k/'') \<and>
     (tc_mode st = CipherMode \<longrightarrow> cipherSegments st = cipher_segments ''[a|b]x/k/'') \<and>
     currentCipherIndex st = 0 \<and> gameStatus st \<noteq> Correct"

section \<open>Lemmas\<close>

lemma bracket_segments:
  "cipher_segments ''[a|b]x/k/'' = [Blank 0 (Some ''a''), Static (parseWordToTiles ''x''), Blank 1 (Some ''c'')]"
  by code_simp

lemma bracket_pool0: "blank_pool bracket_lesson 0 0 (Some ''a'') = [Some ''c'', Some ''k'', Some ''ck'']"
  by code_simp

lemma bracket_pool1: "blank_pool bracket_lesson 0 (Suc 0) (Some ''c'') = [Some ''c'']"
  by code_simp

lemma bracket_word: "cipher_word bracket_lesson i = (if i = 0 then Some ''[a|b]x/k/'' else None)"
  by (simp add: cipher_word_def bracket_lesson_def)

lemma bracket_has_cipher [simp]: "hasCipher bracket_lesson"
  by (simp add: hasCipher_def bracket_lesson_def)

lemma bracket_load:
  "loadCipherWord bracket_lesson i st =
     (if i = 0 then st\<lparr>currentCipherIndex := 0, cipherSegments := cipher_segments ''[a|b]x/k/'',
                       userAnswers := (\<lambda>_. None), activeBlankId := None, gameStatus := Playing, cipherOptions := []\<rparr>
      else st)"
  by (simp add: loadCipherWord_def bracket_word)

lemma bracket_blanks: "blanks (cipher_segments ''[a|b]x/k/'') = [(0, Some ''a''), (1, Some ''c'')]"
  by (simp add: bracket_segments blanks_def)

lemma bracket_inv_load: "bracket_inv st \<Longrightarrow> bracket_inv (loadCipherWord bracket_lesson i st)"
  unfolding bracket_load bracket_inv_def by simp

lemma bracket_inv_effect: "bracket_inv new \<Longrightarrow> bracket_inv (cipher_effect bracket_lesson old new)"
  unfolding cipher_effect_def using bracket_inv_load by simp

lemma bracket_no_win:
  assumes "bracket_inv st" "tc_mode st = CipherMode"
  shows "gameStatus (checkCipher st) \<noteq> Correct"
proof -
  have segs: "blanks (cipherSegments st) = [(0, Some ''a''), (1, Some ''c'')]"
    using assms by (simp add: bracket_inv_def bracket_blanks)
  have "userAnswers st 0 \<in> {None, Some ''c'', Some ''k'', Some ''ck''}"
    using assms(1) unfolding bracket_inv_def by blast
  then have "userAnswers st 0 \<noteq> Some ''a''" by auto
  moreover have "gameStatus st \<noteq> Correct"
    using assms(1) unfolding bracket_inv_def by blast
  ultimately show ?thesis
    unfolding checkCipher_def Let_def segs by simp
qed


lemma bracket_inv_blank:
  assumes inv: "bracket_inv st" and m: "tc_mode st = CipherMode"
    and b: "Blank b c \<in> set (cipherSegments st)"
    and sh: "mset sh = mset (blank_pool bracket_lesson (currentCipherIndex st) b c)"
  shows "bracket_inv (handleBlankClick bracket_lesson b c sh st)"
proof -
  have "(b = 0 \<and> c = Some ''a'') \<or> (b = Suc 0 \<and> c = Some ''c'')"
    using inv m b by (simp add: bracket_inv_def bracket_segments)
  then have "set (blank_pool bracket_lesson 0 b c) \<subseteq> {Some ''c'', Some ''k'', Some ''ck''}"
    by (auto simp: bracket_pool0 bracket_pool1)
  moreover have "set sh = set (blank_pool bracket_lesson 0 b c)"
    using sh inv by (metis bracket_inv_def mset_eq_setD)
  ultimately show ?thesis
    using inv sh by (simp add: handleBlankClick_def bracket_inv_def Let_def)
qed

lemma bracket_inv_option:
  "bracket_inv st \<Longrightarrow> t \<in> set (cipherOptions st) \<Longrightarrow> bracket_inv (handleOptionSelect t st)"
  unfolding bracket_inv_def handleOptionSelect_def by (auto split: option.split)

lemma bracket_inv_check:
  "bracket_inv st \<Longrightarrow> tc_mode st = CipherMode \<Longrightarrow> bracket_inv (checkCipher st)"
  using bracket_no_win [of st] unfolding bracket_inv_def by (simp add: checkCipher_def Let_def)

lemma bracket_inv_step:
  assumes "bracket_inv st" "tc_enabled bracket_lesson st ev"
  shows "bracket_inv (fst (tc_step bracket_lesson cbU cbI ev st))"
proof (cases ev)
  case (SetMode m)
  then show ?thesis
    using assms by (simp add: tc_step_def cipher_effect_def bracket_load bracket_inv_def)
next
  case (BlankClick b c sh)
  then show ?thesis
    using assms bracket_inv_blank [of st b c sh]
    by (simp add: tc_step_def bracket_inv_effect)
next
  case (OptionSelect t)
  then show ?thesis
    using assms bracket_inv_option [of st t] by (simp add: tc_step_def bracket_inv_effect)
next
  case CheckCipher
  then show ?thesis
    using assms bracket_inv_check [of st] by (simp add: tc_step_def bracket_inv_effect)
next
  case NextCipher
  then show ?thesis
    using assms bracket_inv_load by (simp add: tc_step_def bracket_inv_effect nextCipher_def split: option.split)
next
  case PrevCipher
  then show ?thesis
    using assms bracket_inv_load by (simp add: tc_step_def bracket_inv_effect prevCipher_def)
next
  case TryAgain
  then show ?thesis
    using assms bracket_inv_load by (simp add: tc_step_def bracket_inv_effect)
next
  case (JumpTo i)
  then show ?thesis
    using assms bracket_inv_load by (simp add: tc_step_def bracket_inv_effect)
qed (use assms in \<open>simp_all add: tc_step_def cipher_effect_def addToSlides_def saveToInventory_def
       addDecoration_def bracket_inv_def split: prod.split\<close>)

lemma blanks_append [simp]: "blanks (xs @ ys) = blanks xs @ blanks ys"
  by (simp add: blanks_def)

lemma blanks_Static [simp]: "blanks [Static ts] = []"
  by (simp add: blanks_def)

lemma lookback_blanks: "blanks (snd (lookback opts segs)) = blanks segs"
proof (cases "rev segs")
  case (Cons s before)
  then have segs: "segs = rev before @ [s]" by (metis rev_rev_ident rev.simps(2))
  show ?thesis
    using Cons by (cases s) (simp_all add: lookback_def Let_def segs split: option.split)
qed (simp add: lookback_def)

lemma seg_step_ids:
  assumes h: "map fst (blanks segs) = [0..<n]"
  shows "map fst (blanks (fst (seg_step (segs, n) t))) = [0..<snd (seg_step (segs, n) t)]"
proof (cases t)
  case (TPhoneme p)
  then show ?thesis
    using h lookback_blanks [of "phoneme_options p" segs]
    by (simp add: Let_def blanks_def case_prod_beta)
qed (use h in \<open>simp_all add: Let_def blanks_def\<close>)

lemma foldl_seg_step_ids:
  "map fst (blanks segs) = [0..<n] \<Longrightarrow>
   map fst (blanks (fst (foldl seg_step (segs, n) ts))) = [0..<snd (foldl seg_step (segs, n) ts)]"
proof (induction ts arbitrary: segs n)
  case (Cons t ts)
  then show ?case
    using seg_step_ids [OF Cons.prems, of t] by (cases "seg_step (segs, n) t") simp
qed simp

lemma cipher_blank_ids:
  "map fst (blanks (cipher_segments w)) = [0..<snd (foldl seg_step ([], 0) (cipher_tokens w))]"
  unfolding cipher_segments_def by (rule foldl_seg_step_ids) (simp add: blanks_def)

section \<open>Properties\<close>

text \<open>
  C7.  The options of a blank are chosen by its id among the phonemes of the word,
  although bracket blanks are counted too.  On the cipher word \<open>[a|b]x/k/\<close> the
  bracket blank, whose answer is \<open>a\<close>, is offered the spellings of \<open>/k/\<close>, so
  in no state the game reaches is the word solved.
\<close>

theorem bracket_before_phoneme_unsolvable:
  assumes "tc_reach bracket_lesson cbU cbI st"
  shows "gameStatus st \<noteq> Correct"
proof -
  have "tc_reach l cbU cbI st \<Longrightarrow> l = bracket_lesson \<Longrightarrow> bracket_inv st" for l
  proof (induction rule: tc_reach.induct)
    case (tc_reach_init l cbU cbI isSpelling forced)
    then show ?case
      by (simp add: tc_init_def Let_def bracket_load bracket_inv_def)
  next
    case (tc_reach_step l cbU cbI st ev)
    then show ?case using bracket_inv_step by blast
  qed
  then show ?thesis
    using assms by (simp add: bracket_inv_def)
qed


theorem bracket_before_phoneme_unsolvable_witness:
  "gameStatus (tc_init bracket_lesson True None) \<noteq> Correct"
  by (rule bracket_before_phoneme_unsolvable [OF tc_reach_init [where cbU=False and cbI=False]])

end
