(* ===== verification/Reading.thy ===== *)
theory Reading
  imports Client "HOL-Library.While_Combinator" "HOL-Library.Multiset"
begin

text \<open>
  The word list reading of Part 4 (\<open>src/components/modules/WordlistReading.tsx\<close>)
  with the cards \<open>App\<close> hands it (\<open>src/App.tsx\<close>, lines 219--222).  The props
  \<open>cards\<close> and \<open>students\<close> are fixed; the three \<open>useState\<close> hooks are a record.
  The order \<open>pool.sort(() => Math.random() - 0.5)\<close> leaves and the indices
  \<open>Math.floor(Math.random() * cards.length)\<close> draws are inputs of the events.  The
  \<open>while\<close> loop that fills the pool is \<open>while_option\<close>, \<open>None\<close> when it does not end.
\<close>

section \<open>The cards of Part 4\<close>

text \<open>
  \<open>readingCards\<close> (App.tsx lines 219--221): the lesson's word cards unless
  \<open>wordListReadingAuto\<close> is \<open>false\<close>, else the custom list with generated ids.
\<close>

definition readingCards :: "Lesson \<Rightarrow> WordCard list" where
  "readingCards l =
     (if (case lesson_wordListReadingAuto l of None \<Rightarrow> True | Some b \<Rightarrow> b) then lesson_wordCards l
      else map (\<lambda>(i, t). \<lparr>card_id = ''custom-'' @ nat_str i, card_text = t, card_type = Regular\<rparr>)
             (enumerate 0 (case lesson_wordListReading l of None \<Rightarrow> [] | Some ts \<Rightarrow> ts)))"

section \<open>State\<close>

text \<open>The constants of lines 18--19.\<close>

definition WORDS_PER_PAGE :: nat where
  "WORDS_PER_PAGE = 5"

definition TARGET_TOTAL_WORDS :: nat where
  "TARGET_TOTAL_WORDS = 15"

record wl_state =
  numPlayers :: nat
  distribution :: "WordCard list list"
  page :: nat

section \<open>Dealing the words\<close>

text \<open>The loop of lines 29--32: append the cards until the pool holds \<open>count * 15\<close>.\<close>

definition fill_pool :: "WordCard list \<Rightarrow> nat \<Rightarrow> WordCard list option" where
  "fill_pool cards cnt =
     while_option (\<lambda>pool. length pool < cnt * TARGET_TOTAL_WORDS) (\<lambda>pool. pool @ cards) cards"

text \<open>
  The inner loop of lines 42--46: \<open>pool.pop()\<close>, or a random card of the lesson when
  the pool is empty; \<open>r j\<close> is the random index drawn for the slot.
\<close>

fun deal_student :: "WordCard list \<Rightarrow> (nat \<Rightarrow> nat) \<Rightarrow> nat \<Rightarrow> WordCard list \<Rightarrow> WordCard list \<times> WordCard list" where
  "deal_student cards r 0 pool = ([], pool)"
| "deal_student cards r (Suc j) pool =
     (let card = (if pool = [] then cards ! (r j mod length cards) else last pool);
          (rest, pool') = deal_student cards r j (butlast pool)
      in (card # rest, pool'))"

text \<open>The outer loop of lines 38--48: one list of \<open>TARGET_TOTAL_WORDS\<close> per student.\<close>

fun deal_all :: "WordCard list \<Rightarrow> (nat \<Rightarrow> nat \<Rightarrow> nat) \<Rightarrow> nat \<Rightarrow> WordCard list \<Rightarrow> WordCard list list" where
  "deal_all cards r 0 pool = []"
| "deal_all cards r (Suc i) pool =
     (let (l, pool') = deal_student cards (r i) TARGET_TOTAL_WORDS pool in l # deal_all cards r i pool')"

text \<open>
  \<open>initializeDistribution\<close> (lines 22--52).  \<open>sh\<close> is the order the random sort
  leaves; an input that is not a reordering of the pool is not one the sort can
  produce and leaves the pool as it is.
\<close>

definition initializeDistribution ::
  "WordCard list \<Rightarrow> WordCard list \<Rightarrow> (nat \<Rightarrow> nat \<Rightarrow> nat) \<Rightarrow> nat \<Rightarrow> wl_state \<Rightarrow> wl_state option" where
  "initializeDistribution cards sh r cnt st =
     (if cards = [] then Some st
      else
        (case fill_pool cards cnt of
           None \<Rightarrow> None
         | Some pool \<Rightarrow>
             (let pool' = (if mset sh = mset pool then sh else pool)
              in Some (st\<lparr>distribution := deal_all cards r cnt pool', page := 0\<rparr>))))"

section \<open>Handlers\<close>

text \<open>\<open>handleStart\<close> (lines 61--64).\<close>

definition handleStart ::
  "WordCard list \<Rightarrow> nat \<Rightarrow> WordCard list \<Rightarrow> (nat \<Rightarrow> nat \<Rightarrow> nat) \<Rightarrow> wl_state \<Rightarrow> wl_state option" where
  "handleStart cards n sh r st = initializeDistribution cards sh r n (st\<lparr>numPlayers := n\<rparr>)"

text \<open>\<open>nextPage\<close> (lines 66--72); \<open>Math.ceil(15 / 5)\<close> is a rounded-up division.\<close>

definition maxPages :: nat where
  "maxPages = (TARGET_TOTAL_WORDS + WORDS_PER_PAGE - 1) div WORDS_PER_PAGE"

definition nextPage :: "wl_state \<Rightarrow> wl_state" where
  "nextPage st = (if page st < maxPages - 1 then st\<lparr>page := page st + 1\<rparr> else st)"

text \<open>\<open>prevPage\<close> (lines 74--78).\<close>

definition prevPage :: "wl_state \<Rightarrow> wl_state" where
  "prevPage st = (if 0 < page st then st\<lparr>page := page st - 1\<rparr> else st)"

text \<open>The words of a column on the current page (lines 180--181).\<close>

definition column_words :: "wl_state \<Rightarrow> WordCard list \<Rightarrow> WordCard list" where
  "column_words st l = take WORDS_PER_PAGE (drop (page st * WORDS_PER_PAGE) l)"

text \<open>
  The events of the two views: a player count button (lines 106--115), the page
  arrows (lines 147--161), \<open>Reshuffle\<close> (lines 164--170) and \<open>Reset Party\<close>
  (lines 140--144).  \<open>WRender\<close> is a render of \<open>App\<close>: it passes a new
  \<open>students\<close> array (\<open>sessionStudents\<close> is rebuilt by \<open>filter\<close> and \<open>map\<close> at
  \<open>App.tsx\<close> line 201), so the effect of lines 55--59 deals again for
  \<open>students.length\<close> players.
\<close>

datatype wl_event =
    WStart nat "WordCard list" "nat \<Rightarrow> nat \<Rightarrow> nat"
  | WPrev
  | WNext
  | WReshuffle "WordCard list" "nat \<Rightarrow> nat \<Rightarrow> nat"
  | WReset
  | WRender nat "WordCard list" "nat \<Rightarrow> nat \<Rightarrow> nat"

definition wl_step :: "WordCard list \<Rightarrow> wl_event \<Rightarrow> wl_state \<Rightarrow> wl_state option" where
  "wl_step cards ev st =
     (case ev of
        WStart n sh r \<Rightarrow> handleStart cards n sh r st
      | WPrev \<Rightarrow> Some (prevPage st)
      | WNext \<Rightarrow> Some (nextPage st)
      | WReshuffle sh r \<Rightarrow> initializeDistribution cards sh r (numPlayers st) st
      | WReset \<Rightarrow> Some (st\<lparr>numPlayers := 0\<rparr>)
      | WRender n sh r \<Rightarrow> initializeDistribution cards sh r n st)"

text \<open>
  Which control is on screen: nothing without cards (lines 87--94), the six count
  buttons in the setup view, the arrows (disabled at the ends), reshuffle and, without
  a roster, reset in the main view.
\<close>

definition wl_enabled :: "WordCard list \<Rightarrow> js_string list \<Rightarrow> wl_event \<Rightarrow> wl_state \<Rightarrow> bool" where
  "wl_enabled cards students ev st =
     (cards \<noteq> [] \<and>
      (case ev of
         WStart n _ _ \<Rightarrow> numPlayers st = 0 \<and> n \<in> {1..6}
       | WPrev \<Rightarrow> numPlayers st \<noteq> 0 \<and> page st \<noteq> 0
       | WNext \<Rightarrow> numPlayers st \<noteq> 0 \<and> \<not> 2 \<le> page st
       | WReshuffle _ _ \<Rightarrow> numPlayers st \<noteq> 0
       | WReset \<Rightarrow> numPlayers st \<noteq> 0 \<and> students = []
       | WRender n _ _ \<Rightarrow> students \<noteq> [] \<and> n = length students))"

text \<open>The first render (lines 13--15) and the effect of lines 55--59.\<close>

definition wl_init ::
  "WordCard list \<Rightarrow> js_string list \<Rightarrow> WordCard list \<Rightarrow> (nat \<Rightarrow> nat \<Rightarrow> nat) \<Rightarrow> wl_state option" where
  "wl_init cards students sh r =
     (let st = \<lparr>numPlayers = length students, distribution = [], page = 0\<rparr>
      in if students \<noteq> [] then initializeDistribution cards sh r (length students) st else Some st)"

inductive wl_reach :: "WordCard list \<Rightarrow> js_string list \<Rightarrow> wl_state \<Rightarrow> bool"
  for cards students where
  wl_reach_init: "wl_init cards students sh r = Some st \<Longrightarrow> wl_reach cards students st"
| wl_reach_step: "wl_reach cards students st \<Longrightarrow> wl_enabled cards students ev st \<Longrightarrow>
    wl_step cards ev st = Some st' \<Longrightarrow> wl_reach cards students st'"

text \<open>
  The invariant of the view: the page is one of the three, with a roster the players
  are its students, and while players are set there is a list of
  \<open>TARGET_TOTAL_WORDS\<close> words per player.
\<close>

definition wl_inv :: "WordCard list \<Rightarrow> js_string list \<Rightarrow> wl_state \<Rightarrow> bool" where
  "wl_inv cards students st \<longleftrightarrow>
     page st \<le> 2 \<and> (students \<noteq> [] \<longrightarrow> numPlayers st = length students) \<and>
     (cards \<noteq> [] \<and> numPlayers st \<noteq> 0 \<longrightarrow>
        length (distribution st) = numPlayers st \<and>
        (\<forall>l\<in>set (distribution st). length l = TARGET_TOTAL_WORDS))"

section \<open>Dealing\<close>

lemma fill_pool_Some:
  assumes "cards \<noteq> []"
  shows "\<exists>pool. fill_pool cards n = Some pool \<and> n * TARGET_TOTAL_WORDS \<le> length pool \<and>
           (\<exists>k>0. pool = concat (replicate k cards))"
proof -
  let ?b = "\<lambda>pool. length pool < n * TARGET_TOTAL_WORDS" and ?c = "\<lambda>pool. pool @ cards"
  let ?P = "\<lambda>pool::WordCard list. \<exists>k>0. pool = concat (replicate k cards)"
  have rep: "concat (replicate k cards) @ cards = concat (replicate (Suc k) cards)" for k
    by (induction k) auto
  have step: "?P p \<Longrightarrow> ?b p \<Longrightarrow> ?P (?c p)" for p
    by (metis rep zero_less_Suc)
  have dec: "length p < n * TARGET_TOTAL_WORDS \<Longrightarrow>
      n * TARGET_TOTAL_WORDS - length (p @ cards) < n * TARGET_TOTAL_WORDS - length p" for p
    using assms by (cases cards) auto
  have init: "?P cards" by (rule exI [of _ 1]) simp
  moreover have "\<exists>t. while_option ?b ?c cards = Some t"
    by (rule measure_while_option_Some [where P = ?P and f = "\<lambda>p. n * TARGET_TOTAL_WORDS - length p"])
       (use step dec init in blast)+
  then obtain pool where w: "while_option ?b ?c cards = Some pool" ..
  ultimately have "?P pool" using while_option_rule [where P = ?P, OF step w] by blast
  with while_option_stop [OF w] w show ?thesis by (auto simp: fill_pool_def not_less)
qed

lemma deal_student_pop:
  "deal_student cards r (length ys) (xs @ ys) = (rev ys, xs)"
proof (induction ys rule: rev_induct)
  case (snoc y ys)
  then show ?case by (simp add: butlast_append)
qed simp

lemma deal_student_length [simp]: "length (fst (deal_student cards r j pool)) = j"
  by (induction j arbitrary: pool) (simp_all add: Let_def split_def)

lemma deal_all_length [simp]: "length (deal_all cards r i pool) = i"
  by (induction i arbitrary: pool) (simp_all add: Let_def split_def)

lemma deal_all_lists: "l \<in> set (deal_all cards r i pool) \<Longrightarrow> length l = TARGET_TOTAL_WORDS"
proof (induction i arbitrary: pool)
  case (Suc i)
  then show ?case by (auto simp: Let_def split: prod.splits dest: arg_cong [where f = "length \<circ> fst"])
qed simp

lemma deal_all_pop:
  "length ys = i * TARGET_TOTAL_WORDS \<Longrightarrow> deal_all cards r i (xs @ ys) = deal_all cards r' i (xs @ ys)"
proof (induction i arbitrary: ys)
  case (Suc i)
  then obtain ys1 ys2 where ys: "ys = ys1 @ ys2" "length ys2 = TARGET_TOTAL_WORDS" "length ys1 = i * TARGET_TOTAL_WORDS"
    by (metis add.commute append_take_drop_id length_drop length_take min.absorb2 le_add2 mult_Suc diff_add_inverse2)
  have "deal_student cards \<rho> TARGET_TOTAL_WORDS (xs @ ys) = (rev ys2, xs @ ys1)" for \<rho>
    using deal_student_pop [of cards \<rho> ys2 "xs @ ys1"] ys by simp
  with Suc.IH [OF ys(3)] show ?case by (simp add: Let_def)
qed simp

lemma deal_all_fallback:
  "i * TARGET_TOTAL_WORDS \<le> length pool \<Longrightarrow> deal_all cards r i pool = deal_all cards r' i pool"
  using deal_all_pop [of "drop (length pool - i * TARGET_TOTAL_WORDS) pool" i cards r
      "take (length pool - i * TARGET_TOTAL_WORDS) pool" r'] by simp

lemma initializeDistribution_shape:
  assumes "cards \<noteq> []"
  shows "\<exists>st'. initializeDistribution cards sh r n st = Some st' \<and>
     length (distribution st') = n \<and> (\<forall>l\<in>set (distribution st'). length l = TARGET_TOTAL_WORDS) \<and>
     page st' = 0 \<and> numPlayers st' = numPlayers st"
proof -
  obtain pool where "fill_pool cards n = Some pool"
    using fill_pool_Some [OF assms] by blast
  with assms show ?thesis by (auto simp: initializeDistribution_def Let_def intro: deal_all_lists)
qed

lemma initializeDistribution_Nil [simp]: "initializeDistribution [] sh r n st = Some st"
  by (simp add: initializeDistribution_def)

lemma initializeDistribution_Some:
  assumes "initializeDistribution cards sh r n st = Some st'" "cards \<noteq> []"
  shows "length (distribution st') = n \<and> (\<forall>l\<in>set (distribution st'). length l = TARGET_TOTAL_WORDS) \<and>
     page st' = 0 \<and> numPlayers st' = numPlayers st"
  using initializeDistribution_shape [OF assms(2), of sh r n st] assms(1) by auto

lemma wl_inv_init: "wl_init cards students sh r = Some st \<Longrightarrow> wl_inv cards students st"
  by (cases "cards = []") (auto simp: wl_init_def wl_inv_def Let_def split: if_splits
      dest: initializeDistribution_Some)

lemma maxPages_eq [simp]: "maxPages = 3"
  by (simp add: maxPages_def TARGET_TOTAL_WORDS_def WORDS_PER_PAGE_def)

lemma wl_inv_step:
  assumes "wl_inv cards students st" "wl_enabled cards students ev st" "wl_step cards ev st = Some st'"
  shows "wl_inv cards students st'"
proof (cases ev)
  case (WStart n sh r)
  with assms show ?thesis
    by (auto simp: wl_inv_def wl_enabled_def wl_step_def handleStart_def dest!: initializeDistribution_Some)
next
  case (WReshuffle sh r)
  with assms show ?thesis
    by (auto simp: wl_inv_def wl_enabled_def wl_step_def dest!: initializeDistribution_Some)
next
  case (WRender n sh r)
  with assms show ?thesis
    by (auto simp: wl_inv_def wl_enabled_def wl_step_def dest!: initializeDistribution_Some)
qed (use assms in \<open>auto simp: wl_inv_def wl_enabled_def wl_step_def nextPage_def prevPage_def split: if_splits\<close>)

lemma wl_reach_inv: "wl_reach cards students st \<Longrightarrow> wl_inv cards students st"
  by (induction rule: wl_reach.induct) (auto intro: wl_inv_init wl_inv_step)

lemma wl_reach_next:
  assumes "wl_reach c s st" "c \<noteq> []" "numPlayers st \<noteq> 0" "page st < 2"
  shows "wl_reach c s (st\<lparr>page := Suc (page st)\<rparr>)"
proof -
  have "wl_step c WNext st = Some (st\<lparr>page := Suc (page st)\<rparr>)"
    using assms(4) by (simp add: wl_step_def nextPage_def)
  moreover have "wl_enabled c s WNext st" using assms(2-4) by (simp add: wl_enabled_def)
  ultimately show ?thesis using wl_reach_step [OF assms(1)] by blast
qed

lemma wl_reach_prev:
  assumes "wl_reach c s st" "c \<noteq> []" "numPlayers st \<noteq> 0" "0 < page st"
  shows "wl_reach c s (st\<lparr>page := page st - 1\<rparr>)"
proof -
  have "wl_step c WPrev st = Some (st\<lparr>page := page st - 1\<rparr>)"
    using assms(4) by (simp add: wl_step_def prevPage_def)
  moreover have "wl_enabled c s WPrev st" using assms(2-4) by (simp add: wl_enabled_def)
  ultimately show ?thesis using wl_reach_step [OF assms(1)] by blast
qed

lemma wl_pages_up:
  assumes "wl_reach c s st" "c \<noteq> []" "numPlayers st \<noteq> 0"
  shows "page st + d \<le> 2 \<Longrightarrow> wl_reach c s (st\<lparr>page := page st + d\<rparr>)"
proof (induction d)
  case 0
  from assms(1) show ?case by simp
next
  case (Suc d)
  have "page st + d \<le> 2" using Suc.prems by linarith
  then have r: "wl_reach c s (st\<lparr>page := page st + d\<rparr>)" by (rule Suc.IH)
  have "page st + d < 2" using Suc.prems by linarith
  then have "wl_reach c s ((st\<lparr>page := page st + d\<rparr>)\<lparr>page := Suc (page st + d)\<rparr>)"
    using wl_reach_next [OF r assms(2)] assms(3) by simp
  then show ?case by simp
qed

lemma wl_pages_down:
  assumes "wl_reach c s st" "c \<noteq> []" "numPlayers st \<noteq> 0"
  shows "d \<le> page st \<Longrightarrow> wl_reach c s (st\<lparr>page := page st - d\<rparr>)"
proof (induction d)
  case 0
  from assms(1) show ?case by simp
next
  case (Suc d)
  have "d \<le> page st" using Suc.prems by linarith
  then have r: "wl_reach c s (st\<lparr>page := page st - d\<rparr>)" by (rule Suc.IH)
  have "0 < page st - d" using Suc.prems by linarith
  then have "wl_reach c s ((st\<lparr>page := page st - d\<rparr>)\<lparr>page := page st - d - 1\<rparr>)"
    using wl_reach_prev [OF r assms(2)] assms(3) by simp
  then show ?case by simp
qed

text \<open>
  A render of \<open>App\<close> while the view is shown with a roster deals the words again and
  turns back to the first page.
\<close>

lemma wl_render_resets:
  assumes "wl_reach cards students st" "cards \<noteq> []" "students \<noteq> []"
  shows "\<exists>st'. wl_step cards (WRender (length students) sh r) st = Some st' \<and> page st' = 0 \<and>
           wl_reach cards students st'"
proof -
  obtain st' where s: "initializeDistribution cards sh r (length students) st = Some st'"
    using initializeDistribution_shape [OF assms(2), of sh r "length students" st] by blast
  have "wl_enabled cards students (WRender (length students) sh r) st"
    using assms(2,3) by (simp add: wl_enabled_def)
  with s wl_reach_step [OF assms(1)] initializeDistribution_Some [OF s assms(2)]
  show ?thesis by (simp add: wl_step_def)
qed

text \<open>
  C16. \<open>initializeDistribution\<close> always returns: without cards it returns at once,
  and with cards the loop that fills the pool ends.
\<close>

theorem initializeDistribution_returns: "\<exists>st'. initializeDistribution cards sh r n st = Some st'"
  using initializeDistribution_shape [of cards sh r n st] by (cases "cards = []") (auto simp: initializeDistribution_def)

text \<open>
  C17. The random fallback card of line 44 is never dealt: the pool always holds enough
  cards, so the distribution does not depend on the fallback's random draws.
\<close>

theorem initializeDistribution_fallback_unused:
  "initializeDistribution cards sh r n st = initializeDistribution cards sh r' n st"
proof (cases "cards = []")
  case False
  then obtain pool where p: "fill_pool cards n = Some pool" "n * TARGET_TOTAL_WORDS \<le> length pool"
    using fill_pool_Some by blast
  then have "n * TARGET_TOTAL_WORDS \<le> length (if mset sh = mset pool then sh else pool)"
    by (auto dest: mset_eq_length)
  with p False show ?thesis by (simp add: initializeDistribution_def Let_def deal_all_fallback [of n])
qed (simp add: initializeDistribution_def)

text \<open>
  C14. In every reachable state of the reading view with cards and players, there is one
  column per player and every column shows exactly \<open>WORDS_PER_PAGE\<close> words on the
  current page: the padding of lines 212--214 is never needed.
\<close>

theorem wordlist_columns_full:
  assumes "wl_reach cards students st" "cards \<noteq> []" "numPlayers st \<noteq> 0"
  shows "length (distribution st) = numPlayers st \<and>
    (\<forall>l\<in>set (distribution st). length (column_words st l) = WORDS_PER_PAGE)"
  using wl_reach_inv [OF assms(1)] assms(2,3)
  by (auto simp: wl_inv_def column_words_def WORDS_PER_PAGE_def TARGET_TOTAL_WORDS_def)

text \<open>
  C9. From every reachable state of the main view each of the three pages can be
  reached with the arrows, with the words dealt unchanged: the page controls never get
  stuck.
\<close>

theorem wordlist_every_page_reachable:
  assumes "wl_reach cards students st" "cards \<noteq> []" "numPlayers st \<noteq> 0" "p \<le> 2"
  shows "wl_reach cards students (st\<lparr>page := p\<rparr>)"
proof (cases "page st \<le> p")
  case True
  with wl_pages_up [OF assms(1-3), of "p - page st"] assms(4) show ?thesis by simp
next
  case False
  with wl_pages_down [OF assms(1-3), of "page st - p"] show ?thesis by simp
qed


section \<open>Examples\<close>

lemma fill_pool_one: "fill_pool [c] (Suc 0) = Some (replicate 15 c)"
  unfolding fill_pool_def TARGET_TOTAL_WORDS_def
  by (subst while_option_unfold, simp add: numeral_eq_Suc)+

lemma wl_reach_example:
  "wl_reach [\<lparr>card_id = ''w1'', card_text = ''cat'', card_type = Regular\<rparr>] []
     \<lparr>numPlayers = 1, distribution = [replicate 15 \<lparr>card_id = ''w1'', card_text = ''cat'', card_type = Regular\<rparr>], page = 0\<rparr>"
  by (rule wl_reach_step [OF wl_reach_init [of _ _ "[]" "\<lambda>_ _. 0" "\<lparr>numPlayers = 0, distribution = [], page = 0\<rparr>"],
        where ev = "WStart 1 [] (\<lambda>_ _. 0)"])
     (simp_all add: wl_init_def wl_enabled_def wl_step_def handleStart_def initializeDistribution_def
       fill_pool_one TARGET_TOTAL_WORDS_def numeral_eq_Suc)

theorem wordlist_columns_full_witness:
  "length (column_words \<lparr>numPlayers = 1, distribution = [replicate 15 \<lparr>card_id = ''w1'', card_text = ''cat'', card_type = Regular\<rparr>], page = 0\<rparr>
     (replicate 15 \<lparr>card_id = ''w1'', card_text = ''cat'', card_type = Regular\<rparr>)) = WORDS_PER_PAGE"
  using wordlist_columns_full [OF wl_reach_example] by simp

theorem wordlist_every_page_reachable_witness:
  "wl_reach [\<lparr>card_id = ''w1'', card_text = ''cat'', card_type = Regular\<rparr>] []
     \<lparr>numPlayers = 1, distribution = [replicate 15 \<lparr>card_id = ''w1'', card_text = ''cat'', card_type = Regular\<rparr>], page = 2\<rparr>"
  using wordlist_every_page_reachable [OF wl_reach_example, of 2] by simp

end
