(* ===== verification/WordCards.thy ===== *)
theory WordCards
  imports Client "HOL-Library.Multiset"
begin

text \<open>
  The word card games of Part 3 (\<open>src/components/modules/WordCards.tsx\<close>): the duel,
  the tabletop with its OOPS game, and the baseball game, over one shuffled deck that the
  component keeps in local storage under \<open>wrs_active_game_state_v1\<close>.  The
  \<open>useState\<close> hooks, the props (the lesson's cards, its high-frequency words and the
  roster) and the stored game are one record.  A handler reads the state of the render it
  was called in; its \<open>set\<close> calls apply in order.  The positions of the cards on the
  table (\<open>x\<close>, \<open>y\<close>, computed from the size of the table, angles and random jitter) are
  not modelled; their face, layer and deck flag are.  The draws of \<open>Math.random()\<close> of
  a shuffle and the ids of \<open>generateId()\<close> are inputs of the events.  The timers of
  \<open>setTimeout\<close> are counters of pending calls; a pending call fires as an event.  The
  stored game is kept as the values \<open>JSON.stringify\<close> writes, which \<open>JSON.parse\<close> gives
  back unchanged.
\<close>

section \<open>State\<close>

datatype card_mode = Duel | Tabletop | Baseball

datatype wc_filter = FilterAll | FilterDecodable | FilterHfw

datatype tatami_game = GameStandard | GameOops | GameSorting | GameMemory

datatype team = Red | Blue

text \<open>\<open>CardState\<close> (lines 14--20) without the position.\<close>

record CardState =
  faceUp :: bool
  zIndex :: int
  inDeck :: bool

text \<open>\<open>BaseballState\<close> (lines 25--40).\<close>

record BaseballState =
  redScore :: nat
  blueScore :: nat
  currentTeam :: team
  outs :: nat
  strikes :: nat
  runners :: "bool \<times> bool \<times> bool"
  inning :: nat
  isBottom :: bool
  gameOver :: bool
  bb_message :: js_string
  messageColor :: js_string
  batterIndexRed :: nat
  batterIndexBlue :: nat
  showFireworks :: bool

text \<open>\<open>OopsState\<close> (lines 43--51).\<close>

record OopsState =
  oops_active :: bool
  playerScores :: "nat list"
  currentPlayerIndex :: nat
  turnScore :: nat
  isBust :: bool
  lastDrawnCardId :: "js_string option"
  winner :: "nat option"

text \<open>The value the persistence effect stores (lines 180--185).\<close>

record SavedGame =
  sg_activeCards :: "WordCard list"
  sg_oopsState :: OopsState
  sg_bbState :: BaseballState
  sg_mode :: card_mode
  sg_tatamiGame :: tatami_game
  sg_drawPile :: "WordCard list"

text \<open>
  The component (lines 75--128) with its props, the stored game, the pending timers of
  \<open>switchTeams\<close> and of the save feedback, and the words passed to
  \<open>onAddToInventory\<close>.
\<close>

record wc_state =
  wc_cards :: "WordCard list"
  wc_hfw :: "js_string list"
  wc_students :: "js_string list"
  wc_mode :: card_mode
  wc_filter :: wc_filter
  activeCards :: "WordCard list"
  cardStates :: "js_string \<rightharpoonup> CardState"
  topZ :: int
  dealFaceUp :: bool
  showZones :: bool
  tatamiGame :: tatami_game
  isGameMenuOpen :: bool
  oopsState :: OopsState
  wc_numPlayers :: nat
  playerHands :: "WordCard option list"
  drawPile :: "WordCard list"
  focusedCard :: "WordCard option"
  saveFeedback :: bool
  bbState :: BaseballState
  pitchCard :: "WordCard option"
  storedGame :: "SavedGame option"
  pendingSwitches :: nat
  pendingFeedback :: nat
  wc_inventory :: "js_string list"

section \<open>Helpers\<close>

text \<open>
  \<open>robustShuffle\<close> (lines 64--71), Fisher--Yates from the last index down to 1;
  \<open>rnd i\<close> is the draw at index \<open>i\<close>, and \<open>Math.floor(Math.random() * (i + 1))\<close>
  is \<open>rnd i mod (i + 1)\<close>.
\<close>

fun fy_loop :: "(nat \<Rightarrow> nat) \<Rightarrow> nat \<Rightarrow> 'a list \<Rightarrow> 'a list" where
  "fy_loop rnd 0 arr = arr"
| "fy_loop rnd (Suc i) arr =
     (let j = rnd (Suc i) mod (Suc i + 1) in fy_loop rnd i (arr[Suc i := arr ! j, j := arr ! Suc i]))"

definition robustShuffle :: "(nat \<Rightarrow> nat) \<Rightarrow> 'a list \<Rightarrow> 'a list" where
  "robustShuffle rnd xs = fy_loop rnd (length xs - 1) xs"

text \<open>\<open>getFilteredCards\<close> (lines 130--141).\<close>

definition hfw_cards :: "js_string list \<Rightarrow> WordCard list" where
  "hfw_cards hfw =
     map (\<lambda>(i, w). \<lparr>card_id = ''hfw-'' @ nat_str i @ ''-'' @ w, card_text = w, card_type = Hfw\<rparr>) (enumerate 0 hfw)"

definition getFilteredCards :: "wc_state \<Rightarrow> WordCard list" where
  "getFilteredCards st =
     (case wc_filter st of
        FilterHfw \<Rightarrow> hfw_cards (wc_hfw st)
      | FilterDecodable \<Rightarrow> filter (\<lambda>c. card_type c \<noteq> Hfw) (wc_cards st)
      | FilterAll \<Rightarrow> wc_cards st @ hfw_cards (wc_hfw st))"

text \<open>\<open>initializeTabletop\<close> (lines 199--212): every card back in the deck, face down.\<close>

definition initializeTabletop :: "WordCard list \<Rightarrow> wc_state \<Rightarrow> wc_state" where
  "initializeTabletop cs st =
     st\<lparr>cardStates := (\<lambda>i. if i \<in> set (map card_id cs) then Some \<lparr>faceUp = False, zIndex = 1, inDeck = True\<rparr> else None),
        topZ := 100\<rparr>"

text \<open>The cards still in the deck, \<open>activeCards.filter(c => cardStates[c.id]?.inDeck)\<close>.\<close>

definition in_deck :: "wc_state \<Rightarrow> WordCard \<Rightarrow> bool" where
  "in_deck st c = (case cardStates st (card_id c) of Some s \<Rightarrow> inDeck s | None \<Rightarrow> False)"

definition deckCards :: "wc_state \<Rightarrow> WordCard list" where
  "deckCards st = filter (in_deck st) (activeCards st)"

text \<open>
  The dealing loops of lines 360--373, 384--396 and 413--420: each card taken gets the
  next layer and leaves the deck; \<open>n\<close> bounds the number of cards.
\<close>

fun deal_states :: "bool \<Rightarrow> nat \<Rightarrow> int \<Rightarrow> WordCard list \<Rightarrow> (js_string \<rightharpoonup> CardState) \<Rightarrow> (js_string \<rightharpoonup> CardState)" where
  "deal_states f 0 z cs m = m"
| "deal_states f (Suc n) z [] m = m"
| "deal_states f (Suc n) z (c # cs) m =
     deal_states f n (z + 1) cs (m(card_id c \<mapsto> \<lparr>faceUp = f, zIndex = z + 1, inDeck = False\<rparr>))"

section \<open>Baseball\<close>

text \<open>The state of \<open>resetBaseball\<close> and of the first render (lines 112--127, 480--487).\<close>

definition bb_initial :: BaseballState where
  "bb_initial =
     \<lparr>redScore = 0, blueScore = 0, currentTeam = Red, outs = 0, strikes = 0, runners = (False, False, False),
      inning = 1, isBottom = False, gameOver = False, bb_message = ''Play Ball!'', messageColor = ''text-white'',
      batterIndexRed = 0, batterIndexBlue = 0, showFireworks = False\<rparr>"

definition resetBaseball :: "wc_state \<Rightarrow> wc_state" where
  "resetBaseball st = st\<lparr>bbState := bb_initial, pitchCard := None\<rparr>"

text \<open>
  \<open>nextPitch\<close> (lines 489--495): pop the pool, reshuffling the active cards of the
  render \<open>snap\<close> when it is empty.
\<close>

definition nextPitch :: "(nat \<Rightarrow> nat) \<Rightarrow> wc_state \<Rightarrow> WordCard list \<Rightarrow> wc_state \<Rightarrow> wc_state" where
  "nextPitch rnd snap pool st =
     (let nextPool = (if pool = [] then robustShuffle rnd (activeCards snap) else pool)
      in st\<lparr>drawPile := butlast nextPool, pitchCard := (if nextPool = [] then None else Some (last nextPool))\<rparr>)"

text \<open>\<open>getCurrentBatterName\<close> (lines 497--506).\<close>

definition getCurrentBatterName :: "js_string list \<Rightarrow> BaseballState \<Rightarrow> js_string" where
  "getCurrentBatterName students bb =
     (let isRed = (currentTeam bb = Red);
          idx = (if isRed then batterIndexRed bb else batterIndexBlue bb);
          tname = (if isRed then ''Red'' else ''Blue'')
      in if students = [] then tname @ '' Batter '' @ nat_str (idx + 1)
         else
           (let roster = map snd (filter (\<lambda>(i, _). (if isRed then even i else odd i)) (enumerate 0 students))
            in if roster = [] then tname @ '' Batter'' else roster ! (idx mod length roster)))"

text \<open>\<open>switchTeams\<close> (lines 508--520), the updater a pending timer applies.\<close>

definition switchTeams :: "BaseballState \<Rightarrow> BaseballState" where
  "switchTeams prev =
     (let isRedNow = (currentTeam prev = Red)
      in prev\<lparr>currentTeam := (if isRedNow then Blue else Red),
              inning := (if isRedNow then inning prev else inning prev + 1),
              isBottom := isRedNow, outs := 0, strikes := 0, runners := (False, False, False),
              bb_message := ''Switch Sides!'', messageColor := ''text-yellow-400'', showFireworks := False\<rparr>)"

text \<open>
  The updater of \<open>handleHit\<close> (lines 524--551) with the number of \<open>switchTeams\<close>
  timers it starts.
\<close>

definition hit_update :: "BaseballState \<Rightarrow> BaseballState \<times> nat" where
  "hit_update prev =
     (let isRed = (currentTeam prev = Red); isBlue = (currentTeam prev = Blue);
          (r1, r2, r3) = runners prev;
          nextRed = (if isRed then batterIndexRed prev + 1 else batterIndexRed prev);
          nextBlue = (if isBlue then batterIndexBlue prev + 1 else batterIndexBlue prev)
      in if r1 \<and> r2 \<and> r3 then
           (prev\<lparr>redScore := (if isRed then redScore prev + 4 else redScore prev),
                 blueScore := (if isBlue then blueScore prev + 4 else blueScore prev),
                 bb_message := ''GRAND SLAM!'', messageColor := ''text-purple-400'', showFireworks := True,
                 batterIndexRed := nextRed, batterIndexBlue := nextBlue\<rparr>, 1)
         else
           (let (runs, n3) = (if r3 then (1::nat, False) else (0, r3));
                (n2, n3) = (if r2 then (False, True) else (r2, n3));
                n2 = (if r1 then True else n2);
                n1 = True
            in (prev\<lparr>redScore := (if isRed then redScore prev + runs else redScore prev),
                     blueScore := (if isBlue then blueScore prev + runs else blueScore prev),
                     strikes := 0, runners := (n1, n2, n3),
                     bb_message := (if 0 < runs then ''RBI Hit!'' else ''Nice Hit!''), messageColor := ''text-green-400'',
                     batterIndexRed := nextRed, batterIndexBlue := nextBlue, showFireworks := False\<rparr>, 0)))"

definition handleHit :: "(nat \<Rightarrow> nat) \<Rightarrow> wc_state \<Rightarrow> wc_state" where
  "handleHit rnd snap =
     (if pitchCard snap = None then snap
      else
        (let (bb, t) = hit_update (bbState snap)
         in nextPitch rnd snap (drawPile snap) (snap\<lparr>bbState := bb, pendingSwitches := pendingSwitches snap + t\<rparr>)))"

text \<open>The updater of \<open>handleStrike\<close> (lines 557--574) and the handler.\<close>

definition strike_update :: "BaseballState \<Rightarrow> BaseballState \<times> nat" where
  "strike_update prev =
     (let newStrikes = strikes prev + 1
      in if 3 \<le> newStrikes then
           (let newOuts = outs prev + 1;
                nextRed = (if currentTeam prev = Red then batterIndexRed prev + 1 else batterIndexRed prev);
                nextBlue = (if currentTeam prev = Blue then batterIndexBlue prev + 1 else batterIndexBlue prev)
            in if 3 \<le> newOuts then
                 (prev\<lparr>outs := 3, strikes := 0, bb_message := ''3 Outs! Switch!'', messageColor := ''text-red-500'',
                       batterIndexRed := nextRed, batterIndexBlue := nextBlue\<rparr>, 1)
               else
                 (prev\<lparr>strikes := 0, outs := newOuts, bb_message := ''You're Out!'', messageColor := ''text-red-500'',
                       batterIndexRed := nextRed, batterIndexBlue := nextBlue\<rparr>, 0))
         else (prev\<lparr>strikes := newStrikes, bb_message := ''Strike!'', messageColor := ''text-amber-500''\<rparr>, 0))"

definition handleStrike :: "(nat \<Rightarrow> nat) \<Rightarrow> wc_state \<Rightarrow> wc_state" where
  "handleStrike rnd snap =
     (if pitchCard snap = None then snap
      else
        (let (bb, t) = strike_update (bbState snap);
             st = snap\<lparr>bbState := bb, pendingSwitches := pendingSwitches snap + t\<rparr>
         in if 2 \<le> strikes (bbState snap) then nextPitch rnd snap (drawPile snap) st else st))"

section \<open>The OOPS game\<close>

text \<open>
  \<open>initOopsGame\<close> (lines 237--257): \<open>Math.ceil(n * 0.25)\<close> OOPS cards, whose ids use
  \<open>gid i\<close> for the \<open>i\<close>-th \<open>generateId()\<close>; every player starts at 0, and without
  players there is one.
\<close>

definition initOopsGame :: "(nat \<Rightarrow> nat) \<Rightarrow> (nat \<Rightarrow> js_string) \<Rightarrow> wc_state \<Rightarrow> WordCard list \<Rightarrow> wc_state \<Rightarrow> wc_state" where
  "initOopsGame rnd gid snap base st =
     (let oopsCount = (length base + 3) div 4;
          oopsCards = map (\<lambda>i. \<lparr>card_id = ''oops-'' @ gid i @ ''-'' @ nat_str i, card_text = ''OOPS!'', card_type = Nonsense\<rparr>)
                        [0..<oopsCount];
          gameDeck = robustShuffle rnd (base @ oopsCards)
      in (initializeTabletop gameDeck (st\<lparr>activeCards := gameDeck\<rparr>))
           \<lparr>oopsState := \<lparr>oops_active = True, playerScores = replicate (max (wc_numPlayers snap) 1) 0,
                          currentPlayerIndex = 0, turnScore = 0, isBust = False, lastDrawnCardId = None,
                          winner = None\<rparr>\<rparr>)"

text \<open>
  The card \<open>handleOopsDraw\<close> draws (lines 264--272): the top of the deck, but on the
  first draw of a turn an OOPS card on top gives way to the highest card that is not one.
\<close>

definition is_oops :: "WordCard \<Rightarrow> bool" where
  "is_oops c \<longleftrightarrow> card_text c = ''OOPS!''"

definition oops_pick :: "nat \<Rightarrow> WordCard list \<Rightarrow> WordCard" where
  "oops_pick ts deck =
     (if ts = 0 \<and> is_oops (last deck)
      then (case find (\<lambda>c. \<not> is_oops c) (rev (butlast deck)) of Some c \<Rightarrow> c | None \<Rightarrow> last deck)
      else last deck)"

text \<open>\<open>handleOopsDraw\<close> (lines 259--295).\<close>

definition handleOopsDraw :: "wc_state \<Rightarrow> wc_state" where
  "handleOopsDraw snap =
     (let deck = deckCards snap in
      if deck = [] then snap
      else
        (let card = oops_pick (turnScore (oopsState snap)) deck;
             newZ = topZ snap + 1;
             os = oopsState snap;
             st = snap\<lparr>cardStates := (cardStates snap)(card_id card \<mapsto> \<lparr>faceUp = True, zIndex = newZ, inDeck = False\<rparr>),
                       topZ := newZ\<rparr>
         in if is_oops card
            then st\<lparr>oopsState := os\<lparr>turnScore := 0, isBust := True, lastDrawnCardId := Some (card_id card)\<rparr>\<rparr>
            else st\<lparr>oopsState := os\<lparr>turnScore := turnScore os + 1, lastDrawnCardId := Some (card_id card)\<rparr>\<rparr>))"

text \<open>
  \<open>recycleTableCards\<close> (lines 297--313): the cards on the table go under the deck,
  face down.
\<close>

definition on_table :: "wc_state \<Rightarrow> js_string \<Rightarrow> bool" where
  "on_table st i = (case cardStates st i of Some s \<Rightarrow> \<not> inDeck s | None \<Rightarrow> False)"

definition recycleTableCards :: "wc_state \<Rightarrow> wc_state" where
  "recycleTableCards snap =
     snap\<lparr>activeCards := filter (\<lambda>c. on_table snap (card_id c)) (activeCards snap) @
                        filter (\<lambda>c. \<not> on_table snap (card_id c)) (activeCards snap),
          cardStates := map_option (\<lambda>s. if \<not> inDeck s then s\<lparr>inDeck := True, faceUp := False\<rparr> else s) \<circ> cardStates snap\<rparr>"

text \<open>
  \<open>handleOopsBank\<close> (lines 315--325) and \<open>handleOopsNextTurn\<close> (lines 327--333).
  The reachable states keep the current player within the scores
  (\<open>oops_scores_bounded\<close>), where the index and the modulus of the code are those of
  the list.
\<close>

definition handleOopsBank :: "wc_state \<Rightarrow> wc_state" where
  "handleOopsBank snap =
     (let st = recycleTableCards snap; os = oopsState snap; i = currentPlayerIndex os;
          currentScore = playerScores os ! i + turnScore os;
          newScores = (playerScores os)[i := currentScore]
      in if 10 \<le> currentScore
         then st\<lparr>oopsState := os\<lparr>playerScores := newScores, turnScore := 0, winner := Some i\<rparr>\<rparr>
         else st\<lparr>oopsState := os\<lparr>playerScores := newScores, currentPlayerIndex := (i + 1) mod length (playerScores os),
                                  turnScore := 0, isBust := False, lastDrawnCardId := None\<rparr>\<rparr>)"

definition handleOopsNextTurn :: "wc_state \<Rightarrow> wc_state" where
  "handleOopsNextTurn snap =
     (let st = recycleTableCards snap; os = oopsState snap
      in st\<lparr>oopsState := os\<lparr>currentPlayerIndex := (currentPlayerIndex os + 1) mod length (playerScores os),
                            turnScore := 0, isBust := False, lastDrawnCardId := None\<rparr>\<rparr>)"

section \<open>The tabletop\<close>

text \<open>
  \<open>handleDragEnd\<close>, \<open>bringToFront\<close> and \<open>toggleFlip\<close> (lines 335--348).  A card
  without a state gets one whose missing fields read as \<open>undefined\<close>, i.e. false.
\<close>

definition card_or_blank :: "wc_state \<Rightarrow> js_string \<Rightarrow> CardState" where
  "card_or_blank st i = (case cardStates st i of Some s \<Rightarrow> s | None \<Rightarrow> \<lparr>faceUp = False, zIndex = 0, inDeck = False\<rparr>)"

definition bringToFront :: "js_string \<Rightarrow> wc_state \<Rightarrow> wc_state" where
  "bringToFront i snap =
     snap\<lparr>cardStates := (cardStates snap)(i \<mapsto> (card_or_blank snap i)\<lparr>zIndex := topZ snap + 1\<rparr>), topZ := topZ snap + 1\<rparr>"

definition toggleFlip :: "js_string \<Rightarrow> wc_state \<Rightarrow> wc_state" where
  "toggleFlip i snap =
     snap\<lparr>cardStates := (cardStates snap)(i \<mapsto> (card_or_blank snap i)\<lparr>faceUp := \<not> faceUp (card_or_blank snap i),
                                                                  zIndex := topZ snap + 1\<rparr>),
          topZ := topZ snap + 1\<rparr>"

text \<open>\<open>dealToPlayers\<close> (lines 350--379), \<open>dealCommon\<close> (lines 381--403) and \<open>arrangeGrid\<close> (lines 405--428).\<close>

definition dealToPlayers :: "wc_state \<Rightarrow> wc_state" where
  "dealToPlayers snap =
     (let cnt = (if wc_numPlayers snap = 0 then 4 else wc_numPlayers snap); deck = deckCards snap
      in if deck = [] then snap
         else snap\<lparr>cardStates := deal_states (dealFaceUp snap) cnt (topZ snap) (rev deck) (cardStates snap),
                   topZ := topZ snap + int cnt\<rparr>)"

definition dealCommon :: "nat \<Rightarrow> wc_state \<Rightarrow> wc_state" where
  "dealCommon cnt snap =
     snap\<lparr>cardStates := deal_states (dealFaceUp snap) cnt (topZ snap) (rev (deckCards snap)) (cardStates snap),
          topZ := topZ snap + int cnt\<rparr>"

definition arrangeGrid :: "bool \<Rightarrow> wc_state \<Rightarrow> wc_state" where
  "arrangeGrid f snap =
     (if activeCards snap = [] then snap
      else snap\<lparr>cardStates := deal_states f (length (activeCards snap)) (topZ snap) (activeCards snap) (cardStates snap),
                topZ := topZ snap + int (length (activeCards snap))\<rparr>)"

text \<open>\<open>flipAllBoard\<close> (lines 430--436).\<close>

definition flipAllBoard :: "bool \<Rightarrow> wc_state \<Rightarrow> wc_state" where
  "flipAllBoard f snap =
     snap\<lparr>cardStates := map_option (\<lambda>s. if \<not> inDeck s then s\<lparr>faceUp := f\<rparr> else s) \<circ> cardStates snap\<rparr>"

section \<open>The duel\<close>

text \<open>\<open>startDuel\<close> (lines 440--447).\<close>

definition startDuel :: "(nat \<Rightarrow> nat) \<Rightarrow> nat \<Rightarrow> wc_state \<Rightarrow> wc_state" where
  "startDuel rnd n snap =
     (let sh = robustShuffle rnd (getFilteredCards snap)
      in snap\<lparr>wc_numPlayers := n, playerHands := replicate n None, drawPile := sh, activeCards := sh\<rparr>)"

text \<open>
  \<open>dealRound\<close> (lines 449--460): the cards on the table go under the pile, and each
  player takes the next card from its front, while there is one.
\<close>

fun deal_hands :: "nat \<Rightarrow> WordCard list \<Rightarrow> WordCard option list \<times> WordCard list" where
  "deal_hands 0 pile = ([], pile)"
| "deal_hands (Suc n) pile =
     (case pile of
        [] \<Rightarrow> (let (hs, rest) = deal_hands n [] in (None # hs, rest))
      | c # cs \<Rightarrow> (let (hs, rest) = deal_hands n cs in (Some c # hs, rest)))"

definition dealRound :: "wc_state \<Rightarrow> wc_state" where
  "dealRound snap =
     (let pile = drawPile snap @ List.map_filter id (playerHands snap);
          (hs, rest) = deal_hands (wc_numPlayers snap) pile
      in snap\<lparr>playerHands := hs, drawPile := rest\<rparr>)"

text \<open>\<open>clearCard\<close> (lines 462--470); an index past the hands reads \<open>undefined\<close>.\<close>

definition clearCard :: "nat \<Rightarrow> wc_state \<Rightarrow> wc_state" where
  "clearCard idx snap =
     (case (if idx < length (playerHands snap) then playerHands snap ! idx else None) of
        None \<Rightarrow> snap
      | Some c \<Rightarrow> snap\<lparr>playerHands := (playerHands snap)[idx := None], drawPile := drawPile snap @ [c], focusedCard := None\<rparr>)"

text \<open>The \<open>Clear Card\<close> button (line 908): \<open>findIndex\<close> of the focused card's id.\<close>

fun hand_index :: "js_string \<Rightarrow> WordCard option list \<Rightarrow> nat option" where
  "hand_index i [] = None"
| "hand_index i (h # hs) =
     (if (case h of Some c \<Rightarrow> card_id c = i | None \<Rightarrow> False) then Some 0 else map_option Suc (hand_index i hs))"

definition clearFocused :: "wc_state \<Rightarrow> wc_state" where
  "clearFocused snap =
     (case focusedCard snap of
        None \<Rightarrow> snap
      | Some f \<Rightarrow> (case hand_index (card_id f) (playerHands snap) of Some idx \<Rightarrow> clearCard idx snap | None \<Rightarrow> snap))"

text \<open>\<open>handleSaveToInventory\<close> (lines 472--478); \<open>App\<close> always passes \<open>onAddToInventory\<close>.\<close>

definition handleSaveToInventory :: "wc_state \<Rightarrow> wc_state" where
  "handleSaveToInventory snap =
     (case focusedCard snap of
        None \<Rightarrow> snap
      | Some c \<Rightarrow> snap\<lparr>wc_inventory := wc_inventory snap @ [card_text c], saveFeedback := True,
                        pendingFeedback := pendingFeedback snap + 1\<rparr>)"

section \<open>Menus, shuffling and persistence\<close>

datatype game_choice = Tatami tatami_game | Runner

text \<open>
  \<open>handleGameSelect\<close> (lines 214--235); \<open>rnd k\<close> are the draws of the \<open>k\<close>-th
  shuffle of the event.
\<close>

definition handleGameSelect :: "(nat \<Rightarrow> nat \<Rightarrow> nat) \<Rightarrow> (nat \<Rightarrow> js_string) \<Rightarrow> game_choice \<Rightarrow> wc_state \<Rightarrow> wc_state" where
  "handleGameSelect rnd gid g snap =
     (let st = snap\<lparr>isGameMenuOpen := False\<rparr>
      in case g of
           Runner \<Rightarrow>
             (let st1 = resetBaseball (st\<lparr>wc_mode := Baseball\<rparr>)
              in if pitchCard snap = None then nextPitch (rnd 0) snap (drawPile snap) st1 else st1)
         | Tatami t \<Rightarrow>
             (let st1 = st\<lparr>tatamiGame := t\<rparr>;
                  st2 = (if t = GameOops then initOopsGame (rnd 0) gid snap (getFilteredCards snap) st1
                         else
                           (let st' = (if tatamiGame snap = GameOops
                                       then (let sh = robustShuffle (rnd 1) (getFilteredCards snap)
                                             in initializeTabletop sh (st1\<lparr>activeCards := sh\<rparr>))
                                       else st1)
                            in st'\<lparr>oopsState := (oopsState st')\<lparr>oops_active := False\<rparr>\<rparr>))
              in st2\<lparr>showZones := (t = GameSorting)\<rparr>))"

text \<open>\<open>shuffleCards\<close> (lines 188--197).\<close>

definition shuffleCards :: "(nat \<Rightarrow> nat \<Rightarrow> nat) \<Rightarrow> (nat \<Rightarrow> js_string) \<Rightarrow> wc_state \<Rightarrow> wc_state" where
  "shuffleCards rnd gid snap =
     (let sh = robustShuffle (rnd 0) (getFilteredCards snap);
          st1 = initializeTabletop sh (snap\<lparr>activeCards := sh, drawPile := sh, playerHands := replicate (wc_numPlayers snap) None\<rparr>);
          st2 = (if wc_mode snap = Baseball \<and> pitchCard snap = None \<and> \<not> gameOver (bbState snap)
                 then nextPitch (rnd 1) snap sh st1 else st1)
      in if tatamiGame snap = GameOops then initOopsGame (rnd 2) gid snap sh st2 else st2)"

text \<open>
  The effect of lines 144--178, run on mount and whenever the filter changes: a stored
  game with cards is restored; otherwise a new deck is shuffled from the filtered cards.
\<close>

definition freshGame :: "(nat \<Rightarrow> nat) \<Rightarrow> wc_state \<Rightarrow> wc_state" where
  "freshGame rnd st =
     (let sh = robustShuffle rnd (getFilteredCards st);
          cnt = (if 0 < wc_numPlayers st then wc_numPlayers st else length (wc_students st))
      in resetBaseball ((initializeTabletop sh (st\<lparr>activeCards := sh, drawPile := sh, playerHands := replicate cnt None\<rparr>))
                          \<lparr>showZones := False, tatamiGame := GameStandard\<rparr>))"

definition loadGame :: "(nat \<Rightarrow> nat) \<Rightarrow> wc_state \<Rightarrow> wc_state" where
  "loadGame rnd st =
     (case storedGame st of
        Some g \<Rightarrow>
          if sg_activeCards g \<noteq> [] then
            initializeTabletop (sg_activeCards g)
              (st\<lparr>activeCards := sg_activeCards g, oopsState := sg_oopsState g, bbState := sg_bbState g,
                  wc_mode := sg_mode g, tatamiGame := sg_tatamiGame g, drawPile := sg_drawPile g\<rparr>)
          else freshGame rnd st
      | None \<Rightarrow> freshGame rnd st)"

text \<open>The effect of lines 180--185, run after every change of what it stores.\<close>

definition saveGame :: "wc_state \<Rightarrow> wc_state" where
  "saveGame st =
     (if activeCards st = [] then st
      else st\<lparr>storedGame := Some \<lparr>sg_activeCards = activeCards st, sg_oopsState = oopsState st, sg_bbState = bbState st,
                                   sg_mode = wc_mode st, sg_tatamiGame = tatamiGame st, sg_drawPile = drawPile st\<rparr>\<rparr>)"

section \<open>The component\<close>

text \<open>The first render (lines 75--128) on the props, the stored game and the inventory so far.\<close>

definition oops_initial :: OopsState where
  "oops_initial =
     \<lparr>oops_active = False, playerScores = [], currentPlayerIndex = 0, turnScore = 0, isBust = False,
      lastDrawnCardId = None, winner = None\<rparr>"

definition wc_fresh ::
  "WordCard list \<Rightarrow> js_string list \<Rightarrow> js_string list \<Rightarrow> SavedGame option \<Rightarrow> js_string list \<Rightarrow> wc_state" where
  "wc_fresh cs hfw students stored invt =
     \<lparr>wc_cards = cs, wc_hfw = hfw, wc_students = students, wc_mode = Duel, wc_filter = FilterAll,
      activeCards = [], cardStates = Map.empty, topZ = 100, dealFaceUp = True, showZones = False,
      tatamiGame = GameStandard, isGameMenuOpen = False, oopsState = oops_initial,
      wc_numPlayers = length students, playerHands = [], drawPile = [], focusedCard = None,
      saveFeedback = False, bbState = bb_initial, pitchCard = None, storedGame = stored,
      pendingSwitches = 0, pendingFeedback = 0, wc_inventory = invt\<rparr>"

text \<open>
  The events: the buttons of lines 624--918, the timers, and a new mount of the part
  (with the props of the lesson then open), which keeps only local storage and the
  inventory.  Dragging a card and pressing on it both bring it to the front.
\<close>

datatype wc_event =
    SetMode card_mode
  | SetFilter wc_filter "nat \<Rightarrow> nat"
  | Shuffle "nat \<Rightarrow> nat \<Rightarrow> nat" "nat \<Rightarrow> js_string"
  | ToggleMenu
  | SelectGame game_choice "nat \<Rightarrow> nat \<Rightarrow> nat" "nat \<Rightarrow> js_string"
  | DeckClick
  | OopsDraw
  | OopsBank
  | OopsNextTurn
  | NewOopsGame "nat \<Rightarrow> nat" "nat \<Rightarrow> js_string"
  | ToggleDealFace
  | DealToPlayers
  | DealCenter
  | ArrangeGrid bool
  | ToggleZones
  | FlipAll bool
  | GatherAll
  | DragCard js_string
  | FlipCard js_string
  | StartDuel nat "nat \<Rightarrow> nat"
  | DealRound
  | FocusCard WordCard
  | CloseFocus
  | SaveFocused
  | ClearFocused
  | Hit "nat \<Rightarrow> nat"
  | Strike "nat \<Rightarrow> nat"
  | PitchBall "nat \<Rightarrow> nat"
  | NewBaseballGame "nat \<Rightarrow> nat"
  | SwitchTimer
  | FeedbackTimer
  | Remount "WordCard list" "js_string list" "js_string list" "nat \<Rightarrow> nat"

definition wc_handler :: "wc_event \<Rightarrow> wc_state \<Rightarrow> wc_state" where
  "wc_handler ev st =
     (case ev of
        SetMode m \<Rightarrow> st\<lparr>wc_mode := m\<rparr>
      | SetFilter f rnd \<Rightarrow> loadGame rnd (st\<lparr>wc_filter := f\<rparr>)
      | Shuffle rnd gid \<Rightarrow> shuffleCards rnd gid st
      | ToggleMenu \<Rightarrow> st\<lparr>isGameMenuOpen := \<not> isGameMenuOpen st\<rparr>
      | SelectGame g rnd gid \<Rightarrow> handleGameSelect rnd gid g st
      | DeckClick \<Rightarrow>
          (if oops_active (oopsState st) \<and> \<not> isBust (oopsState st) \<and> winner (oopsState st) = None
           then handleOopsDraw st
           else if \<not> oops_active (oopsState st) then dealCommon 1 st else st)
      | OopsDraw \<Rightarrow> handleOopsDraw st
      | OopsBank \<Rightarrow> handleOopsBank st
      | OopsNextTurn \<Rightarrow> handleOopsNextTurn st
      | NewOopsGame rnd gid \<Rightarrow> initOopsGame rnd gid st (getFilteredCards st) st
      | ToggleDealFace \<Rightarrow> st\<lparr>dealFaceUp := \<not> dealFaceUp st\<rparr>
      | DealToPlayers \<Rightarrow> dealToPlayers st
      | DealCenter \<Rightarrow> dealCommon 1 st
      | ArrangeGrid f \<Rightarrow> arrangeGrid f st
      | ToggleZones \<Rightarrow> st\<lparr>showZones := \<not> showZones st\<rparr>
      | FlipAll f \<Rightarrow> flipAllBoard f st
      | GatherAll \<Rightarrow> initializeTabletop (activeCards st) st
      | DragCard i \<Rightarrow> bringToFront i st
      | FlipCard i \<Rightarrow> toggleFlip i st
      | StartDuel n rnd \<Rightarrow> startDuel rnd n st
      | DealRound \<Rightarrow> dealRound st
      | FocusCard c \<Rightarrow> st\<lparr>focusedCard := Some c\<rparr>
      | CloseFocus \<Rightarrow> st\<lparr>focusedCard := None\<rparr>
      | SaveFocused \<Rightarrow> handleSaveToInventory st
      | ClearFocused \<Rightarrow> clearFocused st
      | Hit rnd \<Rightarrow> handleHit rnd st
      | Strike rnd \<Rightarrow> handleStrike rnd st
      | PitchBall rnd \<Rightarrow> nextPitch rnd st (drawPile st) st
      | NewBaseballGame rnd \<Rightarrow> nextPitch rnd st (drawPile st) (resetBaseball st)
      | SwitchTimer \<Rightarrow> st\<lparr>bbState := switchTeams (bbState st), pendingSwitches := pendingSwitches st - 1\<rparr>
      | FeedbackTimer \<Rightarrow> st\<lparr>saveFeedback := False, pendingFeedback := pendingFeedback st - 1\<rparr>
      | Remount cs hfw students rnd \<Rightarrow> loadGame rnd (wc_fresh cs hfw students (storedGame st) (wc_inventory st)))"

definition wc_step :: "wc_event \<Rightarrow> wc_state \<Rightarrow> wc_state" where
  "wc_step ev st = saveGame (wc_handler ev st)"

definition wc_mount :: "WordCard list \<Rightarrow> js_string list \<Rightarrow> js_string list \<Rightarrow> (nat \<Rightarrow> nat) \<Rightarrow> wc_state" where
  "wc_mount cs hfw students rnd = saveGame (loadGame rnd (wc_fresh cs hfw students None []))"

text \<open>
  Which control is on screen: nothing without cards and words (lines 615--622); the
  bar of modes, filters and shuffle (lines 626--646); and the views of lines 648--916.
\<close>

definition wc_enabled :: "wc_event \<Rightarrow> wc_state \<Rightarrow> bool" where
  "wc_enabled ev st =
     (let bar = (wc_cards st \<noteq> [] \<or> wc_hfw st \<noteq> []);
          board = (bar \<and> activeCards st \<noteq> []);
          tab = (board \<and> wc_mode st = Tabletop);
          duel = (board \<and> wc_mode st = Duel);
          ball = (board \<and> wc_mode st = Baseball);
          os = oopsState st; bb = bbState st;
          tools = (tab \<and> \<not> oops_active os)
      in case ev of
           SetMode m \<Rightarrow> bar \<and> m \<noteq> Baseball
         | SetFilter _ _ \<Rightarrow> bar
         | Shuffle _ _ \<Rightarrow> bar
         | ToggleMenu \<Rightarrow> tab
         | SelectGame _ _ _ \<Rightarrow> tab \<and> isGameMenuOpen st
         | DeckClick \<Rightarrow> tab \<and> deckCards st \<noteq> []
         | OopsDraw \<Rightarrow> tab \<and> oops_active os \<and> winner os = None \<and> \<not> isBust os
         | OopsBank \<Rightarrow> tab \<and> oops_active os \<and> winner os = None \<and> \<not> isBust os \<and> turnScore os \<noteq> 0
         | OopsNextTurn \<Rightarrow> tab \<and> oops_active os \<and> winner os = None \<and> isBust os
         | NewOopsGame _ _ \<Rightarrow> tab \<and> winner os \<noteq> None
         | ToggleDealFace \<Rightarrow> tools
         | DealToPlayers \<Rightarrow> tools
         | DealCenter \<Rightarrow> tools
         | ArrangeGrid _ \<Rightarrow> tools
         | ToggleZones \<Rightarrow> tools
         | FlipAll _ \<Rightarrow> tools
         | GatherAll \<Rightarrow> tools
         | DragCard i \<Rightarrow> tab \<and> i \<in> set (map card_id (activeCards st)) \<and> on_table st i
         | FlipCard i \<Rightarrow> tab \<and> i \<in> set (map card_id (activeCards st)) \<and> on_table st i
         | StartDuel n _ \<Rightarrow> duel \<and> wc_numPlayers st = 0 \<and> n \<in> {1..6}
         | DealRound \<Rightarrow> duel \<and> wc_numPlayers st \<noteq> 0
         | FocusCard c \<Rightarrow> duel \<and> wc_numPlayers st \<noteq> 0 \<and> Some c \<in> set (playerHands st)
         | CloseFocus \<Rightarrow> board \<and> focusedCard st \<noteq> None
         | SaveFocused \<Rightarrow> board \<and> focusedCard st \<noteq> None
         | ClearFocused \<Rightarrow> board \<and> focusedCard st \<noteq> None
         | Hit _ \<Rightarrow> ball \<and> \<not> gameOver bb \<and> \<not> showFireworks bb
         | Strike _ \<Rightarrow> ball \<and> \<not> gameOver bb \<and> \<not> showFireworks bb
         | PitchBall _ \<Rightarrow> ball \<and> \<not> gameOver bb \<and> pitchCard st = None
         | NewBaseballGame _ \<Rightarrow> ball \<and> gameOver bb
         | SwitchTimer \<Rightarrow> 0 < pendingSwitches st
         | FeedbackTimer \<Rightarrow> 0 < pendingFeedback st
         | Remount _ _ _ _ \<Rightarrow> True)"

text \<open>The states reachable from a first mount on an empty local storage.\<close>

inductive wc_reach :: "wc_state \<Rightarrow> bool" where
  wc_reach_mount: "wc_reach (wc_mount cs hfw students rnd)"
| wc_reach_step: "wc_reach st \<Longrightarrow> wc_enabled ev st \<Longrightarrow> wc_reach (wc_step ev st)"


text \<open>
  The invariant of the baseball count, for the state and for the stored game that a
  filter change or a new mount restores.
\<close>

definition bb_ok :: "BaseballState \<Rightarrow> bool" where
  "bb_ok bb \<longleftrightarrow> strikes bb \<le> 2 \<and> outs bb \<le> 3 \<and> \<not> gameOver bb"

definition wc_inv :: "wc_state \<Rightarrow> bool" where
  "wc_inv st \<longleftrightarrow> bb_ok (bbState st) \<and> (\<forall>g. storedGame st = Some g \<longrightarrow> bb_ok (sg_bbState g))"

section \<open>Shuffling and the baseball count\<close>

lemma fy_loop_length [simp]: "length (fy_loop rnd k arr) = length arr"
  by (induction k arbitrary: arr) (simp_all add: Let_def)

lemma fy_loop_mset: "k < length arr \<Longrightarrow> mset (fy_loop rnd k arr) = mset arr"
proof (induction k arbitrary: arr)
  case (Suc i)
  let ?j = "rnd (Suc i) mod (Suc i + 1)"
  have "?j < Suc (Suc i)" by simp
  with Suc.prems have "?j < length arr" by linarith
  with Suc show ?case by (simp add: Let_def mset_swap)
qed simp

lemma bb_ok_initial [simp]: "bb_ok bb_initial"
  by (simp add: bb_ok_def bb_initial_def)

lemma bb_ok_switch: "bb_ok bb \<Longrightarrow> bb_ok (switchTeams bb)"
  by (simp add: bb_ok_def switchTeams_def Let_def)

lemma hit_update_counts:
  "strikes (fst (hit_update bb)) \<le> strikes bb \<and> outs (fst (hit_update bb)) = outs bb \<and>
   gameOver (fst (hit_update bb)) = gameOver bb"
  unfolding hit_update_def Let_def by (simp split: prod.split)

lemma bb_ok_hit: "bb_ok bb \<Longrightarrow> bb_ok (fst (hit_update bb))"
  using hit_update_counts [of bb] unfolding bb_ok_def by linarith

lemma bb_ok_strike: "bb_ok bb \<Longrightarrow> bb_ok (fst (strike_update bb))"
  unfolding bb_ok_def strike_update_def Let_def by simp

lemma initializeTabletop_frame [simp]:
  "bbState (initializeTabletop cs st) = bbState st \<and> storedGame (initializeTabletop cs st) = storedGame st"
  by (simp add: initializeTabletop_def )

lemma nextPitch_frame [simp]:
  "bbState (nextPitch rnd snap pool st) = bbState st \<and> storedGame (nextPitch rnd snap pool st) = storedGame st"
  by (simp add: nextPitch_def Let_def )

lemma initOopsGame_frame [simp]:
  "bbState (initOopsGame rnd gid snap base st) = bbState st \<and> storedGame (initOopsGame rnd gid snap base st) = storedGame st"
  by (simp add: initOopsGame_def Let_def )

lemma recycleTableCards_frame [simp]:
  "bbState (recycleTableCards st) = bbState st \<and> storedGame (recycleTableCards st) = storedGame st"
  by (simp add: recycleTableCards_def )

lemma handleOopsDraw_frame [simp]:
  "bbState (handleOopsDraw st) = bbState st \<and> storedGame (handleOopsDraw st) = storedGame st"
  by (simp add: handleOopsDraw_def Let_def )

lemma handleOopsBank_frame [simp]:
  "bbState (handleOopsBank st) = bbState st \<and> storedGame (handleOopsBank st) = storedGame st"
  by (simp add: handleOopsBank_def Let_def )

lemma handleOopsNextTurn_frame [simp]:
  "bbState (handleOopsNextTurn st) = bbState st \<and> storedGame (handleOopsNextTurn st) = storedGame st"
  by (simp add: handleOopsNextTurn_def Let_def )

lemma bringToFront_frame [simp]:
  "bbState (bringToFront i st) = bbState st \<and> storedGame (bringToFront i st) = storedGame st"
  by (simp add: bringToFront_def )

lemma toggleFlip_frame [simp]:
  "bbState (toggleFlip i st) = bbState st \<and> storedGame (toggleFlip i st) = storedGame st"
  by (simp add: toggleFlip_def )

lemma dealToPlayers_frame [simp]:
  "bbState (dealToPlayers st) = bbState st \<and> storedGame (dealToPlayers st) = storedGame st"
  by (simp add: dealToPlayers_def Let_def )

lemma dealCommon_frame [simp]:
  "bbState (dealCommon n st) = bbState st \<and> storedGame (dealCommon n st) = storedGame st"
  by (simp add: dealCommon_def )

lemma arrangeGrid_frame [simp]:
  "bbState (arrangeGrid f st) = bbState st \<and> storedGame (arrangeGrid f st) = storedGame st"
  by (simp add: arrangeGrid_def )

lemma flipAllBoard_frame [simp]:
  "bbState (flipAllBoard f st) = bbState st \<and> storedGame (flipAllBoard f st) = storedGame st"
  by (simp add: flipAllBoard_def )

lemma startDuel_frame [simp]:
  "bbState (startDuel rnd n st) = bbState st \<and> storedGame (startDuel rnd n st) = storedGame st"
  by (simp add: startDuel_def Let_def )

lemma dealRound_frame [simp]:
  "bbState (dealRound st) = bbState st \<and> storedGame (dealRound st) = storedGame st"
  by (simp add: dealRound_def Let_def split_def )

lemma clearCard_frame [simp]:
  "bbState (clearCard idx st) = bbState st \<and> storedGame (clearCard idx st) = storedGame st"
  by (simp add: clearCard_def split: option.split)

lemma clearFocused_frame [simp]:
  "bbState (clearFocused st) = bbState st \<and> storedGame (clearFocused st) = storedGame st"
  by (simp add: clearFocused_def split: option.split)

lemma handleSaveToInventory_frame [simp]:
  "bbState (handleSaveToInventory st) = bbState st \<and> storedGame (handleSaveToInventory st) = storedGame st"
  by (simp add: handleSaveToInventory_def split: option.split)

lemma shuffleCards_frame [simp]:
  "bbState (shuffleCards rnd gid st) = bbState st \<and> storedGame (shuffleCards rnd gid st) = storedGame st"
  by (simp add: shuffleCards_def Let_def )

lemma freshGame_frame [simp]:
  "bbState (freshGame rnd st) = bb_initial \<and> storedGame (freshGame rnd st) = storedGame st"
  by (simp add: freshGame_def Let_def resetBaseball_def)

lemma wc_inv_load: "wc_inv st \<Longrightarrow> wc_inv (loadGame rnd st)"
  by (auto simp: wc_inv_def loadGame_def split: option.split)

lemma wc_inv_save: "wc_inv st \<Longrightarrow> wc_inv (saveGame st)"
  by (simp add: wc_inv_def saveGame_def)

lemma wc_inv_gameSelect: "wc_inv st \<Longrightarrow> wc_inv (handleGameSelect rnd gid g st)"
  by (cases g) (simp_all add: handleGameSelect_def Let_def wc_inv_def resetBaseball_def)

lemma wc_inv_hit: "wc_inv st \<Longrightarrow> wc_inv (handleHit rnd st)"
  using bb_ok_hit [of "bbState st"]
  by (auto simp: handleHit_def wc_inv_def split: prod.split)

lemma wc_inv_strike: "wc_inv st \<Longrightarrow> wc_inv (handleStrike rnd st)"
  using bb_ok_strike [of "bbState st"]
  by (auto simp: handleStrike_def wc_inv_def Let_def split: prod.split)

lemma wc_inv_handler:
  assumes inv: "wc_inv st"
  shows "wc_inv (wc_handler ev st)"
proof (cases ev)
  case (SetMode m)
  with inv show ?thesis by (simp add: wc_handler_def wc_inv_def)
next
  case (SetFilter f rnd)
  have "wc_inv (st\<lparr>wc_filter := f\<rparr>)" using inv by (simp add: wc_inv_def)
  with SetFilter show ?thesis by (simp add: wc_handler_def wc_inv_load)
next
  case (Shuffle rnd gid)
  with inv show ?thesis by (simp add: wc_handler_def wc_inv_def)
next
  case (ToggleMenu)
  with inv show ?thesis by (simp add: wc_handler_def wc_inv_def)
next
  case (SelectGame g rnd gid)
  with inv show ?thesis by (simp add: wc_handler_def wc_inv_gameSelect)
next
  case (DeckClick)
  with inv show ?thesis by (simp add: wc_handler_def wc_inv_def)
next
  case (OopsDraw)
  with inv show ?thesis by (simp add: wc_handler_def wc_inv_def)
next
  case (OopsBank)
  with inv show ?thesis by (simp add: wc_handler_def wc_inv_def)
next
  case (OopsNextTurn)
  with inv show ?thesis by (simp add: wc_handler_def wc_inv_def)
next
  case (NewOopsGame rnd gid)
  with inv show ?thesis by (simp add: wc_handler_def wc_inv_def)
next
  case (ToggleDealFace)
  with inv show ?thesis by (simp add: wc_handler_def wc_inv_def)
next
  case (DealToPlayers)
  with inv show ?thesis by (simp add: wc_handler_def wc_inv_def)
next
  case (DealCenter)
  with inv show ?thesis by (simp add: wc_handler_def wc_inv_def)
next
  case (ArrangeGrid f)
  with inv show ?thesis by (simp add: wc_handler_def wc_inv_def)
next
  case (ToggleZones)
  with inv show ?thesis by (simp add: wc_handler_def wc_inv_def)
next
  case (FlipAll f)
  with inv show ?thesis by (simp add: wc_handler_def wc_inv_def)
next
  case (GatherAll)
  with inv show ?thesis by (simp add: wc_handler_def wc_inv_def)
next
  case (DragCard i)
  with inv show ?thesis by (simp add: wc_handler_def wc_inv_def)
next
  case (FlipCard i)
  with inv show ?thesis by (simp add: wc_handler_def wc_inv_def)
next
  case (StartDuel n rnd)
  with inv show ?thesis by (simp add: wc_handler_def wc_inv_def)
next
  case (DealRound)
  with inv show ?thesis by (simp add: wc_handler_def wc_inv_def)
next
  case (FocusCard c)
  with inv show ?thesis by (simp add: wc_handler_def wc_inv_def)
next
  case (CloseFocus)
  with inv show ?thesis by (simp add: wc_handler_def wc_inv_def)
next
  case (SaveFocused)
  with inv show ?thesis by (simp add: wc_handler_def wc_inv_def)
next
  case (ClearFocused)
  with inv show ?thesis by (simp add: wc_handler_def wc_inv_def)
next
  case (Hit rnd)
  with inv show ?thesis by (simp add: wc_handler_def wc_inv_hit)
next
  case (Strike rnd)
  with inv show ?thesis by (simp add: wc_handler_def wc_inv_strike)
next
  case (PitchBall rnd)
  with inv show ?thesis by (simp add: wc_handler_def wc_inv_def)
next
  case (NewBaseballGame rnd)
  with inv show ?thesis by (simp add: wc_handler_def wc_inv_def resetBaseball_def)
next
  case (SwitchTimer)
  with inv show ?thesis by (simp add: wc_handler_def wc_inv_def bb_ok_switch)
next
  case (Remount cs hfw students rnd)
  have "wc_inv (wc_fresh cs hfw students (storedGame st) (wc_inventory st))"
    using inv by (simp add: wc_inv_def wc_fresh_def)
  with Remount show ?thesis by (simp add: wc_handler_def wc_inv_load)
next
  case (FeedbackTimer)
  with inv show ?thesis by (simp add: wc_handler_def wc_inv_def)
qed

lemma wc_reach_inv: "wc_reach st \<Longrightarrow> wc_inv st"
proof (induction rule: wc_reach.induct)
  case (wc_reach_mount cs hfw students rnd)
  show ?case unfolding wc_mount_def
    by (rule wc_inv_save, rule wc_inv_load) (simp add: wc_inv_def wc_fresh_def)
next
  case (wc_reach_step st ev)
  then show ?case by (simp add: wc_step_def wc_inv_save wc_inv_handler)
qed

lemma wc_reach_saved: "wc_reach st \<Longrightarrow> \<exists>st0. st = saveGame st0"
  by (induction rule: wc_reach.induct) (auto simp: wc_mount_def wc_step_def)

lemma saveGame_activeCards [simp]: "activeCards (saveGame st) = activeCards st"
  by (simp add: saveGame_def)

lemma wc_reach_stored:
  assumes "wc_reach st" "activeCards st \<noteq> []"
  shows "\<exists>g. storedGame st = Some g \<and> sg_activeCards g = activeCards st"
proof -
  obtain st0 where "st = saveGame st0" using wc_reach_saved [OF assms(1)] by blast
  with assms(2) show ?thesis by (auto simp: saveGame_def split: if_splits)
qed

lemma loadGame_restores:
  "storedGame st = Some g \<Longrightarrow> sg_activeCards g \<noteq> [] \<Longrightarrow> activeCards (loadGame rnd st) = sg_activeCards g"
  by (simp add: loadGame_def initializeTabletop_def)

text \<open>
  C23. \<open>robustShuffle\<close> returns a reordering of its input whatever the random draws:
  no card is lost or duplicated by the swaps.
\<close>

theorem robustShuffle_permutation: "mset (robustShuffle rnd xs) = mset xs"
  by (cases xs) (simp_all add: robustShuffle_def fy_loop_mset)

text \<open>
  C24. In every reachable state of the word card games the baseball count stays in
  range: at most two strikes and at most three outs.
\<close>

theorem baseball_counts_bounded: "wc_reach st \<Longrightarrow> strikes (bbState st) \<le> 2 \<and> outs (bbState st) \<le> 3"
  using wc_reach_inv by (simp add: wc_inv_def bb_ok_def)

text \<open>
  C27. No reachable state ends the baseball game: \<open>gameOver\<close> is never set, so the
  \<open>Game Over\<close> screen and its \<open>New Game\<close> button (lines 886--889) are never shown.
\<close>

theorem baseball_never_over: "wc_reach st \<Longrightarrow> \<not> gameOver (bbState st)"
  using wc_reach_inv by (simp add: wc_inv_def bb_ok_def)

text \<open>
  C13. Once a game with cards is stored, neither choosing another filter nor mounting the
  part again with another lesson's cards changes the cards of the game: the effect of
  lines 144--178 restores the stored game before it looks at the filter or the props.
\<close>

theorem saved_game_overrides_filter_and_lesson:
  assumes "wc_reach st" "activeCards st \<noteq> []"
  shows "activeCards (wc_step (SetFilter f rnd) st) = activeCards st \<and>
         activeCards (wc_step (Remount cs hfw students rnd) st) = activeCards st"
proof -
  obtain g where g: "storedGame st = Some g" "sg_activeCards g = activeCards st"
    using wc_reach_stored [OF assms] by blast
  have "activeCards (loadGame rnd (st\<lparr>wc_filter := f\<rparr>)) = activeCards st"
    using loadGame_restores [of "st\<lparr>wc_filter := f\<rparr>" g rnd] g assms(2) by simp
  moreover have "activeCards (loadGame rnd (wc_fresh cs hfw students (storedGame st) (wc_inventory st))) = activeCards st"
    using loadGame_restores [of "wc_fresh cs hfw students (storedGame st) (wc_inventory st)" g rnd] g assms(2)
    by (simp add: wc_fresh_def)
  ultimately show ?thesis by (simp add: wc_step_def wc_handler_def)
qed

section \<open>Examples\<close>

lemma mount_one_card:
  "activeCards (wc_mount [c] [] [] rnd) = [c] \<and> bbState (wc_mount [c] [] [] rnd) = bb_initial"
  by (simp add: wc_mount_def loadGame_def wc_fresh_def freshGame_def getFilteredCards_def hfw_cards_def
      robustShuffle_def initializeTabletop_def resetBaseball_def saveGame_def Let_def)

theorem saved_game_overrides_filter_and_lesson_witness:
  "activeCards (wc_step (SetFilter FilterHfw (\<lambda>_. 0))
      (wc_mount [\<lparr>card_id = ''c1'', card_text = ''cat'', card_type = Regular\<rparr>] [] [] (\<lambda>_. 0))) =
     [\<lparr>card_id = ''c1'', card_text = ''cat'', card_type = Regular\<rparr>] \<and>
   activeCards (wc_step (Remount [\<lparr>card_id = ''c2'', card_text = ''ship'', card_type = Regular\<rparr>] [] [] (\<lambda>_. 0))
      (wc_mount [\<lparr>card_id = ''c1'', card_text = ''cat'', card_type = Regular\<rparr>] [] [] (\<lambda>_. 0))) =
     [\<lparr>card_id = ''c1'', card_text = ''cat'', card_type = Regular\<rparr>]"
  using saved_game_overrides_filter_and_lesson [OF wc_reach_mount, of "[\<lparr>card_id = ''c1'', card_text = ''cat'', card_type = Regular\<rparr>]" "[]" "[]" "\<lambda>_. 0"]
    mount_one_card [of "\<lparr>card_id = ''c1'', card_text = ''cat'', card_type = Regular\<rparr>" "\<lambda>_. 0"]
  by simp

theorem baseball_counts_bounded_witness:
  "strikes (bbState (wc_mount [\<lparr>card_id = ''c1'', card_text = ''cat'', card_type = Regular\<rparr>] [] [] (\<lambda>_. 0))) \<le> 2 \<and>
   outs (bbState (wc_mount [\<lparr>card_id = ''c1'', card_text = ''cat'', card_type = Regular\<rparr>] [] [] (\<lambda>_. 0))) \<le> 3"
  by (rule baseball_counts_bounded [OF wc_reach_mount])

theorem baseball_never_over_witness:
  "\<not> gameOver (bbState (wc_mount [\<lparr>card_id = ''c1'', card_text = ''cat'', card_type = Regular\<rparr>] [] [] (\<lambda>_. 0)))"
  by (rule baseball_never_over [OF wc_reach_mount])

end
