(* ===== verification/Drill.thy ===== *)
theory Drill
  imports Prelude "HOL-Library.Multiset"
begin

text \<open>
  The three reading components that \<open>src/components/modules/SentenceReading.tsx\<close>
  holds: the sentence canvas \<open>SentenceReading\<close> (lines 1--207, Part 5), the sound
  deck \<open>QuickDrill\<close> (lines 210--513, Parts 1 and 6) and the passage canvas
  \<open>PassageReading\<close> (lines 515--745, Part 9).  The last component of the file,
  \<open>GenericText\<close> (lines 747--803), only renders its props.  Each component's \<open>useState\<close> hooks
  are a record and each callback an event.  The canvas is its 2D context: the current
  path, the stroke colour and the strokes drawn so far; setting the canvas size (the
  resize handler) clears it and resets the context.  Pointer coordinates, the key
  pressed and the order the random sort leaves are inputs.  The positions of the drill
  tiles are computed from the container width and are not modelled; their layers are.
\<close>

section \<open>The canvas\<close>

datatype drill_tool = ToolCursor | PenBlue | PenRed

record canvas =
  cv_path :: "(int \<times> int) list"
  cv_strokeStyle :: js_string
  cv_ink :: "(js_string \<times> (int \<times> int) list) list"

definition canvas_reset :: canvas where
  "canvas_reset = \<lparr>cv_path = [], cv_strokeStyle = ''#000000'', cv_ink = []\<rparr>"

text \<open>\<open>clearCanvas\<close> (lines 36--42): \<open>clearRect\<close> erases the ink and keeps the path.\<close>

definition clearCanvas :: "canvas \<Rightarrow> canvas" where
  "clearCanvas cv = cv\<lparr>cv_ink := []\<rparr>"

text \<open>
  \<open>startDrawing\<close> (lines 63--78): a new path at the pointer, in the pen's colour;
  \<open>draw\<close> (lines 80--89): extend the path and stroke it.
\<close>

definition pen_colour :: "drill_tool \<Rightarrow> js_string" where
  "pen_colour t = (if t = PenBlue then ''#4338ca'' else ''#b91c1c'')"

definition begin_stroke :: "drill_tool \<Rightarrow> int \<times> int \<Rightarrow> canvas \<Rightarrow> canvas" where
  "begin_stroke t p cv = cv\<lparr>cv_path := [p], cv_strokeStyle := pen_colour t\<rparr>"

definition line_to :: "int \<times> int \<Rightarrow> canvas \<Rightarrow> canvas" where
  "line_to p cv =
     (let path = cv_path cv @ [p] in cv\<lparr>cv_path := path, cv_ink := cv_ink cv @ [(cv_strokeStyle cv, path)]\<rparr>)"

section \<open>Sentence reading\<close>

record sr_state =
  sr_index :: nat
  sr_tool :: drill_tool
  sr_isDrawing :: bool
  sr_canvas :: canvas

datatype sr_event =
    SPrev
  | SNext
  | SSetTool drill_tool
  | SClear
  | SPointerDown "int \<times> int"
  | SPointerMove "int \<times> int"
  | SPointerUp
  | SResize

text \<open>
  The handlers of lines 63--101 and the toolbar (lines 119--146), then the effect of
  lines 16--19, which clears the canvas when the sentence changes.
\<close>

definition sr_handler :: "js_string list \<Rightarrow> sr_event \<Rightarrow> 'a sr_state_scheme \<Rightarrow> 'a sr_state_scheme" where
  "sr_handler sentences ev st =
     (case ev of
        SPrev \<Rightarrow> (if 0 < sr_index st then st\<lparr>sr_index := sr_index st - 1\<rparr> else st)
      | SNext \<Rightarrow> (if sr_index st < length sentences - 1 then st\<lparr>sr_index := sr_index st + 1\<rparr> else st)
      | SSetTool t \<Rightarrow> st\<lparr>sr_tool := t\<rparr>
      | SClear \<Rightarrow> st\<lparr>sr_canvas := clearCanvas (sr_canvas st)\<rparr>
      | SPointerDown p \<Rightarrow>
          (if sr_tool st = ToolCursor then st
           else st\<lparr>sr_isDrawing := True, sr_canvas := begin_stroke (sr_tool st) p (sr_canvas st)\<rparr>)
      | SPointerMove p \<Rightarrow>
          (if \<not> sr_isDrawing st \<or> sr_tool st = ToolCursor then st
           else st\<lparr>sr_canvas := line_to p (sr_canvas st)\<rparr>)
      | SPointerUp \<Rightarrow> st\<lparr>sr_isDrawing := False\<rparr>
      | SResize \<Rightarrow> st\<lparr>sr_canvas := canvas_reset\<rparr>)"

definition sr_step :: "js_string list \<Rightarrow> sr_event \<Rightarrow> sr_state \<Rightarrow> sr_state" where
  "sr_step sentences ev st =
     (let st' = sr_handler sentences ev st
      in if sr_index st' \<noteq> sr_index st then st'\<lparr>sr_canvas := clearCanvas (sr_canvas st')\<rparr> else st')"

text \<open>
  What is on screen: nothing without sentences (lines 103--109); the arrows are
  disabled at the ends (lines 157--169); the canvas takes no pointer events under the
  cursor tool (line 190), and leaving it ends a stroke.
\<close>

definition sr_enabled :: "js_string list \<Rightarrow> sr_event \<Rightarrow> 'a sr_state_scheme \<Rightarrow> bool" where
  "sr_enabled sentences ev st =
     (sentences \<noteq> [] \<and>
      (case ev of
         SPrev \<Rightarrow> sr_index st \<noteq> 0
       | SNext \<Rightarrow> sr_index st \<noteq> length sentences - 1
       | SPointerDown _ \<Rightarrow> sr_tool st \<noteq> ToolCursor
       | SPointerMove _ \<Rightarrow> sr_tool st \<noteq> ToolCursor
       | _ \<Rightarrow> True))"

text \<open>The first render (lines 9--14) with the mount effects, which clear and size the canvas.\<close>

definition sr_init :: sr_state where
  "sr_init = \<lparr>sr_index = 0, sr_tool = PenBlue, sr_isDrawing = False, sr_canvas = canvas_reset\<rparr>"

inductive sr_reach :: "js_string list \<Rightarrow> sr_state \<Rightarrow> bool" for sentences where
  sr_reach_init: "sr_reach sentences sr_init"
| sr_reach_step: "sr_reach sentences st \<Longrightarrow> sr_enabled sentences ev st \<Longrightarrow> sr_reach sentences (sr_step sentences ev st)"

section \<open>The sound drill\<close>

datatype drill_mode = GridMode | DeckMode

text \<open>
  \<open>QuickDrill\<close>'s hooks (lines 222--230), with the layer of each tile and the
  pending \<open>setTimeout(calculateGrid, 50)\<close> calls.  The index is a JavaScript
  number: \<open>prevCard\<close> on an empty deck sets it to \<open>-1\<close>.
\<close>

record qd_state =
  qd_mode :: drill_mode
  activeSounds :: "js_string list"
  qd_index :: int
  isRevealed :: bool
  tile_z :: "nat \<rightharpoonup> int"
  qd_topZ :: int
  pendingGrid :: nat

text \<open>\<open>nextCard\<close> and \<open>prevCard\<close> (lines 305--322): the deck wraps around.\<close>

definition nextCard :: "qd_state \<Rightarrow> qd_state" where
  "nextCard st =
     (if qd_index st < int (length (activeSounds st)) - 1
      then st\<lparr>isRevealed := False, qd_index := qd_index st + 1\<rparr>
      else st\<lparr>isRevealed := False, qd_index := 0\<rparr>)"

definition prevCard :: "qd_state \<Rightarrow> qd_state" where
  "prevCard st =
     (if 0 < qd_index st then st\<lparr>isRevealed := False, qd_index := qd_index st - 1\<rparr>
      else st\<lparr>isRevealed := False, qd_index := int (length (activeSounds st)) - 1\<rparr>)"

text \<open>
  \<open>handleShuffle\<close> (lines 239--249): \<open>sh\<close> is the order the random sort leaves; the
  grid is laid out again after 50 ms.
\<close>

definition handleShuffle :: "js_string list \<Rightarrow> qd_state \<Rightarrow> qd_state" where
  "handleShuffle sh st =
     st\<lparr>activeSounds := (if mset sh = mset (activeSounds st) then sh else activeSounds st),
        qd_index := 0, isRevealed := False,
        pendingGrid := pendingGrid st + (if qd_mode st = GridMode then 1 else 0)\<rparr>"

text \<open>
  \<open>calculateGrid\<close> (lines 251--278): without the grid's container it returns; else
  every tile gets a new position on layer 1.
\<close>

definition calculateGrid :: "qd_state \<Rightarrow> qd_state" where
  "calculateGrid st =
     (if qd_mode st = GridMode \<and> activeSounds st \<noteq> []
      then st\<lparr>tile_z := (\<lambda>i. if i < length (activeSounds st) then Some 1 else None)\<rparr>
      else st)"

text \<open>\<open>handleDragEnd\<close> and \<open>bringToFront\<close> (lines 289--303) without the position.\<close>

definition tileToFront :: "nat \<Rightarrow> qd_state \<Rightarrow> qd_state" where
  "tileToFront idx st = st\<lparr>tile_z := (tile_z st)(idx \<mapsto> qd_topZ st + 1), qd_topZ := qd_topZ st + 1\<rparr>"

text \<open>
  \<open>handleKeyDown\<close> (lines 325--337), on the value of \<open>KeyboardEvent.key\<close>.  The
  space bar sends \<open>' '\<close>; the code compares with \<open>'Space'\<close>, the value of
  \<open>KeyboardEvent.code\<close>.
\<close>

definition handleKeyDown :: "bool \<Rightarrow> js_string \<Rightarrow> qd_state \<Rightarrow> qd_state" where
  "handleKeyDown isReverse key st =
     (if qd_mode st = DeckMode then
        (if key = ''Space'' then (if isReverse then st\<lparr>isRevealed := \<not> isRevealed st\<rparr> else nextCard st)
         else if key = ''ArrowRight'' then nextCard st
         else if key = ''ArrowLeft'' then prevCard st
         else st)
      else st)"

datatype qd_event =
    QSetMode drill_mode
  | QShuffle "js_string list"
  | QTidy
  | QGridTimer
  | QResize
  | QTileFront nat
  | QCardClick
  | QPrev
  | QNext
  | QKey js_string
  | QNewSounds "js_string list"

text \<open>
  The events: the header buttons (lines 356--380; the mode buttons only without
  \<open>isReverse\<close>), the grid (lines 404--435), the deck
  (lines 445--500), the window's key and resize listeners and a new \<open>sounds\<close> prop,
  with the effect of lines 233--237.  The effect of lines 280--287 lays out the grid
  after 50 ms whenever the grid is shown anew or the sounds change in it.
\<close>

definition qd_handler :: "bool \<Rightarrow> qd_event \<Rightarrow> qd_state \<Rightarrow> qd_state" where
  "qd_handler isReverse ev st =
     (case ev of
        QSetMode m \<Rightarrow> st\<lparr>qd_mode := m\<rparr>
      | QShuffle sh \<Rightarrow> handleShuffle sh st
      | QTidy \<Rightarrow> calculateGrid st
      | QGridTimer \<Rightarrow> (calculateGrid st)\<lparr>pendingGrid := pendingGrid st - 1\<rparr>
      | QResize \<Rightarrow> (if qd_mode st = GridMode then calculateGrid st else st)
      | QTileFront idx \<Rightarrow> tileToFront idx st
      | QCardClick \<Rightarrow> (if isReverse then st\<lparr>isRevealed := \<not> isRevealed st\<rparr> else st)
      | QPrev \<Rightarrow> prevCard st
      | QNext \<Rightarrow> nextCard st
      | QKey k \<Rightarrow> handleKeyDown isReverse k st
      | QNewSounds s \<Rightarrow> st\<lparr>activeSounds := s, qd_index := 0, isRevealed := False\<rparr>)"

definition qd_step :: "bool \<Rightarrow> qd_event \<Rightarrow> qd_state \<Rightarrow> qd_state" where
  "qd_step isReverse ev st =
     (let st' = qd_handler isReverse ev st;
          shown = (qd_mode st' = GridMode \<and> (qd_mode st \<noteq> GridMode \<or>
                     (case ev of QShuffle _ \<Rightarrow> True | QNewSounds _ \<Rightarrow> True | _ \<Rightarrow> False)))
      in if shown then st'\<lparr>pendingGrid := pendingGrid st' + 1\<rparr> else st')"

definition qd_enabled :: "bool \<Rightarrow> qd_event \<Rightarrow> qd_state \<Rightarrow> bool" where
  "qd_enabled isReverse ev st =
     (let grid = (qd_mode st = GridMode \<and> activeSounds st \<noteq> []);
          deck = (qd_mode st = DeckMode \<and> activeSounds st \<noteq> [])
      in case ev of
           QSetMode _ \<Rightarrow> \<not> isReverse
         | QTidy \<Rightarrow> grid
         | QGridTimer \<Rightarrow> 0 < pendingGrid st
         | QTileFront idx \<Rightarrow> grid \<and> idx < length (activeSounds st)
         | QCardClick \<Rightarrow> deck
         | QPrev \<Rightarrow> deck
         | QNext \<Rightarrow> deck
         | _ \<Rightarrow> True)"

text \<open>The first render (lines 222--230) on the \<open>sounds\<close> prop.\<close>

definition qd_init :: "js_string list \<Rightarrow> qd_state" where
  "qd_init sounds =
     \<lparr>qd_mode = DeckMode, activeSounds = sounds, qd_index = 0, isRevealed = False, tile_z = Map.empty,
      qd_topZ = 10, pendingGrid = 0\<rparr>"

inductive qd_reach :: "bool \<Rightarrow> qd_state \<Rightarrow> bool" for isReverse where
  qd_reach_init: "qd_reach isReverse (qd_init sounds)"
| qd_reach_step: "qd_reach isReverse st \<Longrightarrow> qd_enabled isReverse ev st \<Longrightarrow> qd_reach isReverse (qd_step isReverse ev st)"

text \<open>The deck's index is within the deck whenever the deck is not empty.\<close>

definition qd_ok :: "qd_state \<Rightarrow> bool" where
  "qd_ok st \<longleftrightarrow> (activeSounds st \<noteq> [] \<longrightarrow> 0 \<le> qd_index st \<and> qd_index st < int (length (activeSounds st)))"

section \<open>Passage reading\<close>

text \<open>
  \<open>text.split(/\n\s*\n/)\<close> (line 524): at a line feed, the separator runs over the
  longest stretch of white space that ends with a line feed.  \<open>para_sep\<close> gives the
  length of the separator at the start of a string.
\<close>

definition para_sep :: "js_string \<Rightarrow> nat option" where
  "para_sep s =
     (case s of
        c # r \<Rightarrow>
          (let w = takeWhile is_ws r
           in if c = CHR 0x0A \<and> CHR 0x0A \<in> set w
              then Some (Suc (length w - length (takeWhile (\<lambda>x. x \<noteq> CHR 0x0A) (rev w))))
              else None)
      | [] \<Rightarrow> None)"


function split_paragraphs :: "js_string \<Rightarrow> js_string \<Rightarrow> js_string list" where
  "split_paragraphs cur [] = [cur]"
| "split_paragraphs cur (c # cs) =
     (case para_sep (c # cs) of
        Some n \<Rightarrow> cur # split_paragraphs [] (drop n (c # cs))
      | None \<Rightarrow> split_paragraphs (cur @ [c]) cs)"
  by pat_completeness auto
termination
  by (relation "measure (\<lambda>(cur, s). length s)") (auto simp: para_sep_def Let_def split: if_splits list.splits)

text \<open>The paragraphs of line 524: the pieces that are not blank.\<close>

definition paragraphs :: "js_string \<Rightarrow> js_string list" where
  "paragraphs text = filter (\<lambda>p. js_trim p \<noteq> []) (split_paragraphs [] text)"

text \<open>
  \<open>PassageReading\<close> (lines 515--745) has the hooks and the handlers of the sentence
  canvas (lines 524--617), over the paragraphs of its \<open>text\<close> prop.  It differs in two
  places.  Its keyboard listener (lines 619--631) turns the page on \<open>'ArrowRight'\<close> and
  \<open>'ArrowLeft'\<close>.  Its resize effect (lines 537--551) depends on \<open>paragraphs\<close>, an array
  built anew at each render, so every render runs it again and sets a timer that sizes
  the canvas after 50 ms.  The pending timers are a counter.
\<close>

record pr_state = sr_state +
  pr_pending :: nat

datatype pr_event = PEv sr_event | PKey js_string | PResizeTimer

definition pr_handler :: "js_string \<Rightarrow> pr_event \<Rightarrow> pr_state \<Rightarrow> pr_state" where
  "pr_handler text ev st =
     (case ev of
        PEv e \<Rightarrow> sr_handler (paragraphs text) e st
      | PKey k \<Rightarrow>
          (if k = ''ArrowRight'' \<or> k = ''Space'' then sr_handler (paragraphs text) SNext st
           else if k = ''ArrowLeft'' then sr_handler (paragraphs text) SPrev st
           else st)
      | PResizeTimer \<Rightarrow> st\<lparr>sr_canvas := canvas_reset, pr_pending := pr_pending st - 1\<rparr>)"

text \<open>
  A handler that changes a hook renders the component again.  After the render the
  effect of lines 532--535 clears the canvas if the paragraph changed, and the resize
  effect sets its timer.
\<close>

definition pr_step :: "js_string \<Rightarrow> pr_event \<Rightarrow> pr_state \<Rightarrow> pr_state" where
  "pr_step text ev st =
     (let st' = pr_handler text ev st;
          st'' = (if sr_index st' \<noteq> sr_index st then st'\<lparr>sr_canvas := clearCanvas (sr_canvas st')\<rparr> else st');
          rendered = (sr_index st' \<noteq> sr_index st \<or> sr_tool st' \<noteq> sr_tool st \<or> sr_isDrawing st' \<noteq> sr_isDrawing st)
      in if rendered then st''\<lparr>pr_pending := pr_pending st'' + 1\<rparr> else st'')"

definition pr_enabled :: "js_string \<Rightarrow> pr_event \<Rightarrow> pr_state \<Rightarrow> bool" where
  "pr_enabled text ev st =
     (case ev of
        PEv e \<Rightarrow> sr_enabled (paragraphs text) e st
      | PKey _ \<Rightarrow> paragraphs text \<noteq> []
      | PResizeTimer \<Rightarrow> 0 < pr_pending st)"

text \<open>The first render (lines 524--530), after which the resize effect sets its first timer.\<close>

definition pr_init :: pr_state where
  "pr_init = \<lparr>sr_index = 0, sr_tool = PenBlue, sr_isDrawing = False, sr_canvas = canvas_reset, pr_pending = 1\<rparr>"

inductive pr_reach :: "js_string \<Rightarrow> pr_state \<Rightarrow> bool" for passage where
  pr_reach_init: "pr_reach passage pr_init"
| pr_reach_step: "pr_reach passage st \<Longrightarrow> pr_enabled passage ev st \<Longrightarrow> pr_reach passage (pr_step passage ev st)"

section \<open>Lemmas\<close>

lemma sr_reach_index: "sr_reach sentences st \<Longrightarrow> sentences \<noteq> [] \<Longrightarrow> sr_index st < length sentences"
proof (induction rule: sr_reach.induct)
  case sr_reach_init
  then show ?case by (simp add: sr_init_def)
next
  case (sr_reach_step st ev)
  then show ?case
    by (cases ev) (auto simp: sr_step_def sr_handler_def Let_def)
qed

lemma nextCard_ok: "qd_ok st \<Longrightarrow> qd_ok (nextCard st)"
  by (auto simp: qd_ok_def nextCard_def)

lemma prevCard_ok: "qd_ok st \<Longrightarrow> qd_ok (prevCard st)"
  by (auto simp: qd_ok_def prevCard_def)

lemma handleKeyDown_ok: "qd_ok st \<Longrightarrow> qd_ok (handleKeyDown r k st)"
  by (simp add: handleKeyDown_def nextCard_ok prevCard_ok) (simp add: qd_ok_def)

lemma handleShuffle_ok: "qd_ok (handleShuffle sh st)"
  by (auto simp: qd_ok_def handleShuffle_def dest: mset_eq_length)

lemma qd_handler_ok: "qd_ok st \<Longrightarrow> qd_ok (qd_handler r ev st)"
proof (cases ev)
  case (QShuffle sh)
  then show ?thesis by (simp add: qd_handler_def handleShuffle_ok)
next
  case QPrev
  then show "qd_ok st \<Longrightarrow> ?thesis" by (simp add: qd_handler_def prevCard_ok)
next
  case QNext
  then show "qd_ok st \<Longrightarrow> ?thesis" by (simp add: qd_handler_def nextCard_ok)
next
  case (QKey k)
  then show "qd_ok st \<Longrightarrow> ?thesis" by (simp add: qd_handler_def handleKeyDown_ok)
qed (auto simp: qd_handler_def qd_ok_def calculateGrid_def tileToFront_def)

lemma qd_step_ok: "qd_ok st \<Longrightarrow> qd_ok (qd_step r ev st)"
  using qd_handler_ok [of st r ev] by (simp add: qd_step_def Let_def qd_ok_def)

lemma qd_reach_ok: "qd_reach r st \<Longrightarrow> qd_ok st"
proof (induction rule: qd_reach.induct)
  case (qd_reach_init sounds)
  then show ?case by (simp add: qd_init_def qd_ok_def)
next
  case (qd_reach_step st ev)
  from qd_reach_step.IH show ?case by (rule qd_step_ok)
qed

lemma qd_step_QNext: "qd_step r QNext = nextCard"
  by (rule ext) (simp add: qd_step_def qd_handler_def nextCard_def)

lemma nextCard_keeps [simp]:
  "activeSounds (nextCard st) = activeSounds st \<and> qd_mode (nextCard st) = qd_mode st"
  by (simp add: nextCard_def)

lemma nextCard_index:
  assumes "0 \<le> qd_index st" "qd_index st < int (length (activeSounds st))"
  shows "qd_index (nextCard st) = (qd_index st + 1) mod int (length (activeSounds st))"
proof (cases "qd_index st < int (length (activeSounds st)) - 1")
  case True
  with assms show ?thesis by (simp add: nextCard_def)
next
  case False
  with assms have "qd_index st + 1 = int (length (activeSounds st))" by linarith
  with False show ?thesis by (simp add: nextCard_def)
qed

lemma next_iterate:
  assumes "qd_reach r st" "activeSounds st \<noteq> []" "qd_mode st = DeckMode"
  shows "qd_reach r ((nextCard ^^ n) st) \<and> activeSounds ((nextCard ^^ n) st) = activeSounds st \<and>
         qd_mode ((nextCard ^^ n) st) = DeckMode \<and>
         qd_index ((nextCard ^^ n) st) = (qd_index st + int n) mod int (length (activeSounds st))"
proof (induction n)
  case 0
  from qd_reach_ok [OF assms(1)] assms show ?case by (simp add: qd_ok_def)
next
  case (Suc n)
  let ?s = "(nextCard ^^ n) st"
  from Suc.IH have r: "qd_reach r ?s" and same: "activeSounds ?s = activeSounds st" "qd_mode ?s = DeckMode"
    and idx: "qd_index ?s = (qd_index st + int n) mod int (length (activeSounds st))" by simp_all
  have ok: "qd_ok ?s" using qd_reach_ok [OF r] .
  have en: "qd_enabled r QNext ?s" using same assms(2) by (simp add: qd_enabled_def)
  have "qd_reach r (nextCard ?s)" using qd_reach_step [OF r en] by (simp add: qd_step_QNext)
  moreover have "qd_index (nextCard ?s) = (qd_index st + (1 + int n)) mod int (length (activeSounds st))"
    using nextCard_index [of ?s] ok same assms(2) idx by (simp add: qd_ok_def mod_add_right_eq ac_simps)
  ultimately show ?case using same by simp
qed

text \<open>
  C11.  In every reachable state of the sound drill with sounds, the current index is
  an index of the deck: \<open>nextCard\<close> and \<open>prevCard\<close> wrap around, and a shuffle or
  new sounds reset it to 0.
\<close>

theorem drill_index_bounded:
  "qd_reach isReverse st \<Longrightarrow> activeSounds st \<noteq> [] \<Longrightarrow>
     0 \<le> qd_index st \<and> qd_index st < int (length (activeSounds st))"
  using qd_reach_ok by (simp add: qd_ok_def)

text \<open>
  C19.  From every reachable deck view with sounds, each card is shown after fewer
  presses of the next button than there are cards.
\<close>

theorem drill_every_card_shown:
  assumes "qd_reach isReverse st" "activeSounds st \<noteq> []" "qd_mode st = DeckMode" "k < length (activeSounds st)"
  shows "\<exists>n < length (activeSounds st). qd_reach isReverse ((qd_step isReverse QNext ^^ n) st) \<and>
           qd_index ((qd_step isReverse QNext ^^ n) st) = int k"
proof -
  let ?L = "length (activeSounds st)"
  have ok: "qd_ok st" using qd_reach_ok [OF assms(1)] .
  define i where "i = nat (qd_index st)"
  have i: "qd_index st = int i" "i < ?L" using ok assms(2) by (auto simp: qd_ok_def i_def)
  define n where "n = (k + ?L - i) mod ?L"
  have "(i + n) mod ?L = k" using i(2) assms(4) by (simp add: n_def mod_add_right_eq)
  then have "(int i + int n) mod int ?L = int k" by (metis of_nat_add of_nat_mod)
  moreover have "n < ?L" using assms(2) by (simp add: n_def)
  ultimately show ?thesis using next_iterate [OF assms(1-3), of n] i by (auto simp: qd_step_QNext)
qed

lemma space_bar_ignored: "handleKeyDown r '' '' st = st"
  by (simp add: handleKeyDown_def)

lemma para_sep_prefix: "para_sep (s @ t) = None \<Longrightarrow> para_sep s = None"
proof (cases s)
  case (Cons c r)
  have "set (takeWhile is_ws r) \<subseteq> set (takeWhile is_ws (r @ t))"
    by (auto simp: takeWhile_append dest: set_takeWhileD)
  then show "para_sep (s @ t) = None \<Longrightarrow> ?thesis" using Cons
    by (auto simp: para_sep_def Let_def split: if_splits)
qed (simp add: para_sep_def)

lemma split_paragraphs_no_sep:
  "(\<forall>i<length cur. para_sep (drop i cur @ s) = None) \<Longrightarrow> p \<in> set (split_paragraphs cur s) \<Longrightarrow>
     para_sep (drop i p) = None"
proof (induction cur s arbitrary: i rule: split_paragraphs.induct)
  case (1 cur)
  then show ?case by (cases "i < length cur") (auto simp: para_sep_def)
next
  case (2 cur c cs)
  show ?case
  proof (cases "para_sep (c # cs)")
    case None
    have inv: "\<forall>j<length (cur @ [c]). para_sep (drop j (cur @ [c]) @ cs) = None"
    proof (intro allI impI)
      fix j
      assume "j < length (cur @ [c])"
      with "2.prems"(1) None show "para_sep (drop j (cur @ [c]) @ cs) = None"
        by (cases "j = length cur") simp_all
    qed
    from None "2.prems"(2) have "p \<in> set (split_paragraphs (cur @ [c]) cs)" by simp
    then show ?thesis by (rule "2.IH"(1) [OF None inv])
  next
    case (Some n)
    from "2.prems"(2) Some consider "p = cur" | "p \<in> set (split_paragraphs [] (drop n (c # cs)))" by auto
    then show ?thesis
    proof cases
      case 1
      show ?thesis
      proof (cases "i < length cur")
        case True
        with "2.prems"(1) have "para_sep (drop i cur @ c # cs) = None" by blast
        with 1 show ?thesis by (simp add: para_sep_prefix)
      next
        case False
        with 1 show ?thesis by (simp add: para_sep_def)
      qed
    next
      case 2
      then show ?thesis using Some by (auto intro: "2.IH"(2))
    qed
  qed
qed







text \<open>The paragraphs shown are not blank and hold no separator.\<close>

theorem paragraphs_wellformed:
  "p \<in> set (paragraphs text) \<Longrightarrow> js_trim p \<noteq> [] \<and> (\<forall>i. para_sep (drop i p) = None)"
  unfolding paragraphs_def using split_paragraphs_no_sep [of "[]" "text" p] by auto

lemma sr_step_keeps_ink:
  "sr_index (sr_step sentences ev st) = sr_index st \<Longrightarrow> ev \<noteq> SClear \<Longrightarrow> ev \<noteq> SResize \<Longrightarrow>
     \<exists>ink. cv_ink (sr_canvas (sr_step sentences ev st)) = cv_ink (sr_canvas st) @ ink"
  by (cases ev) (auto simp: sr_step_def sr_handler_def Let_def begin_stroke_def line_to_def)

text \<open>
  C28.  On the passage canvas a pen stroke is erased 50 ms after it is begun: pressing
  the pen renders the component, the render sets a resize timer, and the timer clears
  the ink the stroke drew.  The sentence canvas keeps its ink until the sentence
  changes (lemma \<open>sr_step_keeps_ink\<close>).
\<close>

theorem passage_stroke_erased:
  "sr_tool st \<noteq> ToolCursor \<Longrightarrow> \<not> sr_isDrawing st \<Longrightarrow>
     (let st2 = pr_step text (PEv (SPointerMove q)) (pr_step text (PEv (SPointerDown p)) st)
      in cv_ink (sr_canvas st2) \<noteq> [] \<and> 0 < pr_pending st2 \<and>
         cv_ink (sr_canvas (pr_step text PResizeTimer st2)) = [])"
  by (simp add: pr_step_def pr_handler_def sr_handler_def Let_def begin_stroke_def line_to_def canvas_reset_def)


lemma pr_reach_index: "pr_reach passage st \<Longrightarrow> paragraphs passage \<noteq> [] \<Longrightarrow> sr_index st < length (paragraphs passage)"
proof (induction rule: pr_reach.induct)
  case pr_reach_init
  then show ?case by (simp add: pr_init_def)
next
  case (pr_reach_step st ev)
  then show ?case
    by (cases ev) (auto simp: pr_step_def pr_handler_def pr_enabled_def sr_enabled_def sr_handler_def Let_def split: sr_event.splits)
qed

theorem drill_index_bounded_witness:
  "qd_reach False (qd_init [''a'', ''b'']) \<and> activeSounds (qd_init [''a'', ''b'']) \<noteq> [] \<and>
   0 \<le> qd_index (qd_init [''a'', ''b'']) \<and> qd_index (qd_init [''a'', ''b'']) < int (length (activeSounds (qd_init [''a'', ''b''])))"
proof -
  have r: "qd_reach False (qd_init [''a'', ''b''])" by (rule qd_reach.qd_reach_init)
  from drill_index_bounded [OF r] r show ?thesis by (simp add: qd_init_def)
qed

theorem drill_every_card_shown_witness:
  "qd_reach False (qd_init [''a'', ''b'', ''c'']) \<and> activeSounds (qd_init [''a'', ''b'', ''c'']) \<noteq> [] \<and>
   qd_mode (qd_init [''a'', ''b'', ''c'']) = DeckMode \<and> 2 < length (activeSounds (qd_init [''a'', ''b'', ''c''])) \<and>
   (\<exists>n < length (activeSounds (qd_init [''a'', ''b'', ''c''])). qd_reach False ((qd_step False QNext ^^ n) (qd_init [''a'', ''b'', ''c''])) \<and>
      qd_index ((qd_step False QNext ^^ n) (qd_init [''a'', ''b'', ''c''])) = 2)"
proof -
  have r: "qd_reach False (qd_init [''a'', ''b'', ''c''])" by (rule qd_reach.qd_reach_init)
  from drill_every_card_shown [OF r, of 2] r show ?thesis by (simp add: qd_init_def)
qed

theorem passage_stroke_erased_witness:
  "sr_tool pr_init \<noteq> ToolCursor \<and> \<not> sr_isDrawing pr_init \<and>
   (let st2 = pr_step ''x'' (PEv (SPointerMove (3, 4))) (pr_step ''x'' (PEv (SPointerDown (1, 2))) pr_init)
    in cv_ink (sr_canvas st2) \<noteq> [] \<and> 0 < pr_pending st2 \<and>
       cv_ink (sr_canvas (pr_step ''x'' PResizeTimer st2)) = [])"
  using passage_stroke_erased [of pr_init "''x''" "(3, 4)" "(1, 2)"] by (simp add: pr_init_def)



end
