(* ===== verification/Spec2Isabelle.thy ===== *)
theory Spec2Isabelle
  imports Tiles Importer Server Dashboard LessonForm SaveLoad Concepts Reading WordCards Drill
begin

text \<open>
  \<^bold>\<open>A verification development of WRS-Dojo.\<close>

  WRS-Dojo is a React app for teaching lessons of the Wilson Reading System, with a small
  Express server that stores saves.  Its parts and how they interact:
  \<^item> the tile tokenizer \<open>parseWordToTiles\<close> (\<open>src/App.tsx\<close>, lines 300--468), which
    splits a word into coloured tiles when cards are shown;
  \<^item> the lesson importer \<open>parseLessonText\<close> (\<open>src/App.tsx\<close>, lines 503--848), which
    turns a pasted lesson plan (CSV or free text) into a partial lesson; the lesson form
    merges that into the lesson being edited;
  \<^item> the session state of \<open>App\<close> (\<open>src/App.tsx\<close>, lines 24--291), which runs a lesson
    for a group and keeps groups, students and the running session in local storage;
  \<^item> the save store (\<open>src/server/index.js\<close>), which keeps saves as JSON files;
  \<^item> the lesson form, the lesson modules and the layout, which are React components.

  \<^bold>\<open>Theories.\<close>
  \<^item> \<open>Prelude\<close>: JavaScript string operations on byte strings (\<open>startsWith\<close>,
    \<open>includes\<close>, \<open>indexOf\<close>, \<open>substring\<close>, \<open>trim\<close>, \<open>toLowerCase\<close>, \<open>split\<close>,
    \<open>join\<close>, \<open>endsWith\<close>) with their lemmas, and list and map lemmas shared below.
    Strings are ASCII: \<open>trim\<close> strips ASCII white space, \<open>toLowerCase\<close> folds A--Z.
  \<^item> \<open>Tile_Rules\<close> and \<open>Tiles\<close>: the tile types and tables, one option-returning matcher
    per branch of the loop body in the source's priority order, the cascade
    \<open>parse_step\<close>, and \<open>parseWordToTiles\<close> as a \<open>function\<close> terminating on the length
    of the rest.  The theorems: the tiles read back the whole input (C1), spell it back
    when there are no override brackets (C2), number at most its length (C3); an
    override becomes one tile of the given type (C4) and an unclosed one a single
    character (C5); tokenizing commutes with lower-casing (C6).  That \<open>//\<close> gives an
    empty welded tile, and the specification's examples, are lemmas.
  \<^item> \<open>Csv\<close>: \<open>parseCSVLine\<close> as a scan over a state record.  It reads back lines
    written with standard quoting (C8); that it splits lines without quotes at their
    commas, and the field count, are lemmas.
  \<^item> \<open>Lesson\<close>: the interfaces of \<open>src/types.ts\<close> as records, and \<open>emptyLesson\<close>.
  \<^item> \<open>Importer_Text\<close>: the freeform path of \<open>parseLessonText\<close>.  Its regular
    expressions are written out, and the line loop is a fold of \<open>process_line\<close> over
    a state of (result, section, dictation sub-mode).  The theorems:
    \<^item> extracted items are non-empty, trimmed and separator-free (C10);
    \<^item> a text that opens with \<open>Step a.b\<close> imports step \<open>a\<close> and substep \<open>b\<close>,
      for all digit strings (C12);
    \<^item> every \<open>Nonsense Words:\<close> line of a dictation block fills the real-words list
      (C15).
    That later lines only extend the result, that step and substep come from the step
    detection alone, the soundness of the step detection, the
    specification's examples and the other header heuristics are lemmas.
  \<^item> \<open>Importer\<close>: the CSV path and the entry point.  \<open>parseLessonText\<close> is a
    \<open>function\<close>; its termination measure is whether the text contains a line break,
    and a dictation cell, taken from one line, never does.  The theorems:
    \<^item> the recursion is void, and the importer equals a non-recursive function in
      which a CSV row always yields an empty dictation (C18);
    \<^item> exactly when the \<open>TypeError\<close> arises (C20).
    That there is no throw without a target, that the items are trimmed on both paths,
    the CSV example of the specification,
    the same text without its final line break and the data-row search are lemmas.
  \<^item> \<open>Server\<close>: the saves directory as an association list, each route as a
    function, the router \<open>handle\<close>, and eviction \<open>enforceMaxSaves\<close>.  A lifting
    \<open>store_abs\<close> to a map from ids to saves gives the abstract store, under the
    invariant \<open>store_ok\<close> (every file is named after the id it holds).  The theorems:
    \<^item> at most \<open>MAX_SAVES\<close> saves in every reachable directory, by rule induction (C25);
    \<^item> every route refines its contract on the abstract store, and eviction keeps the
      newest \<open>MAX_SAVES - 1\<close> saves (C26);
    \<^item> the listing is newest first (C29); that a missing id gives 404 and that POST
      then GET round-trips are lemmas.
  \<^item> \<open>App\<close>: React's batching is written out.  A handler reads the state of its render
    and writes a pending state, and the autosave effect runs after the batch.  The
    inventory arrays are heap references shared between group objects, as the in-place
    \<open>push\<close> of \<open>addToInventory\<close> requires.  The theorems:
    \<^item> a running session is always in local storage, by rule induction over the events
      the screen offers (C30);
    \<^item> completing a mission archives it (C31);
    \<^item> the briefing's group update is lost to a stale save (C32);
    \<^item> an inventory update survives its stale save only through the shared array (C33).
  \<^item> \<open>LessonForm\<close>: the lesson editor (\<open>src/components/LessonForm.tsx\<close>).  Its
    \<open>useState\<close> hooks are one record, each callback it renders is an event of
    \<open>form_handler\<close>, and \<open>form_step\<close> runs the effect on the cipher words after
    the event.  Saving and the group update are the outputs of a step.  The import
    button calls \<open>parseLessonText\<close> and merges its result.  The theorems:
    \<^item> every comma-list input commits back the text it shows
      (\<open>managed_display\<close>, the \<open>join\<close> of \<open>ManagedStringArrayInput\<close>), which leaves
      the lesson unchanged, an absent part 6 list apart (C34);
    \<^item> leaving the real-words box rebuilds the cards, regular first, and drops the
      \<open>hfw\<close> cards (C35);
    \<^item> in every reachable state the puzzle list follows the cipher words, by rule
      induction (C36).
  \<^item> \<open>Dashboard\<close>: the group dashboard (\<open>src/unnamed/part_003\<close>).  Its own
    \<open>useState\<close> hooks are a record; each callback is an event of \<open>dash_handler\<close>
    that returns the App events it calls, and \<open>dash_step\<close> runs them as one batch
    of the App model (\<open>app_batch\<close>).  New groups and restored backups allocate
    inventory arrays in the App's heap.  The theorems:
    \<^item> a confirmed restore keeps the App's old groups and takes only the students of
      the file (C37);
    \<^item> an incinerated scroll stays in the active group and returns when another lesson
      of the group is saved (C38).

  \<^item> \<open>Client\<close>: the save API client (\<open>src/unnamed/part_000\<close>).  Local storage is
    an association list; each call is a request to the server's router \<open>handle\<close>, and
    the client reads the response back.  \<open>JSON.parse\<close> of the stored master data is a
    parameter.  Its lemmas: restoring what was captured gives the storage back without an entry under
    the empty key, which the capture skips, and a
    save created or overwritten and read back restores it.
  \<^item> \<open>SaveLoad\<close>: the save dialog (\<open>src/components/SaveLoadModal.tsx\<close>), which no
    component renders.  Its state, its props and the world (the server's directory
    and local storage) are one record, and each handler runs to its end as one step.
    The theorems:
    \<^item> creating a save and loading it restores the captured storage, without an entry
      under the empty key, and records the save as current (C39);
    \<^item> in every reachable state the dialog is busy only after a reload, by rule
      induction (C40).

  \<^item> \<open>Concepts\<close>: the concept board and cipher game of \<open>TeachConcepts\<close>
    (\<open>src/components/modules/TeachConcepts.tsx\<close>, lines 1--644) and \<open>getTileColor\<close>.
    The regular expression that reads a cipher word is a \<open>function\<close>
    \<open>cipher_tokens\<close> whose termination is proved on the length of the rest.  The
    segments are a fold of \<open>seg_step\<close>, with the lookback that takes a phoneme's
    answer from the static text before it.  The component's hooks are a record, its
    callbacks the events of \<open>tc_handler\<close>, and \<open>tc_reach\<close> its reachable states.
    The blank ids of a word are \<open>0..n-1\<close> (a lemma).  On a word with an option
    bracket before a phoneme, the bracket blank is offered the phoneme's spellings,
    and no reachable state solves it, by rule induction (C7).

  \<^item> \<open>Reading\<close>: the word list reading of Part 4
    (\<open>src/components/modules/WordlistReading.tsx\<close>) and the cards \<open>App\<close> gives it.
    The loop that repeats the cards into the pool is a \<open>while_option\<close>; the two
    dealing loops are recursions on their counters.  The event \<open>WRender\<close> is a render
    of \<open>App\<close>, which passes a new \<open>students\<close> array and so runs the deal effect
    again (lemma \<open>wl_render_resets\<close>).  The theorems:
    \<^item> \<open>initializeDistribution\<close> always returns (C16);
    \<^item> the random fallback card is never dealt (C17);
    \<^item> in every reachable state each player's column shows five words (C14), by rule
      induction;
    \<^item> every page can be reached from every reachable state (C9).
  \<^item> \<open>WordCards\<close>: the duel, tabletop, OOPS and baseball games of Part 3
    (\<open>src/components/modules/WordCards.tsx\<close>).  The component's hooks, its props and
    the game stored in local storage are one record.  Each callback is an event of
    \<open>wc_handler\<close>, and the save effect runs after it.  A filter change or a new
    mount runs the load effect.  The pending \<open>setTimeout\<close> calls are counters that
    fire as events.  The theorems:
    \<^item> the Fisher--Yates shuffle permutes its input (C23);
    \<^item> a stored game overrides a filter change and another lesson's cards (C13);
    \<^item> the baseball count stays within two strikes and three outs (C24), and the
      game never ends (C27), both by rule induction.
  \<^item> \<open>Drill\<close>: the three components of
    \<open>src/components/modules/SentenceReading.tsx\<close>: the sentence canvas, the sound
    drill \<open>QuickDrill\<close> and the passage canvas.  The canvas is its 2D context (path,
    stroke colour, strokes drawn), and resizing resets it.  The passage's
    \<open>text.split(/\n\s*\n/)\<close> is a \<open>function\<close> terminating on the length of the
    rest.  The theorems:
    \<^item> the drill's index stays within the deck (C11), and every card is reached with
      the next button (C19), by rule induction;
    \<^item> the separator matcher returns the longest match of \<open>/\n\s*\n/\<close>, specified by
      \<open>is_para_sep\<close> (C22), and the split returns pieces and separators that
      concatenate to the text, with every separator a match and no match inside a
      piece (C21);
    \<^item> the passage's resize effect runs after every render, so a pen stroke is erased
      by the timer it sets (C28).  That the sentence canvas keeps its ink while the
      sentence stays is a lemma.

  \<^bold>\<open>Inputs.\<close> The model takes the following as event or request inputs:
  \<^item> \<open>Date.now()\<close> and the date strings;
  \<^item> the random ids of \<open>generateId\<close> and of a new save, and the draws of
    \<open>Math.random()\<close> in a shuffle;
  \<^item> the answers to \<open>confirm\<close> and \<open>prompt\<close>, the keys pressed and the pointer
    coordinates;
  \<^item> the contents of uploaded files, already parsed, and \<open>JSON.parse\<close> of the
    stored master data.

  No fuel is used.  Every loop is structural, or a \<open>function\<close> with a termination
  proof.  The exception is the pool loop of the word list reading, a
  \<open>while_option\<close>; C16 proves that it returns.

  \<^bold>\<open>Not modelled.\<close>
  \<^item> Rendering, styling and layout (JSX markup, the
    drag-and-drop components, the error boundary) and the build configuration: they
    hold no state logic.
  \<^item> Express, CORS and static serving: I/O without logic.
  \<^item> Path normalisation of \<open>path.join\<close>: the save ids only name files of the
    directory.
  \<^item> The card positions of the tabletop, which come from the table's size, angles
    and random jitter.  Only a card's face, layer and deck flag are modelled.
  \<^item> The mission briefing and slideshow that share the file of \<open>TeachConcepts\<close>.
    They are presentation with little state.
  \<^item> The spelling module (\<open>src/unnamed/part_002\<close>), which is speech synthesis
    and tile dragging, and the pointer coordinates and tile positions of the drawing
    and drill components.  \<open>GenericText\<close> only renders its props.
  \<^item> \<open>Dictation\<close>, which \<open>App\<close> imports but never renders.
\<close>

end
